(* ===== verification/Prelude.thy ===== *)
theory Prelude
  imports Complex_Main "HOL-Library.AList"
begin

text \<open>
  What the components share: the error monad that models Python's exceptions, the Python
  values that travel through the services as JSON (\<open>pyval\<close>), dictionaries as association
  lists in insertion order, and the string operations of the standard library the sources call.

  A \<open>char\<close> is a code point below 256, so a \<open>string\<close> is a Python string over Latin-1;
  case folding, white space and word characters are those of Python on that range.  A float is
  the rational number it denotes (NaN and the infinities are not values of the model), and
  timestamps are integers.
\<close>

named_theorems res_simps \<open>rewriting of results that can fail\<close>
named_theorems str_simps \<open>rewriting of string operations\<close>

section \<open>Exceptions as values\<close>

datatype pyexc =
    ValueError string
  | KeyError string
  | TypeError
  | IntegrityError
  | OSError string
  | RuntimeError string
  | OtherError string

type_synonym 'a res = "pyexc + 'a"

definition bind_res :: "'e + 'a \<Rightarrow> ('a \<Rightarrow> 'e + 'b) \<Rightarrow> 'e + 'b" where
  "bind_res m f = (case m of Inl e \<Rightarrow> Inl e | Inr x \<Rightarrow> f x)"

definition lift_opt :: "'e \<Rightarrow> 'a option \<Rightarrow> 'e + 'a" where
  "lift_opt e m = (case m of None \<Rightarrow> Inl e | Some x \<Rightarrow> Inr x)"

fun map_res :: "('a \<Rightarrow> 'e + 'b) \<Rightarrow> 'a list \<Rightarrow> 'e + 'b list" where
  "map_res f [] = Inr []"
| "map_res f (x # xs) = bind_res (f x) (\<lambda>y. bind_res (map_res f xs) (\<lambda>ys. Inr (y # ys)))"

lemma bind_res_simps [simp, res_simps]:
  "bind_res (Inl e) f = Inl e"
  "bind_res (Inr x) f = f x"
  by (simp_all add: bind_res_def)

lemma bind_res_Inr_iff [res_simps]:
  "bind_res m f = Inr y \<longleftrightarrow> (\<exists>x. m = Inr x \<and> f x = Inr y)"
  by (cases m) auto

lemma bind_res_Inl_iff [res_simps]:
  "bind_res m f = Inl e \<longleftrightarrow> m = Inl e \<or> (\<exists>x. m = Inr x \<and> f x = Inl e)"
  by (cases m) auto

lemma lift_opt_simps [simp, res_simps]:
  "lift_opt e None = Inl e"
  "lift_opt e (Some x) = Inr x"
  by (simp_all add: lift_opt_def)

lemma lift_opt_Inr_iff [res_simps]: "lift_opt e m = Inr x \<longleftrightarrow> m = Some x"
  by (cases m) auto

lemma map_res_length: "map_res f xs = Inr ys \<Longrightarrow> length ys = length xs"
  by (induction xs arbitrary: ys) (auto simp: bind_res_Inr_iff)

lemma map_res_set:
  "map_res f xs = Inr ys \<Longrightarrow> y \<in> set ys \<Longrightarrow> \<exists>x \<in> set xs. f x = Inr y"
  by (induction xs arbitrary: ys) (auto simp: bind_res_Inr_iff)

section \<open>Characters and strings\<close>

definition code_point :: "char \<Rightarrow> nat" where
  "code_point c = of_char c"

text \<open>\<open>str.isspace\<close>, which is also \<open>\s\<close> of the regular expressions.\<close>

definition is_space :: "char \<Rightarrow> bool" where
  "is_space c = (let n = code_point c in
     (9 \<le> n \<and> n \<le> 13) \<or> (28 \<le> n \<and> n \<le> 32) \<or> n = 133 \<or> n = 160)"

text \<open>\<open>\w\<close> of the regular expressions: \<open>str.isalnum\<close> or the underscore.\<close>

definition is_word :: "char \<Rightarrow> bool" where
  "is_word c = (let n = code_point c in
     (48 \<le> n \<and> n \<le> 57) \<or> (65 \<le> n \<and> n \<le> 90) \<or> n = 95 \<or> (97 \<le> n \<and> n \<le> 122) \<or>
     n = 170 \<or> n = 178 \<or> n = 179 \<or> n = 181 \<or> n = 185 \<or> n = 186 \<or> (188 \<le> n \<and> n \<le> 190) \<or>
     (192 \<le> n \<and> n \<noteq> 215 \<and> n \<noteq> 247))"

definition is_digit :: "char \<Rightarrow> bool" where
  "is_digit c = (let n = code_point c in 48 \<le> n \<and> n \<le> 57)"

definition is_hex_lower :: "char \<Rightarrow> bool" where
  "is_hex_lower c = (let n = code_point c in (48 \<le> n \<and> n \<le> 57) \<or> (97 \<le> n \<and> n \<le> 102))"

definition digit_val :: "char \<Rightarrow> int" where
  "digit_val c = int (code_point c) - 48"

definition lower_char :: "char \<Rightarrow> char" where
  "lower_char c = (let n = code_point c in
     if (65 \<le> n \<and> n \<le> 90) \<or> (192 \<le> n \<and> n \<le> 222 \<and> n \<noteq> 215) then char_of (n + 32) else c)"

definition str_lower :: "string \<Rightarrow> string" where
  "str_lower s = map lower_char s"

text \<open>\<open>str.upper\<close> on ASCII letters; the sources only compare its result with ASCII words.\<close>

definition upper_char :: "char \<Rightarrow> char" where
  "upper_char c = (let n = code_point c in if 97 \<le> n \<and> n \<le> 122 then char_of (n - 32) else c)"

definition str_upper :: "string \<Rightarrow> string" where
  "str_upper s = map upper_char s"

definition strip_by :: "(char \<Rightarrow> bool) \<Rightarrow> string \<Rightarrow> string" where
  "strip_by p s = rev (dropWhile p (rev (dropWhile p s)))"

definition str_strip :: "string \<Rightarrow> string" where
  "str_strip s = strip_by is_space s"

definition starts_with :: "string \<Rightarrow> string \<Rightarrow> bool" where
  "starts_with p s \<longleftrightarrow> take (length p) s = p"

text \<open>\<open>p in s\<close>\<close>

fun contains :: "string \<Rightarrow> string \<Rightarrow> bool" where
  "contains p [] = (p = [])"
| "contains p (c # s) = (starts_with p (c # s) \<or> contains p s)"

text \<open>\<open>s.split(c)\<close> for a one-character separator\<close>

fun split_char :: "char \<Rightarrow> string \<Rightarrow> string list" where
  "split_char d [] = [[]]"
| "split_char d (c # s) =
     (if c = d then [] # split_char d s
      else (case split_char d s of [] \<Rightarrow> [[c]] | w # ws \<Rightarrow> (c # w) # ws))"

text \<open>\<open>s.partition(c)\<close>: the head, and the tail when the separator occurs\<close>

fun partition_char :: "char \<Rightarrow> string \<Rightarrow> string \<times> string option" where
  "partition_char d [] = ([], None)"
| "partition_char d (c # s) =
     (if c = d then ([], Some s) else (case partition_char d s of (a, b) \<Rightarrow> (c # a, b)))"

fun str_join :: "string \<Rightarrow> string list \<Rightarrow> string" where
  "str_join sep [] = []"
| "str_join sep [w] = w"
| "str_join sep (w # v # ws) = w @ sep @ str_join sep (v # ws)"

text \<open>\<open>s.replace(p, r)\<close> for a non-empty \<open>p\<close>\<close>

function str_replace :: "string \<Rightarrow> string \<Rightarrow> string \<Rightarrow> string" where
  "str_replace p r [] = []"
| "str_replace p r (c # s) =
     (if p \<noteq> [] \<and> starts_with p (c # s) then r @ str_replace p r (drop (length p) (c # s))
      else c # str_replace p r s)"
  by pat_completeness auto
termination by (relation "measure (\<lambda>(p, r, s). length s)") auto

declare str_replace.simps(2) [simp del]

text \<open>\<open>repr(s)\<close>: the quote character depends on the contents, and what is not printable is
  escaped.\<close>

definition hex_digit :: "nat \<Rightarrow> char" where
  "hex_digit n = ''0123456789abcdef'' ! n"

definition is_printable :: "char \<Rightarrow> bool" where
  "is_printable c = (let n = code_point c in
     (32 \<le> n \<and> n \<le> 126) \<or> (161 \<le> n \<and> n \<noteq> 173))"

definition repr_char :: "char \<Rightarrow> char \<Rightarrow> string" where
  "repr_char q c = (let n = code_point c in
     if c = q \<or> n = 92 then [CHR 0x5C, c]
     else if n = 9 then [CHR 0x5C, CHR ''t'']
     else if n = 10 then [CHR 0x5C, CHR ''n'']
     else if n = 13 then [CHR 0x5C, CHR ''r'']
     else if is_printable c then [c]
     else [CHR 0x5C, CHR ''x'', hex_digit (n div 16), hex_digit (n mod 16)])"

definition py_repr :: "string \<Rightarrow> string" where
  "py_repr s =
     (let q = (if CHR 0x27 \<in> set s \<and> CHR 0x22 \<notin> set s then CHR 0x22 else CHR 0x27)
      in q # concat (map (repr_char q) s) @ [q])"

text \<open>UTF-8 encoding of a string into bytes, the bytes again held as \<open>char\<close>s\<close>

definition utf8_char :: "char \<Rightarrow> string" where
  "utf8_char c = (let n = code_point c in
     if n < 128 then [c] else [char_of (192 + n div 64), char_of (128 + n mod 64)])"

definition utf8 :: "string \<Rightarrow> string" where
  "utf8 s = concat (map utf8_char s)"

subsection \<open>Numbers as text\<close>

definition digit_char :: "nat \<Rightarrow> char" where
  "digit_char n = ''0123456789'' ! n"

fun nat_str :: "nat \<Rightarrow> string" where
  "nat_str n = (if n < 10 then [digit_char n] else nat_str (n div 10) @ [digit_char (n mod 10)])"

declare nat_str.simps [simp del]

definition int_str :: "int \<Rightarrow> string" where
  "int_str i = (if i < 0 then CHR ''-'' # nat_str (nat (- i)) else nat_str (nat i))"

text \<open>\<open>int(s)\<close>: surrounding white space, a sign, digits with single underscores between them\<close>

fun digits_val :: "int \<Rightarrow> string \<Rightarrow> int option" where
  "digits_val acc [] = Some acc"
| "digits_val acc (c # cs) =
     (if is_digit c then digits_val (acc * 10 + digit_val c) cs
      else if c = CHR ''_'' then
        (case cs of [] \<Rightarrow> None
         | d # ds \<Rightarrow> if is_digit d then digits_val (acc * 10 + digit_val d) ds else None)
      else None)"

definition int_of_str :: "string \<Rightarrow> int option" where
  "int_of_str s =
     (let t = str_strip s;
          (neg, u) = (case t of [] \<Rightarrow> (False, t)
            | c # r \<Rightarrow> if c = CHR ''-'' then (True, r) else if c = CHR ''+'' then (False, r)
                       else (False, t))
      in case u of [] \<Rightarrow> None
         | d # r \<Rightarrow> if is_digit d
             then map_option (\<lambda>v. if neg then - v else v) (digits_val (digit_val d) r)
             else None)"

section \<open>Python values\<close>

datatype pyval =
    PNone
  | PBool bool
  | PInt int
  | PFloat rat
  | PStr string
  | PList "pyval list"
  | PDict "(string \<times> pyval) list"

type_synonym dict = "(string \<times> pyval) list"

fun truthy :: "pyval \<Rightarrow> bool" where
  "truthy PNone = False"
| "truthy (PBool b) = b"
| "truthy (PInt i) = (i \<noteq> 0)"
| "truthy (PFloat r) = (r \<noteq> 0)"
| "truthy (PStr s) = (s \<noteq> [])"
| "truthy (PList xs) = (xs \<noteq> [])"
| "truthy (PDict d) = (d \<noteq> [])"

text \<open>\<open>a or b\<close>\<close>

definition py_or :: "pyval \<Rightarrow> pyval \<Rightarrow> pyval" where
  "py_or a b = (if truthy a then a else b)"

text \<open>\<open>d.get(k)\<close>, \<open>d.get(k, default)\<close>, \<open>k in d\<close>, \<open>d[k] = v\<close> and \<open>d.update(e)\<close>\<close>

definition dget :: "dict \<Rightarrow> string \<Rightarrow> pyval" where
  "dget d k = (case map_of d k of None \<Rightarrow> PNone | Some v \<Rightarrow> v)"

definition dget_or :: "dict \<Rightarrow> string \<Rightarrow> pyval \<Rightarrow> pyval" where
  "dget_or d k v = (case map_of d k of None \<Rightarrow> v | Some w \<Rightarrow> w)"

definition has_key :: "dict \<Rightarrow> string \<Rightarrow> bool" where
  "has_key d k \<longleftrightarrow> k \<in> fst ` set d"

definition dset :: "dict \<Rightarrow> string \<Rightarrow> pyval \<Rightarrow> dict" where
  "dset d k v = AList.update k v d"

definition dupdate :: "dict \<Rightarrow> dict \<Rightarrow> dict" where
  "dupdate d e = fold (\<lambda>(k, v) acc. dset acc k v) e d"

definition ditem :: "dict \<Rightarrow> string \<Rightarrow> pyval res" where
  "ditem d k = lift_opt (KeyError k) (map_of d k)"

fun as_dict :: "pyval \<Rightarrow> dict" where
  "as_dict (PDict d) = d"
| "as_dict _ = []"

fun as_list :: "pyval \<Rightarrow> pyval list" where
  "as_list (PList xs) = xs"
| "as_list _ = []"

fun as_str :: "pyval \<Rightarrow> string" where
  "as_str (PStr s) = s"
| "as_str _ = []"

fun is_dict :: "pyval \<Rightarrow> bool" where
  "is_dict (PDict d) = True"
| "is_dict _ = False"

text \<open>\<open>int(v)\<close>\<close>

definition trunc_rat :: "rat \<Rightarrow> int" where
  "trunc_rat r = (if r < 0 then - floor (- r) else floor r)"

fun py_int :: "pyval \<Rightarrow> int res" where
  "py_int (PInt i) = Inr i"
| "py_int (PBool b) = Inr (if b then 1 else 0)"
| "py_int (PFloat r) = Inr (trunc_rat r)"
| "py_int (PStr s) = lift_opt (ValueError ''invalid literal for int()'') (int_of_str s)"
| "py_int _ = Inl TypeError"

text \<open>\<open>float(v)\<close>; the parser of decimal text is the parameter \<open>fl\<close>.\<close>

fun py_float :: "(string \<Rightarrow> rat option) \<Rightarrow> pyval \<Rightarrow> rat res" where
  "py_float fl (PInt i) = Inr (of_int i)"
| "py_float fl (PBool b) = Inr (if b then 1 else 0)"
| "py_float fl (PFloat r) = Inr r"
| "py_float fl (PStr s) = lift_opt (ValueError ''could not convert string to float'') (fl s)"
| "py_float fl _ = Inl TypeError"

text \<open>\<open>v.get(k)\<close>, \<open>for x in v\<close> and \<open>str(v)\<close>; the shortest decimal text of a float is the
  parameter \<open>fr\<close>.\<close>

fun py_get :: "pyval \<Rightarrow> string \<Rightarrow> pyval res" where
  "py_get (PDict d) k = Inr (dget d k)"
| "py_get _ k = Inl (OtherError ''AttributeError'')"

fun py_iter :: "pyval \<Rightarrow> pyval list res" where
  "py_iter (PList xs) = Inr xs"
| "py_iter (PDict d) = Inr (map (\<lambda>kv. PStr (fst kv)) d)"
| "py_iter (PStr s) = Inr (map (\<lambda>c. PStr [c]) s)"
| "py_iter _ = Inl TypeError"

fun hashable :: "pyval \<Rightarrow> bool" where
  "hashable (PList xs) = False"
| "hashable (PDict d) = False"
| "hashable _ = True"

fun repr_val :: "(rat \<Rightarrow> string) \<Rightarrow> pyval \<Rightarrow> string" where
  "repr_val fr PNone = ''None''"
| "repr_val fr (PBool b) = (if b then ''True'' else ''False'')"
| "repr_val fr (PInt i) = int_str i"
| "repr_val fr (PFloat r) = fr r"
| "repr_val fr (PStr s) = py_repr s"
| "repr_val fr (PList xs) = ''['' @ str_join '', '' (map (repr_val fr) xs) @ '']''"
| "repr_val fr (PDict d) =
     ''{'' @ str_join '', '' (map (\<lambda>kv. py_repr (fst kv) @ '': '' @ repr_val fr (snd kv)) d) @ ''}''"

definition py_str :: "(rat \<Rightarrow> string) \<Rightarrow> pyval \<Rightarrow> string" where
  "py_str fr v = (case v of PStr s \<Rightarrow> s | _ \<Rightarrow> repr_val fr v)"

text \<open>\<open>key in v\<close> and \<open>v[key]\<close> for a string key\<close>

fun py_in :: "string \<Rightarrow> pyval \<Rightarrow> bool res" where
  "py_in k (PDict m) = Inr (has_key m k)"
| "py_in k (PList xs) = Inr (PStr k \<in> set xs)"
| "py_in k (PStr s) = Inr (contains k s)"
| "py_in k _ = Inl TypeError"

fun py_item :: "pyval \<Rightarrow> string \<Rightarrow> pyval res" where
  "py_item (PDict m) k = ditem m k"
| "py_item _ k = Inl TypeError"

section \<open>Shared facts\<close>

subsection \<open>Dictionaries\<close>

lemma dget_dset [simp]: "dget (dset d k v) k' = (if k' = k then v else dget d k')"
  by (simp add: dget_def dset_def update_conv)

lemma dget_Nil [simp]: "dget [] k = PNone"
  by (simp add: dget_def)

lemma dget_Cons [simp]: "dget ((k, v) # d) k' = (if k' = k then v else dget d k')"
  by (simp add: dget_def)

lemma has_key_map_of: "has_key d k \<longleftrightarrow> map_of d k \<noteq> None"
  by (simp add: has_key_def map_of_eq_None_iff)

lemma has_key_dset [simp]: "has_key (dset d k v) k' \<longleftrightarrow> k' = k \<or> has_key d k'"
  by (auto simp: has_key_map_of dset_def update_conv)

lemma map_of_dupdate:
  "distinct (map fst e) \<Longrightarrow>
   map_of (dupdate d e) k = (case map_of e k of None \<Rightarrow> map_of d k | Some v \<Rightarrow> Some v)"
proof (induction e arbitrary: d)
  case Nil
  then show ?case by (simp add: dupdate_def)
next
  case (Cons p e)
  obtain k0 v0 where p: "p = (k0, v0)" by fastforce
  from Cons have "map_of (dupdate (dset d k0 v0) e) k =
      (case map_of e k of None \<Rightarrow> map_of (dset d k0 v0) k | Some v \<Rightarrow> Some v)" by simp
  moreover from Cons.prems p have "map_of e k0 = None"
    by (simp add: map_of_eq_None_iff)
  ultimately show ?case
    by (auto simp: p dupdate_def dset_def update_conv split: option.split)
qed

subsection \<open>Characters\<close>

lemma code_point_less [simp]: "code_point c < 256"
proof -
  have "(of_char c :: nat) \<in> range of_char" by (rule rangeI)
  then show ?thesis by (simp only: range_nat_of_char code_point_def atLeastLessThan_iff)
qed

lemma code_point_inject [simp]: "code_point a = code_point b \<longleftrightarrow> a = b"
  by (simp add: code_point_def)

lemma code_point_char_of [simp]: "n < 256 \<Longrightarrow> code_point (char_of n) = n"
  by (simp add: code_point_def)

lemma code_point_lower:
  "code_point (lower_char c) = (let n = code_point c in
     if (65 \<le> n \<and> n \<le> 90) \<or> (192 \<le> n \<and> n \<le> 222 \<and> n \<noteq> 215) then n + 32 else n)"
  by (auto simp: lower_char_def Let_def)

lemma lower_char_idem [simp]: "lower_char (lower_char c) = lower_char c"
proof -
  have "code_point (lower_char (lower_char c)) = code_point (lower_char c)"
    unfolding code_point_lower[of "lower_char c"] by (auto simp: code_point_lower Let_def)
  then show ?thesis by simp
qed

lemma lower_char_is_space [simp]: "is_space (lower_char c) = is_space c"
  by (auto simp: is_space_def code_point_lower Let_def)

lemma lower_char_is_word [simp]: "is_word (lower_char c) = is_word c"
  using code_point_less[of c] by (auto simp: is_word_def code_point_lower Let_def)

text \<open>Lower-casing keeps every character that is not a letter; the case letters are told apart by
  their code points.\<close>

lemma lower_char_fix:
  "lower_char c = d \<Longrightarrow> code_point d < 97 \<Longrightarrow> c = d"
proof -
  assume "lower_char c = d" and lt: "code_point d < 97"
  then have "code_point (lower_char c) = code_point d" by simp
  with lt have "code_point c = code_point d"
    unfolding code_point_lower Let_def by (auto split: if_splits)
  then show "c = d" by simp
qed

subsection \<open>Strings\<close>

text \<open>Splitting a non-empty list at its head\<close>

lemma ex_split_Cons:
  "(\<exists>a b. c # s = a @ b \<and> b \<noteq> [] \<and> P a b) \<longleftrightarrow>
   P [] (c # s) \<or> (\<exists>a b. s = a @ b \<and> b \<noteq> [] \<and> P (c # a) b)"
proof
  assume "\<exists>a b. c # s = a @ b \<and> b \<noteq> [] \<and> P a b"
  then obtain a b where ab: "c # s = a @ b" "b \<noteq> []" "P a b" by blast
  then show "P [] (c # s) \<or> (\<exists>a b. s = a @ b \<and> b \<noteq> [] \<and> P (c # a) b)"
    by (cases a) auto
next
  assume "P [] (c # s) \<or> (\<exists>a b. s = a @ b \<and> b \<noteq> [] \<and> P (c # a) b)"
  then show "\<exists>a b. c # s = a @ b \<and> b \<noteq> [] \<and> P a b"
    by (metis append_Cons append_Nil list.distinct(1))
qed

lemma starts_with_iff [str_simps]: "starts_with p s \<longleftrightarrow> (\<exists>r. s = p @ r)"
  by (metis append_eq_conv_conj append_take_drop_id starts_with_def)

lemma contains_iff [str_simps]: "contains p s \<longleftrightarrow> (\<exists>a b. s = a @ p @ b)"
proof (induction s)
  case Nil
  then show ?case by auto
next
  case (Cons c s)
  show ?case
  proof
    assume "contains p (c # s)"
    then show "\<exists>a b. c # s = a @ p @ b"
      using Cons by (auto simp: starts_with_iff) (metis append_Nil append_Cons)+
  next
    assume "\<exists>a b. c # s = a @ p @ b"
    then obtain a b where ab: "c # s = a @ p @ b" by blast
    show "contains p (c # s)"
    proof (cases a)
      case Nil
      with ab have "starts_with p (c # s)" by (simp add: starts_with_iff)
      then show ?thesis by simp
    next
      case (Cons x a')
      with ab have "s = a' @ p @ b" by simp
      with Cons.IH show ?thesis by auto
    qed
  qed
qed

lemma strip_by_set: "set (strip_by p s) \<subseteq> set s"
proof -
  have "set (dropWhile p xs) \<subseteq> set xs" for xs
    by (auto dest: set_dropWhileD)
  then show ?thesis unfolding strip_by_def by (metis order_trans set_rev)
qed

lemma strip_by_hd: "strip_by p s \<noteq> [] \<Longrightarrow> \<not> p (hd (strip_by p s))"
proof -
  assume ne: "strip_by p s \<noteq> []"
  define t where "t = dropWhile p s"
  obtain u where u: "t = rev (dropWhile p (rev t)) @ u"
    by (metis rev_append rev_rev_ident takeWhile_dropWhile_id)
  from ne have "rev (dropWhile p (rev t)) \<noteq> []" by (simp add: strip_by_def t_def)
  with u have "hd (rev (dropWhile p (rev t))) = hd t" and "t \<noteq> []"
    by (metis hd_append2, metis append_is_Nil_conv)
  moreover from \<open>t \<noteq> []\<close> have "\<not> p (hd t)" unfolding t_def by (rule hd_dropWhile)
  ultimately show ?thesis by (simp add: strip_by_def t_def)
qed

lemma strip_by_last: "strip_by p s \<noteq> [] \<Longrightarrow> \<not> p (last (strip_by p s))"
  by (simp add: strip_by_def last_rev hd_dropWhile)

lemma strip_by_id:
  assumes "s = [] \<or> (\<not> p (hd s) \<and> \<not> p (last s))"
  shows "strip_by p s = s"
proof (cases "s = []")
  case True
  then show ?thesis by (simp add: strip_by_def)
next
  case False
  with assms have "dropWhile p s = s" by (cases s) auto
  moreover from False assms have "dropWhile p (rev s) = rev s"
    by (cases "rev s") (auto simp: last_rev[symmetric] hd_rev)
  ultimately show ?thesis by (simp add: strip_by_def)
qed

lemma strip_by_idem [simp]: "strip_by p (strip_by p s) = strip_by p s"
  by (rule strip_by_id) (auto dest: strip_by_hd strip_by_last)

lemma strip_by_decomp:
  "\<exists>a b. s = a @ strip_by p s @ b \<and> (\<forall>c \<in> set a \<union> set b. p c)"
proof -
  define t where "t = dropWhile p s"
  have "s = takeWhile p s @ t" by (simp add: t_def)
  moreover have "t = rev (dropWhile p (rev t)) @ rev (takeWhile p (rev t))"
    by (metis rev_append rev_rev_ident takeWhile_dropWhile_id)
  ultimately have "s = takeWhile p s @ strip_by p s @ rev (takeWhile p (rev t))"
    unfolding strip_by_def t_def[symmetric] by simp
  moreover have "\<forall>c \<in> set (takeWhile p s) \<union> set (rev (takeWhile p (rev t))). p c"
    by (auto dest: set_takeWhileD)
  ultimately show ?thesis by blast
qed

lemma strip_by_append:
  assumes "\<forall>c \<in> set a. p c" and "\<forall>c \<in> set b. p c"
  shows "strip_by p (a @ s @ b) = strip_by p s"
proof -
  have suf: "dropWhile p (rev (x @ b)) = dropWhile p (rev x)" for x
    using assms(2) dropWhile_append2[of "rev b" p "rev x"] by simp
  show ?thesis
  proof (cases "\<forall>c \<in> set s. p c")
    case True
    then have "\<forall>c \<in> set (a @ s @ b). p c" using assms by auto
    then have "dropWhile p (a @ s @ b) = []" "dropWhile p s = []"
      using True by (auto simp only: dropWhile_eq_Nil_conv)
    then show ?thesis by (simp add: strip_by_def del: dropWhile_eq_Nil_conv dropWhile_append)
  next
    case False
    then have "dropWhile p (s @ b) = dropWhile p s @ b"
      by (auto simp: dropWhile_append)
    moreover have "dropWhile p (a @ s @ b) = dropWhile p (s @ b)"
      using assms(1) by (simp add: dropWhile_append2)
    ultimately show ?thesis by (simp only: strip_by_def suf)
  qed
qed

lemma strip_by_weaker: "(\<And>c. q c \<Longrightarrow> p c) \<Longrightarrow> strip_by p (strip_by q s) = strip_by p s"
proof -
  assume qp: "\<And>c. q c \<Longrightarrow> p c"
  obtain a b where ab: "s = a @ strip_by q s @ b" "\<forall>c \<in> set a \<union> set b. q c"
    using strip_by_decomp[of s q] by blast
  with qp have "strip_by p (a @ strip_by q s @ b) = strip_by p (strip_by q s)"
    by (intro strip_by_append) auto
  with ab(1) show ?thesis by simp
qed

lemma dropWhile_map_commute:
  "(\<And>c. p (f c) = p c) \<Longrightarrow> dropWhile p (map f s) = map f (dropWhile p s)"
  by (induction s) auto

lemma strip_by_map: "(\<And>c. p (f c) = p c) \<Longrightarrow> strip_by p (map f s) = map f (strip_by p s)"
  by (simp add: strip_by_def dropWhile_map_commute rev_map)

lemma str_replace_absent: "hd p \<notin> set s \<Longrightarrow> p \<noteq> [] \<Longrightarrow> str_replace p r s = s"
  by (cases p; induction s) (auto simp: str_replace.simps starts_with_def)

lemma str_replace_char_nil: "str_replace [d] [] s = filter (\<lambda>c. c \<noteq> d) s"
  by (induction s) (auto simp: str_replace.simps starts_with_def)

lemma split_char_ne [simp]: "split_char d s \<noteq> []"
  by (induction s) (auto split: list.splits)

lemma split_char_no_sep: "w \<in> set (split_char d s) \<Longrightarrow> d \<notin> set w"
  by (induction s arbitrary: w) (fastforce split: list.splits if_splits)+

lemma split_char_plain: "d \<notin> set w \<Longrightarrow> split_char d w = [w]"
  by (induction w) auto

lemma split_char_append: "d \<notin> set w \<Longrightarrow> split_char d (w @ d # s) = w # split_char d s"
  by (induction w) auto

lemma str_join_split_char: "str_join [d] (split_char d s) = s"
proof (induction s)
  case Nil
  then show ?case by simp
next
  case (Cons c s)
  then show ?case
    by (cases "split_char d s"; cases "tl (split_char d s)") (auto split: list.splits)
qed

lemma partition_char_Some: "partition_char d s = (a, Some b) \<Longrightarrow> s = a @ d # b \<and> d \<notin> set a"
  by (induction s arbitrary: a b) (auto split: if_splits prod.splits)

lemma partition_char_None: "partition_char d s = (a, None) \<Longrightarrow> a = s \<and> d \<notin> set s"
  by (induction s arbitrary: a) (auto split: if_splits prod.splits)

lemma partition_char_append:
  "d \<notin> set a \<Longrightarrow> partition_char d (a @ d # b) = (a, Some b)"
  by (induction a) auto

subsection \<open>Numbers as text\<close>

lemma digit_table:
  "list_all (\<lambda>n. is_digit (digit_char n) \<and> digit_val (digit_char n) = int n \<and>
     \<not> is_space (digit_char n) \<and> digit_char n \<noteq> CHR ''-'' \<and> digit_char n \<noteq> CHR ''+'') [0..<10]"
  by code_simp

lemma digit_char_facts:
  assumes "n < 10"
  shows "is_digit (digit_char n)" "digit_val (digit_char n) = int n" "\<not> is_space (digit_char n)"
    "digit_char n \<noteq> CHR ''-''" "digit_char n \<noteq> CHR ''+''"
  using assms digit_table by (simp_all add: list_all_iff)

lemma digits_val_append:
  "list_all is_digit a \<Longrightarrow>
   digits_val acc (a @ b) = Option.bind (digits_val acc a) (\<lambda>v. digits_val v b)"
  by (induction a arbitrary: acc) auto

lemma digits_val_digits: "list_all is_digit a \<Longrightarrow> \<exists>v. digits_val acc a = Some v"
  by (induction a arbitrary: acc) auto

lemma nat_str_digits: "list_all is_digit (nat_str n) \<and> nat_str n \<noteq> []"
  by (induction n rule: nat_str.induct) (subst nat_str.simps, auto simp: digit_char_facts nat_str.simps)

lemma digits_val_nat_str: "digits_val 0 (nat_str n) = Some (int n)"
proof (induction n rule: nat_str.induct)
  case (1 n)
  show ?case
  proof (cases "n < 10")
    case True
    then show ?thesis by (subst nat_str.simps) (simp add: digit_char_facts)
  next
    case False
    have "digits_val 0 (nat_str n) =
        Option.bind (digits_val 0 (nat_str (n div 10))) (\<lambda>v. digits_val v [digit_char (n mod 10)])"
      using False nat_str_digits by (subst nat_str.simps) (simp add: digits_val_append)
    also have "\<dots> = Some (int (n div 10) * 10 + int (n mod 10))"
      using 1[OF False] by (simp add: digit_char_facts)
    finally show ?thesis by (simp add: zdiv_int zmod_int)
  qed
qed

lemma is_digit_facts:
  "is_digit c \<Longrightarrow> \<not> is_space c \<and> c \<noteq> CHR ''-'' \<and> c \<noteq> CHR ''+''"
  by (auto simp: is_digit_def is_space_def code_point_def Let_def)

text \<open>\<open>int(s)\<close> on an optional minus sign followed by digits\<close>

lemma int_of_str_digits:
  assumes "ds \<noteq> []" "list_all is_digit ds"
  shows "int_of_str ds = digits_val 0 ds"
    and "int_of_str (CHR ''-'' # ds) = map_option uminus (digits_val 0 ds)"
proof -
  obtain d r where ds: "ds = d # r" using assms(1) by (cases ds) auto
  have nsp: "\<forall>c \<in> set ds. \<not> is_space c" using assms(2) is_digit_facts by (auto simp: list_all_iff)
  have "str_strip ds = ds" "str_strip (CHR ''-'' # ds) = CHR ''-'' # ds"
    unfolding str_strip_def using nsp assms(1)
    by (auto intro!: strip_by_id simp: is_space_def code_point_def)
  with ds assms(2) is_digit_facts[of d]
  show "int_of_str ds = digits_val 0 ds"
    and "int_of_str (CHR ''-'' # ds) = map_option uminus (digits_val 0 ds)"
    by (simp_all add: int_of_str_def option.map_ident)
qed

lemma int_of_str_int_str: "int_of_str (int_str i) = Some i"
proof (cases "i < 0")
  case True
  then show ?thesis
    using int_of_str_digits(2)[of "nat_str (nat (- i))"] nat_str_digits[of "nat (- i)"]
    by (simp add: int_str_def digits_val_nat_str)
next
  case False
  then show ?thesis
    using int_of_str_digits(1)[of "nat_str (nat i)"] nat_str_digits[of "nat i"]
    by (simp add: int_str_def digits_val_nat_str)
qed

subsection \<open>UTF-8\<close>

lemma utf8_Cons [simp]: "utf8 [] = []" "utf8 (c # s) = utf8_char c @ utf8 s"
  by (simp_all add: utf8_def)

lemma utf8_code_points:
  "map code_point (utf8_char c) = (if code_point c < 128 then [code_point c]
     else [192 + code_point c div 64, 128 + code_point c mod 64])"
proof -
  have "code_point c div 64 < 4" using code_point_less[of c] by linarith
  then have "192 + code_point c div 64 < 256" "128 + code_point c mod 64 < 256" by simp_all
  then show ?thesis by (simp add: utf8_char_def Let_def)
qed

lemma utf8_char_prefix_free:
  assumes "utf8_char c @ x = utf8_char d @ y"
  shows "c = d \<and> x = y"
proof -
  let ?n = "code_point c" and ?m = "code_point d"
  have eq: "map code_point (utf8_char c) @ map code_point x =
      map code_point (utf8_char d) @ map code_point y"
    using arg_cong[OF assms, of "map code_point"] by simp
  consider "?n < 128" "?m < 128" | "?n < 128" "\<not> ?m < 128" | "\<not> ?n < 128" "?m < 128"
    | "\<not> ?n < 128" "\<not> ?m < 128" by blast
  then have "?n = ?m"
  proof cases
    case 4
    with eq have "?n div 64 = ?m div 64" "?n mod 64 = ?m mod 64"
      unfolding utf8_code_points by simp_all
    then show ?thesis by (metis div_mult_mod_eq)
  qed (use eq in \<open>simp_all add: utf8_code_points\<close>)
  then have "c = d" by simp
  with assms show ?thesis by simp
qed

lemma utf8_inj: "utf8 s = utf8 t \<Longrightarrow> s = t"
proof (induction s arbitrary: t)
  case Nil
  then show ?case by (cases t) (auto simp: utf8_char_def Let_def split: if_splits)
next
  case (Cons c s)
  then obtain d t' where t: "t = d # t'"
    by (cases t) (auto simp: utf8_char_def Let_def split: if_splits)
  with Cons.prems have "c = d \<and> utf8 s = utf8 t'" by (auto dest: utf8_char_prefix_free)
  with Cons.IH t show ?case by simp
qed

lemma utf8_keeps_out: "code_point x < 128 \<Longrightarrow> x \<notin> set s \<Longrightarrow> x \<notin> set (utf8 s)"
proof (induction s)
  case (Cons c s)
  have "x \<notin> set (utf8_char c)"
  proof
    assume "x \<in> set (utf8_char c)"
    then have "code_point x \<in> set (map code_point (utf8_char c))" by simp
    with Cons.prems show False by (auto simp: utf8_code_points split: if_splits)
  qed
  with Cons show ?case by simp
qed simp

lemma int_str_inj: "int_str i = int_str j \<longleftrightarrow> i = j"
  by (metis int_of_str_int_str option.inject)

lemma int_str_chars: "set (int_str i) \<subseteq> {c. is_digit c} \<union> {CHR ''-''}"
  using nat_str_digits by (auto simp: int_str_def list_all_iff)

end
