(* ===== verification/Playbooks.thy ===== *)
theory Playbooks
  imports Prelude
begin

text \<open>
  \<open>worker/playbooks.py\<close>: the registry of remediation playbooks, from the semantic parameters of an
  approved action and the platform's resource locators to the ordered write operations.

  \<open>fr\<close> is the decimal text of a float and \<open>order\<close> the order in which the interpreter enumerates the
  whitelist set.
\<close>

definition MEMORY_CONFIG_WHITELIST :: "string list" where
  "MEMORY_CONFIG_WHITELIST = [''query.max-memory'', ''query.max-memory-per-node'',
     ''query.max-total-memory-per-node'', ''memory.heap-headroom-per-node'']"

definition DEFAULT_SETTLE_SECONDS :: "(string \<times> int) list" where
  "DEFAULT_SETTLE_SECONDS =
    [(''presto.kill_query'', 0), (''presto.update_config_restart_workers'', 120),
     (''presto.restart_coordinator'', 120), (''presto.restart_worker'', 120),
     (''presto.adjust_memory_config'', 120)]"

abbreviation strs :: "string list \<Rightarrow> pyval" where
  "strs xs \<equiv> PList (map PStr xs)"

definition type_of :: "string \<Rightarrow> pyval" where
  "type_of t = PDict [(''type'', PStr t)]"

definition PLAYBOOK_CATALOG :: "dict list" where
  "PLAYBOOK_CATALOG =
    [[(''playbook_id'', PStr ''presto.kill_query''), (''platform_type'', PStr ''presto''),
      (''risk_level'', PStr ''R1''),
      (''params_schema'', PDict [(''type'', PStr ''object''), (''required'', strs [''query_id'']),
         (''properties'', PDict [(''query_id'', type_of ''string'')])]),
      (''steps'', PList [PDict [(''op'', PStr ''presto_kill_query''), (''params_from'', strs [''query_id''])]]),
      (''verification'', PDict [(''checks'', strs [''query_absent'', ''canary'']),
         (''description'', PStr ''query gone; queued count decreases; canary'')])],
     [(''playbook_id'', PStr ''presto.update_config_restart_workers''), (''platform_type'', PStr ''presto''),
      (''risk_level'', PStr ''R2''),
      (''params_schema'', PDict [(''type'', PStr ''object''),
         (''properties'', PDict [(''config_key'', type_of ''string''), (''config_value'', type_of ''string''),
            (''patches'', type_of ''array'')])]),
      (''steps'', PList [PDict [(''op'', PStr ''k8s_patch_configmap|swarm_update_service_env'')],
         PDict [(''op'', PStr ''k8s_rollout_restart|swarm_restart_service'')]]),
      (''verification'', PDict [(''checks'', strs [''workers_active_count'', ''config_key_equals'', ''canary''])])],
     [(''playbook_id'', PStr ''presto.restart_coordinator''), (''platform_type'', PStr ''presto''),
      (''risk_level'', PStr ''R2''),
      (''params_schema'', PDict [(''type'', PStr ''object''), (''properties'', PDict [])]),
      (''steps'', PList [PDict [(''op'', PStr ''k8s_rollout_restart|swarm_restart_service''),
         (''target'', PStr ''coordinator'')]]),
      (''verification'', PDict [(''checks'', strs [''coordinator_up'', ''workers_active_count'', ''canary''])])],
     [(''playbook_id'', PStr ''presto.restart_worker''), (''platform_type'', PStr ''presto''),
      (''risk_level'', PStr ''R2''),
      (''params_schema'', PDict [(''type'', PStr ''object''),
         (''properties'', PDict [(''worker_id'', type_of ''string'')])]),
      (''steps'', PList [PDict [(''op'', PStr ''k8s_delete_pod|swarm_restart_service''),
         (''target'', PStr ''worker'')]]),
      (''verification'', PDict [(''checks'', strs [''node_active'', ''canary''])])],
     [(''playbook_id'', PStr ''presto.adjust_memory_config''), (''platform_type'', PStr ''presto''),
      (''risk_level'', PStr ''R2''),
      (''params_schema'', PDict [(''type'', PStr ''object''),
         (''properties'', PDict [(''patches'', type_of ''array''), (''memory_params'', type_of ''object'')])]),
      (''steps'', PList [PDict [(''op'', PStr ''k8s_patch_configmap|swarm_update_service_env'')],
         PDict [(''op'', PStr ''k8s_rollout_restart|swarm_restart_service'')]]),
      (''verification'', PDict [(''checks'', strs [''workers_active_count'', ''config_key_equals'',
         ''jmx_memory_pool_ok'', ''canary''])])]]"

section \<open>Locators and settle windows\<close>

definition default_locators :: "string \<Rightarrow> dict" where
  "default_locators deployment =
    (if deployment = ''swarm'' then
       [(''worker_service'', PStr ''presto-worker''), (''coordinator_service'', PStr ''presto-coordinator''),
        (''config_file'', PStr ''config'')]
     else
       [(''namespace'', PStr ''presto''), (''worker_configmap'', PStr ''presto-worker-config''),
        (''coordinator_configmap'', PStr ''presto-coordinator-config''),
        (''worker_workload_kind'', PStr ''deployment''), (''worker_workload_name'', PStr ''presto-worker''),
        (''coordinator_workload_kind'', PStr ''deployment''),
        (''coordinator_workload_name'', PStr ''presto-coordinator''),
        (''config_file_key'', PStr ''config.properties'')])"

text \<open>\<open>d.update(v)\<close>: a mapping, or a list of pairs with string keys\<close>

fun update_pairs :: "dict \<Rightarrow> pyval list \<Rightarrow> dict res" where
  "update_pairs d [] = Inr d"
| "update_pairs d (PList [PStr k, v] # ps) = update_pairs (dset d k v) ps"
| "update_pairs d (PStr [a, b] # ps) = update_pairs (dset d [a] (PStr [b])) ps"
| "update_pairs d _ = Inl (ValueError ''dictionary update sequence element'')"

fun py_update :: "dict \<Rightarrow> pyval \<Rightarrow> dict res" where
  "py_update d (PDict e) = Inr (dupdate d e)"
| "py_update d (PList ps) = update_pairs d ps"
| "py_update d (PStr s) = update_pairs d (map (\<lambda>c. PStr [c]) s)"
| "py_update d _ = Inl TypeError"

definition resolve_locators :: "string \<Rightarrow> dict \<Rightarrow> dict res" where
  "resolve_locators deployment cfg =
     py_update (default_locators deployment) (py_or (dget cfg ''remediation_targets'') (PDict []))"

definition settle_seconds :: "string \<Rightarrow> dict \<Rightarrow> int res" where
  "settle_seconds pid cfg =
     (let rem = py_or (dget cfg ''remediation'') (PDict []) in
      bind_res (py_in ''settle_seconds'' rem) (\<lambda>b.
      if b then bind_res (py_item rem ''settle_seconds'') py_int
      else
        bind_res (py_get rem ''settle_seconds_by_playbook'') (\<lambda>per0.
          let per = py_or per0 (PDict []) in
          bind_res (py_in pid per) (\<lambda>b2.
          if b2 then bind_res (py_item per pid) py_int
          else Inr (case map_of DEFAULT_SETTLE_SECONDS pid of None \<Rightarrow> 120 | Some s \<Rightarrow> s)))))"

definition resolve_action_settle_seconds ::
  "(rat \<Rightarrow> string) \<Rightarrow> dict \<Rightarrow> pyval \<Rightarrow> pyval option \<Rightarrow> int res" where
  "resolve_action_settle_seconds fr action rem_cfg override =
     (if dget action ''settle_seconds'' \<noteq> PNone then py_int (dget action ''settle_seconds'')
      else (case override of
              Some v \<Rightarrow> py_int v
            | None \<Rightarrow> settle_seconds (py_str fr (py_or (dget action ''playbook_id'') (PStr [])))
                        [(''remediation'', py_or rem_cfg (PDict []))]))"

section \<open>Patches\<close>

definition patch :: "pyval \<Rightarrow> string \<Rightarrow> pyval" where
  "patch k v = PDict [(''key'', k), (''value'', PStr v)]"

definition off_whitelist :: "(rat \<Rightarrow> string) \<Rightarrow> pyval \<Rightarrow> pyexc" where
  "off_whitelist fr k = ValueError (''memory config key '' @ repr_val fr k @ '' is not in the whitelist'')"

text \<open>\<open>k not in MEMORY_CONFIG_WHITELIST\<close>; an unhashable key raises.\<close>

definition whitelist_check :: "(rat \<Rightarrow> string) \<Rightarrow> pyval \<Rightarrow> unit res" where
  "whitelist_check fr k =
     (if \<not> hashable k then Inl TypeError
      else if k \<in> PStr ` set MEMORY_CONFIG_WHITELIST then Inr () else Inl (off_whitelist fr k))"

fun patches_loop :: "(rat \<Rightarrow> string) \<Rightarrow> pyval list \<Rightarrow> pyval list res" where
  "patches_loop fr [] = Inr []"
| "patches_loop fr (p # ps) =
     (let k = (case p of PDict d \<Rightarrow> dget d ''key'' | _ \<Rightarrow> PNone);
          v = (case p of PDict d \<Rightarrow> dget d ''value'' | _ \<Rightarrow> PNone) in
      if \<not> truthy k then patches_loop fr ps
      else bind_res (whitelist_check fr k) (\<lambda>_.
           bind_res (patches_loop fr ps) (\<lambda>out. Inr (patch k (py_str fr v) # out))))"

fun mem_loop :: "(rat \<Rightarrow> string) \<Rightarrow> dict \<Rightarrow> pyval list res" where
  "mem_loop fr [] = Inr []"
| "mem_loop fr ((k, v) # ps) =
     bind_res (whitelist_check fr (PStr k)) (\<lambda>_.
     bind_res (mem_loop fr ps) (\<lambda>out. Inr (patch (PStr k) (py_str fr v) # out)))"

definition patch_key :: "pyval \<Rightarrow> pyval" where
  "patch_key p = (case p of PDict d \<Rightarrow> dget d ''key'' | _ \<Rightarrow> PNone)"

fun top_level_loop :: "(rat \<Rightarrow> string) \<Rightarrow> dict \<Rightarrow> string list \<Rightarrow> pyval list \<Rightarrow> pyval list" where
  "top_level_loop fr params [] out = out"
| "top_level_loop fr params (k # ks) out =
     (if has_key params k \<and> PStr k \<notin> patch_key ` set out
      then top_level_loop fr params ks (out @ [patch (PStr k) (py_str fr (dget params k))])
      else top_level_loop fr params ks out)"

definition memory_patches :: "(rat \<Rightarrow> string) \<Rightarrow> string list \<Rightarrow> dict \<Rightarrow> pyval list res" where
  "memory_patches fr order params =
     (if truthy (dget params ''patches'') then
        bind_res (py_iter (dget params ''patches'')) (patches_loop fr)
      else
        (case py_or (dget params ''memory_params'') (PDict []) of
           PDict mem \<Rightarrow>
             bind_res (mem_loop fr mem) (\<lambda>out. Inr (top_level_loop fr params order out))
         | _ \<Rightarrow> Inl (OtherError ''AttributeError'')))"

fun config_patch_list :: "(rat \<Rightarrow> string) \<Rightarrow> pyval list \<Rightarrow> pyval list res" where
  "config_patch_list fr [] = Inr []"
| "config_patch_list fr (p # ps) =
     (case p of
        PDict d \<Rightarrow>
          if dget d ''key'' = PNone then config_patch_list fr ps
          else bind_res (ditem d ''value'') (\<lambda>v.
               bind_res (config_patch_list fr ps) (\<lambda>out.
                 Inr (patch (dget d ''key'') (py_str fr v) # out)))
      | _ \<Rightarrow> config_patch_list fr ps)"

definition config_patches :: "(rat \<Rightarrow> string) \<Rightarrow> dict \<Rightarrow> dict \<Rightarrow> pyval list res" where
  "config_patches fr params locators =
     (if truthy (dget params ''patches'') then
        bind_res (py_iter (dget params ''patches'')) (config_patch_list fr)
      else if dget params ''config_key'' \<noteq> PNone then
        Inr [patch (py_or (dget locators ''config_file_key'') (PStr ''config.properties''))
               (py_str fr (dget params ''config_key'') @ ''='' @ py_str fr (dget params ''config_value'') @ [CHR 0x0A])]
      else Inr [])"

section \<open>Steps\<close>

record wstep =
  op :: string
  op_params :: dict

abbreviation mk_step :: "string \<Rightarrow> dict \<Rightarrow> wstep" where
  "mk_step n ps \<equiv> \<lparr>op = n, op_params = ps\<rparr>"

definition loc :: "dict \<Rightarrow> string \<Rightarrow> string \<Rightarrow> pyval" where
  "loc locators k dflt = py_or (dget locators k) (PStr dflt)"

definition steps_kill_query :: "(rat \<Rightarrow> string) \<Rightarrow> string \<Rightarrow> dict \<Rightarrow> dict \<Rightarrow> wstep list res" where
  "steps_kill_query fr deployment params locators =
     (if \<not> truthy (dget params ''query_id'')
      then Inl (ValueError ''presto.kill_query requires query_id'')
      else Inr [mk_step ''presto_kill_query''
                  [(''query_id'', PStr (py_str fr (dget params ''query_id'')))]])"

text \<open>The two steps shared by the configuration playbooks: write the patches, restart the workers.\<close>

definition patch_and_restart :: "string \<Rightarrow> dict \<Rightarrow> pyval list \<Rightarrow> wstep list" where
  "patch_and_restart deployment locators patches =
     (if deployment = ''swarm'' then
        [mk_step ''swarm_update_service_env''
           [(''service'', loc locators ''worker_service'' ''presto-worker''), (''env'', PList patches)],
         mk_step ''swarm_restart_service''
           [(''service'', loc locators ''worker_service'' ''presto-worker'')]]
      else
        [mk_step ''k8s_patch_configmap''
           [(''name'', loc locators ''worker_configmap'' ''presto-worker-config''),
            (''namespace'', loc locators ''namespace'' ''presto''), (''patches'', PList patches)],
         mk_step ''k8s_rollout_restart''
           [(''kind'', loc locators ''worker_workload_kind'' ''deployment''),
            (''name'', loc locators ''worker_workload_name'' ''presto-worker''),
            (''namespace'', loc locators ''namespace'' ''presto'')]])"

definition steps_update_config_restart_workers ::
  "(rat \<Rightarrow> string) \<Rightarrow> string \<Rightarrow> dict \<Rightarrow> dict \<Rightarrow> wstep list res" where
  "steps_update_config_restart_workers fr deployment params locators =
     bind_res (config_patches fr params locators) (\<lambda>patches.
       let env = (if deployment = ''swarm'' \<and> patches = [] \<and> truthy (dget params ''config_key'')
                  then [patch (PStr (py_str fr (dget params ''config_key'')))
                          (py_str fr (dget_or params ''config_value'' (PStr [])))]
                  else patches)
       in Inr (patch_and_restart deployment locators env))"

definition steps_restart_coordinator :: "string \<Rightarrow> dict \<Rightarrow> dict \<Rightarrow> wstep list res" where
  "steps_restart_coordinator deployment params locators =
     (if deployment = ''swarm'' then
        Inr [mk_step ''swarm_restart_service''
               [(''service'', loc locators ''coordinator_service'' ''presto-coordinator'')]]
      else
        Inr [mk_step ''k8s_rollout_restart''
               [(''kind'', loc locators ''coordinator_workload_kind'' ''deployment''),
                (''name'', loc locators ''coordinator_workload_name'' ''presto-coordinator''),
                (''namespace'', loc locators ''namespace'' ''presto'')]])"

definition restart_worker_id :: "dict \<Rightarrow> dict \<Rightarrow> pyval" where
  "restart_worker_id params locators =
     py_or (dget params ''worker_id'') (py_or (dget params ''pod'') (py_or (dget params ''task'')
       (py_or (dget locators ''default_worker_pod'') (PStr ''presto-worker-0''))))"

definition steps_restart_worker :: "(rat \<Rightarrow> string) \<Rightarrow> string \<Rightarrow> dict \<Rightarrow> dict \<Rightarrow> wstep list res" where
  "steps_restart_worker fr deployment params locators =
     (if deployment = ''swarm'' then
        Inr [mk_step ''swarm_restart_service''
               [(''service'', loc locators ''worker_service'' ''presto-worker'')]]
      else
        Inr [mk_step ''k8s_delete_pod''
               [(''name'', PStr (py_str fr (restart_worker_id params locators))),
                (''namespace'', loc locators ''namespace'' ''presto'')]])"

fun recheck :: "(rat \<Rightarrow> string) \<Rightarrow> pyval list \<Rightarrow> unit res" where
  "recheck fr [] = Inr ()"
| "recheck fr (p # ps) = bind_res (whitelist_check fr (patch_key p)) (\<lambda>_. recheck fr ps)"

definition steps_adjust_memory_config ::
  "(rat \<Rightarrow> string) \<Rightarrow> string list \<Rightarrow> string \<Rightarrow> dict \<Rightarrow> dict \<Rightarrow> wstep list res" where
  "steps_adjust_memory_config fr order deployment params locators =
     bind_res (memory_patches fr order params) (\<lambda>patches.
       if patches = [] then Inl (ValueError ''adjust_memory_config requires memory params'')
       else bind_res (recheck fr patches) (\<lambda>_. Inr (patch_and_restart deployment locators patches)))"

definition PLAYBOOK_STEPS ::
  "(rat \<Rightarrow> string) \<Rightarrow> string list \<Rightarrow> (string \<times> (string \<Rightarrow> dict \<Rightarrow> dict \<Rightarrow> wstep list res)) list" where
  "PLAYBOOK_STEPS fr order =
    [(''presto.kill_query'', steps_kill_query fr),
     (''presto.update_config_restart_workers'', steps_update_config_restart_workers fr),
     (''presto.restart_coordinator'', steps_restart_coordinator),
     (''presto.restart_worker'', steps_restart_worker fr),
     (''presto.adjust_memory_config'', steps_adjust_memory_config fr order)]"

section \<open>Snapshots\<close>

definition snap :: "string \<Rightarrow> dict \<Rightarrow> dict" where
  "snap t args = [(''tool'', PStr t), (''args'', PDict args)]"

definition PRE_SNAPSHOT_TOOLS :: "(string \<times> dict list) list" where
  "PRE_SNAPSHOT_TOOLS =
    [(''presto.kill_query'',
        [[(''tool'', PStr ''presto_query_detail''), (''args_from'', strs [''query_id''])],
         snap ''presto_list_queries'' [(''state'', PStr ''QUEUED'')]]),
     (''presto.update_config_restart_workers'',
        [snap ''presto_config'' [(''component'', PStr ''worker''), (''file'', PStr ''config'')],
         snap ''k8s_pods|swarm_tasks'' [], snap ''presto_nodes'' []]),
     (''presto.adjust_memory_config'',
        [snap ''presto_config'' [(''component'', PStr ''worker''), (''file'', PStr ''config'')],
         snap ''k8s_pods|swarm_tasks'' [], snap ''presto_jmx'' [(''mbean'', PStr ''heap'')]]),
     (''presto.restart_coordinator'',
        [snap ''presto_cluster_info'' [], snap ''presto_nodes'' [], snap ''k8s_pods|swarm_tasks'' []]),
     (''presto.restart_worker'', [snap ''k8s_pods|swarm_tasks'' [], snap ''presto_nodes'' []])]"

definition resolve_runtime_tool :: "string \<Rightarrow> string \<Rightarrow> string" where
  "resolve_runtime_tool name deployment =
     (case partition_char (CHR ''|'') name of
        (left, None) \<Rightarrow> name
      | (left, Some right) \<Rightarrow> if deployment = ''swarm'' then right else left)"

section \<open>Lemmas\<close>

lemma whitelist_check_Inr [res_simps]:
  "whitelist_check fr k = Inr u \<longleftrightarrow> k \<in> PStr ` set MEMORY_CONFIG_WHITELIST"
  by (auto simp: whitelist_check_def)

lemma recheck_Inr [res_simps]:
  "recheck fr ps = Inr u \<longleftrightarrow> list_all (\<lambda>p. patch_key p \<in> PStr ` set MEMORY_CONFIG_WHITELIST) ps"
  by (induction ps) (auto simp: res_simps)

text \<open>The write operations the probe implements (Appendix B.5).\<close>

definition WRITE_OPS :: "string list" where
  "WRITE_OPS = [''presto_kill_query'', ''k8s_patch_configmap'', ''k8s_rollout_restart'',
     ''k8s_delete_pod'', ''swarm_update_service_env'', ''swarm_restart_service'']"

text \<open>The fields of a step that say which resource it writes to.\<close>

definition step_target :: "wstep \<Rightarrow> string \<times> dict" where
  "step_target s = (op s, filter (\<lambda>kv. fst kv \<in> {''service'', ''kind'', ''name'', ''namespace''}) (op_params s))"

lemma patch_and_restart_target:
  "map step_target (patch_and_restart deployment locators ps) =
   map step_target (patch_and_restart deployment locators qs)"
  by (simp add: patch_and_restart_def step_target_def)

lemma steps_by_id:
  "map_of (PLAYBOOK_STEPS fr order) pid = Some f \<Longrightarrow>
   (pid = ''presto.kill_query'' \<and> f = steps_kill_query fr) \<or>
   (pid = ''presto.update_config_restart_workers'' \<and> f = steps_update_config_restart_workers fr) \<or>
   (pid = ''presto.restart_coordinator'' \<and> f = steps_restart_coordinator) \<or>
   (pid = ''presto.restart_worker'' \<and> f = steps_restart_worker fr) \<or>
   (pid = ''presto.adjust_memory_config'' \<and> f = steps_adjust_memory_config fr order)"
  by (auto simp: PLAYBOOK_STEPS_def split: if_splits)

lemmas step_defs = steps_kill_query_def steps_update_config_restart_workers_def
  steps_restart_coordinator_def steps_restart_worker_def steps_adjust_memory_config_def

lemma steps_ops:
  assumes "map_of (PLAYBOOK_STEPS fr order) pid = Some f" and "f deployment params locators = Inr st"
  shows "st \<noteq> [] \<and> list_all (\<lambda>s. op s \<in> set WRITE_OPS) st"
  using steps_by_id[OF assms(1)] assms(2)
  by (elim disjE) (auto simp: step_defs WRITE_OPS_def patch_and_restart_def res_simps Let_def
      split: if_splits)

section \<open>Properties\<close>

text \<open>the memory playbook never writes a key outside the whitelist and never writes nothing.
  When its steps are built, the first step carries at least one patch, the key of every patch is on the
  whitelist, and an empty or off-list request is an error instead.\<close>

theorem memory_playbook_whitelisted:
  assumes "steps_adjust_memory_config fr order deployment params locators = Inr st"
  shows "\<exists>patches. st = patch_and_restart deployment locators patches \<and> patches \<noteq> [] \<and>
     list_all (\<lambda>p. patch_key p \<in> PStr ` set MEMORY_CONFIG_WHITELIST) patches"
  using assms by (auto simp: steps_adjust_memory_config_def res_simps split: if_splits)

theorem memory_playbook_whitelisted_witness:
  "\<exists>st. steps_adjust_memory_config (\<lambda>r. []) MEMORY_CONFIG_WHITELIST ''swarm'' [(''query.max-memory'', PStr ''4GB'')]
       (default_locators ''swarm'') = Inr st \<and> length st = 2"
proof -
  obtain st where st: "steps_adjust_memory_config (\<lambda>r. []) MEMORY_CONFIG_WHITELIST ''swarm''
      [(''query.max-memory'', PStr ''4GB'')] (default_locators ''swarm'') = Inr st"
    by (simp add: steps_adjust_memory_config_def memory_patches_def MEMORY_CONFIG_WHITELIST_def has_key_def
        py_or_def whitelist_check_def patch_key_def patch_def)
  from memory_playbook_whitelisted[OF st] st show ?thesis
    by (auto simp: patch_and_restart_def)
qed



text \<open>on a swarm deployment \<open>update_config_restart_workers\<close> does not set the requested
  environment variable.  With only a \<open>config_key\<close> and \<open>config_value\<close>, the single variable written
  is named after the configuration file and holds the whole \<open>key=value\<close> line.\<close>

theorem swarm_config_key_not_env_name:
  "steps_update_config_restart_workers fr ''swarm''
     [(''config_key'', PStr ''task.concurrency''), (''config_value'', PStr ''8'')] (default_locators ''swarm'') =
   Inr [mk_step ''swarm_update_service_env''
          [(''service'', PStr ''presto-worker''),
           (''env'', PList [patch (PStr ''config.properties'') (''task.concurrency=8'' @ [CHR 0x0A])])],
        mk_step ''swarm_restart_service'' [(''service'', PStr ''presto-worker'')]]"
  by (simp add: steps_update_config_restart_workers_def config_patches_def default_locators_def py_or_def
      py_str_def patch_and_restart_def loc_def)

text \<open>the settle window follows its documented precedence: the action's own value, then the
  workflow input, then the platform's general override, then its per-playbook override, then the
  playbook's default.\<close>

theorem settle_precedence:
  "(\<forall>i. resolve_action_settle_seconds fr ((''settle_seconds'', PInt i) # act) rem override = Inr i) \<and>
   (\<forall>i. resolve_action_settle_seconds fr [(''playbook_id'', PStr pid)] rem (Some (PInt i)) = Inr i) \<and>
   (\<forall>i. resolve_action_settle_seconds fr [(''playbook_id'', PStr pid)]
      (PDict ((''settle_seconds'', PInt i) # r)) None = Inr i) \<and>
   (\<forall>i. resolve_action_settle_seconds fr [(''playbook_id'', PStr pid)]
      (PDict [(''settle_seconds_by_playbook'', PDict [(pid, PInt i)])]) None = Inr i) \<and>
   resolve_action_settle_seconds fr [(''playbook_id'', PStr pid)] PNone None =
     Inr (case map_of DEFAULT_SETTLE_SECONDS pid of None \<Rightarrow> 120 | Some s \<Rightarrow> s)"
  by (simp add: resolve_action_settle_seconds_def settle_seconds_def py_or_def has_key_def ditem_def py_str_def)

end
