(* ===== verification/Workflow.thy ===== *)
theory Workflow
  imports Playbooks
begin

text \<open>
  \<open>worker/workflows/investigation.py\<close>: the durable investigation workflow as a state machine.

  The state holds the attributes of the workflow object (\<open>wself\<close>), its context dictionary
  (\<open>wctx\<close>), the local variables of \<open>run\<close> (\<open>wloc\<close>), the point at which the coroutine is suspended
  (\<open>pc\<close>) and a ghost log of activity calls, activity results and signals.  One transition delivers an
  event to the suspended workflow: the result or failure of the activity it waits for, a signal, a
  timer.  The code between two \<open>await\<close>s is one function.  Activities, the clock and the signals are
  the environment: any value may arrive.

  \<open>fr\<close> and \<open>fl\<close> are the decimal text of floats and its parser.  An exception in workflow code leaves
  the machine in \<open>Crashed\<close> (Temporal retries that task for ever); a failed activity outside
  \<open>_notify\<close> ends it in \<open>ActivityFailed\<close>.
\<close>

section \<open>State\<close>

record wself =
  paused :: bool
  aborted :: bool
  budget_override :: "dict option"
  approval_decision :: "dict option"
  awaiting_approval_id :: "string option"
  w_status :: string
  last_report :: "dict option"
  terminal_reason :: "pyval option"
  w_platform_key :: pyval
  w_severity :: pyval

record wctx =
  c_event :: dict
  c_evidence :: "pyval list"
  c_reports :: "pyval list"
  c_inv :: pyval
  c_platform_key :: pyval
  c_feedback :: "string list"
  c_deployment :: pyval
  c_remediation :: dict
  c_settle_override :: "pyval option"

record wloc =
  l_budget :: dict
  l_threshold :: rat
  l_max_calls :: int
  l_plan :: pyval
  l_deadline :: int
  l_max_rounds :: int
  l_range_end :: int
  l_max_cost :: rat
  l_round :: int
  l_report :: dict
  l_reqs :: "pyval list"
  l_actions :: "pyval list"
  l_todo :: "pyval list"
  l_executed_any :: bool
  l_applied :: "pyval list"

datatype gate = RawGate dict | RemGate dict

datatype wpc =
    AtCreateCase | AtRejectCase pyval | AtNotifyRejected pyval
  | AtPlanInitial | AtPaused | AtGetSpend | AtCollect rat | AtAnalyze | AtRecordIteration
  | AtValidate dict | AtCreateApproval gate | AtNotifyApproval gate pyval string
  | AtAwaitApproval gate pyval string | AtRecordDecision gate dict
  | AtRunRaw | AtPlanNext | AtPlanRemediation | AtCloseSummary
  | AtExecute dict | AtSettle dict pyval | AtVerify dict
  | AtCloseResolved | AtNotifyResolved pyval | AtNeedsHuman string | AtNotifyNeedsHuman pyval
  | Finished pyval | Crashed pyexc | ActivityFailed string

datatype entry = Call string dict | Ret string pyval | Sig string dict

record wf =
  w_input :: dict
  me :: wself
  ctx :: wctx
  lvars :: wloc
  pc :: wpc
  wlog :: "entry list"

abbreviation set_me :: "(wself \<Rightarrow> wself) \<Rightarrow> wf \<Rightarrow> wf" where
  "set_me f w \<equiv> w\<lparr>me := f (me w)\<rparr>"

abbreviation set_ctx :: "(wctx \<Rightarrow> wctx) \<Rightarrow> wf \<Rightarrow> wf" where
  "set_ctx f w \<equiv> w\<lparr>ctx := f (ctx w)\<rparr>"

abbreviation set_loc :: "(wloc \<Rightarrow> wloc) \<Rightarrow> wf \<Rightarrow> wf" where
  "set_loc f w \<equiv> w\<lparr>lvars := f (lvars w)\<rparr>"

definition TERMINAL :: "string list" where
  "TERMINAL = [''REJECTED'', ''NEEDS_HUMAN'', ''CLOSED_SUMMARY'', ''RESOLVED'']"

text \<open>\<open>workflow.execute_activity(name, args)\<close>, suspended at \<open>next\<close>\<close>

definition call :: "string \<Rightarrow> dict \<Rightarrow> wpc \<Rightarrow> wf \<Rightarrow> wf" where
  "call name args next w = w\<lparr>pc := next, wlog := wlog w @ [Call name args]\<rparr>"

definition orcrash :: "wf \<Rightarrow> wf res \<Rightarrow> wf" where
  "orcrash w r = (case r of Inl e \<Rightarrow> w\<lparr>pc := Crashed e\<rparr> | Inr w' \<Rightarrow> w')"

definition opt_dict :: "dict option \<Rightarrow> pyval" where
  "opt_dict v = (case v of None \<Rightarrow> PNone | Some d \<Rightarrow> PDict d)"

definition rca_compact :: "wf \<Rightarrow> pyval" where
  "rca_compact w = (case last_report (me w) of None \<Rightarrow> PNone | Some r \<Rightarrow> dget r ''rca_compact'')"

section \<open>Signals\<close>

definition sig_pause :: "wf \<Rightarrow> wf" where
  "sig_pause w = (if w_status (me w) \<notin> set TERMINAL then set_me (\<lambda>s. s\<lparr>paused := True\<rparr>) w else w)"

definition sig_resume :: "wf \<Rightarrow> wf" where
  "sig_resume w = set_me (\<lambda>s. s\<lparr>paused := False\<rparr>) w"

definition sig_abort :: "wf \<Rightarrow> wf" where
  "sig_abort w = (if w_status (me w) \<notin> set TERMINAL then set_me (\<lambda>s. s\<lparr>aborted := True\<rparr>) w else w)"

definition sig_adjust_budget :: "dict \<Rightarrow> wf \<Rightarrow> wf" where
  "sig_adjust_budget b w =
     (if w_status (me w) \<notin> set TERMINAL then set_me (\<lambda>s. s\<lparr>budget_override := Some b\<rparr>) w else w)"

definition get_status :: "wf \<Rightarrow> pyval" where
  "get_status w = PDict
     [(''status'', PStr (w_status (me w))), (''paused'', PBool (paused (me w))),
      (''aborted'', PBool (aborted (me w))),
      (''terminal_reason'', case terminal_reason (me w) of None \<Rightarrow> PNone | Some r \<Rightarrow> r),
      (''last_report'', opt_dict (last_report (me w)))]"

definition approval_id_of :: "(rat \<Rightarrow> string) \<Rightarrow> dict \<Rightarrow> string" where
  "approval_id_of fr payload = py_str fr (py_or (dget payload ''approval_id'') (PStr []))"

definition sig_approval_decided :: "(rat \<Rightarrow> string) \<Rightarrow> dict \<Rightarrow> wf \<Rightarrow> wf" where
  "sig_approval_decided fr payload w =
     (let sid = approval_id_of fr payload in
      case awaiting_approval_id (me w) of
        Some aid \<Rightarrow>
          if sid \<noteq> [] \<and> sid \<noteq> aid then w
          else set_me (\<lambda>s. s\<lparr>approval_decision := Some payload\<rparr>) w
      | None \<Rightarrow> set_me (\<lambda>s. s\<lparr>approval_decision := Some payload\<rparr>) w)"

section \<open>Ending the case\<close>

definition needs_human :: "string \<Rightarrow> wf \<Rightarrow> wf" where
  "needs_human reason w =
     call ''to_needs_human''
       [(''investigation_id'', c_inv (ctx w)), (''reason'', PStr reason),
        (''rca_report'', opt_dict (last_report (me w)))] (AtNeedsHuman reason) w"

definition on_needs_human :: "string \<Rightarrow> pyval \<Rightarrow> wf \<Rightarrow> wf" where
  "on_needs_human reason result w =
     (let w1 = set_me (\<lambda>s. s\<lparr>w_status := ''NEEDS_HUMAN'', terminal_reason := Some (PStr reason)\<rparr>) w in
      call ''send_notifications''
        [(''event'', PStr ''case_needs_human''),
         (''payload'', PDict [(''investigation_id'', c_inv (ctx w)), (''platform_key'', c_platform_key (ctx w)),
            (''severity'', dget (c_event (ctx w)) ''severity''), (''reason'', PStr reason),
            (''rca_compact'', rca_compact w), (''summary'', PStr (''needs human: '' @ reason))])]
        (AtNotifyNeedsHuman result) w1)"

text \<open>\<open>return {**result, "rca_report": self._last_report}\<close>\<close>

definition finish_with_report :: "pyval \<Rightarrow> wf \<Rightarrow> wf" where
  "finish_with_report result w =
     orcrash w (case result of
       PDict d \<Rightarrow> Inr (w\<lparr>pc := Finished (PDict (dset d ''rca_report'' (opt_dict (last_report (me w)))))\<rparr>)
     | _ \<Rightarrow> Inl TypeError)"

definition close_with_summary_call :: "string \<Rightarrow> wf \<Rightarrow> wf" where
  "close_with_summary_call reason w =
     call ''close_with_summary''
       [(''investigation_id'', c_inv (ctx w)), (''rca_report'', opt_dict (last_report (me w))),
        (''actions'', PList (l_actions (lvars w))), (''reason'', PStr reason)] AtCloseSummary w"

definition on_close_summary :: "pyval \<Rightarrow> wf \<Rightarrow> wf" where
  "on_close_summary result w =
     finish_with_report result (set_me (\<lambda>s. s\<lparr>w_status := ''CLOSED_SUMMARY''\<rparr>) w)"

definition on_close_resolved :: "pyval \<Rightarrow> wf \<Rightarrow> wf" where
  "on_close_resolved result w =
     call ''send_notifications''
       [(''event'', PStr ''case_resolved''),
        (''payload'', PDict [(''investigation_id'', c_inv (ctx w)), (''platform_key'', c_platform_key (ctx w)),
           (''severity'', dget (c_event (ctx w)) ''severity''), (''rca_compact'', rca_compact w),
           (''summary'', rca_compact w), (''playbooks'', PList (l_applied (lvars w)))])]
       (AtNotifyResolved result) (set_me (\<lambda>s. s\<lparr>w_status := ''RESOLVED''\<rparr>) w)"

section \<open>Approvals\<close>

definition gate_kind :: "gate \<Rightarrow> string" where
  "gate_kind g = (case g of RawGate _ \<Rightarrow> ''raw_command'' | RemGate _ \<Rightarrow> ''remediation'')"

definition gate_subject :: "gate \<Rightarrow> dict" where
  "gate_subject g = (case g of RawGate d \<Rightarrow> d | RemGate d \<Rightarrow> d)"

definition request_approval :: "gate \<Rightarrow> wf \<Rightarrow> wf" where
  "request_approval g w =
     call ''create_approval''
       [(''investigation_id'', c_inv (ctx w)), (''kind'', PStr (gate_kind g)),
        (''subject'', PDict (gate_subject g))] (AtCreateApproval g)
       (set_me (\<lambda>s. s\<lparr>approval_decision := None\<rparr>) w)"

definition subject_digest :: "gate \<Rightarrow> pyval" where
  "subject_digest g =
     (let s = gate_subject g in
      py_or (dget s ''description'') (py_or (dget s ''playbook_id'')
        (py_or (dget s ''command'') (PStr (gate_kind g)))))"

definition on_create_approval :: "(rat \<Rightarrow> string) \<Rightarrow> gate \<Rightarrow> pyval \<Rightarrow> wf \<Rightarrow> wf" where
  "on_create_approval fr g approval w =
     orcrash w (bind_res (py_item approval ''approval_id'') (\<lambda>aidv.
       let aid = py_str fr aidv;
           digest = py_str fr (subject_digest g);
           w1 = set_me (\<lambda>s. s\<lparr>awaiting_approval_id := Some aid, w_status := ''AWAITING_APPROVAL''\<rparr>) w in
       Inr (call ''send_notifications''
         [(''event'', PStr ''approval_requested''),
          (''payload'', PDict [(''investigation_id'', c_inv (ctx w)), (''platform_key'', w_platform_key (me w)),
             (''severity'', w_severity (me w)),
             (''summary'', PStr (gate_kind g @ '' approval requested: '' @ digest)),
             (''digest'', PStr digest), (''approval_kind'', PStr (gate_kind g))])]
         (AtNotifyApproval g aidv aid) w1)))"

definition decision_made :: "(rat \<Rightarrow> string) \<Rightarrow> string \<Rightarrow> wf \<Rightarrow> dict option" where
  "decision_made fr aid w =
     (case approval_decision (me w) of
        None \<Rightarrow> None
      | Some d \<Rightarrow> if approval_id_of fr d = aid then Some d else None)"

definition record_decision :: "gate \<Rightarrow> dict \<Rightarrow> pyval \<Rightarrow> bool \<Rightarrow> wf \<Rightarrow> wf" where
  "record_decision g dec0 aidv is_timeout w =
     (let dec = (if has_key dec0 ''approval_id'' then dec0 else dset dec0 ''approval_id'' aidv) in
      call ''record_approval_decision''
        [(''investigation_id'', c_inv (ctx w)), (''approval_id'', dget dec ''approval_id''),
         (''decision'', dget dec ''decision''), (''comment'', dget dec ''comment''),
         (''kind'', PStr (gate_kind g)), (''is_timeout'', PBool is_timeout)]
        (AtRecordDecision g dec) (set_me (\<lambda>s. s\<lparr>awaiting_approval_id := None\<rparr>) w))"

text \<open>\<open>wait_condition\<close> without a timeout yet: continue if the decision is there, else stay.\<close>

definition await_approval :: "(rat \<Rightarrow> string) \<Rightarrow> gate \<Rightarrow> pyval \<Rightarrow> string \<Rightarrow> wf \<Rightarrow> wf" where
  "await_approval fr g aidv aid w =
     (case decision_made fr aid w of
        Some d \<Rightarrow> record_decision g d aidv False w
      | None \<Rightarrow> w\<lparr>pc := AtAwaitApproval g aidv aid\<rparr>)"

definition approval_timeout :: "gate \<Rightarrow> pyval \<Rightarrow> wf \<Rightarrow> wf" where
  "approval_timeout g aidv w =
     record_decision g [(''approval_id'', aidv), (''decision'', PStr ''denied''), (''comment'', PStr ''timeout'')]
       aidv True w"

section \<open>Starting the case\<close>

definition initial_self :: wself where
  "initial_self = \<lparr>paused = False, aborted = False, budget_override = None, approval_decision = None,
     awaiting_approval_id = None, w_status = ''RECEIVED'', last_report = None, terminal_reason = None,
     w_platform_key = PNone, w_severity = PNone\<rparr>"

definition empty_ctx :: wctx where
  "empty_ctx = \<lparr>c_event = [], c_evidence = [], c_reports = [], c_inv = PNone, c_platform_key = PNone,
     c_feedback = [], c_deployment = PNone, c_remediation = [], c_settle_override = None\<rparr>"

definition empty_loc :: wloc where
  "empty_loc = \<lparr>l_budget = [], l_threshold = 0, l_max_calls = 0, l_plan = PNone, l_deadline = 0,
     l_max_rounds = 0, l_range_end = 0, l_max_cost = 0, l_round = 0, l_report = [], l_reqs = [],
     l_actions = [], l_todo = [], l_executed_any = False, l_applied = []\<rparr>"

definition start :: "string \<Rightarrow> dict \<Rightarrow> dict \<Rightarrow> wf" where
  "start wid event input =
     call ''create_case''
       [(''event'', PDict event), (''investigation_id'', dget input ''investigation_id''),
        (''workflow_id'', PStr wid)] AtCreateCase
       \<lparr>w_input = input, me = initial_self, ctx = empty_ctx\<lparr>c_event := event\<rparr>, lvars = empty_loc,
        pc = AtCreateCase, wlog = []\<rparr>"

definition merge_override :: "dict option \<Rightarrow> dict \<Rightarrow> dict" where
  "merge_override ov bud = (case ov of None \<Rightarrow> bud | Some o' \<Rightarrow> dupdate bud o')"

definition py_dict :: "pyval \<Rightarrow> dict res" where
  "py_dict v = py_update [] v"

definition on_create_case :: "(string \<Rightarrow> rat option) \<Rightarrow> pyval \<Rightarrow> wf \<Rightarrow> wf" where
  "on_create_case fl result w =
     orcrash w (
       bind_res (py_item result ''investigation_id'') (\<lambda>iid.
       bind_res (bind_res (py_item result ''budget'') py_dict) (\<lambda>bud.
       let case' = as_dict result; event = c_event (ctx w) in
       bind_res (py_float fl (py_or (dget case' ''confidence_threshold'') (PFloat (85 / 100)))) (\<lambda>thr.
       bind_res (py_int (py_or (dget case' ''max_calls_per_round'') (PInt 8))) (\<lambda>calls.
       let pk = py_or (dget case' ''platform_key'') (dget event ''platform_key'');
           w1 = set_me (\<lambda>s. s\<lparr>w_status := ''OPEN'', w_platform_key := pk,
                  w_severity := py_or (dget event ''severity'') (PStr ''unknown'')\<rparr>) w;
           w2 = set_loc (\<lambda>l. l\<lparr>l_budget := merge_override (budget_override (me w)) bud,
                  l_threshold := thr, l_max_calls := calls\<rparr>) w1;
           w3 = set_ctx (\<lambda>c. c\<lparr>c_inv := iid\<rparr>) w2 in
       if truthy (dget case' ''rejected'') then
         let reason = py_or (dget case' ''reject_reason'') (PStr ''platform_not_ready'') in
         Inr (call ''reject_case'' [(''investigation_id'', iid), (''reason'', reason)]
                (AtRejectCase reason) w3)
       else
         bind_res (ditem case' ''platform_key'') (\<lambda>cpk.
         bind_res (py_dict (py_or (dget case' ''remediation'') (PDict []))) (\<lambda>rem.
           Inr (call ''plan_initial''
             [(''event'', PDict event), (''investigation_id'', iid), (''max_calls_per_round'', PInt calls),
              (''round'', PInt 0)] AtPlanInitial
             (set_ctx (\<lambda>c. c\<lparr>c_platform_key := cpk, c_remediation := rem,
                c_deployment := py_or (dget case' ''deployment'') (dget (w_input w) ''deployment''),
                c_settle_override := map_of (w_input w) ''settle_seconds''\<rparr>) w3)))))))))"

definition on_reject_case :: "(rat \<Rightarrow> string) \<Rightarrow> pyval \<Rightarrow> pyval \<Rightarrow> wf \<Rightarrow> wf" where
  "on_reject_case fr reason result w =
     call ''send_notifications''
       [(''event'', PStr ''case_rejected''),
        (''payload'', PDict [(''investigation_id'', c_inv (ctx w)), (''platform_key'', w_platform_key (me w)),
           (''severity'', dget (c_event (ctx w)) ''severity''), (''reason'', reason),
           (''summary'', PStr (''rejected: '' @ py_str fr reason))])]
       (AtNotifyRejected result)
       (set_me (\<lambda>s. s\<lparr>w_status := ''REJECTED'', terminal_reason := Some reason\<rparr>) w)"

section \<open>The round loop\<close>

definition after_pause :: "int \<Rightarrow> wf \<Rightarrow> wf" where
  "after_pause now w =
     (if aborted (me w) then needs_human ''aborted'' w
      else if l_deadline (lvars w) \<le> now then needs_human ''time_budget'' w
      else call ''get_spend'' [(''investigation_id'', c_inv (ctx w))] AtGetSpend w)"

definition wait_if_paused :: "int \<Rightarrow> wf \<Rightarrow> wf" where
  "wait_if_paused now w =
     (if paused (me w) \<and> \<not> aborted (me w) then w\<lparr>pc := AtPaused\<rparr> else after_pause now w)"

text \<open>The head of \<open>for round_num in range(1, max_rounds + 1)\<close>; the range was built before the loop.\<close>

definition loop_head :: "int \<Rightarrow> int \<Rightarrow> wf \<Rightarrow> wf" where
  "loop_head now r w =
     (if l_range_end (lvars w) < r then needs_human ''round_budget'' w
      else wait_if_paused now (set_loc (\<lambda>l. l\<lparr>l_round := r\<rparr>) w))"

definition on_plan_initial :: "(string \<Rightarrow> rat option) \<Rightarrow> int \<Rightarrow> pyval \<Rightarrow> wf \<Rightarrow> wf" where
  "on_plan_initial fl now plan w =
     (let bud = l_budget (lvars w) in
      orcrash w (
        bind_res (py_int (dget_or bud ''max_wall_seconds'' (PInt 1800))) (\<lambda>wall.
        bind_res (py_int (dget_or bud ''max_rounds'' (PInt 15))) (\<lambda>rounds.
        bind_res (py_float fl (dget_or bud ''max_cost_usd'' (PFloat 10))) (\<lambda>cost.
          Inr (loop_head now 1
            (set_me (\<lambda>s. s\<lparr>w_status := ''INVESTIGATING''\<rparr>)
              (set_loc (\<lambda>l. l\<lparr>l_plan := plan, l_deadline := now + wall * 1000000, l_max_rounds := rounds,
                 l_range_end := rounds, l_max_cost := cost\<rparr>) w))))))))"

text \<open>The budget adjustment between \<open>get_spend\<close> and \<open>collect\<close>\<close>

definition apply_override :: "(string \<Rightarrow> rat option) \<Rightarrow> int \<Rightarrow> wf \<Rightarrow> wf res" where
  "apply_override fl now w =
     (case budget_override (me w) of
        Some (x # xs) \<Rightarrow>
          (let ov = x # xs; bud = dupdate (l_budget (lvars w)) ov in
           bind_res (py_int (dget_or bud ''max_rounds'' (PInt (l_max_rounds (lvars w))))) (\<lambda>rounds.
           bind_res (py_float fl (dget_or bud ''max_cost_usd'' (PFloat (l_max_cost (lvars w))))) (\<lambda>cost.
           bind_res (if has_key ov ''max_wall_seconds''
                     then bind_res (py_int (dget ov ''max_wall_seconds'')) (\<lambda>s. Inr (now + s * 1000000))
                     else Inr (l_deadline (lvars w))) (\<lambda>dl.
             Inr (set_me (\<lambda>s. s\<lparr>budget_override := None\<rparr>)
               (set_loc (\<lambda>l. l\<lparr>l_budget := bud, l_max_rounds := rounds, l_max_cost := cost,
                  l_deadline := dl\<rparr>) w))))))
      | _ \<Rightarrow> Inr w)"

definition on_get_spend :: "(string \<Rightarrow> rat option) \<Rightarrow> int \<Rightarrow> pyval \<Rightarrow> wf \<Rightarrow> wf" where
  "on_get_spend fl now spentv w =
     orcrash w (bind_res (py_float fl spentv) (\<lambda>sp.
       if l_max_cost (lvars w) \<le> sp then Inr (needs_human ''cost_budget'' w)
       else bind_res (apply_override fl now w) (\<lambda>w1.
         Inr (call ''collect''
           [(''plan'', l_plan (lvars w1)), (''investigation_id'', c_inv (ctx w1)),
            (''platform_key'', c_platform_key (ctx w1)), (''round'', PInt (l_round (lvars w1))),
            (''max_calls_per_round'', PInt (l_max_calls (lvars w1)))] (AtCollect sp) w1))))"

definition extend_evidence :: "pyval \<Rightarrow> wf \<Rightarrow> wf res" where
  "extend_evidence v w =
     bind_res (py_iter (py_or v (PList []))) (\<lambda>xs.
       Inr (set_ctx (\<lambda>c. c\<lparr>c_evidence := c_evidence c @ xs\<rparr>) w))"

definition on_collect :: "rat \<Rightarrow> pyval \<Rightarrow> wf \<Rightarrow> wf" where
  "on_collect sp new_evidence w =
     orcrash w (bind_res (extend_evidence new_evidence w) (\<lambda>w1.
       Inr (call ''analyze''
         [(''event'', PDict (c_event (ctx w1))), (''evidence'', PList (c_evidence (ctx w1))),
          (''reports'', PList (c_reports (ctx w1))), (''round'', PInt (l_round (lvars w1))),
          (''budget'', PDict (l_budget (lvars w1))), (''spent_usd'', PFloat sp),
          (''investigation_id'', c_inv (ctx w1)),
          (''approver_feedback'', strs (c_feedback (ctx w1)))] AtAnalyze w1)))"

definition on_analyze :: "pyval \<Rightarrow> wf \<Rightarrow> wf" where
  "on_analyze reportv w =
     orcrash w (case reportv of
       PDict d \<Rightarrow>
         (let metrics = dget d ''_context_metrics'';
              report = filter (\<lambda>kv. fst kv \<noteq> ''_context_metrics'') d;
              w1 = set_me (\<lambda>s. s\<lparr>last_report := Some report\<rparr>)
                    (set_ctx (\<lambda>c. c\<lparr>c_reports := c_reports c @ [PDict report]\<rparr>)
                      (set_loc (\<lambda>l. l\<lparr>l_report := report\<rparr>) w)) in
          bind_res (if truthy metrics
                    then bind_res (bind_res (py_item metrics ''build_ms'') py_int) (\<lambda>i. Inr (PInt i))
                    else Inr PNone) (\<lambda>dur.
            Inr (call ''record_iteration''
              [(''investigation_id'', c_inv (ctx w1)), (''round'', PInt (l_round (lvars w1))),
               (''plan'', l_plan (lvars w1)), (''report'', PDict report), (''cost_usd'', PNone),
               (''duration_ms'', dur)] AtRecordIteration w1)))
     | PList _ \<Rightarrow> Inl TypeError
     | _ \<Rightarrow> Inl (OtherError ''AttributeError''))"

definition plan_next_call :: "wf \<Rightarrow> wf res" where
  "plan_next_call w =
     bind_res (map_res (\<lambda>e. bind_res (py_get e ''evidence_id'') (\<lambda>eid.
                 bind_res (py_get e ''summary'') (\<lambda>sm.
                   Inr (PDict [(''evidence_id'', eid), (''summary'', sm)])))) (c_evidence (ctx w)))
       (\<lambda>ss. Inr (call ''plan_next''
         [(''event'', PDict (c_event (ctx w))), (''investigation_id'', c_inv (ctx w)),
          (''max_calls_per_round'', PInt (l_max_calls (lvars w))), (''round'', PInt (l_round (lvars w))),
          (''missing_info'', py_or (dget (l_report (lvars w)) ''missing_info'') (PList [])),
          (''evidence_summaries'', PList ss)] AtPlanNext w))"

text \<open>After the raw-command requests of a round: conclude, give up, or plan the next round.\<close>

definition after_requests :: "(string \<Rightarrow> rat option) \<Rightarrow> wf \<Rightarrow> wf res" where
  "after_requests fl w =
     (let report = l_report (lvars w); st = dget report ''status'' in
      bind_res (if st = PStr ''concluded''
                then bind_res (py_float fl (py_or (dget report ''confidence'') (PInt 0)))
                       (\<lambda>c. Inr (l_threshold (lvars w) \<le> c))
                else Inr False) (\<lambda>concluded.
      if concluded then
        Inr (call ''plan_remediation''
          [(''investigation_id'', c_inv (ctx w)), (''rca_report'', opt_dict (last_report (me w)))]
          AtPlanRemediation w)
      else if st = PStr ''inconclusive'' \<and> \<not> truthy (dget report ''missing_info'')
      then Inr (needs_human ''inconclusive'' w)
      else plan_next_call w))"

definition next_request :: "(string \<Rightarrow> rat option) \<Rightarrow> wf \<Rightarrow> wf" where
  "next_request fl w =
     orcrash w (case l_reqs (lvars w) of
       [] \<Rightarrow> after_requests fl w
     | PDict req # rest \<Rightarrow>
         Inr (call ''static_validate_raw_command''
           [(''command'', dget req ''command''), (''investigation_id'', c_inv (ctx w))]
           (AtValidate req) (set_loc (\<lambda>l. l\<lparr>l_reqs := rest\<rparr>) w))
     | _ \<Rightarrow> Inl (OtherError ''AttributeError''))"

definition on_record_iteration :: "(string \<Rightarrow> rat option) \<Rightarrow> wf \<Rightarrow> wf" where
  "on_record_iteration fl w =
     orcrash w (bind_res (py_iter (py_or (dget (l_report (lvars w)) ''raw_command_requests'') (PList [])))
       (\<lambda>reqs. Inr (next_request fl (set_loc (\<lambda>l. l\<lparr>l_reqs := reqs\<rparr>) w))))"

definition on_validate :: "(string \<Rightarrow> rat option) \<Rightarrow> dict \<Rightarrow> pyval \<Rightarrow> wf \<Rightarrow> wf" where
  "on_validate fl req validation w =
     orcrash w (bind_res (py_get validation ''ok'') (\<lambda>ok.
       Inr (if truthy ok then request_approval (RawGate req) w else next_request fl w)))"

definition on_run_raw :: "(string \<Rightarrow> rat option) \<Rightarrow> pyval \<Rightarrow> wf \<Rightarrow> wf" where
  "on_run_raw fl extra w =
     orcrash w (bind_res (extend_evidence extra w) (\<lambda>w1. Inr (next_request fl w1)))"

section \<open>Remediation\<close>

definition next_action :: "wf \<Rightarrow> wf" where
  "next_action w =
     (case l_todo (lvars w) of
        [] \<Rightarrow>
          if l_executed_any (lvars w) then
            call ''close_resolved''
              [(''investigation_id'', c_inv (ctx w)), (''rca_report'', opt_dict (last_report (me w)))]
              AtCloseResolved w
          else close_with_summary_call ''remediation_denied'' w
      | a # rest \<Rightarrow> request_approval (RemGate (as_dict a)) (set_loc (\<lambda>l. l\<lparr>l_todo := rest\<rparr>) w))"

definition ADVICE_KINDS :: "string list" where
  "ADVICE_KINDS = [''ignore'', ''manual_recommendation'', ''code_fix_recommendation'']"

definition on_plan_remediation :: "pyval \<Rightarrow> wf \<Rightarrow> wf" where
  "on_plan_remediation remv w =
     orcrash w (
       bind_res (py_get remv ''proposed_actions'') (\<lambda>pa.
       bind_res (py_iter (py_or pa (PList []))) (\<lambda>actions.
       let compact = dget (as_dict remv) ''rca_compact'';
           w1 = set_loc (\<lambda>l. l\<lparr>l_actions := actions, l_executed_any := False, l_applied := []\<rparr>)
                 (set_me (\<lambda>s. s\<lparr>last_report := (case last_report s of None \<Rightarrow> None
                    | Some r \<Rightarrow> if truthy compact then Some (dset r ''rca_compact'' compact) else Some r)\<rparr>) w) in
       bind_res (map_res (\<lambda>a. py_get a ''kind'') actions) (\<lambda>kinds.
       if list_all (\<lambda>k. k \<in> PStr ` set ADVICE_KINDS) kinds
       then Inr (close_with_summary_call ''summary_only'' w1)
       else Inr (next_action (set_loc (\<lambda>l. l\<lparr>l_todo :=
              filter (\<lambda>a. dget (as_dict a) ''kind'' = PStr ''playbook'') actions\<rparr>) w1))))))"

definition verify_call :: "dict \<Rightarrow> pyval \<Rightarrow> wf \<Rightarrow> wf" where
  "verify_call action execution_id' w =
     call ''verify_fix''
       [(''investigation_id'', c_inv (ctx w)),
        (''verification_plan'', py_or (dget action ''verification_plan'') (PList [])),
        (''force_fail'', dget_or action ''_force_verify_fail'' (PBool False)),
        (''execution_id'', execution_id'), (''playbook_id'', dget action ''playbook_id''),
        (''action'', PDict action), (''platform_key'', c_platform_key (ctx w)),
        (''params'', py_or (dget action ''playbook_params'') (PDict []))] (AtVerify action) w"

definition on_execute :: "(rat \<Rightarrow> string) \<Rightarrow> dict \<Rightarrow> pyval \<Rightarrow> wf \<Rightarrow> wf" where
  "on_execute fr action result w =
     orcrash w (bind_res (py_get result ''ok'') (\<lambda>ok.
       if \<not> truthy ok then Inr (needs_human ''playbook_failed'' w)
       else bind_res (resolve_action_settle_seconds fr action (PDict (c_remediation (ctx w)))
                        (case c_settle_override (ctx w) of Some PNone \<Rightarrow> None | o' \<Rightarrow> o')) (\<lambda>settle.
         let eid = dget (as_dict result) ''execution_id'' in
         if 0 < settle then Inr (w\<lparr>pc := AtSettle action eid\<rparr>)
         else Inr (verify_call action eid w))))"

definition on_verify :: "dict \<Rightarrow> pyval \<Rightarrow> wf \<Rightarrow> wf" where
  "on_verify action verified w =
     orcrash w (bind_res (py_get verified ''ok'') (\<lambda>ok.
       if \<not> truthy ok then Inr (needs_human ''verification_failed'' w)
       else
         let pid = dget action ''playbook_id'' in
         Inr (next_action (set_loc (\<lambda>l. l\<lparr>l_executed_any := True,
           l_applied := (if truthy pid then l_applied l @ [pid] else l_applied l)\<rparr>) w))))"

text \<open>What follows a recorded decision.\<close>

definition raw_feedback :: "(rat \<Rightarrow> string) \<Rightarrow> dict \<Rightarrow> wf \<Rightarrow> wf res" where
  "raw_feedback fr dec w =
     (if dget dec ''decision'' = PStr ''need_more'' \<or> dget dec ''decision'' = PStr ''denied'' then
        (case py_or (dget dec ''comment'') (PStr []) of
           PStr c \<Rightarrow>
             if str_strip c \<noteq> [] then Inr (set_ctx (\<lambda>x. x\<lparr>c_feedback := c_feedback x @ [str_strip c]\<rparr>) w)
             else Inr w
         | _ \<Rightarrow> Inl (OtherError ''AttributeError''))
      else Inr w)"

definition on_record_decision ::
  "(rat \<Rightarrow> string) \<Rightarrow> (string \<Rightarrow> rat option) \<Rightarrow> gate \<Rightarrow> dict \<Rightarrow> wf \<Rightarrow> wf" where
  "on_record_decision fr fl g dec w0 =
     (let w = set_me (\<lambda>s. s\<lparr>w_status := ''INVESTIGATING''\<rparr>) w0 in
      case g of
        RawGate req \<Rightarrow>
          orcrash w (bind_res (raw_feedback fr dec w) (\<lambda>w1.
            if dget dec ''decision'' = PStr ''approved'' then
              Inr (call ''run_raw_command''
                [(''investigation_id'', c_inv (ctx w1)), (''platform_key'', c_platform_key (ctx w1)),
                 (''command'', dget req ''command''), (''round'', PInt (l_round (lvars w1)))] AtRunRaw w1)
            else Inr (next_request fl w1)))
      | RemGate action \<Rightarrow>
          if dget dec ''decision'' = PStr ''approved'' then
            call ''execute_playbook''
              [(''investigation_id'', c_inv (ctx w)), (''action'', PDict action),
               (''platform_key'', c_platform_key (ctx w)), (''deployment'', c_deployment (ctx w)),
               (''approved_by'', dget dec ''decided_by'')] (AtExecute action) w
          else next_action w)"

section \<open>Transitions\<close>

datatype wevent =
    Result pyval | Failure | SignalPause | SignalResume | SignalAbort
  | SignalBudget dict | SignalDecision dict | Timer

text \<open>The activity the workflow waits for answered.\<close>

definition on_result :: "(rat \<Rightarrow> string) \<Rightarrow> (string \<Rightarrow> rat option) \<Rightarrow> int \<Rightarrow> pyval \<Rightarrow> wf \<Rightarrow> wf" where
  "on_result fr fl now v w =
     (case pc w of
        AtCreateCase \<Rightarrow> on_create_case fl v w
      | AtRejectCase reason \<Rightarrow> on_reject_case fr reason v w
      | AtNotifyRejected result \<Rightarrow> w\<lparr>pc := Finished result\<rparr>
      | AtPlanInitial \<Rightarrow> on_plan_initial fl now v w
      | AtGetSpend \<Rightarrow> on_get_spend fl now v w
      | AtCollect sp \<Rightarrow> on_collect sp v w
      | AtAnalyze \<Rightarrow> on_analyze v w
      | AtRecordIteration \<Rightarrow> on_record_iteration fl w
      | AtValidate req \<Rightarrow> on_validate fl req v w
      | AtCreateApproval g \<Rightarrow> on_create_approval fr g v w
      | AtNotifyApproval g aidv aid \<Rightarrow> await_approval fr g aidv aid w
      | AtRecordDecision g dec \<Rightarrow> on_record_decision fr fl g dec w
      | AtRunRaw \<Rightarrow> on_run_raw fl v w
      | AtPlanNext \<Rightarrow> loop_head now (l_round (lvars w) + 1) (set_loc (\<lambda>l. l\<lparr>l_plan := v\<rparr>) w)
      | AtPlanRemediation \<Rightarrow> on_plan_remediation v w
      | AtCloseSummary \<Rightarrow> on_close_summary v w
      | AtExecute action \<Rightarrow> on_execute fr action v w
      | AtVerify action \<Rightarrow> on_verify action v w
      | AtCloseResolved \<Rightarrow> on_close_resolved v w
      | AtNotifyResolved result \<Rightarrow> finish_with_report result w
      | AtNeedsHuman reason \<Rightarrow> on_needs_human reason v w
      | AtNotifyNeedsHuman result \<Rightarrow> finish_with_report result w
      | _ \<Rightarrow> w)"

text \<open>The activity failed for good: \<open>_notify\<close> swallows it, everything else fails the workflow.\<close>

definition awaited :: "wpc \<Rightarrow> string option" where
  "awaited p = (case p of
     AtCreateCase \<Rightarrow> Some ''create_case'' | AtRejectCase _ \<Rightarrow> Some ''reject_case''
   | AtPlanInitial \<Rightarrow> Some ''plan_initial'' | AtGetSpend \<Rightarrow> Some ''get_spend''
   | AtCollect _ \<Rightarrow> Some ''collect'' | AtAnalyze \<Rightarrow> Some ''analyze''
   | AtRecordIteration \<Rightarrow> Some ''record_iteration'' | AtValidate _ \<Rightarrow> Some ''static_validate_raw_command''
   | AtCreateApproval _ \<Rightarrow> Some ''create_approval'' | AtRecordDecision _ _ \<Rightarrow> Some ''record_approval_decision''
   | AtRunRaw \<Rightarrow> Some ''run_raw_command'' | AtPlanNext \<Rightarrow> Some ''plan_next''
   | AtPlanRemediation \<Rightarrow> Some ''plan_remediation'' | AtCloseSummary \<Rightarrow> Some ''close_with_summary''
   | AtExecute _ \<Rightarrow> Some ''execute_playbook'' | AtVerify _ \<Rightarrow> Some ''verify_fix''
   | AtCloseResolved \<Rightarrow> Some ''close_resolved'' | AtNeedsHuman _ \<Rightarrow> Some ''to_needs_human''
   | AtNotifyRejected _ \<Rightarrow> Some ''send_notifications'' | AtNotifyApproval _ _ _ \<Rightarrow> Some ''send_notifications''
   | AtNotifyResolved _ \<Rightarrow> Some ''send_notifications'' | AtNotifyNeedsHuman _ \<Rightarrow> Some ''send_notifications''
   | _ \<Rightarrow> None)"

definition on_failure :: "(rat \<Rightarrow> string) \<Rightarrow> wf \<Rightarrow> wf" where
  "on_failure fr w =
     (case pc w of
        AtNotifyRejected result \<Rightarrow> w\<lparr>pc := Finished result\<rparr>
      | AtNotifyApproval g aidv aid \<Rightarrow> await_approval fr g aidv aid w
      | AtNotifyResolved result \<Rightarrow> finish_with_report result w
      | AtNotifyNeedsHuman result \<Rightarrow> finish_with_report result w
      | p \<Rightarrow> (case awaited p of Some a \<Rightarrow> w\<lparr>pc := ActivityFailed a\<rparr> | None \<Rightarrow> w))"

text \<open>After a signal the conditions the workflow waits on are evaluated again.\<close>

definition recheck_waits :: "(rat \<Rightarrow> string) \<Rightarrow> int \<Rightarrow> wf \<Rightarrow> wf" where
  "recheck_waits fr now w =
     (case pc w of
        AtPaused \<Rightarrow> wait_if_paused now w
      | AtAwaitApproval g aidv aid \<Rightarrow> await_approval fr g aidv aid w
      | _ \<Rightarrow> w)"

definition on_timer :: "wf \<Rightarrow> wf" where
  "on_timer w =
     (case pc w of
        AtAwaitApproval g aidv aid \<Rightarrow> approval_timeout g aidv w
      | AtSettle action eid \<Rightarrow> verify_call action eid w
      | _ \<Rightarrow> w)"

definition log_entry :: "entry \<Rightarrow> wf \<Rightarrow> wf" where
  "log_entry e w = w\<lparr>wlog := wlog w @ [e]\<rparr>"

definition workflow_step :: "(rat \<Rightarrow> string) \<Rightarrow> (string \<Rightarrow> rat option) \<Rightarrow> int \<Rightarrow> wevent \<Rightarrow> wf \<Rightarrow> wf" where
  "workflow_step fr fl now ev w =
     (case ev of
        Result v \<Rightarrow>
          (case awaited (pc w) of None \<Rightarrow> w | Some a \<Rightarrow> on_result fr fl now v (log_entry (Ret a v) w))
      | Failure \<Rightarrow> on_failure fr w
      | Timer \<Rightarrow> on_timer w
      | SignalPause \<Rightarrow> sig_pause w
      | SignalResume \<Rightarrow> recheck_waits fr now (sig_resume w)
      | SignalAbort \<Rightarrow> recheck_waits fr now (sig_abort w)
      | SignalBudget b \<Rightarrow> sig_adjust_budget b w
      | SignalDecision p \<Rightarrow>
          recheck_waits fr now (sig_approval_decided fr p (log_entry (Sig ''approval_decided'' p) w)))"

inductive wreach :: "(rat \<Rightarrow> string) \<Rightarrow> (string \<Rightarrow> rat option) \<Rightarrow> wf \<Rightarrow> bool" for fr fl where
  Start: "wreach fr fl (start wid event input)"
| Step: "wreach fr fl w \<Longrightarrow> wreach fr fl (workflow_step fr fl now ev w)"

lemmas handler_defs = on_create_case_def on_reject_case_def on_plan_initial_def on_get_spend_def
  on_collect_def on_analyze_def on_record_iteration_def on_validate_def on_create_approval_def
  on_record_decision_def on_run_raw_def on_plan_remediation_def on_close_summary_def on_execute_def
  on_verify_def on_close_resolved_def on_needs_human_def

lemmas piece_defs = needs_human_def finish_with_report_def close_with_summary_call_def request_approval_def
  record_decision_def await_approval_def approval_timeout_def after_pause_def wait_if_paused_def
  loop_head_def next_action_def verify_call_def

end
