(* ===== verification/WorkflowSafety.thy ===== *)
theory WorkflowSafety
  imports Workflow
begin

text \<open>
  What the investigation workflow guarantees in every reachable state, for any activity results,
  signals and timers: nothing is executed without an approval, a case is resolved only after an
  executed and verified playbook, terminal states are final, and the number of rounds is bounded.
  Each invariant is proved handler by handler.
\<close>

section \<open>No execution without an approval\<close>

text \<open>The gate \<open>g\<close> was requested, and answered by \<open>create_approval\<close> with the id \<open>aid\<close>.\<close>

definition gate_requested :: "gate \<Rightarrow> entry list \<Rightarrow> bool" where
  "gate_requested g lg \<longleftrightarrow> (\<exists>args. Call ''create_approval'' args \<in> set lg \<and>
     dget args ''kind'' = PStr (gate_kind g) \<and> dget args ''subject'' = PDict (gate_subject g))"

definition gate_open :: "(rat \<Rightarrow> string) \<Rightarrow> gate \<Rightarrow> string \<Rightarrow> entry list \<Rightarrow> bool" where
  "gate_open fr g aid lg \<longleftrightarrow> gate_requested g lg \<and>
     (\<exists>v aidv. Ret ''create_approval'' v \<in> set lg \<and> py_item v ''approval_id'' = Inr aidv \<and> py_str fr aidv = aid)"

text \<open>A signal with that id and the decision \<open>approved\<close> was delivered.\<close>

definition signalled_approved :: "(rat \<Rightarrow> string) \<Rightarrow> string \<Rightarrow> entry list \<Rightarrow> bool" where
  "signalled_approved fr aid lg \<longleftrightarrow> (\<exists>payload. Sig ''approval_decided'' payload \<in> set lg \<and>
     approval_id_of fr payload = aid \<and> dget payload ''decision'' = PStr ''approved'')"

definition approved :: "(rat \<Rightarrow> string) \<Rightarrow> gate \<Rightarrow> entry list \<Rightarrow> bool" where
  "approved fr g lg \<longleftrightarrow> (\<exists>aid. gate_open fr g aid lg \<and> signalled_approved fr aid lg)"

definition validated :: "dict \<Rightarrow> entry list \<Rightarrow> bool" where
  "validated req lg \<longleftrightarrow>
     (\<exists>args. Call ''static_validate_raw_command'' args \<in> set lg \<and> dget args ''command'' = dget req ''command'') \<and>
     (\<exists>v ok. Ret ''static_validate_raw_command'' v \<in> set lg \<and> py_get v ''ok'' = Inr ok \<and> truthy ok)"

text \<open>What must precede a call in the log.\<close>

definition justified :: "(rat \<Rightarrow> string) \<Rightarrow> entry list \<Rightarrow> entry \<Rightarrow> bool" where
  "justified fr before e = (case e of
     Call n args \<Rightarrow>
       (n = ''execute_playbook'' \<longrightarrow>
          (\<exists>action. dget args ''action'' = PDict action \<and> approved fr (RemGate action) before)) \<and>
       (n = ''run_raw_command'' \<longrightarrow>
          (\<exists>req. dget args ''command'' = dget req ''command'' \<and> approved fr (RawGate req) before \<and>
             validated req before))
   | _ \<Rightarrow> True)"

definition good_log :: "(rat \<Rightarrow> string) \<Rightarrow> entry list \<Rightarrow> bool" where
  "good_log fr lg \<longleftrightarrow> (\<forall>i < length lg. justified fr (take i lg) (lg ! i))"

text \<open>Obligations of the suspension points.\<close>

definition pc_ok :: "(rat \<Rightarrow> string) \<Rightarrow> wpc \<Rightarrow> entry list \<Rightarrow> bool" where
  "pc_ok fr p lg = (case p of
     AtValidate req \<Rightarrow> (\<exists>args. Call ''static_validate_raw_command'' args \<in> set lg \<and>
        dget args ''command'' = dget req ''command'')
   | AtCreateApproval g \<Rightarrow> gate_requested g lg \<and> (\<forall>req. g = RawGate req \<longrightarrow> validated req lg)
   | AtNotifyApproval g aidv aid \<Rightarrow> gate_open fr g aid lg \<and> (\<forall>req. g = RawGate req \<longrightarrow> validated req lg)
   | AtAwaitApproval g aidv aid \<Rightarrow> gate_open fr g aid lg \<and> (\<forall>req. g = RawGate req \<longrightarrow> validated req lg)
   | AtRecordDecision g dec \<Rightarrow>
       (\<forall>req. g = RawGate req \<longrightarrow> validated req lg) \<and>
       (dget dec ''decision'' = PStr ''approved'' \<longrightarrow> approved fr g lg)
   | _ \<Rightarrow> True)"

definition decision_ok :: "dict option \<Rightarrow> entry list \<Rightarrow> bool" where
  "decision_ok ad lg \<longleftrightarrow> (\<forall>d. ad = Some d \<longrightarrow> Sig ''approval_decided'' d \<in> set lg)"

definition appr_inv :: "(rat \<Rightarrow> string) \<Rightarrow> wf \<Rightarrow> bool" where
  "appr_inv fr w \<longleftrightarrow> good_log fr (wlog w) \<and> decision_ok (approval_decision (me w)) (wlog w) \<and>
     pc_ok fr (pc w) (wlog w)"

subsection \<open>The log only grows\<close>

lemma good_log_snoc: "good_log fr (lg @ [e]) \<longleftrightarrow> good_log fr lg \<and> justified fr lg e"
  by (auto simp: good_log_def nth_append less_Suc_eq)

lemma good_log_split: "good_log fr (before @ e # after) \<Longrightarrow> justified fr before e"
  unfolding good_log_def by (drule spec[of _ "length before"]) simp

lemma mono_snoc:
  "gate_requested g lg \<Longrightarrow> gate_requested g (lg @ [e])"
  "gate_open fr g aid lg \<Longrightarrow> gate_open fr g aid (lg @ [e])"
  "signalled_approved fr aid lg \<Longrightarrow> signalled_approved fr aid (lg @ [e])"
  "approved fr g lg \<Longrightarrow> approved fr g (lg @ [e])"
  "validated req lg \<Longrightarrow> validated req (lg @ [e])"
  "decision_ok ad lg \<Longrightarrow> decision_ok ad (lg @ [e])"
  unfolding gate_requested_def gate_open_def signalled_approved_def approved_def validated_def decision_ok_def
  by auto

lemma pc_ok_snoc: "pc_ok fr p lg \<Longrightarrow> pc_ok fr p (lg @ [e])"
  by (auto simp: pc_ok_def mono_snoc split: wpc.splits)

definition base_inv :: "(rat \<Rightarrow> string) \<Rightarrow> wf \<Rightarrow> bool" where
  "base_inv fr w \<longleftrightarrow> good_log fr (wlog w) \<and> decision_ok (approval_decision (me w)) (wlog w)"

text \<open>Points without obligations, and calls that need no justification.\<close>

definition plain_pc :: "wpc \<Rightarrow> bool" where
  "plain_pc p = (case p of AtValidate _ \<Rightarrow> False | AtCreateApproval _ \<Rightarrow> False | AtNotifyApproval _ _ _ \<Rightarrow> False
     | AtAwaitApproval _ _ _ \<Rightarrow> False | AtRecordDecision _ _ \<Rightarrow> False | _ \<Rightarrow> True)"

definition plain_call :: "string \<Rightarrow> bool" where
  "plain_call n \<longleftrightarrow> n \<noteq> ''execute_playbook'' \<and> n \<noteq> ''run_raw_command''"

lemma plain_pc_ok [simp]: "plain_pc p \<Longrightarrow> pc_ok fr p lg"
  by (auto simp: plain_pc_def pc_ok_def split: wpc.splits)

lemma appr_inv_base: "appr_inv fr w \<Longrightarrow> base_inv fr w"
  by (simp add: appr_inv_def base_inv_def)

lemma base_call:
  "base_inv fr w \<Longrightarrow> plain_call n \<Longrightarrow> pc_ok fr p (wlog w @ [Call n args]) \<Longrightarrow> appr_inv fr (call n args p w)"
  by (simp add: appr_inv_def base_inv_def call_def good_log_snoc mono_snoc justified_def plain_call_def)

lemma base_pc: "base_inv fr w \<Longrightarrow> plain_pc p \<Longrightarrow> appr_inv fr (w\<lparr>pc := p\<rparr>)"
  by (simp add: appr_inv_def base_inv_def)

lemma base_orcrash:
  "base_inv fr w \<Longrightarrow> (\<And>w'. r = Inr w' \<Longrightarrow> appr_inv fr w') \<Longrightarrow> appr_inv fr (orcrash w r)"
  by (cases r) (auto simp: orcrash_def intro: base_pc simp: plain_pc_def)

lemma base_fields:
  "wlog w' = wlog w \<Longrightarrow> approval_decision (me w') = approval_decision (me w) \<Longrightarrow> base_inv fr w \<Longrightarrow> base_inv fr w'"
  by (simp add: base_inv_def)

lemma base_set [simp]:
  "base_inv fr (set_loc f w) = base_inv fr w"
  "base_inv fr (set_ctx h w) = base_inv fr w"
  by (simp_all add: base_inv_def)

subsection \<open>Every handler keeps the invariant\<close>

lemma approvedI:
  "gate_open fr g aid lg \<Longrightarrow> Sig ''approval_decided'' d \<in> set lg \<Longrightarrow> approval_id_of fr d = aid \<Longrightarrow>
   dget d ''decision'' = PStr ''approved'' \<Longrightarrow> approved fr g lg"
  unfolding approved_def signalled_approved_def by blast

lemma gate_openI:
  "gate_requested g lg \<Longrightarrow> Ret ''create_approval'' v \<in> set lg \<Longrightarrow> py_item v ''approval_id'' = Inr aidv \<Longrightarrow>
   gate_open fr g (py_str fr aidv) lg"
  unfolding gate_open_def by blast

lemma pc_ok_validateI:
  "Call ''static_validate_raw_command'' args \<in> set lg \<Longrightarrow> dget args ''command'' = dget req ''command'' \<Longrightarrow>
   pc_ok fr (AtValidate req) lg"
  unfolding pc_ok_def by auto

lemma inv_needs_human: "base_inv fr w \<Longrightarrow> appr_inv fr (needs_human reason w)"
  by (simp add: needs_human_def base_call plain_call_def plain_pc_def)

lemma inv_finish: "base_inv fr w \<Longrightarrow> appr_inv fr (finish_with_report v w)"
  unfolding finish_with_report_def
  by (rule base_orcrash) (auto intro: base_pc simp: plain_pc_def split: pyval.splits)

lemma inv_summary: "base_inv fr w \<Longrightarrow> appr_inv fr (close_with_summary_call reason w)"
  by (simp add: close_with_summary_call_def base_call plain_call_def plain_pc_def)

lemma inv_after_pause: "base_inv fr w \<Longrightarrow> appr_inv fr (after_pause now w)"
  by (simp add: after_pause_def inv_needs_human base_call plain_call_def plain_pc_def)

lemma inv_wait_if_paused: "base_inv fr w \<Longrightarrow> appr_inv fr (wait_if_paused now w)"
  by (simp add: wait_if_paused_def inv_after_pause base_pc plain_pc_def)

lemma inv_loop_head: "base_inv fr w \<Longrightarrow> appr_inv fr (loop_head now r w)"
  by (simp add: loop_head_def inv_needs_human inv_wait_if_paused)

lemma base_no_decision: "base_inv fr w \<Longrightarrow> base_inv fr (set_me (\<lambda>s. s\<lparr>approval_decision := None\<rparr>) w)"
  by (simp add: base_inv_def decision_ok_def)

lemma inv_request_raw:
  "base_inv fr w \<Longrightarrow> validated req (wlog w) \<Longrightarrow> appr_inv fr (request_approval (RawGate req) w)"
  unfolding request_approval_def
  by (rule base_call)
    (auto simp: base_no_decision plain_call_def pc_ok_def gate_requested_def mono_snoc)

lemma inv_request_rem: "base_inv fr w \<Longrightarrow> appr_inv fr (request_approval (RemGate a) w)"
  unfolding request_approval_def
  by (rule base_call)
    (auto simp: base_no_decision plain_call_def pc_ok_def gate_requested_def)

lemma inv_next_action: "base_inv fr w \<Longrightarrow> appr_inv fr (next_action w)"
  by (auto simp: next_action_def inv_summary base_call plain_call_def plain_pc_def
      intro!: inv_request_rem split: list.splits)

lemma inv_record_decision:
  assumes "base_inv fr w" and "\<And>req. g = RawGate req \<Longrightarrow> validated req (wlog w)"
    and "dget dec ''decision'' = PStr ''approved'' \<Longrightarrow> approved fr g (wlog w)"
  shows "appr_inv fr (record_decision g dec aidv t w)"
proof -
  let ?dec = "if has_key dec ''approval_id'' then dec else dset dec ''approval_id'' aidv"
  have "dget ?dec ''decision'' = dget dec ''decision''" by simp
  with assms show ?thesis
    unfolding record_decision_def Let_def
    by (intro base_call) (auto simp: plain_call_def pc_ok_def mono_snoc base_inv_def)
qed

lemma inv_await:
  assumes "base_inv fr w" "pc_ok fr (AtAwaitApproval g aidv aid) (wlog w)"
  shows "appr_inv fr (await_approval fr g aidv aid w)"
proof (cases "decision_made fr aid w")
  case None
  with assms show ?thesis by (simp add: await_approval_def appr_inv_def base_inv_def)
next
  case (Some d)
  then have d: "approval_decision (me w) = Some d" "approval_id_of fr d = aid"
    by (auto simp: decision_made_def split: option.splits if_splits)
  with assms(1) have "Sig ''approval_decided'' d \<in> set (wlog w)"
    by (simp add: base_inv_def decision_ok_def)
  with d assms Some show ?thesis
    by (auto simp: await_approval_def pc_ok_def intro!: inv_record_decision intro: approvedI)
qed

lemma inv_timeout:
  "base_inv fr w \<Longrightarrow> pc_ok fr (AtAwaitApproval g aidv aid) (wlog w) \<Longrightarrow> appr_inv fr (approval_timeout g aidv w)"
  unfolding approval_timeout_def by (rule inv_record_decision) (auto simp: pc_ok_def)

lemma inv_verify_call: "base_inv fr w \<Longrightarrow> appr_inv fr (verify_call a e w)"
  by (simp add: verify_call_def base_call plain_call_def plain_pc_def)

lemma inv_after_requests: "base_inv fr w \<Longrightarrow> after_requests fl w = Inr w' \<Longrightarrow> appr_inv fr w'"
  by (auto simp: after_requests_def plan_next_call_def Let_def res_simps inv_needs_human base_call plain_call_def
      plain_pc_def split: if_splits)

lemma inv_next_request: "base_inv fr w \<Longrightarrow> appr_inv fr (next_request fl w)"
  unfolding next_request_def
  by (rule base_orcrash)
    (auto simp: plain_call_def intro: inv_after_requests intro!: base_call
      pc_ok_validateI[where args = "[(''command'', x), (''investigation_id'', y)]" for x y]
      split: list.splits pyval.splits)

lemma base_extend: "extend_evidence v w = Inr w' \<Longrightarrow> base_inv fr w \<Longrightarrow> base_inv fr w'"
  by (auto simp: extend_evidence_def res_simps)

lemma base_override: "apply_override fl now w = Inr w' \<Longrightarrow> base_inv fr w \<Longrightarrow> base_inv fr w'"
  by (auto simp: apply_override_def Let_def res_simps base_inv_def split: option.splits list.splits)

lemma base_feedback: "raw_feedback fr' dec w = Inr w' \<Longrightarrow> base_inv fr w \<Longrightarrow> base_inv fr w' \<and> wlog w' = wlog w"
  by (auto simp: raw_feedback_def split: if_splits pyval.splits)

lemmas inv_pieces = inv_needs_human inv_finish inv_summary inv_loop_head inv_next_action inv_verify_call
  inv_next_request inv_request_rem

lemma inv_create_case: "base_inv fr w \<Longrightarrow> appr_inv fr (on_create_case fl v w)"
  unfolding on_create_case_def
  by (rule base_orcrash)
    (auto simp: Let_def res_simps plain_call_def plain_pc_def base_inv_def intro!: base_call split: if_splits)

lemma inv_reject_case: "base_inv fr w \<Longrightarrow> appr_inv fr (on_reject_case fr reason v w)"
  unfolding on_reject_case_def by (rule base_call) (auto simp: plain_call_def plain_pc_def base_inv_def)

lemma inv_plan_initial: "base_inv fr w \<Longrightarrow> appr_inv fr (on_plan_initial fl now v w)"
  unfolding on_plan_initial_def Let_def
  by (rule base_orcrash) (auto simp: res_simps base_inv_def intro!: inv_loop_head)

lemma inv_get_spend: "base_inv fr w \<Longrightarrow> appr_inv fr (on_get_spend fl now v w)"
  unfolding on_get_spend_def
  by (rule base_orcrash)
    (auto simp: res_simps plain_call_def plain_pc_def inv_needs_human intro!: base_call
      intro: base_override split: if_splits)

lemma inv_collect: "base_inv fr w \<Longrightarrow> appr_inv fr (on_collect sp v w)"
  unfolding on_collect_def
  by (rule base_orcrash)
    (auto simp: res_simps plain_call_def plain_pc_def intro!: base_call intro: base_extend)

lemma inv_analyze: "base_inv fr w \<Longrightarrow> appr_inv fr (on_analyze v w)"
  unfolding on_analyze_def
  by (rule base_orcrash)
    (auto simp: res_simps Let_def plain_call_def plain_pc_def base_inv_def intro!: base_call
      split: pyval.splits if_splits)

lemma inv_record_iteration: "base_inv fr w \<Longrightarrow> appr_inv fr (on_record_iteration fl w)"
  unfolding on_record_iteration_def
  by (rule base_orcrash) (auto simp: res_simps intro!: inv_next_request)

lemma inv_validate:
  assumes "base_inv fr w" "pc_ok fr (AtValidate req) (wlog w)" "Ret ''static_validate_raw_command'' v \<in> set (wlog w)"
  shows "appr_inv fr (on_validate fl req v w)"
  unfolding on_validate_def
proof (rule base_orcrash[OF assms(1)])
  fix w' assume "bind_res (py_get v ''ok'') (\<lambda>ok.
       Inr (if truthy ok then request_approval (RawGate req) w else next_request fl w)) = Inr w'"
  then obtain ok where ok: "py_get v ''ok'' = Inr ok"
    "w' = (if truthy ok then request_approval (RawGate req) w else next_request fl w)"
    by (auto simp: res_simps)
  have "validated req (wlog w)" if "truthy ok"
    using assms(2,3) ok(1) that by (auto simp: validated_def pc_ok_def)
  with assms(1) ok(2) show "appr_inv fr w'" by (simp add: inv_request_raw inv_next_request)
qed

lemma inv_create_approval:
  assumes "base_inv fr w" "pc_ok fr (AtCreateApproval g) (wlog w)" "Ret ''create_approval'' v \<in> set (wlog w)"
  shows "appr_inv fr (on_create_approval fr g v w)"
  unfolding on_create_approval_def
  by (rule base_orcrash[OF assms(1)])
    (use assms in \<open>auto simp: res_simps Let_def plain_call_def pc_ok_def mono_snoc base_inv_def
      intro!: base_call gate_openI mono_snoc(2)\<close>)

lemma inv_run_raw: "base_inv fr w \<Longrightarrow> appr_inv fr (on_run_raw fl v w)"
  unfolding on_run_raw_def
  by (rule base_orcrash) (auto simp: res_simps intro!: inv_next_request intro: base_extend)

lemma inv_plan_remediation: "base_inv fr w \<Longrightarrow> appr_inv fr (on_plan_remediation v w)"
  unfolding on_plan_remediation_def
  by (rule base_orcrash)
    (auto simp: res_simps Let_def base_inv_def intro!: inv_summary inv_next_action split: if_splits)

lemma inv_execute: "base_inv fr w \<Longrightarrow> appr_inv fr (on_execute fr' a v w)"
  unfolding on_execute_def
  by (rule base_orcrash)
    (auto simp: res_simps Let_def plain_pc_def intro!: inv_needs_human inv_verify_call base_pc split: if_splits)

lemma inv_verify: "base_inv fr w \<Longrightarrow> appr_inv fr (on_verify a v w)"
  unfolding on_verify_def
  by (rule base_orcrash)
    (auto simp: res_simps Let_def base_inv_def intro!: inv_needs_human inv_next_action split: if_splits)

lemma inv_close_resolved: "base_inv fr w \<Longrightarrow> appr_inv fr (on_close_resolved v w)"
  unfolding on_close_resolved_def by (rule base_call) (auto simp: plain_call_def plain_pc_def base_inv_def)

lemma inv_on_needs_human: "base_inv fr w \<Longrightarrow> appr_inv fr (on_needs_human reason v w)"
  unfolding on_needs_human_def Let_def by (rule base_call) (auto simp: plain_call_def plain_pc_def base_inv_def)

lemma inv_close_summary: "base_inv fr w \<Longrightarrow> appr_inv fr (on_close_summary v w)"
  unfolding on_close_summary_def by (rule inv_finish) (simp add: base_inv_def)

lemma call_justified:
  assumes "base_inv fr w" "justified fr (wlog w) (Call n args)" "plain_pc p"
  shows "appr_inv fr (call n args p w)"
  using assms by (simp add: appr_inv_def base_inv_def call_def good_log_snoc mono_snoc)

lemma inv_on_record_decision:
  assumes "base_inv fr w" "pc_ok fr (AtRecordDecision g dec) (wlog w)"
  shows "appr_inv fr (on_record_decision fr' fl g dec w)"
proof -
  let ?w = "set_me (\<lambda>s. s\<lparr>w_status := ''INVESTIGATING''\<rparr>) w"
  have b: "base_inv fr ?w" and lg: "wlog ?w = wlog w" using assms(1) by (simp_all add: base_inv_def)
  show ?thesis
  proof (cases g)
    case (RawGate req)
    have "appr_inv fr w'" if "bind_res (raw_feedback fr' dec ?w) (\<lambda>w1.
            if dget dec ''decision'' = PStr ''approved'' then
              Inr (call ''run_raw_command''
                [(''investigation_id'', c_inv (ctx w1)), (''platform_key'', c_platform_key (ctx w1)),
                 (''command'', dget req ''command''), (''round'', PInt (l_round (lvars w1)))] AtRunRaw w1)
            else Inr (next_request fl w1)) = Inr w'" for w'
    proof -
      from that obtain w1 where w1: "raw_feedback fr' dec ?w = Inr w1"
        and w': "w' = (if dget dec ''decision'' = PStr ''approved'' then
              call ''run_raw_command''
                [(''investigation_id'', c_inv (ctx w1)), (''platform_key'', c_platform_key (ctx w1)),
                 (''command'', dget req ''command''), (''round'', PInt (l_round (lvars w1)))] AtRunRaw w1
            else next_request fl w1)"
        by (auto simp: res_simps split: if_splits)
      from base_feedback[OF w1 b] have "base_inv fr w1" "wlog w1 = wlog w" by (simp_all add: lg)
      with assms(2) RawGate w' show ?thesis
        by (auto simp: pc_ok_def justified_def plain_pc_def intro!: call_justified inv_next_request exI[of _ req])
    qed
    with RawGate b show ?thesis
      by (simp add: on_record_decision_def Let_def base_orcrash)
  next
    case (RemGate action)
    with assms b show ?thesis
      by (auto simp: on_record_decision_def Let_def pc_ok_def justified_def plain_pc_def
          intro!: call_justified inv_next_action)
  qed
qed

lemma inv_on_result:
  assumes "appr_inv fr w" "awaited (pc w) = Some a"
  shows "appr_inv fr (on_result fr fl now v (log_entry (Ret a v) w))"
proof -
  let ?w = "log_entry (Ret a v) w"
  have b: "base_inv fr ?w" and p: "pc_ok fr (pc ?w) (wlog ?w)" and r: "Ret a v \<in> set (wlog ?w)"
    using assms(1) by (simp_all add: appr_inv_def base_inv_def log_entry_def good_log_snoc justified_def
        mono_snoc pc_ok_snoc)
  have pcw: "pc ?w = pc w" by (simp add: log_entry_def)
  note rules = inv_create_case[OF b] inv_reject_case[OF b] inv_plan_initial[OF b] inv_get_spend[OF b]
    inv_collect[OF b] inv_analyze[OF b] inv_record_iteration[OF b] inv_run_raw[OF b]
    inv_plan_remediation[OF b] inv_close_summary[OF b] inv_execute[OF b] inv_verify[OF b]
    inv_close_resolved[OF b] inv_on_needs_human[OF b] inv_finish[OF b]
  show ?thesis
    using assms(2) p r b
    by (cases "pc w") (auto simp: on_result_def pcw awaited_def rules pc_ok_def[of fr "AtAwaitApproval g x y" for g x y]
        pc_ok_def[of fr "AtNotifyApproval g x y" for g x y] plain_pc_def
        intro!: inv_validate inv_create_approval inv_await inv_on_record_decision inv_loop_head base_pc)
qed

lemma inv_on_failure: "appr_inv fr w \<Longrightarrow> appr_inv fr (on_failure fr w)"
proof -
  assume inv: "appr_inv fr w"
  note b = appr_inv_base[OF inv]
  from inv have p: "pc_ok fr (pc w) (wlog w)" by (simp add: appr_inv_def)
  show ?thesis
    using p b inv
    by (cases "pc w") (auto simp: on_failure_def awaited_def pc_ok_def[of fr "AtAwaitApproval g x y" for g x y]
        pc_ok_def[of fr "AtNotifyApproval g x y" for g x y] plain_pc_def intro!: inv_await inv_finish base_pc)
qed

lemma inv_recheck: "appr_inv fr w \<Longrightarrow> appr_inv fr (recheck_waits fr now w)"
  using appr_inv_base[of fr w]
  by (cases "pc w") (auto simp: recheck_waits_def appr_inv_def[of fr w] intro!: inv_await inv_wait_if_paused)

lemma inv_timer: "appr_inv fr w \<Longrightarrow> appr_inv fr (on_timer w)"
  using appr_inv_base[of fr w]
  by (cases "pc w") (auto simp: on_timer_def appr_inv_def[of fr w] intro: inv_timeout inv_verify_call)

lemma inv_signals:
  "appr_inv fr w \<Longrightarrow> appr_inv fr (sig_pause w)"
  "appr_inv fr w \<Longrightarrow> appr_inv fr (sig_resume w)"
  "appr_inv fr w \<Longrightarrow> appr_inv fr (sig_abort w)"
  "appr_inv fr w \<Longrightarrow> appr_inv fr (sig_adjust_budget bd w)"
  by (simp_all add: sig_pause_def sig_resume_def sig_abort_def sig_adjust_budget_def appr_inv_def)

lemma inv_decision_signal:
  "appr_inv fr w \<Longrightarrow> appr_inv fr (sig_approval_decided fr p (log_entry (Sig ''approval_decided'' p) w))"
  by (auto simp: sig_approval_decided_def log_entry_def appr_inv_def good_log_snoc justified_def mono_snoc
      pc_ok_snoc decision_ok_def Let_def split: option.splits)

lemma inv_workflow_step: "appr_inv fr w \<Longrightarrow> appr_inv fr (workflow_step fr fl now ev w)"
  by (cases ev) (auto simp: workflow_step_def inv_on_failure inv_timer inv_signals inv_recheck
      inv_decision_signal split: option.splits intro: inv_on_result)

lemma inv_start: "appr_inv fr (start wid event input)"
  by (simp add: start_def appr_inv_def call_def good_log_def justified_def initial_self_def decision_ok_def
      plain_pc_def)

lemma inv_wreach: "wreach fr fl w \<Longrightarrow> appr_inv fr w"
  by (induction rule: wreach.induct) (auto intro: inv_start inv_workflow_step)

section \<open>Terminal states\<close>

definition endgame :: "wpc \<Rightarrow> bool" where
  "endgame p = (case p of AtNotifyRejected _ \<Rightarrow> True | AtNotifyResolved _ \<Rightarrow> True
     | AtNotifyNeedsHuman _ \<Rightarrow> True | Finished _ \<Rightarrow> True | Crashed _ \<Rightarrow> True | _ \<Rightarrow> False)"

text \<open>A terminal status is only ever held at the end, and a finished workflow holds one.\<close>

definition end_inv :: "wf \<Rightarrow> bool" where
  "end_inv w \<longleftrightarrow>
     (w_status (me w) \<in> set TERMINAL \<longrightarrow> endgame (pc w)) \<and>
     ((\<exists>v. pc w = AtNotifyRejected v \<or> pc w = AtNotifyResolved v \<or> pc w = AtNotifyNeedsHuman v \<or> pc w = Finished v) \<longrightarrow>
        w_status (me w) \<in> set TERMINAL)"

definition live :: "wf \<Rightarrow> bool" where
  "live w \<longleftrightarrow> w_status (me w) \<notin> set TERMINAL"

definition midgame :: "wpc \<Rightarrow> bool" where
  "midgame p = (case p of AtNotifyRejected _ \<Rightarrow> False | AtNotifyResolved _ \<Rightarrow> False
     | AtNotifyNeedsHuman _ \<Rightarrow> False | Finished _ \<Rightarrow> False | _ \<Rightarrow> True)"

lemma end_call: "live w \<Longrightarrow> midgame p \<Longrightarrow> end_inv (call n args p w)"
  by (auto simp: end_inv_def call_def live_def midgame_def split: wpc.splits)

lemma end_pc: "live w \<Longrightarrow> midgame p \<Longrightarrow> end_inv (w\<lparr>pc := p\<rparr>)"
  by (auto simp: end_inv_def live_def midgame_def split: wpc.splits)

lemma end_orcrash:
  "live w \<Longrightarrow> (\<And>w'. r = Inr w' \<Longrightarrow> end_inv w') \<Longrightarrow> end_inv (orcrash w r)"
  by (cases r) (auto simp: orcrash_def midgame_def intro: end_pc)

lemma end_terminal_call:
  "w_status (me w) \<in> set TERMINAL \<Longrightarrow> endgame p \<Longrightarrow> end_inv (call n args p w)"
  by (auto simp: end_inv_def call_def endgame_def split: wpc.splits)

lemma live_set [simp]:
  "live (set_loc f w) = live w" "live (set_ctx h w) = live w"
  "live (set_me (\<lambda>s. s\<lparr>approval_decision := a\<rparr>) w) = live w"
  "live (set_me (\<lambda>s. s\<lparr>awaiting_approval_id := b\<rparr>) w) = live w"
  by (simp_all add: live_def)

lemma end_needs_human: "live w \<Longrightarrow> end_inv (needs_human reason w)"
  by (simp add: needs_human_def end_call midgame_def)

lemma end_summary: "live w \<Longrightarrow> end_inv (close_with_summary_call reason w)"
  by (simp add: close_with_summary_call_def end_call midgame_def)

lemma end_wait_if_paused: "live w \<Longrightarrow> end_inv (wait_if_paused now w)"
  by (simp add: wait_if_paused_def after_pause_def end_needs_human end_call end_pc midgame_def)

lemma end_loop_head: "live w \<Longrightarrow> end_inv (loop_head now r w)"
  by (simp add: loop_head_def end_needs_human end_wait_if_paused)

lemma end_request: "live w \<Longrightarrow> end_inv (request_approval g w)"
  by (simp add: request_approval_def end_call midgame_def)

lemma end_next_action: "live w \<Longrightarrow> end_inv (next_action w)"
  by (auto simp: next_action_def end_summary end_call midgame_def intro!: end_request split: list.splits)

lemma end_record_decision: "live w \<Longrightarrow> end_inv (record_decision g dec a t w)"
  by (simp add: record_decision_def Let_def end_call midgame_def)

lemma end_await: "live w \<Longrightarrow> end_inv (await_approval fr g a b w)"
  by (simp add: await_approval_def end_record_decision end_pc midgame_def split: option.splits)

lemma end_verify_call: "live w \<Longrightarrow> end_inv (verify_call a e w)"
  by (simp add: verify_call_def end_call midgame_def)

lemma end_next_request: "live w \<Longrightarrow> end_inv (next_request fl w)"
  unfolding next_request_def
  by (rule end_orcrash)
    (auto simp: after_requests_def plan_next_call_def Let_def res_simps end_needs_human midgame_def
      intro!: end_call split: list.splits pyval.splits if_splits)

lemma live_extend: "extend_evidence v w = Inr w' \<Longrightarrow> live w \<Longrightarrow> live w'"
  by (auto simp: extend_evidence_def res_simps)

lemma live_override: "apply_override fl now w = Inr w' \<Longrightarrow> live w \<Longrightarrow> live w'"
  by (auto simp: apply_override_def Let_def res_simps live_def split: option.splits list.splits)

lemma live_feedback: "raw_feedback fr dec w = Inr w' \<Longrightarrow> live w \<Longrightarrow> live w'"
  by (auto simp: raw_feedback_def split: if_splits pyval.splits)

lemmas end_pieces = end_needs_human end_summary end_loop_head end_next_action end_await end_verify_call
  end_next_request end_request

lemma end_create_case: "live w \<Longrightarrow> end_inv (on_create_case fl v w)"
  unfolding on_create_case_def
  by (rule end_orcrash)
    (auto simp: Let_def res_simps midgame_def live_def TERMINAL_def intro!: end_call split: if_splits)

lemma end_plan_initial: "live w \<Longrightarrow> end_inv (on_plan_initial fl now v w)"
  unfolding on_plan_initial_def Let_def
  by (rule end_orcrash) (auto simp: res_simps live_def TERMINAL_def intro!: end_loop_head)

lemma end_get_spend: "live w \<Longrightarrow> end_inv (on_get_spend fl now v w)"
  unfolding on_get_spend_def
  by (rule end_orcrash)
    (auto simp: res_simps midgame_def end_needs_human intro!: end_call intro: live_override split: if_splits)

lemma end_collect: "live w \<Longrightarrow> end_inv (on_collect sp v w)"
  unfolding on_collect_def
  by (rule end_orcrash) (auto simp: res_simps midgame_def intro!: end_call intro: live_extend)

lemma end_analyze: "live w \<Longrightarrow> end_inv (on_analyze v w)"
  unfolding on_analyze_def
  by (rule end_orcrash)
    (auto simp: res_simps Let_def midgame_def live_def intro!: end_call split: pyval.splits if_splits)

lemma end_record_iteration: "live w \<Longrightarrow> end_inv (on_record_iteration fl w)"
  unfolding on_record_iteration_def
  by (rule end_orcrash) (auto simp: res_simps intro!: end_next_request)

lemma end_validate: "live w \<Longrightarrow> end_inv (on_validate fl req v w)"
  unfolding on_validate_def
  by (rule end_orcrash) (auto simp: res_simps intro!: end_next_request end_request)

lemma end_create_approval: "live w \<Longrightarrow> end_inv (on_create_approval fr g v w)"
  unfolding on_create_approval_def
  by (rule end_orcrash)
    (auto simp: res_simps Let_def midgame_def live_def TERMINAL_def intro!: end_call)

lemma end_run_raw: "live w \<Longrightarrow> end_inv (on_run_raw fl v w)"
  unfolding on_run_raw_def
  by (rule end_orcrash) (auto simp: res_simps intro!: end_next_request intro: live_extend)

lemma end_plan_remediation: "live w \<Longrightarrow> end_inv (on_plan_remediation v w)"
  unfolding on_plan_remediation_def
  by (rule end_orcrash)
    (auto simp: res_simps Let_def live_def intro!: end_summary end_next_action split: if_splits)

lemma end_execute: "live w \<Longrightarrow> end_inv (on_execute fr a v w)"
  unfolding on_execute_def
  by (rule end_orcrash)
    (auto simp: res_simps Let_def midgame_def intro!: end_needs_human end_verify_call end_pc split: if_splits)

lemma end_verify: "live w \<Longrightarrow> end_inv (on_verify a v w)"
  unfolding on_verify_def
  by (rule end_orcrash)
    (auto simp: res_simps Let_def live_def intro!: end_needs_human end_next_action split: if_splits)

lemma end_on_record_decision: "end_inv (on_record_decision fr fl g dec w)"
proof -
  let ?w = "set_me (\<lambda>s. s\<lparr>w_status := ''INVESTIGATING''\<rparr>) w"
  have l: "live ?w" by (simp add: live_def TERMINAL_def)
  show ?thesis
  proof (cases g)
    case (RawGate req)
    then show ?thesis
      unfolding on_record_decision_def Let_def
      by (simp, intro end_orcrash[OF l])
        (auto simp: res_simps midgame_def intro!: end_call end_next_request intro: live_feedback[OF _ l] split: if_splits)
  next
    case (RemGate a)
    with l show ?thesis
      by (simp add: on_record_decision_def Let_def end_call midgame_def end_next_action)
  qed
qed

lemma live_or_end: "end_inv w \<Longrightarrow> \<not> endgame (pc w) \<Longrightarrow> live w"
  by (auto simp: end_inv_def live_def)

lemma end_finish: "w_status (me w) \<in> set TERMINAL \<Longrightarrow> end_inv (finish_with_report v w)"
  by (auto simp: finish_with_report_def orcrash_def end_inv_def endgame_def split: pyval.splits)

lemma end_log: "end_inv (log_entry e w) = end_inv w"
  by (simp add: log_entry_def end_inv_def)

lemma end_finished: "w_status (me w) \<in> set TERMINAL \<Longrightarrow> end_inv (w\<lparr>pc := Finished v\<rparr>)"
  by (simp add: end_inv_def endgame_def)

lemma end_notify_status:
  assumes "end_inv w"
  shows "pc w = AtNotifyRejected v \<Longrightarrow> w_status (me w) \<in> set TERMINAL"
    "pc w = AtNotifyResolved v \<Longrightarrow> w_status (me w) \<in> set TERMINAL"
    "pc w = AtNotifyNeedsHuman v \<Longrightarrow> w_status (me w) \<in> set TERMINAL"
  using assms by (auto simp: end_inv_def)

lemma end_terminal_handlers:
  "end_inv (on_reject_case fr rv v w)" "end_inv (on_needs_human r v w)" "end_inv (on_close_resolved v w)"
  "end_inv (on_close_summary v w)"
  unfolding on_reject_case_def on_needs_human_def on_close_resolved_def on_close_summary_def Let_def
  by (auto simp: TERMINAL_def endgame_def intro!: end_terminal_call end_finish)

lemmas end_handlers = end_terminal_handlers end_create_case end_plan_initial end_get_spend end_collect
  end_analyze end_record_iteration end_validate end_create_approval end_await end_on_record_decision
  end_run_raw end_plan_remediation end_execute end_verify

lemma end_on_result:
  assumes inv: "end_inv w"
  shows "end_inv (on_result fr fl now v w)"
proof (cases "endgame (pc w)")
  case True
  then show ?thesis
    by (cases "pc w")
      (simp_all add: on_result_def endgame_def inv end_finish end_finished end_notify_status[OF inv])
next
  case False
  note l = live_or_end[OF inv False]
  then have "end_inv (loop_head now r (set_loc f w))" for r f by (simp add: end_loop_head)
  with False show ?thesis
    by (cases "pc w") (simp_all add: on_result_def endgame_def inv l end_handlers)
qed

lemma end_on_failure:
  assumes inv: "end_inv w" shows "end_inv (on_failure fr w)"
proof (cases "endgame (pc w)")
  case True
  then show ?thesis
    by (cases "pc w")
      (simp_all add: on_failure_def endgame_def awaited_def inv end_finish end_finished end_notify_status[OF inv])
next
  case False
  note l = live_or_end[OF inv False]
  have "end_inv (w\<lparr>pc := ActivityFailed a\<rparr>)" for a by (rule end_pc[OF l]) (simp add: midgame_def)
  with False show ?thesis
    by (cases "pc w") (simp_all add: on_failure_def endgame_def awaited_def inv l end_await)
qed

lemma end_recheck: "end_inv w \<Longrightarrow> end_inv (recheck_waits fr now w)"
  using live_or_end[of w]
  by (cases "pc w") (auto simp: recheck_waits_def endgame_def intro: end_wait_if_paused end_await)

lemma end_timer: "end_inv w \<Longrightarrow> end_inv (on_timer w)"
  using live_or_end[of w]
  by (cases "pc w") (auto simp: on_timer_def endgame_def approval_timeout_def intro: end_record_decision end_verify_call)

lemma end_signals:
  "end_inv w \<Longrightarrow> end_inv (sig_pause w)" "end_inv w \<Longrightarrow> end_inv (sig_resume w)"
  "end_inv w \<Longrightarrow> end_inv (sig_abort w)" "end_inv w \<Longrightarrow> end_inv (sig_adjust_budget bd w)"
  "end_inv w \<Longrightarrow> end_inv (sig_approval_decided fr p w)"
  by (auto simp: sig_pause_def sig_resume_def sig_abort_def sig_adjust_budget_def sig_approval_decided_def
      end_inv_def Let_def split: option.splits)

lemma end_workflow_step: "end_inv w \<Longrightarrow> end_inv (workflow_step fr fl now ev w)"
  by (cases ev) (simp_all add: workflow_step_def end_on_failure end_timer end_signals end_recheck end_log
      end_on_result split: option.splits)

lemma end_start: "end_inv (start wid event input)"
  by (simp add: start_def initial_self_def TERMINAL_def end_inv_def call_def)

lemma end_wreach: "wreach fr fl w \<Longrightarrow> end_inv w"
  by (induction rule: wreach.induct) (simp_all add: end_start end_workflow_step)

section \<open>Resolved means executed and verified\<close>

definition ok_result :: "pyval \<Rightarrow> bool" where
  "ok_result v \<longleftrightarrow> (\<exists>ok. py_get v ''ok'' = Inr ok \<and> truthy ok)"

definition executed :: "dict \<Rightarrow> entry list \<Rightarrow> bool" where
  "executed action lg \<longleftrightarrow> (\<exists>args. Call ''execute_playbook'' args \<in> set lg \<and> dget args ''action'' = PDict action) \<and>
     (\<exists>v. Ret ''execute_playbook'' v \<in> set lg \<and> ok_result v)"

definition fixed_and_verified :: "entry list \<Rightarrow> bool" where
  "fixed_and_verified lg \<longleftrightarrow> (\<exists>action. executed action lg \<and>
     (\<exists>args. Call ''verify_fix'' args \<in> set lg \<and> dget args ''action'' = PDict action) \<and>
     (\<exists>v. Ret ''verify_fix'' v \<in> set lg \<and> ok_result v))"

definition res_pc :: "wpc \<Rightarrow> entry list \<Rightarrow> bool" where
  "res_pc p lg = (case p of
     AtExecute a \<Rightarrow> (\<exists>args. Call ''execute_playbook'' args \<in> set lg \<and> dget args ''action'' = PDict a)
   | AtSettle a e \<Rightarrow> executed a lg
   | AtVerify a \<Rightarrow> executed a lg \<and> (\<exists>args. Call ''verify_fix'' args \<in> set lg \<and> dget args ''action'' = PDict a)
   | AtCloseResolved \<Rightarrow> fixed_and_verified lg
   | _ \<Rightarrow> True)"

definition res_base :: "wf \<Rightarrow> bool" where
  "res_base w \<longleftrightarrow> (l_executed_any (lvars w) \<longrightarrow> fixed_and_verified (wlog w)) \<and>
     (w_status (me w) = ''RESOLVED'' \<longrightarrow> fixed_and_verified (wlog w))"

definition res_inv :: "wf \<Rightarrow> bool" where
  "res_inv w \<longleftrightarrow> res_base w \<and> res_pc (pc w) (wlog w)"

lemma res_mono:
  "executed a lg \<Longrightarrow> executed a (lg @ [e])"
  "fixed_and_verified lg \<Longrightarrow> fixed_and_verified (lg @ [e])"
  unfolding executed_def fixed_and_verified_def by auto

lemma res_pc_mono: "res_pc p lg \<Longrightarrow> res_pc p (lg @ [e])"
  by (auto simp: res_pc_def res_mono split: wpc.splits)

lemma res_call: "res_base w \<Longrightarrow> res_pc p (wlog w @ [Call n args]) \<Longrightarrow> res_inv (call n args p w)"
  by (simp add: res_inv_def res_base_def call_def res_mono)

lemma res_setpc: "res_base w \<Longrightarrow> res_pc p (wlog w) \<Longrightarrow> res_inv (w\<lparr>pc := p\<rparr>)"
  by (simp add: res_inv_def res_base_def)

lemma res_orcrash:
  "res_base w \<Longrightarrow> (\<And>w'. r = Inr w' \<Longrightarrow> res_inv w') \<Longrightarrow> res_inv (orcrash w r)"
  by (cases r) (auto simp: orcrash_def res_pc_def intro: res_setpc)

lemma res_base_fields:
  "res_base (set_ctx h w) = res_base w"
  "res_base (set_me (\<lambda>s. s\<lparr>approval_decision := a\<rparr>) w) = res_base w"
  "res_base (set_me (\<lambda>s. s\<lparr>awaiting_approval_id := b\<rparr>) w) = res_base w"
  by (simp_all add: res_base_def)

lemma res_needs_human: "res_base w \<Longrightarrow> res_inv (needs_human reason w)"
  by (simp add: needs_human_def res_call res_pc_def)

lemma res_summary: "res_base w \<Longrightarrow> res_inv (close_with_summary_call reason w)"
  by (simp add: close_with_summary_call_def res_call res_pc_def)

lemma res_finish: "res_base w \<Longrightarrow> res_inv (finish_with_report v w)"
  unfolding finish_with_report_def
  by (rule res_orcrash) (auto intro: res_setpc simp: res_pc_def split: pyval.splits)

lemma res_wait_if_paused: "res_base w \<Longrightarrow> res_inv (wait_if_paused now w)"
  by (simp add: wait_if_paused_def after_pause_def res_needs_human res_call res_setpc res_pc_def)

lemma res_loop_head: "res_base w \<Longrightarrow> res_inv (loop_head now r w)"
  by (simp add: loop_head_def res_needs_human res_wait_if_paused res_base_def)

lemma res_request: "res_base w \<Longrightarrow> res_inv (request_approval g w)"
  by (simp add: request_approval_def res_call res_pc_def res_base_fields)

lemma res_next_action: "res_base w \<Longrightarrow> res_inv (next_action w)"
proof (cases "l_todo (lvars w)")
  case Nil
  assume "res_base w"
  then show ?thesis using Nil
    by (auto simp: next_action_def res_pc_def intro!: res_summary res_call) (auto simp: res_base_def res_mono)
next
  case (Cons a rest)
  assume "res_base w"
  then have "res_base (set_loc (\<lambda>l. l\<lparr>l_todo := rest\<rparr>) w)" by (simp add: res_base_def)
  then show ?thesis using Cons by (simp add: next_action_def res_request)
qed

lemma res_record_decision: "res_base w \<Longrightarrow> res_inv (record_decision g dec a t w)"
  by (simp add: record_decision_def Let_def res_call res_pc_def res_base_fields)

lemma res_await: "res_base w \<Longrightarrow> res_inv (await_approval fr g a b w)"
  by (simp add: await_approval_def res_record_decision res_setpc res_pc_def split: option.splits)

lemma res_verify_call: "res_base w \<Longrightarrow> executed a (wlog w) \<Longrightarrow> res_inv (verify_call a e w)"
  unfolding verify_call_def by (rule res_call) (auto simp: res_pc_def res_mono)

lemma res_after_requests: "res_base w \<Longrightarrow> after_requests fl w = Inr w' \<Longrightarrow> res_inv w'"
  by (auto simp: after_requests_def plan_next_call_def Let_def res_simps res_needs_human res_pc_def
      intro!: res_call split: if_splits)

lemma res_next_request: "res_base w \<Longrightarrow> res_inv (next_request fl w)"
  unfolding next_request_def
  by (rule res_orcrash)
    (auto simp: res_pc_def res_base_def intro!: res_call intro: res_after_requests[unfolded res_base_def]
      split: list.splits pyval.splits)

lemma res_create_case: "res_base w \<Longrightarrow> res_inv (on_create_case fl v w)"
  unfolding on_create_case_def
  by (rule res_orcrash)
    (auto simp: Let_def res_simps res_pc_def res_base_def intro!: res_call split: if_splits)

lemma res_plan_initial: "res_base w \<Longrightarrow> res_inv (on_plan_initial fl now v w)"
  unfolding on_plan_initial_def Let_def
  by (rule res_orcrash) (auto simp: res_simps res_base_def intro!: res_loop_head)

lemma res_override: "apply_override fl now w = Inr w' \<Longrightarrow> res_base w \<Longrightarrow> res_base w'"
  by (auto simp: apply_override_def Let_def res_simps res_base_def split: option.splits list.splits)

lemma res_extend: "extend_evidence v w = Inr w' \<Longrightarrow> res_base w \<Longrightarrow> res_base w'"
  by (auto simp: extend_evidence_def res_simps res_base_def)

lemma res_feedback: "raw_feedback fr dec w = Inr w' \<Longrightarrow> res_base w \<Longrightarrow> res_base w'"
  by (auto simp: raw_feedback_def res_base_def split: if_splits pyval.splits)

lemma res_get_spend: "res_base w \<Longrightarrow> res_inv (on_get_spend fl now v w)"
  unfolding on_get_spend_def
  by (rule res_orcrash)
    (auto simp: res_simps res_pc_def res_needs_human intro!: res_call intro: res_override split: if_splits)

lemma res_collect: "res_base w \<Longrightarrow> res_inv (on_collect sp v w)"
  unfolding on_collect_def
  by (rule res_orcrash) (auto simp: res_simps res_pc_def intro!: res_call intro: res_extend)

lemma res_analyze: "res_base w \<Longrightarrow> res_inv (on_analyze v w)"
  unfolding on_analyze_def
  by (rule res_orcrash)
    (auto simp: res_simps Let_def res_pc_def res_base_def intro!: res_call split: pyval.splits if_splits)

lemma res_record_iteration: "res_base w \<Longrightarrow> res_inv (on_record_iteration fl w)"
  unfolding on_record_iteration_def
  by (rule res_orcrash) (auto simp: res_simps res_base_def intro!: res_next_request)

lemma res_validate: "res_base w \<Longrightarrow> res_inv (on_validate fl req v w)"
  unfolding on_validate_def
  by (rule res_orcrash) (auto simp: res_simps intro!: res_next_request res_request)

lemma res_create_approval: "res_base w \<Longrightarrow> res_inv (on_create_approval fr g v w)"
  unfolding on_create_approval_def
  by (rule res_orcrash) (auto simp: res_simps Let_def res_pc_def res_base_def intro!: res_call)

lemma res_run_raw: "res_base w \<Longrightarrow> res_inv (on_run_raw fl v w)"
  unfolding on_run_raw_def
  by (rule res_orcrash) (auto simp: res_simps intro!: res_next_request intro: res_extend)

lemma res_plan_remediation: "res_base w \<Longrightarrow> res_inv (on_plan_remediation v w)"
  unfolding on_plan_remediation_def
  by (rule res_orcrash)
    (auto simp: res_simps Let_def res_base_def intro!: res_summary res_next_action split: if_splits)

lemma res_pc_executeI:
  "Call ''execute_playbook'' args \<in> set lg \<Longrightarrow> dget args ''action'' = PDict a \<Longrightarrow> res_pc (AtExecute a) lg"
  unfolding res_pc_def by auto

lemma res_on_record_decision: "res_base w \<Longrightarrow> res_inv (on_record_decision fr fl g dec w)"
proof -
  assume b: "res_base w"
  let ?w = "set_me (\<lambda>s. s\<lparr>w_status := ''INVESTIGATING''\<rparr>) w"
  have l: "res_base ?w" using b by (simp add: res_base_def)
  show ?thesis
  proof (cases g)
    case (RawGate req)
    then show ?thesis
      unfolding on_record_decision_def Let_def
      by (simp, intro res_orcrash[OF l])
        (auto simp: res_simps res_pc_def intro!: res_call res_next_request intro: res_feedback[OF _ l] split: if_splits)
  next
    case (RemGate a)
    show ?thesis
      unfolding on_record_decision_def Let_def RemGate
      using l by (auto intro!: res_call res_next_action
          res_pc_executeI[where args = "[(''investigation_id'', x1), (''action'', PDict a), (''platform_key'', x2),
            (''deployment'', x3), (''approved_by'', x4)]" for x1 x2 x3 x4])
  qed
qed

lemma res_execute:
  assumes "res_base w" "res_pc (AtExecute a) (wlog w)" "Ret ''execute_playbook'' v \<in> set (wlog w)"
  shows "res_inv (on_execute fr a v w)"
proof -
  have "executed a (wlog w)" if "ok_result v"
    using assms(2,3) that by (auto simp: executed_def res_pc_def)
  then show ?thesis
    unfolding on_execute_def using assms(1)
    by (intro res_orcrash)
      (auto simp: res_simps Let_def res_pc_def ok_result_def intro!: res_needs_human res_verify_call res_setpc
        split: if_splits)
qed

lemma res_verify:
  assumes "res_base w" "res_pc (AtVerify a) (wlog w)" "Ret ''verify_fix'' v \<in> set (wlog w)"
  shows "res_inv (on_verify a v w)"
proof -
  have "fixed_and_verified (wlog w)" if "ok_result v"
    using assms(2,3) that by (auto simp: fixed_and_verified_def res_pc_def)
  then show ?thesis
    unfolding on_verify_def using assms(1)
    by (intro res_orcrash)
      (auto simp: res_simps Let_def ok_result_def res_base_def intro!: res_needs_human res_next_action split: if_splits)
qed

lemma res_end_handlers:
  "res_base w \<Longrightarrow> res_inv (on_reject_case fr rv v w)" "res_base w \<Longrightarrow> res_inv (on_needs_human r v w)"
  "res_base w \<Longrightarrow> res_inv (on_close_summary v w)"
  "res_base w \<Longrightarrow> fixed_and_verified (wlog w) \<Longrightarrow> res_inv (on_close_resolved v w)"
  unfolding on_reject_case_def on_needs_human_def on_close_resolved_def on_close_summary_def Let_def
  by (auto simp: res_pc_def res_base_def intro!: res_call res_finish)

lemmas res_handlers = res_create_case res_plan_initial res_get_spend res_collect res_analyze
  res_record_iteration res_validate res_create_approval res_await res_on_record_decision res_run_raw
  res_plan_remediation res_finish res_end_handlers

lemma res_on_result:
  assumes "res_inv w" "awaited (pc w) = Some a"
  shows "res_inv (on_result fr fl now v (log_entry (Ret a v) w))"
proof -
  let ?w = "log_entry (Ret a v) w"
  have b: "res_base ?w" and p: "res_pc (pc w) (wlog ?w)" and r: "Ret a v \<in> set (wlog ?w)" and pcw: "pc ?w = pc w"
    using assms(1) by (simp_all add: res_inv_def res_base_def log_entry_def res_mono res_pc_mono)
  have lh: "res_inv (loop_head now k (set_loc (\<lambda>l. l\<lparr>l_plan := x\<rparr>) ?w))" for k x
    using b by (intro res_loop_head) (simp add: res_base_def)
  have fin: "res_inv (?w\<lparr>pc := Finished x\<rparr>)" for x using b by (simp add: res_setpc res_pc_def)
  show ?thesis
    using assms(2) p r b
    by (cases "pc w") (simp_all add: on_result_def pcw awaited_def res_handlers lh fin res_execute res_verify
        res_pc_def[of AtCloseResolved])
qed

lemma res_on_failure: "res_inv w \<Longrightarrow> res_inv (on_failure fr w)"
proof -
  assume inv: "res_inv w"
  then have b: "res_base w" by (simp add: res_inv_def)
  have "res_inv (w\<lparr>pc := ActivityFailed x\<rparr>)" "res_inv (w\<lparr>pc := Finished y\<rparr>)" for x y
    using b by (simp_all add: res_setpc res_pc_def)
  with b inv show ?thesis
    by (cases "pc w") (simp_all add: on_failure_def awaited_def res_await res_finish)
qed

lemma res_timer: "res_inv w \<Longrightarrow> res_inv (on_timer w)"
  by (cases "pc w") (auto simp: on_timer_def approval_timeout_def res_inv_def[of w] res_pc_def[of "AtSettle x y" for x y]
      intro: res_record_decision res_verify_call)

lemma res_recheck: "res_inv w \<Longrightarrow> res_inv (recheck_waits fr now w)"
  by (cases "pc w") (auto simp: recheck_waits_def res_inv_def[of w] intro: res_wait_if_paused res_await)

lemma res_signals:
  "res_inv w \<Longrightarrow> res_inv (sig_pause w)" "res_inv w \<Longrightarrow> res_inv (sig_resume w)"
  "res_inv w \<Longrightarrow> res_inv (sig_abort w)" "res_inv w \<Longrightarrow> res_inv (sig_adjust_budget bd w)"
  "res_inv w \<Longrightarrow> res_inv (sig_approval_decided fr p (log_entry e w))"
  by (auto simp: sig_pause_def sig_resume_def sig_abort_def sig_adjust_budget_def sig_approval_decided_def
      res_inv_def res_base_def log_entry_def res_mono res_pc_mono Let_def split: option.splits)

lemma res_workflow_step: "res_inv w \<Longrightarrow> res_inv (workflow_step fr fl now ev w)"
  by (cases ev) (auto simp: workflow_step_def res_on_failure res_timer res_signals res_recheck
      split: option.splits intro: res_on_result)

lemma res_wreach: "wreach fr fl w \<Longrightarrow> res_inv w"
proof (induction rule: wreach.induct)
  case (Start wid event input)
  then show ?case
    by (simp add: start_def initial_self_def empty_loc_def res_inv_def res_base_def call_def res_pc_def)
qed (rule res_workflow_step)

section \<open>The rounds are bounded\<close>

definition n_collect :: "entry list \<Rightarrow> nat" where
  "n_collect lg = length (filter (\<lambda>e. case e of Call n _ \<Rightarrow> n = ''collect'' | _ \<Rightarrow> False) lg)"

definition rd_base :: "wf \<Rightarrow> bool" where
  "rd_base w \<longleftrightarrow> int (n_collect (wlog w)) \<le> l_round (lvars w) \<and>
     (l_round (lvars w) = 0 \<or> l_round (lvars w) \<le> l_range_end (lvars w))"

definition rd_pc :: "wf \<Rightarrow> bool" where
  "rd_pc w = (case pc w of
     AtPaused \<Rightarrow> int (n_collect (wlog w)) < l_round (lvars w)
   | AtGetSpend \<Rightarrow> int (n_collect (wlog w)) < l_round (lvars w)
   | AtCreateCase \<Rightarrow> l_round (lvars w) = 0
   | AtPlanInitial \<Rightarrow> l_round (lvars w) = 0
   | _ \<Rightarrow> True)"

definition rd_inv :: "wf \<Rightarrow> bool" where
  "rd_inv w \<longleftrightarrow> rd_base w \<and> rd_pc w"

definition rd_plain :: "wpc \<Rightarrow> bool" where
  "rd_plain p = (case p of AtPaused \<Rightarrow> False | AtGetSpend \<Rightarrow> False | AtCreateCase \<Rightarrow> False | AtPlanInitial \<Rightarrow> False
     | _ \<Rightarrow> True)"

lemma n_collect_snoc:
  "n_collect (lg @ [Call n args]) = n_collect lg + (if n = ''collect'' then 1 else 0)"
  "n_collect (lg @ [Ret a v]) = n_collect lg" "n_collect (lg @ [Sig a d]) = n_collect lg"
  by (simp_all add: n_collect_def)

lemma rd_call: "rd_base w \<Longrightarrow> n \<noteq> ''collect'' \<Longrightarrow> rd_plain p \<Longrightarrow> rd_inv (call n args p w)"
  by (auto simp: rd_inv_def rd_base_def rd_pc_def rd_plain_def call_def n_collect_snoc split: wpc.splits)

lemma rd_setpc: "rd_base w \<Longrightarrow> rd_plain p \<Longrightarrow> rd_inv (w\<lparr>pc := p\<rparr>)"
  by (auto simp: rd_inv_def rd_base_def rd_pc_def rd_plain_def split: wpc.splits)

lemma rd_orcrash: "rd_base w \<Longrightarrow> (\<And>w'. r = Inr w' \<Longrightarrow> rd_inv w') \<Longrightarrow> rd_inv (orcrash w r)"
  by (cases r) (auto simp: orcrash_def rd_plain_def intro: rd_setpc)

lemma rd_base_cong:
  "wlog w' = wlog w \<Longrightarrow> l_round (lvars w') = l_round (lvars w) \<Longrightarrow>
   l_range_end (lvars w') = l_range_end (lvars w) \<Longrightarrow> rd_base w' = rd_base w"
  by (simp add: rd_base_def)

lemma rd_needs_human: "rd_base w \<Longrightarrow> rd_inv (needs_human reason w)"
  by (simp add: needs_human_def rd_call rd_plain_def)

lemma rd_summary: "rd_base w \<Longrightarrow> rd_inv (close_with_summary_call reason w)"
  by (simp add: close_with_summary_call_def rd_call rd_plain_def)

lemma rd_finish: "rd_base w \<Longrightarrow> rd_inv (finish_with_report v w)"
  unfolding finish_with_report_def
  by (rule rd_orcrash) (auto intro: rd_setpc simp: rd_plain_def split: pyval.splits)

lemma rd_wait_if_paused:
  "rd_base w \<Longrightarrow> int (n_collect (wlog w)) < l_round (lvars w) \<Longrightarrow> rd_inv (wait_if_paused now w)"
  by (auto simp: wait_if_paused_def after_pause_def intro!: rd_needs_human)
    (auto simp: rd_inv_def rd_base_def rd_pc_def call_def n_collect_snoc)

lemma rd_loop_head: "rd_base w \<Longrightarrow> rd_inv (loop_head now (l_round (lvars w) + 1) (set_loc (\<lambda>l. l\<lparr>l_plan := v\<rparr>) w))"
  unfolding loop_head_def
  by (auto intro!: rd_needs_human rd_wait_if_paused simp: rd_base_def)

lemma rd_request: "rd_base w \<Longrightarrow> rd_inv (request_approval g w)"
  unfolding request_approval_def by (rule rd_call) (auto simp: rd_plain_def rd_base_def)

lemma rd_next_action: "rd_base w \<Longrightarrow> rd_inv (next_action w)"
  by (auto simp: next_action_def rd_plain_def rd_base_def intro!: rd_summary rd_call rd_request split: list.splits)

lemma rd_record_decision: "rd_base w \<Longrightarrow> rd_inv (record_decision g dec a t w)"
  unfolding record_decision_def Let_def by (rule rd_call) (auto simp: rd_plain_def rd_base_def)

lemma rd_await: "rd_base w \<Longrightarrow> rd_inv (await_approval fr g a b w)"
  by (simp add: await_approval_def rd_record_decision rd_setpc rd_plain_def split: option.splits)

lemma rd_verify_call: "rd_base w \<Longrightarrow> rd_inv (verify_call a e w)"
  by (simp add: verify_call_def rd_call rd_plain_def)

lemma rd_next_request: "rd_base w \<Longrightarrow> rd_inv (next_request fl w)"
  unfolding next_request_def
  by (rule rd_orcrash)
    (auto simp: after_requests_def plan_next_call_def Let_def res_simps rd_needs_human rd_plain_def rd_base_def
      intro!: rd_call split: list.splits pyval.splits if_splits)

lemma rd_extend: "extend_evidence v w = Inr w' \<Longrightarrow> rd_base w \<Longrightarrow> rd_base w'"
  by (auto simp: extend_evidence_def res_simps rd_base_def)

lemma rd_override:
  "apply_override fl now w = Inr w' \<Longrightarrow>
   wlog w' = wlog w \<and> l_round (lvars w') = l_round (lvars w) \<and> l_range_end (lvars w') = l_range_end (lvars w)"
  by (auto simp: apply_override_def Let_def res_simps split: option.splits list.splits)

lemma rd_feedback: "raw_feedback fr dec w = Inr w' \<Longrightarrow> rd_base w \<Longrightarrow> rd_base w'"
  by (auto simp: raw_feedback_def rd_base_def split: if_splits pyval.splits)

lemma rd_create_case: "rd_base w \<Longrightarrow> l_round (lvars w) = 0 \<Longrightarrow> rd_inv (on_create_case fl v w)"
  unfolding on_create_case_def
  by (rule rd_orcrash)
    (auto simp: Let_def res_simps rd_inv_def rd_pc_def call_def rd_base_def n_collect_snoc split: if_splits)

lemma rd_plan_initial: "rd_base w \<Longrightarrow> l_round (lvars w) = 0 \<Longrightarrow> rd_inv (on_plan_initial fl now v w)"
  unfolding on_plan_initial_def Let_def
  by (rule rd_orcrash)
    (auto simp: res_simps rd_base_def loop_head_def intro!: rd_needs_human rd_wait_if_paused)

lemma rd_get_spend:
  assumes "rd_base w" "int (n_collect (wlog w)) < l_round (lvars w)"
  shows "rd_inv (on_get_spend fl now v w)"
  unfolding on_get_spend_def
proof (rule rd_orcrash[OF assms(1)])
  fix w' assume *: "bind_res (py_float fl v) (\<lambda>sp.
       if l_max_cost (lvars w) \<le> sp then Inr (needs_human ''cost_budget'' w)
       else bind_res (apply_override fl now w) (\<lambda>w1.
         Inr (call ''collect''
           [(''plan'', l_plan (lvars w1)), (''investigation_id'', c_inv (ctx w1)),
            (''platform_key'', c_platform_key (ctx w1)), (''round'', PInt (l_round (lvars w1))),
            (''max_calls_per_round'', PInt (l_max_calls (lvars w1)))] (AtCollect sp) w1))) = Inr w'"
  show "rd_inv w'"
  proof (cases "w' = needs_human ''cost_budget'' w")
    case True
    with assms(1) show ?thesis by (simp add: rd_needs_human)
  next
    case False
    with * obtain w1 args sp where w1: "apply_override fl now w = Inr w1" "w' = call ''collect'' args (AtCollect sp) w1"
      by (auto simp: res_simps split: if_splits)
    from rd_override[OF w1(1)] assms w1(2) show ?thesis
      by (auto simp: rd_inv_def rd_base_def rd_pc_def call_def n_collect_snoc)
  qed
qed

lemma rd_collect: "rd_base w \<Longrightarrow> rd_inv (on_collect sp v w)"
  unfolding on_collect_def
  by (rule rd_orcrash) (auto simp: res_simps rd_plain_def intro!: rd_call intro: rd_extend)

lemma rd_analyze: "rd_base w \<Longrightarrow> rd_inv (on_analyze v w)"
  unfolding on_analyze_def
  by (rule rd_orcrash)
    (auto simp: res_simps Let_def rd_plain_def rd_base_def intro!: rd_call split: pyval.splits if_splits)

lemma rd_record_iteration: "rd_base w \<Longrightarrow> rd_inv (on_record_iteration fl w)"
  unfolding on_record_iteration_def
  by (rule rd_orcrash) (auto simp: res_simps rd_base_def intro!: rd_next_request)

lemma rd_validate: "rd_base w \<Longrightarrow> rd_inv (on_validate fl req v w)"
  unfolding on_validate_def
  by (rule rd_orcrash) (auto simp: res_simps intro!: rd_next_request rd_request)

lemma rd_create_approval: "rd_base w \<Longrightarrow> rd_inv (on_create_approval fr g v w)"
  unfolding on_create_approval_def
  by (rule rd_orcrash) (auto simp: res_simps Let_def rd_plain_def rd_base_def intro!: rd_call)

lemma rd_run_raw: "rd_base w \<Longrightarrow> rd_inv (on_run_raw fl v w)"
  unfolding on_run_raw_def
  by (rule rd_orcrash) (auto simp: res_simps intro!: rd_next_request intro: rd_extend)

lemma rd_plan_remediation: "rd_base w \<Longrightarrow> rd_inv (on_plan_remediation v w)"
  unfolding on_plan_remediation_def
  by (rule rd_orcrash)
    (auto simp: res_simps Let_def rd_base_def intro!: rd_summary rd_next_action split: if_splits)

lemma rd_on_record_decision: "rd_base w \<Longrightarrow> rd_inv (on_record_decision fr fl g dec w)"
proof -
  assume b: "rd_base w"
  let ?w = "set_me (\<lambda>s. s\<lparr>w_status := ''INVESTIGATING''\<rparr>) w"
  have l: "rd_base ?w" using b by (simp add: rd_base_def)
  show ?thesis
  proof (cases g)
    case (RawGate req)
    then show ?thesis
      unfolding on_record_decision_def Let_def
      by (simp, intro rd_orcrash[OF l])
        (auto simp: res_simps rd_plain_def intro!: rd_call rd_next_request intro: rd_feedback[OF _ l] split: if_splits)
  next
    case (RemGate a)
    show ?thesis
      unfolding on_record_decision_def Let_def RemGate
      using l by (auto simp: rd_plain_def intro!: rd_call rd_next_action)
  qed
qed

lemma rd_execute: "rd_base w \<Longrightarrow> rd_inv (on_execute fr a v w)"
  unfolding on_execute_def
  by (rule rd_orcrash)
    (auto simp: res_simps Let_def rd_plain_def intro!: rd_needs_human rd_verify_call rd_setpc split: if_splits)

lemma rd_verify: "rd_base w \<Longrightarrow> rd_inv (on_verify a v w)"
  unfolding on_verify_def
  by (rule rd_orcrash)
    (auto simp: res_simps Let_def rd_base_def intro!: rd_needs_human rd_next_action split: if_splits)

lemma rd_end_handlers:
  "rd_base w \<Longrightarrow> rd_inv (on_reject_case fr rv v w)" "rd_base w \<Longrightarrow> rd_inv (on_needs_human r v w)"
  "rd_base w \<Longrightarrow> rd_inv (on_close_summary v w)" "rd_base w \<Longrightarrow> rd_inv (on_close_resolved v w)"
  unfolding on_reject_case_def on_needs_human_def on_close_resolved_def on_close_summary_def Let_def
  by (auto simp: rd_plain_def rd_base_def intro!: rd_call rd_finish)

lemmas rd_handlers = rd_create_case rd_plan_initial rd_get_spend rd_collect rd_analyze rd_record_iteration
  rd_validate rd_create_approval rd_await rd_on_record_decision rd_run_raw rd_plan_remediation rd_finish
  rd_end_handlers rd_execute rd_verify rd_loop_head

lemma rd_on_result:
  assumes "rd_inv w" shows "rd_inv (on_result fr fl now v (log_entry (Ret a v) w))"
proof -
  let ?w = "log_entry (Ret a v) w"
  have b: "rd_base ?w" and p: "rd_pc ?w" and pcw: "pc ?w = pc w" and inv: "rd_inv ?w"
    using assms by (auto simp: rd_inv_def rd_base_def rd_pc_def log_entry_def n_collect_snoc split: wpc.splits)
  have fin: "rd_inv (?w\<lparr>pc := Finished x\<rparr>)" for x using b by (simp add: rd_setpc rd_plain_def)
  show ?thesis
    using p b by (cases "pc w") (simp_all add: on_result_def pcw rd_handlers fin inv rd_pc_def)
qed

lemma rd_on_failure: "rd_inv w \<Longrightarrow> rd_inv (on_failure fr w)"
proof -
  assume inv: "rd_inv w"
  then have b: "rd_base w" by (simp add: rd_inv_def)
  have "rd_inv (w\<lparr>pc := ActivityFailed x\<rparr>)" "rd_inv (w\<lparr>pc := Finished y\<rparr>)" for x y
    using b by (simp_all add: rd_setpc rd_plain_def)
  with b inv show ?thesis
    by (cases "pc w") (simp_all add: on_failure_def awaited_def rd_await rd_finish)
qed

lemma rd_timer: "rd_inv w \<Longrightarrow> rd_inv (on_timer w)"
  by (cases "pc w") (auto simp: on_timer_def approval_timeout_def rd_inv_def[of w]
      intro: rd_record_decision rd_verify_call)

lemma rd_recheck: "rd_inv w \<Longrightarrow> rd_inv (recheck_waits fr now w)"
  by (cases "pc w") (auto simp: recheck_waits_def rd_inv_def[of w] rd_pc_def intro: rd_wait_if_paused rd_await)

lemma rd_cong:
  assumes "n_collect (wlog w') = n_collect (wlog w)" "pc w' = pc w"
    "l_round (lvars w') = l_round (lvars w)" "l_range_end (lvars w') = l_range_end (lvars w)"
  shows "rd_inv w' = rd_inv w"
  unfolding rd_inv_def rd_base_def rd_pc_def assms by (rule refl)

lemma rd_signals:
  "rd_inv w \<Longrightarrow> rd_inv (sig_pause w)" "rd_inv w \<Longrightarrow> rd_inv (sig_resume w)"
  "rd_inv w \<Longrightarrow> rd_inv (sig_abort w)" "rd_inv w \<Longrightarrow> rd_inv (sig_adjust_budget bd w)"
  "rd_inv w \<Longrightarrow> rd_inv (sig_approval_decided fr p (log_entry (Sig x y) w))"
  by (erule rd_cong[THEN iffD2, rotated -1];
      simp add: sig_pause_def sig_resume_def sig_abort_def sig_adjust_budget_def sig_approval_decided_def
      log_entry_def n_collect_snoc Let_def split: option.splits)+

lemma rd_workflow_step: "rd_inv w \<Longrightarrow> rd_inv (workflow_step fr fl now ev w)"
  by (cases ev) (simp_all add: workflow_step_def rd_on_failure rd_timer rd_signals rd_recheck rd_on_result
      split: option.splits)

lemma rd_wreach: "wreach fr fl w \<Longrightarrow> rd_inv w"
proof (induction rule: wreach.induct)
  case (Start wid event input)
  then show ?case
    by (simp add: start_def empty_loc_def rd_inv_def rd_base_def call_def rd_pc_def n_collect_def)
qed (rule rd_workflow_step)

section \<open>The guarantees\<close>

definition run :: "(rat \<Rightarrow> string) \<Rightarrow> (string \<Rightarrow> rat option) \<Rightarrow> wf \<Rightarrow> (int \<times> wevent) list \<Rightarrow> wf" where
  "run fr fl w evs = foldl (\<lambda>w (now, ev). workflow_step fr fl now ev w) w evs"

lemma wreach_run: "wreach fr fl w \<Longrightarrow> wreach fr fl (run fr fl w evs)"
  unfolding run_def by (induction evs arbitrary: w) (auto intro: wreach.Step)

text \<open>
  A complete case, used to instantiate the guarantees: one round that concludes, a raw command that
  is validated and approved, one playbook action that is approved, executed and verified.
\<close>

definition demo_action :: dict where
  "demo_action = [(''kind'', PStr ''playbook''), (''playbook_id'', PStr ''p''), (''settle_seconds'', PInt 0)]"

definition demo_request :: dict where
  "demo_request = [(''command'', PStr ''uptime'')]"

definition demo_until_raw :: "(int \<times> wevent) list" where
  "demo_until_raw =
    [(0, Result (PDict [(''investigation_id'', PStr ''i''), (''budget'', PDict []), (''platform_key'', PStr ''k'')])),
     (0, Result (PDict [])),
     (0, Result (PInt 0)),
     (0, Result (PList [])),
     (0, Result (PDict [(''status'', PStr ''concluded''), (''confidence'', PInt 1),
           (''raw_command_requests'', PList [PDict demo_request])])),
     (0, Result PNone),
     (0, Result (PDict [(''ok'', PBool True)])),
     (0, Result (PDict [(''approval_id'', PStr ''a1'')])),
     (0, Result PNone),
     (0, SignalDecision [(''approval_id'', PStr ''a1''), (''decision'', PStr ''approved'')]),
     (0, Result PNone)]"

definition demo_until_execute :: "(int \<times> wevent) list" where
  "demo_until_execute = demo_until_raw @
    [(0, Result (PList [])),
     (0, Result (PDict [(''proposed_actions'', PList [PDict demo_action])])),
     (0, Result (PDict [(''approval_id'', PStr ''a2'')])),
     (0, Result PNone),
     (0, SignalDecision [(''approval_id'', PStr ''a2''), (''decision'', PStr ''approved'')]),
     (0, Result PNone)]"

definition demo_until_resolved :: "(int \<times> wevent) list" where
  "demo_until_resolved = demo_until_execute @
    [(0, Result (PDict [(''ok'', PBool True), (''execution_id'', PStr ''x'')])),
     (0, Result (PDict [(''ok'', PBool True)])),
     (0, Result (PDict []))]"

definition demo :: "(int \<times> wevent) list \<Rightarrow> wf" where
  "demo evs = run (\<lambda>_. []) (\<lambda>_. None) (start ''w'' [] []) evs"

lemma demo_reach: "wreach (\<lambda>_. []) (\<lambda>_. None) (demo evs)"
  unfolding demo_def by (intro wreach_run wreach.Start)

lemma demo_raw_log:
  "last (wlog (demo demo_until_raw)) = Call ''run_raw_command''
     [(''investigation_id'', PStr ''i''), (''platform_key'', PStr ''k''), (''command'', PStr ''uptime''), (''round'', PInt 1)]"
  by code_simp

lemma demo_execute_log:
  "last (wlog (demo demo_until_execute)) = Call ''execute_playbook''
     [(''investigation_id'', PStr ''i''), (''action'', PDict demo_action), (''platform_key'', PStr ''k''),
      (''deployment'', PNone), (''approved_by'', PNone)]"
  by code_simp

lemma demo_resolved_status: "w_status (me (demo demo_until_resolved)) = ''RESOLVED''"
  by code_simp

lemma demo_finished_pc: "\<exists>v. pc (demo (demo_until_resolved @ [(0, Result PNone)])) = Finished v"
  by (rule exI[of _ "PDict [(''rca_report'', PDict [(''status'', PStr ''concluded''), (''confidence'', PInt 1),
    (''raw_command_requests'', PList [PDict demo_request])])]"]) code_simp



text \<open>C2: A case whose status is \<open>RESOLVED\<close> had a playbook action that was executed with a successful
  result and a verification of that same action with a successful result.\<close>

theorem resolved_only_verified:
  assumes "wreach fr fl w" "w_status (me w) = ''RESOLVED''"
  shows "fixed_and_verified (wlog w)"
  using res_wreach[OF assms(1)] assms(2) by (simp add: res_inv_def res_base_def)

theorem resolved_only_verified_witness: "fixed_and_verified (wlog (demo demo_until_resolved))"
  by (rule resolved_only_verified[OF demo_reach demo_resolved_status])

definition calls :: "entry list \<Rightarrow> entry list" where
  "calls lg = filter (\<lambda>e. case e of Call _ _ \<Rightarrow> True | _ \<Rightarrow> False) lg"

lemma calls_snoc [simp]: "calls (lg @ [Ret a v]) = calls lg" "calls (lg @ [Sig a d]) = calls lg"
  by (simp_all add: calls_def)

lemma finish_keeps: "me (finish_with_report v w) = me w \<and> wlog (finish_with_report v w) = wlog w"
  by (auto simp: finish_with_report_def orcrash_def split: sum.splits pyval.splits)

lemma terminal_step:
  assumes e: "endgame (pc w)" and t: "w_status (me w) \<in> set TERMINAL"
  shows "w_status (me (workflow_step fr fl now ev w)) = w_status (me w) \<and>
         calls (wlog (workflow_step fr fl now ev w)) = calls (wlog w)"
proof (cases ev)
  case (Result v)
  then show ?thesis using e
    by (cases "pc w") (simp_all add: workflow_step_def endgame_def awaited_def on_result_def log_entry_def finish_keeps)
next
  case Failure
  then show ?thesis using e
    by (cases "pc w") (simp_all add: workflow_step_def endgame_def awaited_def on_failure_def finish_keeps)
next
  case (SignalDecision p)
  then show ?thesis using e
    by (cases "pc w") (simp_all add: workflow_step_def endgame_def recheck_waits_def sig_approval_decided_def
        log_entry_def Let_def split: option.splits)
next
  case Timer
  then show ?thesis using e
    by (cases "pc w") (simp_all add: workflow_step_def endgame_def on_timer_def)
qed (use e t in \<open>cases "pc w"; simp add: workflow_step_def endgame_def recheck_waits_def sig_pause_def sig_resume_def
      sig_abort_def sig_adjust_budget_def\<close>)+

text \<open>C3: A terminal status is final: no result, failure, signal or timer changes it or makes the workflow
  call another activity; and a workflow that has returned holds a terminal status.\<close>

theorem terminal_final:
  assumes "wreach fr fl w"
  shows "(w_status (me w) \<in> set TERMINAL \<longrightarrow>
            w_status (me (workflow_step fr fl now ev w)) = w_status (me w) \<and>
            calls (wlog (workflow_step fr fl now ev w)) = calls (wlog w)) \<and>
         (\<forall>v. pc w = Finished v \<longrightarrow> w_status (me w) \<in> set TERMINAL)"
  using end_wreach[OF assms] terminal_step[of w fr fl now ev] by (auto simp: end_inv_def)

theorem terminal_final_witness:
  "w_status (me (workflow_step (\<lambda>_. []) (\<lambda>_. None) 0 SignalAbort (demo demo_until_resolved))) = ''RESOLVED'' \<and>
   w_status (me (demo (demo_until_resolved @ [(0, Result PNone)]))) \<in> set TERMINAL"
proof
  have "''RESOLVED'' \<in> set TERMINAL" by code_simp
  with terminal_final[OF demo_reach, of demo_until_resolved 0 SignalAbort] demo_resolved_status
  show "w_status (me (workflow_step (\<lambda>_. []) (\<lambda>_. None) 0 SignalAbort (demo demo_until_resolved))) = ''RESOLVED''"
    by simp
  from terminal_final[OF demo_reach, of "demo_until_resolved @ [(0, Result PNone)]"] demo_finished_pc
  show "w_status (me (demo (demo_until_resolved @ [(0, Result PNone)]))) \<in> set TERMINAL" by blast
qed



text \<open>An \<open>adjust_budget\<close> signal that raises \<open>max_rounds\<close> during the investigation updates the variable but
  not the range of the loop: after the last round of the original range the case still ends with
  \<open>round_budget\<close>, however large the new value.\<close>

theorem max_rounds_override_ineffective:
  assumes "apply_override fl now (set_me (\<lambda>s. s\<lparr>budget_override := Some [(''max_rounds'', PInt n)]\<rparr>) w) = Inr w1"
  shows "l_max_rounds (lvars w1) = n \<and> l_range_end (lvars w1) = l_range_end (lvars w) \<and>
         loop_head now' (l_range_end (lvars w) + 1) w1 = needs_human ''round_budget'' w1"
  using assms
  by (auto simp: apply_override_def Let_def res_simps loop_head_def dget_or_def dupdate_def dset_def has_key_def update_conv
      split: if_splits option.splits)

theorem max_rounds_override_ineffective_witness:
  "\<exists>w w1. wreach (\<lambda>_. []) (\<lambda>_. None) w \<and> pc w = AtGetSpend \<and> l_range_end (lvars w) = 15 \<and>
     apply_override (\<lambda>_. None) 0 (set_me (\<lambda>s. s\<lparr>budget_override := Some [(''max_rounds'', PInt 99)]\<rparr>) w) = Inr w1 \<and>
     l_max_rounds (lvars w1) = 99 \<and> loop_head 0 16 w1 = needs_human ''round_budget'' w1"
proof -
  let ?w = "demo (take 2 demo_until_raw)"
  let ?r = "apply_override (\<lambda>_. None) 0 (set_me (\<lambda>s. s\<lparr>budget_override := Some [(''max_rounds'', PInt 99)]\<rparr>) ?w)"
  have pc: "pc ?w = AtGetSpend" "l_range_end (lvars ?w) = 15" by code_simp+
  have "\<not> isl ?r" by code_simp
  then obtain w1 where w1: "?r = Inr w1" by (cases ?r) auto
  from max_rounds_override_ineffective[OF w1, of 0] pc
  have "l_max_rounds (lvars w1) = 99 \<and> loop_head 0 16 w1 = needs_human ''round_budget'' w1" by simp
  with pc w1 demo_reach show ?thesis by blast
qed

end
