(* ===== verification/Uuid.thy ===== *)
theory Uuid
  imports Prelude
begin

text \<open>
  The standard library's \<open>uuid.UUID\<close> as the services use it: a 128-bit number, its canonical
  text (\<open>str\<close>) and the lenient constructor \<open>UUID(hex)\<close>, with the round trip between them.
\<close>

type_synonym uuid = nat

fun hex_pad :: "nat \<Rightarrow> nat \<Rightarrow> string" where
  "hex_pad 0 n = []"
| "hex_pad (Suc k) n = hex_pad k (n div 16) @ [hex_digit (n mod 16)]"

definition uuid_str :: "uuid \<Rightarrow> string" where
  "uuid_str u = (let h = hex_pad 32 u in
     take 8 h @ ''-'' @ take 4 (drop 8 h) @ ''-'' @ take 4 (drop 12 h) @ ''-'' @
     take 4 (drop 16 h) @ ''-'' @ drop 20 h)"

definition hex_val :: "char \<Rightarrow> nat option" where
  "hex_val c = (let n = code_point c in
     if 48 \<le> n \<and> n \<le> 57 then Some (n - 48)
     else if 97 \<le> n \<and> n \<le> 102 then Some (n - 87)
     else if 65 \<le> n \<and> n \<le> 70 then Some (n - 55) else None)"

text \<open>The digits of \<open>int(s, 16)\<close>, single underscores allowed between them.\<close>

fun hex_digits_val :: "nat \<Rightarrow> string \<Rightarrow> nat option" where
  "hex_digits_val acc [] = Some acc"
| "hex_digits_val acc (c # cs) =
     (case hex_val c of
        Some v \<Rightarrow> hex_digits_val (acc * 16 + v) cs
      | None \<Rightarrow>
          if c = CHR ''_'' then
            (case cs of [] \<Rightarrow> None
             | d # ds \<Rightarrow>
                 (case hex_val d of None \<Rightarrow> None | Some v \<Rightarrow> hex_digits_val (acc * 16 + v) ds))
          else None)"

definition hex_start :: "string \<Rightarrow> nat option" where
  "hex_start s = (case s of [] \<Rightarrow> None
     | d # r \<Rightarrow> (case hex_val d of None \<Rightarrow> None | Some v \<Rightarrow> hex_digits_val v r))"

definition drop_hex_prefix :: "string \<Rightarrow> string" where
  "drop_hex_prefix s =
     (if starts_with ''0x'' s \<or> starts_with ''0X'' s
      then (case drop 2 s of [] \<Rightarrow> [] | c # r \<Rightarrow> if c = CHR ''_'' then r else c # r)
      else s)"

text \<open>\<open>int(s, 16)\<close>; a minus sign never reaches it, since \<open>UUID\<close> removes every dash.\<close>

definition int_of_hex :: "string \<Rightarrow> nat option" where
  "int_of_hex s =
     (let t = str_strip s; u = (case t of [] \<Rightarrow> t | c # r \<Rightarrow> if c = CHR ''+'' then r else t)
      in hex_start (drop_hex_prefix u))"

definition is_brace :: "char \<Rightarrow> bool" where
  "is_brace c \<longleftrightarrow> c = CHR ''{'' \<or> c = CHR ''}''"

definition uuid_parse :: "string \<Rightarrow> uuid option" where
  "uuid_parse s =
     (let h = str_replace ''-'' [] (strip_by is_brace
                (str_replace ''uuid:'' [] (str_replace ''urn:'' [] s)))
      in if length h \<noteq> 32 then None else int_of_hex h)"

definition UUID :: "string \<Rightarrow> uuid res" where
  "UUID s = lift_opt (ValueError ''badly formed hexadecimal UUID string'') (uuid_parse s)"

definition hex_chars :: "char set" where
  "hex_chars = set ''0123456789abcdef''"

section \<open>The round trip\<close>

lemma length_hex_pad [simp]: "length (hex_pad k n) = k"
  by (induction k arbitrary: n) auto

lemma hex_digit_table:
  "list_all (\<lambda>n. hex_val (hex_digit n) = Some n \<and> hex_digit n \<in> hex_chars) [0..<16]"
  by code_simp

lemma hex_val_hex_digit [simp]: "n < 16 \<Longrightarrow> hex_val (hex_digit n) = Some n"
  using hex_digit_table by (simp add: list_all_iff)

lemma hex_digit_in [simp]: "n < 16 \<Longrightarrow> hex_digit n \<in> hex_chars"
  using hex_digit_table by (simp add: list_all_iff)

lemma set_hex_pad: "c \<in> set (hex_pad k n) \<Longrightarrow> c \<in> hex_chars"
  by (induction k arbitrary: n) auto

lemma hex_chars_facts:
  assumes "c \<in> hex_chars"
  shows "c \<noteq> CHR ''-''" "c \<noteq> CHR ''+''" "c \<noteq> CHR ''x''" "c \<noteq> CHR ''X''" "c \<noteq> CHR ''u''"
    "\<not> is_brace c" "\<not> is_space c" "\<exists>w. hex_val c = Some w"
  using assms by (auto simp: hex_chars_def is_brace_def is_space_def code_point_def hex_val_def)

lemma hex_digits_val_pad:
  "n < 16 ^ k \<Longrightarrow> hex_digits_val acc (hex_pad k n @ xs) = hex_digits_val (acc * 16 ^ k + n) xs"
proof (induction k arbitrary: n xs)
  case 0
  then show ?case by simp
next
  case (Suc k)
  then have "n div 16 < 16 ^ k" by (simp add: less_mult_imp_div_less mult.commute)
  from Suc.IH[OF this, of "hex_digit (n mod 16) # xs"]
  have "hex_digits_val acc (hex_pad (Suc k) n @ xs) =
    hex_digits_val ((acc * 16 ^ k + n div 16) * 16 + n mod 16) xs" by simp
  also have "(acc * 16 ^ k + n div 16) * 16 + n mod 16 = acc * 16 ^ Suc k + n"
    by (simp add: algebra_simps)
  finally show ?case .
qed

lemma hex_start_pad:
  assumes "n < 16 ^ Suc k" shows "hex_start (hex_pad (Suc k) n) = Some n"
proof -
  from hex_digits_val_pad[OF assms, of 0 "[]"]
  have v: "hex_digits_val 0 (hex_pad (Suc k) n) = Some n" by simp
  obtain d r where dr: "hex_pad (Suc k) n = d # r"
    by (metis length_Suc_conv length_hex_pad)
  then have "d \<in> hex_chars" using set_hex_pad[of d "Suc k" n] by auto
  then obtain w where "hex_val d = Some w" using hex_chars_facts(8) by blast
  with v dr show ?thesis by (simp add: hex_start_def)
qed

lemma int_of_hex_pad:
  assumes "n < 16 ^ Suc (Suc k)" shows "int_of_hex (hex_pad (Suc (Suc k)) n) = Some n"
proof -
  define h where "h = hex_pad (Suc (Suc k)) n"
  have plain: "c \<in> hex_chars" if "c \<in> set h" for c
    using that set_hex_pad unfolding h_def by blast
  have "length h = Suc (Suc k)" by (simp add: h_def)
  then obtain a b r where h: "h = a # b # r"
    by (metis length_Suc_conv)
  have "str_strip h = h"
    unfolding str_strip_def by (rule strip_by_id) (metis plain hex_chars_facts(7) hd_in_set last_in_set)
  moreover have ab: "a \<noteq> CHR ''+''" "b \<noteq> CHR ''x''" "b \<noteq> CHR ''X''"
    using plain[of a] plain[of b] hex_chars_facts by (simp_all add: h)
  then have "drop_hex_prefix h = h"
    by (simp add: drop_hex_prefix_def h starts_with_def)
  ultimately show ?thesis
    using hex_start_pad[OF assms] ab h unfolding h_def[symmetric]
    by (simp add: int_of_hex_def Let_def)
qed

lemma filter_dash_uuid_str: "filter (\<lambda>c. c \<noteq> CHR ''-'') (uuid_str u) = hex_pad 32 u"
proof -
  define h where "h = hex_pad 32 u"
  have f: "filter (\<lambda>c. c \<noteq> CHR ''-'') x = x" if "set x \<subseteq> set h" for x
    using that set_hex_pad[of _ 32 u] hex_chars_facts(1)
    by (auto simp: filter_id_conv h_def)
  have t: "set (take a (drop b h)) \<subseteq> set h" "set (take a h) \<subseteq> set h" for a b
    by (meson order_trans set_drop_subset set_take_subset)+
  have "filter (\<lambda>c. c \<noteq> CHR ''-'') (uuid_str u) =
    take 8 h @ take 4 (drop 8 h) @ take 4 (drop 12 h) @ take 4 (drop 16 h) @ drop 20 h"
    by (simp add: uuid_str_def h_def[symmetric] Let_def f t set_drop_subset)
  also have "take 4 (drop 16 h) @ drop 20 h = drop 16 h"
    using append_take_drop_id[of 4 "drop 16 h"] by simp
  also have "take 4 (drop 12 h) @ drop 16 h = drop 12 h"
    using append_take_drop_id[of 4 "drop 12 h"] by simp
  also have "take 4 (drop 8 h) @ drop 12 h = drop 8 h"
    using append_take_drop_id[of 4 "drop 8 h"] by simp
  finally show ?thesis by (simp add: h_def)
qed

lemma uuid_str_plain: "c \<in> set (uuid_str u) \<Longrightarrow> c = CHR ''-'' \<or> c \<in> hex_chars"
proof -
  assume "c \<in> set (uuid_str u)"
  then have "c = CHR ''-'' \<or> c \<in> set (filter (\<lambda>c. c \<noteq> CHR ''-'') (uuid_str u))" by simp
  then show ?thesis
    unfolding filter_dash_uuid_str using set_hex_pad by blast
qed

lemma uuid_parse_uuid_str: "u < 2 ^ 128 \<Longrightarrow> uuid_parse (uuid_str u) = Some u"
proof -
  assume "u < 2 ^ 128"
  moreover have "(2::nat) ^ 128 = 16 ^ 32" by simp
  ultimately have lt: "u < 16 ^ Suc (Suc 30)" by (simp only: add_Suc_right numeral_eq_Suc) simp
  have nu: "CHR ''u'' \<notin> set (uuid_str u)"
    using uuid_str_plain[of "CHR ''u''" u] hex_chars_facts(5) by auto
  have "\<not> is_brace c" if "c \<in> set (uuid_str u)" for c
    using uuid_str_plain[OF that] hex_chars_facts(6) by (auto simp: is_brace_def)
  then have "strip_by is_brace (uuid_str u) = uuid_str u"
    by (intro strip_by_id) (metis hd_in_set last_in_set)
  with nu have "str_replace ''-'' [] (strip_by is_brace
      (str_replace ''uuid:'' [] (str_replace ''urn:'' [] (uuid_str u)))) = hex_pad 32 u"
    by (simp add: str_replace_absent str_replace_char_nil filter_dash_uuid_str)
  moreover have "int_of_hex (hex_pad 32 u) = Some u"
    using int_of_hex_pad[OF lt] by (simp del: hex_pad.simps)
  ultimately show ?thesis by (simp add: uuid_parse_def)
qed

lemma uuid_str_inj: "u < 2 ^ 128 \<Longrightarrow> v < 2 ^ 128 \<Longrightarrow> uuid_str u = uuid_str v \<Longrightarrow> u = v"
  by (metis option.inject uuid_parse_uuid_str)

lemma UUID_uuid_str: "u < 2 ^ 128 \<Longrightarrow> UUID (uuid_str u) = Inr u"
  by (simp add: UUID_def uuid_parse_uuid_str)

end
