(* ===== verification/Models.thy ===== *)
theory Models
  imports Uuid
begin

text \<open>
  The tables of \<open>rca_common/db/models.py\<close>: one record per mapped class, the database as a record
  of row lists, and the audit-log writer of \<open>rca_common/audit.py\<close>.

  A transaction is a function from the database to a result and a new database; a transaction that
  raises is rolled back, so its database is the one it began with.  Rows are kept in insertion
  order.  Inserting a row whose primary key is taken is an \<open>IntegrityError\<close>.
\<close>

type_synonym timestamp = int

section \<open>Tables\<close>

record platform =
  platform_key :: string
  platform_type :: string
  deployment :: string
  display_name :: "string option"
  p_status :: string
  p_config :: dict
  p_created_at :: timestamp

record probe_row =
  probe_id :: uuid
  pr_platform_key :: "string option"
  pr_version :: "string option"
  pr_capabilities :: "dict option"
  pr_status :: string
  gateway_replica :: "string option"
  last_heartbeat :: "timestamp option"
  registered_at :: timestamp

record alert_event =
  event_id :: uuid
  ae_fingerprint :: string
  ae_source :: "string option"
  ae_platform_key :: "string option"
  ae_severity :: "string option"
  ae_payload_ref :: "string option"
  normalized :: dict
  disposition :: string
  ae_investigation_id :: "uuid option"
  reject_reason :: "string option"
  received_at :: timestamp

record investigation =
  investigation_id :: uuid
  inv_created_at :: timestamp
  inv_platform_key :: string
  status :: string
  trigger_event :: "uuid option"
  workflow_id :: string
  budget :: dict
  spent :: dict
  rca_report :: "dict option"
  closed_at :: "timestamp option"

record iteration =
  it_investigation_id :: uuid
  it_round :: int
  it_plan :: dict
  it_rca_output :: "dict option"
  it_cost_usd :: "rat option"
  it_duration_ms :: "int option"
  it_started_at :: "timestamp option"
  it_finished_at :: "timestamp option"

record evidence =
  evidence_id :: uuid
  ev_investigation_id :: uuid
  ev_round :: int
  tool_name :: string
  ev_args :: pyval
  ev_exit_code :: "int option"
  ev_summary :: "string option"
  ev_payload_ref :: "string option"
  payload_bytes :: "int option"
  redacted :: bool
  executed_by :: "string option"
  ev_created_at :: timestamp

record llm_call =
  call_id :: uuid
  lc_created_at :: timestamp
  lc_investigation_id :: "uuid option"
  lc_round :: "int option"
  agent_role :: string
  lc_model :: string
  lc_provider :: "string option"
  prompt_ref :: "string option"
  response_ref :: "string option"
  input_tokens :: "int option"
  output_tokens :: "int option"
  lc_cost_usd :: "rat option"
  latency_ms :: "int option"
  lc_error :: "string option"

record playbook =
  playbook_id :: string
  pb_platform_type :: string
  risk_level :: string
  params_schema :: dict
  pb_steps :: pyval
  pb_verification :: pyval
  auto_eligible :: bool
  maturity :: dict

record remediation_execution =
  execution_id :: uuid
  re_investigation_id :: uuid
  re_playbook_id :: "string option"
  re_params :: dict
  re_mode :: string
  approved_by :: "uuid option"
  re_status :: string
  pre_snapshot :: "dict option"
  verification_result :: "dict option"
  re_started_at :: "timestamp option"
  re_finished_at :: "timestamp option"

record approval =
  approval_id :: uuid
  ap_investigation_id :: uuid
  ap_kind :: string
  ap_subject :: dict
  decision :: "string option"
  decided_by :: "uuid option"
  decided_at :: "timestamp option"
  ap_comment :: "string option"
  ap_created_at :: timestamp

record user =
  user_id :: uuid
  username :: string
  password_hash :: string
  u_role :: string
  u_created_at :: timestamp
  u_disabled :: bool
  must_change_password :: bool

record audit_log =
  seq :: nat
  audit_at :: timestamp
  au_investigation_id :: "uuid option"
  actor :: string
  action :: string
  detail :: "dict option"

record db =
  platforms :: "platform list"
  probes :: "probe_row list"
  alert_events :: "alert_event list"
  investigations :: "investigation list"
  iterations :: "iteration list"
  evidences :: "evidence list"
  llm_calls :: "llm_call list"
  playbooks :: "playbook list"
  executions :: "remediation_execution list"
  approvals :: "approval list"
  users :: "user list"
  audits :: "audit_log list"

definition empty_db :: db where
  "empty_db = \<lparr>platforms = [], probes = [], alert_events = [], investigations = [], iterations = [],
     evidences = [], llm_calls = [], playbooks = [], executions = [], approvals = [], users = [],
     audits = []\<rparr>"

text \<open>The primary keys of the tables are unique.\<close>

definition db_ok :: "db \<Rightarrow> bool" where
  "db_ok d \<longleftrightarrow>
     distinct (map platform_key (platforms d)) \<and>
     distinct (map probe_id (probes d)) \<and>
     distinct (map event_id (alert_events d)) \<and>
     distinct (map (\<lambda>i. (investigation_id i, inv_created_at i)) (investigations d)) \<and>
     distinct (map (\<lambda>i. (it_investigation_id i, it_round i)) (iterations d)) \<and>
     distinct (map evidence_id (evidences d)) \<and>
     distinct (map (\<lambda>c. (call_id c, lc_created_at c)) (llm_calls d)) \<and>
     distinct (map playbook_id (playbooks d)) \<and>
     distinct (map execution_id (executions d)) \<and>
     distinct (map approval_id (approvals d)) \<and>
     distinct (map user_id (users d)) \<and>
     distinct (map seq (audits d))"

definition AUDIT_ACTIONS :: "string list" where
  "AUDIT_ACTIONS =
    [''event_received'', ''event_merged'', ''event_rejected'', ''case_opened'', ''round_started'',
     ''task_dispatched'', ''tool_executed'', ''raw_cmd_requested'', ''raw_cmd_approved'',
     ''raw_cmd_denied'', ''rca_produced'', ''budget_exceeded'', ''remediation_proposed'',
     ''approval_requested'', ''approval_decided'', ''remediation_started'',
     ''remediation_finished'', ''verification_run'', ''case_closed'', ''notification_sent'',
     ''credentials_detected'', ''credentials_verified'', ''credentials_test_failed'',
     ''case_paused'', ''case_resumed'', ''case_aborted'', ''budget_adjusted'',
     ''admin_config_changed'']"

section \<open>Inserting and replacing rows\<close>

text \<open>\<open>session.add(row)\<close> followed by the flush: the row is appended unless its key is taken.\<close>

definition add_row :: "('r \<Rightarrow> 'k) \<Rightarrow> 'r \<Rightarrow> 'r list \<Rightarrow> 'r list res" where
  "add_row key r rows = (if key r \<in> key ` set rows then Inl IntegrityError else Inr (rows @ [r]))"

text \<open>\<open>session.get(Class, key)\<close>\<close>

definition get_row :: "('r \<Rightarrow> 'k) \<Rightarrow> 'k \<Rightarrow> 'r list \<Rightarrow> 'r option" where
  "get_row key k rows = List.find (\<lambda>r. key r = k) rows"

text \<open>Assigning to the attributes of a loaded row.\<close>

definition modify_row :: "('r \<Rightarrow> 'k) \<Rightarrow> 'k \<Rightarrow> ('r \<Rightarrow> 'r) \<Rightarrow> 'r list \<Rightarrow> 'r list" where
  "modify_row key k f rows = map (\<lambda>r. if key r = k then f r else r) rows"

text \<open>A value bound to a text column: the driver refuses what is not a string, and \<open>NOT NULL\<close>
  refuses \<open>None\<close>.\<close>

definition text_arg :: "pyval \<Rightarrow> string res" where
  "text_arg v = (case v of PStr s \<Rightarrow> Inr s | PNone \<Rightarrow> Inl IntegrityError | _ \<Rightarrow> Inl (OtherError ''StatementError''))"

definition opt_text :: "pyval \<Rightarrow> string option res" where
  "opt_text v = (case v of PStr s \<Rightarrow> Inr (Some s) | PNone \<Rightarrow> Inr None | _ \<Rightarrow> Inl (OtherError ''StatementError''))"

definition number_col :: "pyval \<Rightarrow> rat option res" where
  "number_col v = (case v of PNone \<Rightarrow> Inr None | PInt i \<Rightarrow> Inr (Some (of_int i)) | PFloat r \<Rightarrow> Inr (Some r)
     | _ \<Rightarrow> Inl (OtherError ''StatementError''))"

definition int_col :: "pyval \<Rightarrow> int option res" where
  "int_col v = (case v of PNone \<Rightarrow> Inr None | PInt i \<Rightarrow> Inr (Some i) | _ \<Rightarrow> Inl (OtherError ''StatementError''))"

section \<open>The audit log\<close>

definition actor_system :: string where
  "actor_system = ''system''"

definition actor_agent :: "string \<Rightarrow> string" where
  "actor_agent role = ''agent:'' @ role"

definition actor_user :: "uuid \<Rightarrow> string" where
  "actor_user u = ''user:'' @ uuid_str u"

definition actor_probe :: "uuid \<Rightarrow> string" where
  "actor_probe u = ''probe:'' @ uuid_str u"

definition next_seq :: "audit_log list \<Rightarrow> nat" where
  "next_seq rows = Suc (fold max (map seq rows) 0)"

definition write_audit ::
  "timestamp \<Rightarrow> string \<Rightarrow> string \<Rightarrow> uuid option \<Rightarrow> dict option \<Rightarrow> db \<Rightarrow> db res" where
  "write_audit now act who iid det d =
     (if act \<notin> set AUDIT_ACTIONS then Inl (ValueError (''unknown audit action '' @ py_repr act))
      else Inr (d\<lparr>audits := audits d @
        [\<lparr>seq = next_seq (audits d), audit_at = now, au_investigation_id = iid, actor = who,
          action = act, detail = det\<rparr>]\<rparr>))"

section \<open>Facts about rows\<close>

lemma add_row_Inr_iff [res_simps]:
  "add_row key r rows = Inr rows' \<longleftrightarrow> key r \<notin> key ` set rows \<and> rows' = rows @ [r]"
  by (auto simp: add_row_def)

lemma add_row_distinct:
  "add_row key r rows = Inr rows' \<Longrightarrow> distinct (map key rows) \<Longrightarrow> distinct (map key rows')"
  by (auto simp: add_row_Inr_iff)

lemma get_row_Some: "get_row key k rows = Some r \<Longrightarrow> r \<in> set rows \<and> key r = k"
  by (auto simp: get_row_def find_Some_iff)

lemma get_row_None: "get_row key k rows = None \<longleftrightarrow> k \<notin> key ` set rows"
  by (auto simp: get_row_def find_None_iff)

lemma map_modify_row [simp]:
  "(\<And>r. key' (f r) = key' r) \<Longrightarrow> map key' (modify_row key k f rows) = map key' rows"
  by (simp add: modify_row_def)

lemma get_modify_row:
  "(\<And>r. key (f r) = key r) \<Longrightarrow>
   get_row key k' (modify_row key k f rows) =
     (if k' = k then map_option f (get_row key k rows) else get_row key k' rows)"
  unfolding get_row_def modify_row_def by (induction rows) auto

lemma length_modify_row [simp]: "length (modify_row key k f rows) = length rows"
  by (simp add: modify_row_def)

lemma next_seq_fresh: "next_seq rows \<notin> seq ` set rows"
proof -
  have "x \<le> fold max xs a" if "x \<in> set xs \<or> x \<le> a" for x a :: nat and xs
    using that by (induction xs arbitrary: a) (auto simp: le_max_iff_disj)
  then have "s \<le> fold max (map seq rows) 0" if "s \<in> seq ` set rows" for s
    using that by auto
  then show ?thesis by (fastforce simp: next_seq_def)
qed

text \<open>The effect of a successful audit write: one row, appended.\<close>

lemma write_audit_Inr:
  "write_audit now act who iid det d = Inr d' \<Longrightarrow>
   act \<in> set AUDIT_ACTIONS \<and>
   d' = d\<lparr>audits := audits d @
     [\<lparr>seq = next_seq (audits d), audit_at = now, au_investigation_id = iid, actor = who,
       action = act, detail = det\<rparr>]\<rparr>"
  by (simp add: write_audit_def split: if_splits)

lemma write_audit_known:
  "act \<in> set AUDIT_ACTIONS \<Longrightarrow> \<exists>d'. write_audit now act who iid det d = Inr d'"
  by (simp add: write_audit_def)

lemma write_audit_ok: "write_audit now act who iid det d = Inr d' \<Longrightarrow> db_ok d \<Longrightarrow> db_ok d'"
  by (drule write_audit_Inr) (simp add: db_ok_def next_seq_fresh)

end
