(* ===== verification/Repo.thy ===== *)
theory Repo
  imports Models
begin

text \<open>
  \<open>rca_common/investigation_repo.py\<close>: the persistence helpers of the gateway and the worker.

  A timestamp counts microseconds since the epoch.  The clock reading and fresh UUIDs are arguments.
  What \<open>ORDER BY received_at DESC LIMIT 1\<close> returns among rows with the same time is the
  database's choice: it is the argument \<open>limit1\<close>, of which only \<open>picks_latest\<close> is used.
\<close>

section \<open>Events and statuses\<close>

text \<open>A normalised alert event (design Section 4.1), as \<open>IngestService.normalize_payload\<close> builds
  it; the optional JSON values that no code inspects stay \<open>pyval\<close>.\<close>

record alert =
  ev_event_id :: string
  ev_source :: string
  ev_platform_key :: string
  ev_error_summary :: string
  ev_error_detail :: pyval
  ev_occurred_at :: string
  ev_reporter :: pyval
  ev_severity :: string
  ev_labels :: pyval
  ev_fingerprint :: string

definition alert_dict :: "alert \<Rightarrow> dict" where
  "alert_dict e =
    [(''event_id'', PStr (ev_event_id e)), (''source'', PStr (ev_source e)),
     (''platform_key'', PStr (ev_platform_key e)), (''error_summary'', PStr (ev_error_summary e)),
     (''error_detail'', ev_error_detail e), (''occurred_at'', PStr (ev_occurred_at e)),
     (''reporter'', ev_reporter e), (''severity'', PStr (ev_severity e)),
     (''labels'', ev_labels e), (''fingerprint'', PStr (ev_fingerprint e))]"

definition NON_TERMINAL_STATUSES :: "string list" where
  "NON_TERMINAL_STATUSES = [''RECEIVED'', ''OPEN'', ''INVESTIGATING'', ''AWAITING_APPROVAL'',
     ''EXECUTING'', ''VERIFYING'']"

definition TERMINAL_STATUSES :: "string list" where
  "TERMINAL_STATUSES = [''REJECTED'', ''NEEDS_HUMAN'', ''CLOSED_SUMMARY'', ''RESOLVED'']"

definition get_platform :: "db \<Rightarrow> string \<Rightarrow> platform option" where
  "get_platform d k = get_row platform_key k (platforms d)"

section \<open>The correlation lock key\<close>

text \<open>\<open>struct.unpack(">q", digest)\<close>: eight bytes, big-endian, two's complement.\<close>

definition unpack_q :: "string \<Rightarrow> int" where
  "unpack_q bs = (let u = foldl (\<lambda>acc b. acc * 256 + int (code_point b)) 0 bs
     in if u \<ge> 2 ^ 63 then u - 2 ^ 64 else u)"

definition correlation_lock_key :: "(string \<Rightarrow> string) \<Rightarrow> string \<Rightarrow> string \<Rightarrow> int" where
  "correlation_lock_key blake2b8 pk fp = unpack_q (blake2b8 (utf8 (pk @ [CHR 0x00] @ fp)))"

section \<open>Finding the open case\<close>

type_synonym join_row = "timestamp \<times> investigation"

definition picks_latest :: "(join_row list \<Rightarrow> join_row option) \<Rightarrow> bool" where
  "picks_latest limit1 \<longleftrightarrow>
     (\<forall>rows. (limit1 rows = None \<longleftrightarrow> rows = []) \<and>
       (\<forall>r. limit1 rows = Some r \<longrightarrow> r \<in> set rows \<and> (\<forall>r' \<in> set rows. fst r' \<le> fst r)))"

definition MIN_DATETIME :: timestamp where
  "MIN_DATETIME = - 62135596800000000"

definition MAX_DATETIME :: timestamp where
  "MAX_DATETIME = 253402300799999999"

text \<open>\<open>now - timedelta(seconds=w)\<close>, which raises outside the years 1 to 9999.\<close>

definition window_start :: "timestamp \<Rightarrow> int \<Rightarrow> timestamp res" where
  "window_start now w = (let t = now - w * 1000000 in
     if t < MIN_DATETIME \<or> MAX_DATETIME < t then Inl (OtherError ''OverflowError'') else Inr t)"

text \<open>The rows of the join that the \<open>WHERE\<close> clause keeps, with their sort key.\<close>

definition correlated_rows :: "string \<Rightarrow> string \<Rightarrow> timestamp \<Rightarrow> db \<Rightarrow> join_row list" where
  "correlated_rows fp pk t0 d =
     concat (map (\<lambda>ae. map (\<lambda>i. (received_at ae, i))
         (filter (\<lambda>i. ae_investigation_id ae = Some (investigation_id i) \<and>
                      status i \<in> set NON_TERMINAL_STATUSES) (investigations d)))
       (filter (\<lambda>ae. ae_fingerprint ae = fp \<and> ae_platform_key ae = Some pk \<and>
                     ae_investigation_id ae \<noteq> None \<and> t0 \<le> received_at ae) (alert_events d)))"

definition find_open_by_fingerprint ::
  "(join_row list \<Rightarrow> join_row option) \<Rightarrow> timestamp \<Rightarrow> string \<Rightarrow> string \<Rightarrow> int \<Rightarrow> db
   \<Rightarrow> investigation option res" where
  "find_open_by_fingerprint limit1 now fp pk w d =
     bind_res (window_start now w)
       (\<lambda>t0. Inr (map_option snd (limit1 (correlated_rows fp pk t0 d))))"

section \<open>The fused merge statement\<close>

text \<open>The text of a JSON number or string, \<open>config ->> key\<close>; a JSON number that was not written
  as an integer keeps its fraction and never matches the pattern below.\<close>

fun json_number_text :: "pyval \<Rightarrow> string option" where
  "json_number_text (PInt i) = Some (int_str i)"
| "json_number_text (PStr s) = Some s"
| "json_number_text _ = None"

text \<open>\<open>~ '^-?[0-9]+$'\<close>, at most eleven octets, and within a 32-bit integer\<close>

definition sql_digits :: "string \<Rightarrow> bool" where
  "sql_digits s \<longleftrightarrow> (let ds = (case s of [] \<Rightarrow> [] | c # r \<Rightarrow> if c = CHR ''-'' then r else s)
     in ds \<noteq> [] \<and> list_all is_digit ds)"

definition sql_cast_int :: "string \<Rightarrow> int option" where
  "sql_cast_int s = (case s of [] \<Rightarrow> None
     | c # r \<Rightarrow> if c = CHR ''-'' then map_option uminus (digits_val 0 r) else digits_val 0 s)"

definition sql_safe_int :: "pyval \<Rightarrow> int option" where
  "sql_safe_int v = (case json_number_text v of None \<Rightarrow> None
     | Some s \<Rightarrow>
         if sql_digits s \<and> length (utf8 s) \<le> 11 then
           (case sql_cast_int s of None \<Rightarrow> None
            | Some i \<Rightarrow> if - 2147483648 \<le> i \<and> i \<le> 2147483647 then Some i else None)
         else None)"

definition sql_window_seconds :: "dict \<Rightarrow> int \<Rightarrow> int option" where
  "sql_window_seconds cfg dflt =
     (if has_key cfg ''correlation_window_seconds''
      then sql_safe_int (dget cfg ''correlation_window_seconds'')
      else if has_key cfg ''correlation_window'' then sql_safe_int (dget cfg ''correlation_window'')
      else Some dflt)"

text \<open>The \<open>platform\<close> and \<open>candidate\<close> common table expressions.\<close>

definition merge_candidate ::
  "(join_row list \<Rightarrow> join_row option) \<Rightarrow> timestamp \<Rightarrow> int \<Rightarrow> string \<Rightarrow> string \<Rightarrow> db \<Rightarrow> uuid option" where
  "merge_candidate limit1 now dflt pk fp d =
     (case get_platform d pk of None \<Rightarrow> None
      | Some p \<Rightarrow>
          if str_lower (p_status p) \<noteq> ''online'' then None
          else (case sql_window_seconds (p_config p) dflt of None \<Rightarrow> None
            | Some w \<Rightarrow>
                map_option (\<lambda>r. investigation_id (snd r))
                  (limit1 (correlated_rows fp pk (now - w * 1000000) d))))"

definition merged_event_row :: "timestamp \<Rightarrow> uuid \<Rightarrow> alert \<Rightarrow> uuid \<Rightarrow> alert_event" where
  "merged_event_row now eid e iid =
     \<lparr>event_id = eid, ae_fingerprint = ev_fingerprint e, ae_source = Some (ev_source e),
      ae_platform_key = Some (ev_platform_key e), ae_severity = Some (ev_severity e),
      ae_payload_ref = None, normalized = alert_dict e, disposition = ''merged'',
      ae_investigation_id = Some iid, reject_reason = None, received_at = now\<rparr>"

definition merged_detail :: "alert \<Rightarrow> dict" where
  "merged_detail e = [(''event_id'', PStr (ev_event_id e)), (''fingerprint'', PStr (ev_fingerprint e))]"

definition merge_existing_event_with_audit ::
  "(join_row list \<Rightarrow> join_row option) \<Rightarrow> timestamp \<Rightarrow> int \<Rightarrow> alert \<Rightarrow> db \<Rightarrow> (uuid option \<times> db) res" where
  "merge_existing_event_with_audit limit1 now dflt e d =
     bind_res (UUID (ev_event_id e)) (\<lambda>eid.
       case merge_candidate limit1 now dflt (ev_platform_key e) (ev_fingerprint e) d of
         None \<Rightarrow> Inr (None, d)
       | Some iid \<Rightarrow>
           bind_res (add_row event_id (merged_event_row now eid e iid) (alert_events d)) (\<lambda>rows.
             Inr (Some iid,
               d\<lparr>alert_events := rows,
                 audits := audits d @ [\<lparr>seq = next_seq (audits d), audit_at = now,
                   au_investigation_id = Some iid, actor = ''system'', action = ''event_merged'',
                   detail = Some (merged_detail e)\<rparr>]\<rparr>)))"

section \<open>Investigations\<close>

fun latest_by :: "('a \<Rightarrow> int) \<Rightarrow> 'a list \<Rightarrow> 'a option" where
  "latest_by key [] = None"
| "latest_by key (x # xs) =
     (case latest_by key xs of None \<Rightarrow> Some x | Some y \<Rightarrow> if key x < key y then Some y else Some x)"

definition latest_investigation :: "db \<Rightarrow> uuid \<Rightarrow> investigation option" where
  "latest_investigation d iid =
     latest_by inv_created_at (filter (\<lambda>i. investigation_id i = iid) (investigations d))"

definition inv_key :: "investigation \<Rightarrow> uuid \<times> timestamp" where
  "inv_key i = (investigation_id i, inv_created_at i)"

definition create_investigation ::
  "timestamp \<Rightarrow> uuid \<Rightarrow> string \<Rightarrow> string \<Rightarrow> uuid option \<Rightarrow> string \<Rightarrow> dict \<Rightarrow> dict option \<Rightarrow> db \<Rightarrow> db res" where
  "create_investigation now iid pk st trig wid bud sp d =
     (if pk \<notin> platform_key ` set (platforms d) then Inl IntegrityError
      else bind_res (add_row inv_key
        \<lparr>investigation_id = iid, inv_created_at = now, inv_platform_key = pk, status = st,
         trigger_event = trig, workflow_id = wid, budget = bud,
         spent = (case sp of Some (x # xs) \<Rightarrow> x # xs
                  | _ \<Rightarrow> [(''rounds'', PInt 0), (''cost_usd'', PInt 0)]),
         rca_report = None, closed_at = None\<rparr> (investigations d))
        (\<lambda>rows. Inr (d\<lparr>investigations := rows\<rparr>)))"

definition set_status ::
  "timestamp \<Rightarrow> string \<Rightarrow> dict option \<Rightarrow> dict option \<Rightarrow> bool \<Rightarrow> investigation \<Rightarrow> investigation" where
  "set_status now st report sp cl i =
     i\<lparr>status := st,
       rca_report := (case report of None \<Rightarrow> rca_report i | Some r \<Rightarrow> Some r),
       spent := (case sp of None \<Rightarrow> spent i | Some s \<Rightarrow> s),
       closed_at := (if cl \<or> st \<in> set TERMINAL_STATUSES then Some now else closed_at i)\<rparr>"

definition update_investigation_status ::
  "timestamp \<Rightarrow> uuid \<Rightarrow> string \<Rightarrow> dict option \<Rightarrow> dict option \<Rightarrow> bool \<Rightarrow> db \<Rightarrow> db res" where
  "update_investigation_status now iid st report sp cl d =
     (case latest_investigation d iid of
        None \<Rightarrow> Inl (KeyError (''investigation '' @ uuid_str iid @ '' not found''))
      | Some i \<Rightarrow> Inr (d\<lparr>investigations :=
          modify_row inv_key (inv_key i) (set_status now st report sp cl) (investigations d)\<rparr>))"

section \<open>Events, iterations, evidence\<close>

definition insert_alert_event ::
  "timestamp \<Rightarrow> uuid \<Rightarrow> alert \<Rightarrow> string \<Rightarrow> uuid option \<Rightarrow> string option \<Rightarrow> db \<Rightarrow> db res" where
  "insert_alert_event now eid e disp iid reason d =
     bind_res (add_row event_id
       \<lparr>event_id = eid, ae_fingerprint = ev_fingerprint e, ae_source = Some (ev_source e),
        ae_platform_key = Some (ev_platform_key e), ae_severity = Some (ev_severity e),
        ae_payload_ref = None, normalized = alert_dict e, disposition = disp,
        ae_investigation_id = iid, reject_reason = reason, received_at = now\<rparr> (alert_events d))
       (\<lambda>rows. Inr (d\<lparr>alert_events := rows\<rparr>))"

definition it_key :: "iteration \<Rightarrow> uuid \<times> int" where
  "it_key i = (it_investigation_id i, it_round i)"

definition record_iteration ::
  "timestamp \<Rightarrow> uuid \<Rightarrow> int \<Rightarrow> dict \<Rightarrow> dict option \<Rightarrow> rat option \<Rightarrow> int option \<Rightarrow>
   timestamp option \<Rightarrow> timestamp option \<Rightarrow> db \<Rightarrow> db res" where
  "record_iteration now iid rnd plan out cost dur st fin d =
     bind_res (add_row it_key
       \<lparr>it_investigation_id = iid, it_round = rnd, it_plan = plan, it_rca_output = out,
        it_cost_usd = cost, it_duration_ms = dur,
        it_started_at = (case st of None \<Rightarrow> Some now | Some t \<Rightarrow> Some t),
        it_finished_at = (case fin of None \<Rightarrow> Some now | Some t \<Rightarrow> Some t)\<rparr> (iterations d))
       (\<lambda>rows. Inr (d\<lparr>iterations := rows\<rparr>))"

definition insert_evidence ::
  "timestamp \<Rightarrow> uuid \<Rightarrow> uuid \<Rightarrow> int \<Rightarrow> string \<Rightarrow> pyval \<Rightarrow> int option \<Rightarrow> string option \<Rightarrow>
   string option \<Rightarrow> int option \<Rightarrow> bool \<Rightarrow> string option \<Rightarrow> db \<Rightarrow> db res" where
  "insert_evidence now eid iid rnd tool args ec summ pref pbytes red exby d =
     bind_res (add_row evidence_id
       \<lparr>evidence_id = eid, ev_investigation_id = iid, ev_round = rnd, tool_name = tool,
        ev_args = args, ev_exit_code = ec, ev_summary = summ, ev_payload_ref = pref,
        payload_bytes = pbytes, redacted = red, executed_by = exby, ev_created_at = now\<rparr>
       (evidences d))
       (\<lambda>rows. Inr (d\<lparr>evidences := rows\<rparr>))"

definition get_evidence :: "db \<Rightarrow> string \<Rightarrow> evidence option" where
  "get_evidence d s =
     (case uuid_parse s of None \<Rightarrow> None | Some u \<Rightarrow> get_row evidence_id u (evidences d))"

section \<open>Approvals\<close>

definition create_approval :: "timestamp \<Rightarrow> uuid \<Rightarrow> uuid \<Rightarrow> string \<Rightarrow> dict \<Rightarrow> db \<Rightarrow> db res" where
  "create_approval now aid iid kind subj d =
     bind_res (add_row approval_id
       \<lparr>approval_id = aid, ap_investigation_id = iid, ap_kind = kind, ap_subject = subj,
        decision = None, decided_by = None, decided_at = None, ap_comment = None,
        ap_created_at = now\<rparr> (approvals d))
       (\<lambda>rows. Inr (d\<lparr>approvals := rows\<rparr>))"

definition decide_approval ::
  "timestamp \<Rightarrow> string \<Rightarrow> string \<Rightarrow> uuid option \<Rightarrow> string option \<Rightarrow> db \<Rightarrow> db res" where
  "decide_approval now aid_text dec by_user comm d =
     bind_res (UUID aid_text) (\<lambda>aid.
       case get_row approval_id aid (approvals d) of
         None \<Rightarrow> Inl (KeyError (''approval '' @ aid_text @ '' not found''))
       | Some row \<Rightarrow>
           if decision row \<noteq> None then Inl (ValueError ''approval already decided'')
           else Inr (d\<lparr>approvals := modify_row approval_id aid
             (\<lambda>r. r\<lparr>decision := Some dec, decided_by := by_user, ap_comment := comm,
                    decided_at := Some now\<rparr>) (approvals d)\<rparr>))"

section \<open>Budgets\<close>

definition BUDGET_KEYS :: "string list" where
  "BUDGET_KEYS = [''max_rounds'', ''max_cost_usd'', ''max_wall_seconds'']"

fun apply_overrides :: "pyval \<Rightarrow> string list \<Rightarrow> dict \<Rightarrow> dict res" where
  "apply_overrides ov [] bud = Inr bud"
| "apply_overrides ov (k # ks) bud =
     bind_res (py_in k ov) (\<lambda>present.
       if present then bind_res (py_item ov k) (\<lambda>v. apply_overrides ov ks (dset bud k v))
       else apply_overrides ov ks bud)"

definition merge_platform_budget :: "dict \<Rightarrow> dict \<Rightarrow> dict res" where
  "merge_platform_budget defaults cfg =
     (if cfg = [] then Inr defaults
      else apply_overrides (py_or (dget cfg ''budget'') (py_or (dget cfg ''budget_defaults'') (PDict [])))
             BUDGET_KEYS defaults)"

definition open_case_from_event ::
  "(rat \<Rightarrow> string) \<Rightarrow> timestamp \<Rightarrow> uuid \<Rightarrow> uuid \<Rightarrow> dict \<Rightarrow> string \<Rightarrow> dict \<Rightarrow> db \<Rightarrow> db res" where
  "open_case_from_event fr now iid fresh_eid event wid bud d =
     bind_res (if truthy (dget event ''event_id'') then UUID (py_str fr (dget event ''event_id'')) else Inr fresh_eid) (\<lambda>eid.
     bind_res (bind_res (ditem event ''platform_key'') text_arg) (\<lambda>pk.
     bind_res (create_investigation now iid pk ''OPEN'' (Some eid) wid bud None d)
       (\<lambda>d'. write_audit now ''case_opened'' actor_system (Some iid)
          (Some [(''platform_key'', PStr pk), (''workflow_id'', PStr wid)]) d')))"

section \<open>Tables as an interface\<close>

text \<open>What every helper above relies on: a table is read and replaced through its field, and its
  rows have a key.\<close>

locale table =
  fixes key :: "'r \<Rightarrow> 'k" and rows_of :: "'d \<Rightarrow> 'r list" and with_rows :: "'r list \<Rightarrow> 'd \<Rightarrow> 'd"
  assumes rows_with [simp]: "rows_of (with_rows rs d) = rs"
begin

definition insert_row :: "'r \<Rightarrow> 'd \<Rightarrow> 'd res" where
  "insert_row r d = bind_res (add_row key r (rows_of d)) (\<lambda>rs. Inr (with_rows rs d))"

lemma insert_row_Inr:
  "insert_row r d = Inr d' \<longleftrightarrow> key r \<notin> key ` set (rows_of d) \<and> d' = with_rows (rows_of d @ [r]) d"
  by (auto simp: insert_row_def add_row_def)

lemma insert_row_distinct:
  "insert_row r d = Inr d' \<Longrightarrow> distinct (map key (rows_of d)) \<Longrightarrow> distinct (map key (rows_of d'))"
  by (auto simp: insert_row_Inr)

lemma get_inserted:
  assumes "insert_row r d = Inr d'"
  shows "get_row key k (rows_of d') = (if k = key r then Some r else get_row key k (rows_of d))"
proof -
  have app: "get_row key k (xs @ [r]) = (case get_row key k xs of
      None \<Rightarrow> if key r = k then Some r else None | Some x \<Rightarrow> Some x)" for xs
    unfolding get_row_def by (induction xs) auto
  from assms have "key r \<notin> key ` set (rows_of d)" by (simp add: insert_row_Inr)
  then have "get_row key (key r) (rows_of d) = None" by (simp add: get_row_None)
  with assms app[of "rows_of d"] show ?thesis
    by (cases "get_row key k (rows_of d)") (auto simp: insert_row_Inr)
qed

end

interpretation ae_table: table event_id alert_events "\<lambda>rs d. d\<lparr>alert_events := rs\<rparr>"
  by unfold_locales simp

interpretation inv_table: table inv_key investigations "\<lambda>rs d. d\<lparr>investigations := rs\<rparr>"
  by unfold_locales simp

interpretation it_table: table it_key iterations "\<lambda>rs d. d\<lparr>iterations := rs\<rparr>"
  by unfold_locales simp

interpretation ev_table: table evidence_id evidences "\<lambda>rs d. d\<lparr>evidences := rs\<rparr>"
  by unfold_locales simp

interpretation ap_table: table approval_id approvals "\<lambda>rs d. d\<lparr>approvals := rs\<rparr>"
  by unfold_locales simp

lemma create_approval_get:
  "create_approval now aid iid kind subj d = Inr d' \<Longrightarrow>
   \<exists>row. get_row approval_id aid (approvals d') = Some row \<and> decision row = None \<and>
     ap_kind row = kind \<and> ap_investigation_id row = iid \<and> ap_subject row = subj"
  unfolding create_approval_def ap_table.insert_row_def[symmetric]
  by (drule ap_table.get_inserted[where k = aid]) simp

section \<open>ORDER BY ... LIMIT 1 as an interface\<close>

locale limit1_query =
  fixes limit1 :: "join_row list \<Rightarrow> join_row option"
  assumes limit1: "picks_latest limit1"
begin

lemma limit1_None: "limit1 rows = None \<longleftrightarrow> rows = []"
  using limit1 by (simp add: picks_latest_def)

lemma limit1_Some: "limit1 rows = Some r \<Longrightarrow> r \<in> set rows \<and> (\<forall>r' \<in> set rows. fst r' \<le> fst r)"
  using limit1 unfolding picks_latest_def by blast

end

lemma latest_by_None [simp]: "latest_by key xs = None \<longleftrightarrow> xs = []"
  by (cases xs) (auto split: option.splits)

lemma latest_by_Some:
  "latest_by key xs = Some x \<Longrightarrow> x \<in> set xs \<and> (\<forall>y \<in> set xs. key y \<le> key x)"
  by (induction xs arbitrary: x) (fastforce split: option.splits if_splits)+

lemma latest_by_picks: "picks_latest (latest_by fst)"
  unfolding picks_latest_def using latest_by_Some by fastforce

interpretation newest_first: limit1_query "latest_by fst"
  by unfold_locales (rule latest_by_picks)

lemma correlated_rows_iff:
  "(t, i) \<in> set (correlated_rows fp pk t0 d) \<longleftrightarrow>
   i \<in> set (investigations d) \<and> status i \<in> set NON_TERMINAL_STATUSES \<and>
   (\<exists>ae \<in> set (alert_events d). ae_fingerprint ae = fp \<and> ae_platform_key ae = Some pk \<and>
      ae_investigation_id ae = Some (investigation_id i) \<and> t0 \<le> received_at ae \<and> received_at ae = t)"
  by (auto simp: correlated_rows_def)

section \<open>Lemmas of the operations\<close>

lemma sql_safe_int_agrees:
  assumes "sql_safe_int v = Some i" shows "py_int v = Inr i"
proof -
  obtain s where s: "json_number_text v = Some s" "sql_digits s" "sql_cast_int s = Some i"
    using assms by (auto simp: sql_safe_int_def split: option.splits if_splits)
  have "int_of_str s = sql_cast_int s"
  proof (cases s)
    case (Cons c r)
    show ?thesis
    proof (cases "c = CHR ''-''")
      case True
      with Cons s(2) have "r \<noteq> []" "list_all is_digit r" by (auto simp: sql_digits_def)
      from int_of_str_digits(2)[OF this] Cons True show ?thesis by (simp add: sql_cast_int_def)
    next
      case False
      with Cons s(2) have "list_all is_digit s" by (simp add: sql_digits_def)
      from int_of_str_digits(1)[OF _ this] Cons False show ?thesis by (simp add: sql_cast_int_def)
    qed
  qed (use s(2) in \<open>simp add: sql_digits_def\<close>)
  with s have "int_of_str s = Some i" by simp
  with s(1) show ?thesis
    by (cases v) (auto simp: int_of_str_int_str)
qed

lemma merge_existing_cases:
  assumes "merge_existing_event_with_audit limit1 now dflt e d = Inr (r, d')"
  obtains (miss) "r = None" "d' = d"
      "merge_candidate limit1 now dflt (ev_platform_key e) (ev_fingerprint e) d = None"
  | (hit) eid iid where "r = Some iid" "uuid_parse (ev_event_id e) = Some eid"
      "merge_candidate limit1 now dflt (ev_platform_key e) (ev_fingerprint e) d = Some iid"
      "eid \<notin> event_id ` set (alert_events d)"
      "d' = d\<lparr>alert_events := alert_events d @ [merged_event_row now eid e iid],
         audits := audits d @ [\<lparr>seq = next_seq (audits d), audit_at = now,
           au_investigation_id = Some iid, actor = ''system'', action = ''event_merged'',
           detail = Some (merged_detail e)\<rparr>]\<rparr>"
proof -
  from assms obtain eid where eid: "uuid_parse (ev_event_id e) = Some eid"
    by (auto simp: merge_existing_event_with_audit_def UUID_def res_simps)
  show thesis
  proof (cases "merge_candidate limit1 now dflt (ev_platform_key e) (ev_fingerprint e) d")
    case None
    with assms eid miss show thesis
      by (simp add: merge_existing_event_with_audit_def UUID_def)
  next
    case (Some iid)
    have "event_id (merged_event_row now eid e iid) = eid" by (simp add: merged_event_row_def)
    with Some assms eid have "r = Some iid" "eid \<notin> event_id ` set (alert_events d)"
      "d' = d\<lparr>alert_events := alert_events d @ [merged_event_row now eid e iid],
         audits := audits d @ [\<lparr>seq = next_seq (audits d), audit_at = now,
           au_investigation_id = Some iid, actor = ''system'', action = ''event_merged'',
           detail = Some (merged_detail e)\<rparr>]\<rparr>"
      by (auto simp: merge_existing_event_with_audit_def UUID_def add_row_def split: if_splits)
    from hit[OF this(1) eid Some this(2,3)] show thesis .
  qed
qed

lemma merge_candidate_Some:
  assumes "picks_latest limit1" "merge_candidate limit1 now dflt pk fp d = Some iid"
  shows "\<exists>i \<in> set (investigations d). investigation_id i = iid \<and> status i \<in> set NON_TERMINAL_STATUSES"
proof -
  obtain t0 t i where r: "limit1 (correlated_rows fp pk t0 d) = Some (t, i)" "iid = investigation_id i"
    using assms(2) by (auto simp: merge_candidate_def split: option.splits if_splits)
  from limit1_query.limit1_Some[OF limit1_query.intro, OF assms(1) r(1)] r(2) show ?thesis
    by (auto simp: correlated_rows_iff)
qed

lemma decide_approval_cases:
  assumes "decide_approval now t dec u c d = Inr d'"
  obtains aid row where "uuid_parse t = Some aid" "get_row approval_id aid (approvals d) = Some row"
    "decision row = None"
    "d' = d\<lparr>approvals := modify_row approval_id aid
             (\<lambda>r. r\<lparr>decision := Some dec, decided_by := u, ap_comment := c,
                    decided_at := Some now\<rparr>) (approvals d)\<rparr>"
  using assms
  by (auto simp: decide_approval_def UUID_def res_simps split: option.splits if_splits)

lemma apply_overrides_dict:
  "apply_overrides (PDict ov) ks bud =
   Inr (fold (\<lambda>k b. if has_key ov k then dset b k (dget ov k) else b) ks bud)"
  by (induction ks arbitrary: bud)
    (auto simp: ditem_def has_key_map_of dget_def)

text \<open>Every helper keeps the primary keys unique.\<close>

lemma db_ok_inserts:
  "insert_alert_event now eid e disp iid reason d = Inr d' \<Longrightarrow> db_ok d \<Longrightarrow> db_ok d'"
  "create_investigation now iid' pk st trig wid bud sp d = Inr d' \<Longrightarrow> db_ok d \<Longrightarrow> db_ok d'"
  "record_iteration now iid' rnd plan out cost dur ts tf d = Inr d' \<Longrightarrow> db_ok d \<Longrightarrow> db_ok d'"
  "insert_evidence now eid iid' rnd tool args ec summ pref pb red exby d = Inr d' \<Longrightarrow> db_ok d \<Longrightarrow> db_ok d'"
  "create_approval now aid iid' kind subj d = Inr d' \<Longrightarrow> db_ok d \<Longrightarrow> db_ok d'"
  by (auto simp: insert_alert_event_def create_investigation_def record_iteration_def
      insert_evidence_def create_approval_def db_ok_def res_simps inv_key_def it_key_def image_iff
      split: if_splits)

lemma db_ok_updates:
  "update_investigation_status now iid st report sp cl d = Inr d' \<Longrightarrow> db_ok d \<Longrightarrow> db_ok d'"
  "decide_approval now t dec u c d = Inr d' \<Longrightarrow> db_ok d \<Longrightarrow> db_ok d'"
  by (auto simp: update_investigation_status_def db_ok_def set_status_def inv_key_def
      split: option.splits elim!: decide_approval_cases)

lemma db_ok_merge:
  "merge_existing_event_with_audit limit1 now dflt e d = Inr (r, d') \<Longrightarrow> db_ok d \<Longrightarrow> db_ok d'"
  by (erule merge_existing_cases) (simp_all add: db_ok_def merged_event_row_def next_seq_fresh)

section \<open>Properties\<close>

text \<open>\<open>find_open_by_fingerprint\<close> answers with a case exactly when some stored event of the
  same fingerprint and platform, received inside the correlation window, belongs to an investigation
  that is not terminal; the case it answers with is one of those, and its event is the newest of them.\<close>

theorem find_open_correct:
  assumes "picks_latest limit1" and "window_start now w = Inr t0"
  shows "\<exists>r. find_open_by_fingerprint limit1 now fp pk w d = Inr r \<and>
    (case r of
       None \<Rightarrow> correlated_rows fp pk t0 d = []
     | Some i \<Rightarrow> i \<in> set (investigations d) \<and> status i \<in> set NON_TERMINAL_STATUSES \<and>
         (\<exists>t. (t, i) \<in> set (correlated_rows fp pk t0 d) \<and> t0 \<le> t \<and>
            list_all (\<lambda>(t', i'). t' \<le> t) (correlated_rows fp pk t0 d)))"
proof (cases "limit1 (correlated_rows fp pk t0 d)")
  case None
  then have "correlated_rows fp pk t0 d = []"
    using limit1_query.limit1_None[OF limit1_query.intro, OF assms(1)] by blast
  with None assms(2) show ?thesis by (simp add: find_open_by_fingerprint_def)
next
  case (Some r)
  obtain t i where r: "r = (t, i)" by fastforce
  from limit1_query.limit1_Some[OF limit1_query.intro, OF assms(1) Some]
  have m: "(t, i) \<in> set (correlated_rows fp pk t0 d)"
    and mx: "list_all (\<lambda>(t', i'). t' \<le> t) (correlated_rows fp pk t0 d)"
    by (auto simp: r list_all_iff)
  from m have "i \<in> set (investigations d)" "status i \<in> set NON_TERMINAL_STATUSES" "t0 \<le> t"
    by (auto simp: correlated_rows_iff)
  with m mx assms(2) Some r show ?thesis
    by (auto simp: find_open_by_fingerprint_def)
qed

definition demo_inv :: investigation where
  "demo_inv = \<lparr>investigation_id = 7, inv_created_at = 100, inv_platform_key = ''p1'', status = ''OPEN'',
     trigger_event = Some 3, workflow_id = ''investigation-7'', budget = [], spent = [],
     rca_report = None, closed_at = None\<rparr>"

definition demo_alert :: alert where
  "demo_alert = \<lparr>ev_event_id = uuid_str 5, ev_source = ''s'', ev_platform_key = ''p1'',
     ev_error_summary = ''disk full'', ev_error_detail = PNone, ev_occurred_at = ''t'',
     ev_reporter = PNone, ev_severity = ''high'', ev_labels = PDict [], ev_fingerprint = ''fp''\<rparr>"

definition demo_db :: db where
  "demo_db = empty_db\<lparr>
     platforms := [\<lparr>platform_key = ''p1'', platform_type = ''presto'', deployment = ''k8s'',
        display_name = None, p_status = ''Online'',
        p_config = [(''correlation_window_seconds'', PStr ''60'')], p_created_at = 0\<rparr>],
     alert_events := [merged_event_row 90 3 demo_alert 7], investigations := [demo_inv]\<rparr>"

theorem find_open_correct_witness:
  "find_open_by_fingerprint (latest_by fst) 1000 ''fp'' ''p1'' 60 demo_db = Inr (Some demo_inv)"
proof -
  have w: "window_start 1000 60 = Inr (- 59999000)"
    by (simp add: window_start_def MIN_DATETIME_def MAX_DATETIME_def)
  have "correlated_rows ''fp'' ''p1'' (- 59999000) demo_db = [(90, demo_inv)]" by code_simp
  with find_open_correct[OF latest_by_picks w, of "''fp''" "''p1''" demo_db]
  show ?thesis by (auto split: option.splits)
qed

text \<open>the fused statement is all or nothing.  When it reports a case, exactly one event row with
  disposition \<open>merged\<close> and exactly one \<open>event_merged\<close> audit row were added, both carrying that
  case, the case was open, and nothing else changed; when it reports none, nothing was written.\<close>

theorem merge_statement_atomic:
  assumes "picks_latest limit1"
    and "merge_existing_event_with_audit limit1 now dflt e d = Inr (r, d')"
  shows "case r of
      None \<Rightarrow> d' = d
    | Some iid \<Rightarrow>
        (\<exists>i \<in> set (investigations d). investigation_id i = iid \<and> status i \<in> set NON_TERMINAL_STATUSES) \<and>
        (\<exists>eid au. uuid_parse (ev_event_id e) = Some eid \<and>
           d' = d\<lparr>alert_events := alert_events d @ [merged_event_row now eid e iid],
                  audits := audits d @ [au]\<rparr> \<and>
           action au = ''event_merged'' \<and> au_investigation_id au = Some iid)"
  using assms(2)
proof (cases rule: merge_existing_cases)
  case miss
  then show ?thesis by simp
next
  case (hit eid iid)
  then show ?thesis using merge_candidate_Some[OF assms(1)] by (auto intro!: exI[of _ eid])
qed

theorem merge_statement_atomic_witness:
  "\<exists>d' eid au. merge_existing_event_with_audit (latest_by fst) 1000 1800 demo_alert demo_db = Inr (Some 7, d') \<and>
     d' = demo_db\<lparr>alert_events := alert_events demo_db @ [merged_event_row 1000 eid demo_alert 7],
                  audits := audits demo_db @ [au]\<rparr>"
proof -
  have "merge_candidate (latest_by fst) 1000 1800 ''p1'' ''fp'' demo_db = Some 7" by code_simp
  moreover have "event_id ` set (alert_events demo_db) = {3}"
    by (simp add: demo_db_def merged_event_row_def empty_db_def)
  moreover have "uuid_parse (ev_event_id demo_alert) = Some 5"
    by (simp add: demo_alert_def uuid_parse_uuid_str)
  ultimately obtain d' where d': "merge_existing_event_with_audit (latest_by fst) 1000 1800 demo_alert demo_db
      = Inr (Some 7, d')"
    by (simp add: merge_existing_event_with_audit_def UUID_def add_row_def merged_event_row_def demo_alert_def)
  from merge_statement_atomic[OF latest_by_picks d'] d' show ?thesis by auto
qed

text \<open>an approval is decided at most once.  A successful decision found the row undecided,
  stored the decision, left every other approval alone and every later decision of the same approval
  raises \<open>ValueError\<close>.\<close>

theorem decide_approval_once:
  assumes "decide_approval now t dec u c d = Inr d'"
  shows "\<exists>aid row. uuid_parse t = Some aid \<and> get_row approval_id aid (approvals d) = Some row \<and>
     decision row = None \<and>
     map_option decision (get_row approval_id aid (approvals d')) = Some (Some dec) \<and>
     decide_approval now' t dec' u' c' d' = Inl (ValueError ''approval already decided'') \<and>
     (aid' = aid \<or> get_row approval_id aid' (approvals d') = get_row approval_id aid' (approvals d))"
  using assms
proof (cases rule: decide_approval_cases)
  case (1 aid row)
  have k: "get_row approval_id k (approvals d') =
      (if k = aid then Some (row\<lparr>decision := Some dec, decided_by := u, ap_comment := c,
         decided_at := Some now\<rparr>) else get_row approval_id k (approvals d))" for k
    using 1 by (simp add: get_modify_row)
  with 1 show ?thesis by (auto simp: decide_approval_def UUID_def)
qed

definition demo_approval :: approval where
  "demo_approval = \<lparr>approval_id = 9, ap_investigation_id = 7, ap_kind = ''remediation'', ap_subject = [],
     decision = None, decided_by = None, decided_at = None, ap_comment = None, ap_created_at = 0\<rparr>"

theorem decide_approval_once_witness:
  "\<exists>d'. decide_approval 10 (uuid_str 9) ''approved'' None None (demo_db\<lparr>approvals := [demo_approval]\<rparr>) = Inr d' \<and>
     decide_approval 11 (uuid_str 9) ''denied'' None None d' = Inl (ValueError ''approval already decided'')"
proof -
  have "uuid_parse (uuid_str 9) = Some 9" by (rule uuid_parse_uuid_str) simp
  then obtain d' where d': "decide_approval 10 (uuid_str 9) ''approved'' None None
      (demo_db\<lparr>approvals := [demo_approval]\<rparr>) = Inr d'"
    by (simp add: decide_approval_def UUID_def get_row_def demo_approval_def)
  from decide_approval_once[OF d'] d' show ?thesis by blast
qed

end
