(* ===== verification/Fingerprint.thy ===== *)
theory Fingerprint
  imports Prelude
begin

text \<open>
  Alert fingerprints, \<open>rca_common/fingerprint.py\<close>.  The hash function is a parameter
  \<open>sha256\<close> from bytes to the hexadecimal digest.  The lemmas show that the normalisation is
  idempotent, that it ignores exactly the drift the module promises to ignore (letter case, runs of
  white space, punctuation at the edges), and that the hashed payload determines the platform and the
  normalised signature.
\<close>

text \<open>\<open>_WS_RE.sub(" ", text)\<close>\<close>

function collapse_ws :: "string \<Rightarrow> string" where
  "collapse_ws [] = []"
| "collapse_ws (c # s) =
     (if is_space c then CHR '' '' # collapse_ws (dropWhile is_space s) else c # collapse_ws s)"
  by pat_completeness auto
termination
  by (relation "measure length") (auto simp: less_Suc_eq_le length_dropWhile_le)

text \<open>The character class \<open>[\s\W_]\<close>\<close>

definition is_edge :: "char \<Rightarrow> bool" where
  "is_edge c \<longleftrightarrow> is_space c \<or> \<not> is_word c \<or> c = CHR ''_''"

definition normalize_error_signature :: "string \<Rightarrow> string" where
  "normalize_error_signature error_summary =
     (let text = str_lower (str_strip error_summary) in
      strip_by is_edge (collapse_ws text))"

definition fingerprint_payload :: "string \<Rightarrow> string \<Rightarrow> string" where
  "fingerprint_payload pk sig = utf8 (pk @ [CHR 0x0A] @ sig)"

definition compute_fingerprint :: "(string \<Rightarrow> string) \<Rightarrow> string \<Rightarrow> string \<Rightarrow> string" where
  "compute_fingerprint sha256 pk error_summary =
     sha256 (fingerprint_payload pk (normalize_error_signature error_summary))"

section \<open>Collapsing white space\<close>

lemma is_space_is_edge [simp]: "is_space c \<Longrightarrow> is_edge c"
  by (simp add: is_edge_def)

lemma space_chars [simp]: "is_space (CHR '' '')" "is_edge (CHR '' '')"
  by (simp_all add: is_edge_def is_space_def code_point_def)

lemma set_collapse: "c \<in> set (collapse_ws s) \<Longrightarrow> c = CHR '' '' \<or> (c \<in> set s \<and> \<not> is_space c)"
  by (induction s rule: collapse_ws.induct) (auto split: if_splits dest: set_dropWhileD)

lemma dropWhile_space_then_edge: "dropWhile is_edge (dropWhile is_space s) = dropWhile is_edge s"
  by (induction s) auto

lemma dropWhile_collapse:
  "dropWhile is_edge (collapse_ws s) = collapse_ws (dropWhile is_edge s)"
  by (induction s rule: collapse_ws.induct) (auto simp: dropWhile_space_then_edge)

lemma collapse_append_nonspace:
  "b = [] \<or> \<not> is_space (hd b) \<Longrightarrow> collapse_ws (a @ b) = collapse_ws a @ collapse_ws b"
proof (induction a rule: collapse_ws.induct)
  case 1
  then show ?case by simp
next
  case (2 c s)
  have "dropWhile is_space (s @ b) = dropWhile is_space s @ b"
    using 2(3) by (cases b) (auto simp: dropWhile_append dest: dropWhile_eq_Nil_conv[THEN iffD1])
  with 2 show ?case by auto
qed

lemma collapse_append_after:
  "a = [] \<or> \<not> is_space (last a) \<Longrightarrow> collapse_ws (a @ b) = collapse_ws a @ collapse_ws b"
proof (induction a rule: collapse_ws.induct)
  case 1
  then show ?case by simp
next
  case (2 c s)
  show ?case
  proof (cases "is_space c")
    case True
    with 2(3) have s: "s \<noteq> []" "\<not> is_space (last s)" by (auto split: if_splits)
    then have "\<not> (\<forall>x \<in> set s. is_space x)" by (metis last_in_set)
    then have dw: "dropWhile is_space (s @ b) = dropWhile is_space s @ b"
      and ne: "dropWhile is_space s \<noteq> []"
      by (auto simp: dropWhile_append)
    moreover have "last (dropWhile is_space s) = last s"
      using ne by (metis last_appendR takeWhile_dropWhile_id)
    ultimately show ?thesis using 2(1)[OF True] True s by simp
  next
    case False
    with 2 show ?thesis by (cases s) auto
  qed
qed

lemma collapse_all_space:
  "\<forall>x \<in> set w. is_space x \<Longrightarrow> collapse_ws w = (if w = [] then [] else '' '')"
proof (cases w)
  case (Cons c s)
  assume "\<forall>x \<in> set w. is_space x"
  with Cons have "is_space c" and nil: "dropWhile is_space s = []" by auto
  from Cons \<open>is_space c\<close> show ?thesis by (simp add: nil del: dropWhile_eq_Nil_conv)
qed simp

lemma collapse_rev: "collapse_ws (rev s) = rev (collapse_ws s)"
proof (induction s rule: collapse_ws.induct)
  case 1
  then show ?case by simp
next
  case (2 c s)
  show ?case
  proof (cases "is_space c")
    case False
    then have "collapse_ws (rev s @ [c]) = collapse_ws (rev s) @ collapse_ws [c]"
      by (intro collapse_append_nonspace) simp
    with False 2 show ?thesis by simp
  next
    case True
    define w where "w = takeWhile is_space s"
    define t where "t = dropWhile is_space s"
    have s: "s = w @ t" by (simp add: w_def t_def)
    have w: "\<forall>x \<in> set (rev w @ [c]). is_space x"
      using True by (auto simp: w_def dest: set_takeWhileD)
    have "t = [] \<or> \<not> is_space (hd t)" unfolding t_def using hd_dropWhile by blast
    then have "collapse_ws (rev t @ rev w @ [c]) = collapse_ws (rev t) @ collapse_ws (rev w @ [c])"
      by (intro collapse_append_after) (auto simp: last_rev)
    also have "\<dots> = rev (collapse_ws t) @ '' ''"
      using 2(1)[OF True] collapse_all_space[OF w] by (simp add: t_def)
    finally show ?thesis using True by (simp add: s t_def[symmetric])
        (simp add: s[symmetric] t_def[symmetric])
  qed
qed

lemma strip_collapse: "strip_by is_edge (collapse_ws s) = collapse_ws (strip_by is_edge s)"
  by (simp add: strip_by_def dropWhile_collapse collapse_rev[symmetric])

lemma collapse_idem [simp]: "collapse_ws (collapse_ws s) = collapse_ws s"
proof (induction s rule: collapse_ws.induct)
  case 1
  then show ?case by simp
next
  case (2 c s)
  have "dropWhile is_space (collapse_ws t) = collapse_ws t" if "t = [] \<or> \<not> is_space (hd t)" for t
    using that by (cases t) auto
  moreover have "dropWhile is_space s = [] \<or> \<not> is_space (hd (dropWhile is_space s))"
    using hd_dropWhile by blast
  ultimately show ?case using 2 by auto
qed

section \<open>Normalisation\<close>

lemma lower_space [simp]: "lower_char (CHR '' '') = CHR '' ''"
  by (simp add: lower_char_def code_point_def)

lemma lower_is_edge [simp]: "is_edge (lower_char c) = is_edge c"
proof -
  have "lower_char c = CHR ''_'' \<longleftrightarrow> c = CHR ''_''"
    using lower_char_fix[of c "CHR ''_''"] by (auto simp: code_point_def lower_char_def)
  then show ?thesis by (simp add: is_edge_def)
qed

lemma collapse_lower: "collapse_ws (str_lower s) = str_lower (collapse_ws s)"
  by (induction s rule: collapse_ws.induct) (auto simp: str_lower_def dropWhile_map_commute)

lemma str_lower_idem [simp]: "str_lower (str_lower s) = str_lower s"
  by (simp add: str_lower_def)

text \<open>The three passes in any order: stripping the edges, collapsing, lower-casing.\<close>

lemma normalize_nf:
  "normalize_error_signature s = collapse_ws (strip_by is_edge (str_lower s))"
proof -
  have "str_lower (str_strip s) = str_strip (str_lower s)"
    by (simp add: str_lower_def str_strip_def strip_by_map)
  then show ?thesis
    by (simp add: normalize_error_signature_def strip_collapse str_strip_def strip_by_weaker)
qed

lemma normalize_idem_aux: "normalize_error_signature (normalize_error_signature s) =
    normalize_error_signature s"
proof -
  let ?y = "strip_by is_edge (str_lower s)"
  have "str_lower (collapse_ws ?y) = collapse_ws ?y"
    by (simp add: collapse_lower[symmetric]) (simp add: str_lower_def strip_by_map comp_def)
  then have "normalize_error_signature (collapse_ws ?y) = strip_by is_edge (collapse_ws (collapse_ws ?y))"
    by (simp add: normalize_nf strip_collapse)
  then show ?thesis by (simp add: normalize_nf strip_collapse)
qed

lemma normalize_edges_aux:
  assumes "\<forall>c \<in> set a \<union> set b. is_edge c"
  shows "normalize_error_signature (a @ s @ b) = normalize_error_signature s"
proof -
  have "strip_by is_edge (str_lower a @ str_lower s @ str_lower b) = strip_by is_edge (str_lower s)"
    by (rule strip_by_append) (use assms in \<open>auto simp: str_lower_def\<close>)
  then show ?thesis by (simp add: normalize_nf str_lower_def)
qed

lemma normalize_lower_aux: "normalize_error_signature (str_lower s) = normalize_error_signature s"
  by (simp add: normalize_nf)

lemma normalize_collapse_aux:
  "normalize_error_signature (collapse_ws s) = normalize_error_signature s"
  by (simp add: normalize_nf collapse_lower[symmetric] strip_collapse)

lemma normalize_no_newline: "CHR 0x0A \<notin> set (normalize_error_signature s)"
proof
  assume "CHR 0x0A \<in> set (normalize_error_signature s)"
  then have "CHR 0x0A = CHR '' '' \<or> \<not> is_space (CHR 0x0A)"
    unfolding normalize_nf by (auto dest: set_collapse)
  then show False by (simp add: is_space_def code_point_def)
qed

section \<open>The hashed payload\<close>

lemma append_sep_inj:
  assumes "a @ x # s = b @ x # t" "x \<notin> set s" "x \<notin> set t"
  shows "a = b \<and> s = t"
proof -
  from assms have "takeWhile (\<lambda>y. y \<noteq> x) (rev s @ x # rev a) = takeWhile (\<lambda>y. y \<noteq> x) (rev t @ x # rev b)"
    by (metis append_assoc append_Cons append_Nil rev.simps(2) rev_append rev_rev_ident)
  moreover have "takeWhile (\<lambda>y. y \<noteq> x) (rev u @ x # v) = rev u" if "x \<notin> set u" for u v
    using that by (subst takeWhile_append2) auto
  ultimately have "s = t" using assms(2,3) by simp
  with assms show ?thesis by simp
qed

lemma payload_inj:
  assumes "CHR 0x0A \<notin> set s" "CHR 0x0A \<notin> set t"
  shows "fingerprint_payload k s = fingerprint_payload l t \<longleftrightarrow> k = l \<and> s = t"
  using append_sep_inj[of k "CHR 0x0A" s l t] assms
  by (auto simp: fingerprint_payload_def dest: utf8_inj)

section \<open>Properties\<close>

text \<open>the fingerprint does not change under the drift the module promises to absorb:
  punctuation or white space added at either end of the summary, letter case, and the length and kind
  of the white-space runs inside it; and normalising twice is normalising once.\<close>

theorem fingerprint_ignores_drift:
  assumes "\<forall>c \<in> set a \<union> set b. is_edge c"
  shows "compute_fingerprint sha256 k (a @ s @ b) = compute_fingerprint sha256 k s \<and>
    compute_fingerprint sha256 k (str_lower s) = compute_fingerprint sha256 k s \<and>
    compute_fingerprint sha256 k (collapse_ws s) = compute_fingerprint sha256 k s \<and>
    compute_fingerprint sha256 k (normalize_error_signature s) = compute_fingerprint sha256 k s"
  using assms
  by (simp add: compute_fingerprint_def normalize_edges_aux normalize_lower_aux
      normalize_collapse_aux normalize_idem_aux)

theorem fingerprint_ignores_drift_witness:
  "compute_fingerprint id ''p1'' (''[ '' @ ''Query  FAILED'' @ '' ]!'') =
   compute_fingerprint id ''p1'' ''Query  FAILED''"
proof -
  have "\<forall>c \<in> set ''[ '' \<union> set '' ]!''. is_edge c" by code_simp
  from fingerprint_ignores_drift[OF this, of id "''p1''" "''Query  FAILED''"]
  show ?thesis by blast
qed

text \<open>when the hash does not collide on the two payloads, two events share a fingerprint
  exactly when they name the same platform and have the same normalised signature: the newline that
  joins the two parts cannot be confused with either of them.\<close>

theorem fingerprint_separates:
  assumes "sha256 (fingerprint_payload k (normalize_error_signature s)) =
      sha256 (fingerprint_payload l (normalize_error_signature t)) \<Longrightarrow>
      fingerprint_payload k (normalize_error_signature s) =
      fingerprint_payload l (normalize_error_signature t)"
  shows "compute_fingerprint sha256 k s = compute_fingerprint sha256 l t \<longleftrightarrow>
    k = l \<and> normalize_error_signature s = normalize_error_signature t"
  using assms payload_inj[OF normalize_no_newline normalize_no_newline]
  unfolding compute_fingerprint_def by metis

theorem fingerprint_separates_witness:
  "compute_fingerprint id ''p1'' ''disk full'' \<noteq> compute_fingerprint id ''p2'' ''disk full''"
  using fingerprint_separates[of id "''p1''" "''disk full''" "''p2''" "''disk full''"] by simp

end
