(* ===== verification/Ingest.thy ===== *)
theory Ingest
  imports Repo Fingerprint
begin

text \<open>
  \<open>gateway/ingest.py\<close>: normalisation of a webhook body, the group of candidates that share one
  outer transaction (\<open>_execute_merge_batch\<close>), and the individual transaction that rejects, merges
  or opens (\<open>_ingest_txn\<close>).

  The text fields of a webhook body are strings or missing.  Everything a database session may do
  to a statement is explicit: the faults of one candidate are the fields of \<open>item_env\<close>, those of the
  outer transaction the fields of \<open>group_env\<close>.
\<close>

section \<open>Normalisation\<close>

record raw_alert =
  raw_event_id :: "string option"
  raw_source :: "string option"
  raw_platform_key :: "string option"
  raw_error_summary :: "string option"
  raw_error_detail :: pyval
  raw_occurred_at :: "string option"
  raw_reporter :: pyval
  raw_severity :: "string option"
  raw_labels :: pyval
  raw_fingerprint :: "string option"

text \<open>\<open>raw.get(key) or default\<close>\<close>

definition text_or :: "string option \<Rightarrow> string \<Rightarrow> string" where
  "text_or v dflt = (case v of None \<Rightarrow> dflt | Some s \<Rightarrow> if s = [] then dflt else s)"

definition normalize_payload ::
  "(string \<Rightarrow> string) \<Rightarrow> uuid \<Rightarrow> string \<Rightarrow> raw_alert \<Rightarrow> alert" where
  "normalize_payload sha256 fresh now_iso raw =
     (let pk = text_or (raw_platform_key raw) [];
          summary = text_or (raw_error_summary raw) [] in
      \<lparr>ev_event_id = text_or (raw_event_id raw) (uuid_str fresh),
       ev_source = text_or (raw_source raw) [],
       ev_platform_key = pk,
       ev_error_summary = summary,
       ev_error_detail = raw_error_detail raw,
       ev_occurred_at = text_or (raw_occurred_at raw) now_iso,
       ev_reporter = raw_reporter raw,
       ev_severity = text_or (raw_severity raw) ''unknown'',
       ev_labels = py_or (raw_labels raw) (PDict []),
       ev_fingerprint = text_or (raw_fingerprint raw) (compute_fingerprint sha256 pk summary)\<rparr>)"

section \<open>One group, one outer transaction\<close>

datatype outcome = MergeHit uuid | MergeMiss | Failed pyexc

text \<open>What the database session does to one candidate: the clock reading, a failure of
  \<open>begin_nested\<close>, of the statement itself, of \<open>savepoint.commit\<close>, of \<open>savepoint.rollback\<close>, and
  whether the outer transaction is still active after a rollback.\<close>

record item_env =
  at_time :: timestamp
  begin_fault :: "pyexc option"
  stmt_fault :: "pyexc option"
  release_fault :: "pyexc option"
  rollback_fault :: "pyexc option"
  still_active :: bool

record group_env =
  commit_fault :: "pyexc option"
  end_rollback_fault :: "pyexc option"

definition recover_savepoint :: "item_env \<Rightarrow> pyexc \<Rightarrow> pyexc option" where
  "recover_savepoint v exc =
     (case rollback_fault v of
        Some recovery_error \<Rightarrow> Some recovery_error
      | None \<Rightarrow> if \<not> still_active v then Some exc else None)"

definition hit_or_miss :: "uuid option \<Rightarrow> outcome" where
  "hit_or_miss r = (case r of None \<Rightarrow> MergeMiss | Some iid \<Rightarrow> MergeHit iid)"

definition run_statement ::
  "(join_row list \<Rightarrow> join_row option) \<Rightarrow> int \<Rightarrow> item_env \<Rightarrow> alert \<Rightarrow> db \<Rightarrow> (uuid option \<times> db) res" where
  "run_statement limit1 dflt v e d =
     (case stmt_fault v of Some x \<Rightarrow> Inl x
      | None \<Rightarrow> merge_existing_event_with_audit limit1 (at_time v) dflt e d)"

text \<open>The loop over the candidates; \<open>None\<close> among the outcomes is a member not reached.  The last
  component of the result is the database as the open transaction sees it.\<close>

fun merge_loop ::
  "(join_row list \<Rightarrow> join_row option) \<Rightarrow> int \<Rightarrow> (alert \<times> item_env) list \<Rightarrow> db
   \<Rightarrow> (outcome option list \<times> pyexc option \<times> db) res" where
  "merge_loop limit1 dflt [] d = Inr ([], None, d)"
| "merge_loop limit1 dflt ((e, v) # rest) d =
     (case begin_fault v of Some x \<Rightarrow> Inl x
      | None \<Rightarrow>
        (case run_statement limit1 dflt v e d of
           Inl exc \<Rightarrow>
             (case recover_savepoint v exc of
                Some fatal \<Rightarrow> Inr (Some (Failed exc) # map (\<lambda>_. None) rest, Some fatal, d)
              | None \<Rightarrow>
                  bind_res (merge_loop limit1 dflt rest d)
                    (\<lambda>(os, fatal, d'). Inr (Some (Failed exc) # os, fatal, d')))
         | Inr (r, d1) \<Rightarrow>
             (case release_fault v of Some x \<Rightarrow> Inl x
              | None \<Rightarrow>
                  bind_res (merge_loop limit1 dflt rest d1)
                    (\<lambda>(os, fatal, d'). Inr (Some (hit_or_miss r) # os, fatal, d')))))"

fun is_hit :: "outcome \<Rightarrow> bool" where
  "is_hit (MergeHit iid) = True"
| "is_hit _ = False"

text \<open>The group's failure and the committed database, from the database before the group and the
  one inside the transaction.\<close>

definition finish_merge_batch ::
  "group_env \<Rightarrow> outcome option list \<Rightarrow> pyexc option \<Rightarrow> db \<Rightarrow> db \<Rightarrow> (pyexc option \<times> db) res" where
  "finish_merge_batch g os fatal d d' =
     (case fatal of
        Some x \<Rightarrow> Inr (Some x, d)
      | None \<Rightarrow>
          if list_ex (\<lambda>o'. case o' of None \<Rightarrow> False | Some oc \<Rightarrow> is_hit oc) os then
            (case commit_fault g of Some x \<Rightarrow> Inr (Some x, d) | None \<Rightarrow> Inr (None, d'))
          else (case end_rollback_fault g of Some x \<Rightarrow> Inl x | None \<Rightarrow> Inr (None, d)))"

text \<open>Without a group failure every member was reached, so the placeholder is never read; the
  handler would treat it like a miss.\<close>

definition resolve_outcome :: "pyexc option \<Rightarrow> outcome option \<Rightarrow> outcome" where
  "resolve_outcome fatal o' =
     (case fatal of
        None \<Rightarrow> (case o' of Some oc \<Rightarrow> oc | None \<Rightarrow> MergeMiss)
      | Some x \<Rightarrow> (case o' of Some (Failed exc) \<Rightarrow> Failed exc | _ \<Rightarrow> Failed x))"

definition execute_merge_batch ::
  "(join_row list \<Rightarrow> join_row option) \<Rightarrow> int \<Rightarrow> group_env \<Rightarrow> (alert \<times> item_env) list \<Rightarrow> db
   \<Rightarrow> (outcome list \<times> db) res" where
  "execute_merge_batch limit1 dflt g batch d =
     bind_res (merge_loop limit1 dflt batch d) (\<lambda>(os, fatal, d').
     bind_res (finish_merge_batch g os fatal d d') (\<lambda>(fatal', d'').
       Inr (map (resolve_outcome fatal') os, d'')))"

section \<open>The individual transaction\<close>

definition py_window_seconds :: "dict \<Rightarrow> int \<Rightarrow> int res" where
  "py_window_seconds cfg dflt =
     (if has_key cfg ''correlation_window_seconds''
      then py_int (dget cfg ''correlation_window_seconds'')
      else if has_key cfg ''correlation_window'' then py_int (dget cfg ''correlation_window'')
      else Inr dflt)"

definition reject_event :: "timestamp \<Rightarrow> alert \<Rightarrow> string \<Rightarrow> db \<Rightarrow> db res" where
  "reject_event now e reason d =
     bind_res (UUID (ev_event_id e)) (\<lambda>eid.
     bind_res (insert_alert_event now eid e ''rejected'' None (Some reason) d)
       (write_audit now ''event_rejected'' actor_system None
          (Some [(''event_id'', PStr (ev_event_id e)), (''reason'', PStr reason)])))"

type_synonym response = "int \<times> dict"

definition rejected_response :: "string \<Rightarrow> response" where
  "rejected_response reason = (200, [(''status'', PStr ''rejected''), (''reason'', PStr reason)])"

definition merged_response :: "uuid \<Rightarrow> response" where
  "merged_response iid =
     (200, [(''status'', PStr ''merged''), (''investigation_id'', PStr (uuid_str iid))])"

definition opened_response :: "uuid \<Rightarrow> response" where
  "opened_response iid = (202, [(''investigation_id'', PStr (uuid_str iid))])"

definition budget_base :: "dict \<Rightarrow> dict" where
  "budget_base dflts =
     [(''max_rounds'', dget_or dflts ''max_rounds'' (PInt 15)),
      (''max_cost_usd'', dget_or dflts ''max_cost_usd'' (PFloat 10)),
      (''max_wall_seconds'', dget_or dflts ''max_wall_seconds'' (PInt 1800))]"

definition merge_into :: "timestamp \<Rightarrow> alert \<Rightarrow> uuid \<Rightarrow> db \<Rightarrow> db res" where
  "merge_into now e iid d =
     bind_res (UUID (ev_event_id e)) (\<lambda>eid.
     bind_res (insert_alert_event now eid e ''merged'' (Some iid) None d)
       (write_audit now ''event_merged'' actor_system (Some iid) (Some (merged_detail e))))"

definition open_case :: "timestamp \<Rightarrow> alert \<Rightarrow> uuid \<Rightarrow> dict \<Rightarrow> db \<Rightarrow> db res" where
  "open_case now e iid bud d =
     bind_res (UUID (ev_event_id e)) (\<lambda>eid.
     bind_res (insert_alert_event now eid e ''opened'' (Some iid) None d) (\<lambda>d1.
     bind_res (write_audit now ''event_received'' actor_system (Some iid) (Some (merged_detail e)) d1)
       (create_investigation now iid (ev_platform_key e) ''RECEIVED'' (Some eid)
          (''investigation-'' @ uuid_str iid) bud None)))"

definition ingest_txn ::
  "(join_row list \<Rightarrow> join_row option) \<Rightarrow> timestamp \<Rightarrow> uuid \<Rightarrow> dict \<Rightarrow> int \<Rightarrow> alert \<Rightarrow> db
   \<Rightarrow> ((response \<times> uuid option) \<times> db) res" where
  "ingest_txn limit1 now fresh dflts window e d =
     (case get_platform d (ev_platform_key e) of
        None \<Rightarrow>
          bind_res (reject_event now e ''unknown_platform_key'' d)
            (\<lambda>d'. Inr ((rejected_response ''unknown_platform_key'', None), d'))
      | Some p \<Rightarrow>
          if str_lower (p_status p) \<noteq> ''online'' then
            bind_res (reject_event now e ''platform_not_ready'' d)
              (\<lambda>d'. Inr ((rejected_response ''platform_not_ready'', None), d'))
          else
            bind_res (py_window_seconds (p_config p) window) (\<lambda>w.
            bind_res (find_open_by_fingerprint limit1 now (ev_fingerprint e) (ev_platform_key e) w d)
              (\<lambda>existing. case existing of
                 Some i \<Rightarrow>
                   bind_res (merge_into now e (investigation_id i) d)
                     (\<lambda>d'. Inr ((merged_response (investigation_id i), None), d'))
               | None \<Rightarrow>
                   bind_res (merge_platform_budget (budget_base dflts) (p_config p)) (\<lambda>bud.
                   bind_res (open_case now e fresh bud d)
                     (\<lambda>d'. Inr ((opened_response fresh, Some fresh), d'))))))"

section \<open>The request handler\<close>

text \<open>\<open>ingest\<close> as a step function: the checks before the group, then what follows the group's
  outcome for this event.  \<open>started\<close> records the workflow that has to be started.\<close>

definition admission :: "string list \<Rightarrow> alert \<Rightarrow> response option" where
  "admission known e =
     (if ev_platform_key e = [] then Some (rejected_response ''missing_platform_key'')
      else if ev_error_summary e = [] then Some (rejected_response ''missing_error_summary'')
      else if ev_source e \<noteq> [] \<and> known \<noteq> [] \<and> ev_source e \<notin> set known
        then Some (rejected_response ''unknown_source'')
      else None)"

definition after_group ::
  "(join_row list \<Rightarrow> join_row option) \<Rightarrow> timestamp \<Rightarrow> uuid \<Rightarrow> dict \<Rightarrow> int \<Rightarrow> alert \<Rightarrow> outcome \<Rightarrow> db
   \<Rightarrow> ((response \<times> uuid option) \<times> db) res" where
  "after_group limit1 now fresh dflts window e oc d =
     (case oc of
        MergeHit iid \<Rightarrow> Inr ((merged_response iid, None), d)
      | Failed x \<Rightarrow> Inl x
      | MergeMiss \<Rightarrow> ingest_txn limit1 now fresh dflts window e d)"

text \<open>A request that is alone in its group.\<close>

definition ingest_alone ::
  "(join_row list \<Rightarrow> join_row option) \<Rightarrow> string list \<Rightarrow> item_env \<Rightarrow> group_env \<Rightarrow> timestamp \<Rightarrow> uuid \<Rightarrow>
   dict \<Rightarrow> int \<Rightarrow> alert \<Rightarrow> db \<Rightarrow> (response \<times> uuid option) res \<times> db" where
  "ingest_alone limit1 known v g now fresh dflts window e d =
     (case admission known e of
        Some r \<Rightarrow> (Inr (r, None), d)
      | None \<Rightarrow>
          (case execute_merge_batch limit1 window g [(e, v)] d of
             Inl x \<Rightarrow> (Inl x, d)
           | Inr (os, d1) \<Rightarrow>
               (case after_group limit1 now fresh dflts window e (hd os) d1 of
                  Inl x \<Rightarrow> (Inl x, d1)
                | Inr (r, d2) \<Rightarrow> (Inr r, d2))))"

section \<open>What a group writes\<close>

text \<open>The event rows and audit entries of the members that were answered with a hit.\<close>

definition hit_row :: "alert \<times> item_env \<Rightarrow> outcome option \<Rightarrow> alert_event list" where
  "hit_row ev oc = (case oc of Some (MergeHit iid) \<Rightarrow>
     [merged_event_row (at_time (snd ev)) (the (uuid_parse (ev_event_id (fst ev)))) (fst ev) iid] | _ \<Rightarrow> [])"

definition hit_audit :: "alert \<times> item_env \<Rightarrow> outcome option \<Rightarrow> (string \<times> uuid option \<times> dict option) list" where
  "hit_audit ev oc = (case oc of Some (MergeHit iid) \<Rightarrow>
     [(''event_merged'', Some iid, Some (merged_detail (fst ev)))] | _ \<Rightarrow> [])"

definition hit_rows :: "(alert \<times> item_env) list \<Rightarrow> outcome option list \<Rightarrow> alert_event list" where
  "hit_rows batch os = concat (map2 hit_row batch os)"

definition hit_audits ::
  "(alert \<times> item_env) list \<Rightarrow> outcome option list \<Rightarrow> (string \<times> uuid option \<times> dict option) list" where
  "hit_audits batch os = concat (map2 hit_audit batch os)"

definition audit_view :: "audit_log \<Rightarrow> string \<times> uuid option \<times> dict option" where
  "audit_view a = (action a, au_investigation_id a, detail a)"

text \<open>\<open>d'\<close> extends \<open>d\<close> by exactly those rows.\<close>

definition extends_by :: "(alert \<times> item_env) list \<Rightarrow> outcome option list \<Rightarrow> db \<Rightarrow> db \<Rightarrow> bool" where
  "extends_by batch os d d' \<longleftrightarrow>
     (\<exists>aus. d' = d\<lparr>alert_events := alert_events d @ hit_rows batch os, audits := audits d @ aus\<rparr> \<and>
            map audit_view aus = hit_audits batch os)"

lemma hit_rows_simps [simp]:
  "hit_rows [] os = []" "hit_rows (b # bs) (oc # os) = hit_row b oc @ hit_rows bs os"
  "hit_audits [] os = []" "hit_audits (b # bs) (oc # os) = hit_audit b oc @ hit_audits bs os"
  by (simp_all add: hit_rows_def hit_audits_def)

lemma hit_row_none [simp]:
  "hit_row b (Some (Failed x)) = []" "hit_row b (Some MergeMiss) = []" "hit_row b None = []"
  "hit_audit b (Some (Failed x)) = []" "hit_audit b (Some MergeMiss) = []" "hit_audit b None = []"
  by (simp_all add: hit_row_def hit_audit_def)

lemma hit_rows_no_hit:
  assumes "list_all (\<lambda>oc. \<not> (\<exists>iid. oc = Some (MergeHit iid))) os"
  shows "hit_rows batch os = [] \<and> hit_audits batch os = []"
proof -
  have "hit_row b oc = [] \<and> hit_audit b oc = []" if "oc \<in> set os" for b oc
    using assms that by (auto simp: list_all_iff hit_row_def hit_audit_def split: option.splits outcome.splits)
  then show ?thesis
    by (auto simp: hit_rows_def hit_audits_def dest: set_zip_rightD)
qed

lemma extends_refl: "hit_rows batch os = [] \<and> hit_audits batch os = [] \<Longrightarrow> extends_by batch os d d"
  by (auto simp: extends_by_def intro!: exI[of _ "[]"])

lemma extends_hit:
  assumes "merge_existing_event_with_audit limit1 (at_time v) dflt e d = Inr (r, d1)"
    and "extends_by rest os d1 d'"
  shows "extends_by ((e, v) # rest) (Some (hit_or_miss r) # os) d d'"
  using assms(1)
proof (cases rule: merge_existing_cases)
  case miss
  with assms(2) show ?thesis by (auto simp: extends_by_def hit_or_miss_def)
next
  case (hit eid iid)
  let ?a = "\<lparr>seq = next_seq (audits d), audit_at = at_time v, au_investigation_id = Some iid,
    actor = ''system'', action = ''event_merged'', detail = Some (merged_detail e)\<rparr>"
  from assms(2) obtain aus where "map audit_view aus = hit_audits rest os"
    "d' = d1\<lparr>alert_events := alert_events d1 @ hit_rows rest os, audits := audits d1 @ aus\<rparr>"
    by (auto simp: extends_by_def)
  with hit show ?thesis
    by (auto simp: extends_by_def hit_or_miss_def hit_row_def hit_audit_def audit_view_def
        intro!: exI[of _ "?a # aus"])
qed

lemma merge_loop_writes:
  "merge_loop limit1 dflt batch d = Inr (os, fatal, d') \<Longrightarrow>
   length os = length batch \<and> extends_by batch os d d' \<and> (fatal = None \<longrightarrow> None \<notin> set os)"
proof (induction batch arbitrary: d os fatal d')
  case Nil
  then show ?case by (auto intro: extends_refl)
next
  case (Cons ev rest)
  obtain e v where ev: "ev = (e, v)" by fastforce
  show ?case
  proof (cases "run_statement limit1 dflt v e d")
    case (Inl exc)
    show ?thesis
    proof (cases "recover_savepoint v exc")
      case None
      with Cons.prems Inl ev obtain os' where l: "merge_loop limit1 dflt rest d = Inr (os', fatal, d')"
        and os: "os = Some (Failed exc) # os'"
        by (auto simp: res_simps split: option.splits)
      from Cons.IH[OF l] show ?thesis by (auto simp: os ev extends_by_def)
    next
      case (Some x)
      with Cons.prems Inl ev have "os = Some (Failed exc) # map (\<lambda>_. None) rest" "d' = d" "fatal = Some x"
        by (auto split: option.splits)
      then show ?thesis by (auto simp: ev list_all_iff intro!: extends_refl hit_rows_no_hit)
    qed
  next
    case (Inr rd)
    obtain r d1 where rd: "rd = (r, d1)" by fastforce
    with Cons.prems Inr ev obtain os' where l: "merge_loop limit1 dflt rest d1 = Inr (os', fatal, d')"
      and os: "os = Some (hit_or_miss r) # os'"
      by (auto simp: res_simps split: option.splits)
    from Inr rd have "merge_existing_event_with_audit limit1 (at_time v) dflt e d = Inr (r, d1)"
      by (auto simp: run_statement_def split: option.splits)
    from extends_hit[OF this] Cons.IH[OF l] show ?thesis by (auto simp: os ev)
  qed
qed

lemma hit_some_iff:
  "list_ex (\<lambda>o'. case o' of None \<Rightarrow> False | Some oc \<Rightarrow> is_hit oc) os \<longleftrightarrow>
   \<not> list_all (\<lambda>oc. \<not> (\<exists>iid. oc = Some (MergeHit iid))) os"
proof -
  have "(case oc of None \<Rightarrow> False | Some oc \<Rightarrow> is_hit oc) \<longleftrightarrow> (\<exists>iid. oc = Some (MergeHit iid))" for oc
    by (auto split: option.splits elim: is_hit.elims)
  then show ?thesis by (auto simp: list_ex_iff list_all_iff)
qed

lemma resolve_no_fatal: "None \<notin> set os \<Longrightarrow> map Some (map (resolve_outcome None) os) = os"
proof (induction os)
  case (Cons oc os)
  then show ?case by (cases oc) (auto simp: resolve_outcome_def)
qed simp

lemma resolve_fatal_no_hit:
  "list_all (\<lambda>oc. \<not> (\<exists>iid. oc = Some (MergeHit iid))) (map Some (map (resolve_outcome (Some x)) os))"
  by (auto simp: list_all_iff resolve_outcome_def split: option.splits outcome.splits)

lemma execute_batch_writes:
  assumes "execute_merge_batch limit1 dflt g batch d = Inr (outs, d')"
  shows "length outs = length batch \<and> extends_by batch (map Some outs) d d'"
proof -
  from assms obtain os fatal d1 fatal' where l: "merge_loop limit1 dflt batch d = Inr (os, fatal, d1)"
    and f: "finish_merge_batch g os fatal d d1 = Inr (fatal', d')"
    and outs: "outs = map (resolve_outcome fatal') os"
    by (auto simp: execute_merge_batch_def res_simps)
  note w = merge_loop_writes[OF l]
  show ?thesis
  proof (cases fatal')
    case (Some x)
    with f have "d' = d" by (auto simp: finish_merge_batch_def split: option.splits if_splits)
    moreover have "extends_by batch (map Some outs) d d"
      unfolding outs Some by (intro extends_refl hit_rows_no_hit resolve_fatal_no_hit)
    ultimately show ?thesis using w outs by simp
  next
    case None
    with f have fatal: "fatal = None" by (auto simp: finish_merge_batch_def split: option.splits)
    have os: "map Some outs = os" unfolding outs None by (rule resolve_no_fatal) (use w fatal in simp)
    show ?thesis
    proof (cases "list_all (\<lambda>oc. \<not> (\<exists>iid. oc = Some (MergeHit iid))) os")
      case True
      with f fatal None have "d' = d"
        by (auto simp: finish_merge_batch_def hit_some_iff split: option.splits if_splits)
      with True os w outs show ?thesis by (auto intro!: extends_refl hit_rows_no_hit)
    next
      case False
      with f fatal None have "d' = d1"
        by (auto simp: finish_merge_batch_def hit_some_iff split: option.splits if_splits)
      with os w outs show ?thesis by auto
    qed
  qed
qed

text \<open>A member that fails alone does not change what the others get.\<close>

definition fails_alone :: "int \<Rightarrow> (join_row list \<Rightarrow> join_row option) \<Rightarrow> alert \<times> item_env \<Rightarrow> db \<Rightarrow> pyexc \<Rightarrow> bool" where
  "fails_alone dflt limit1 ev d exc \<longleftrightarrow>
     begin_fault (snd ev) = None \<and> run_statement limit1 dflt (snd ev) (fst ev) d = Inl exc \<and>
     recover_savepoint (snd ev) exc = None"

lemma merge_loop_append:
  "merge_loop limit1 dflt (a @ b) d =
     bind_res (merge_loop limit1 dflt a d) (\<lambda>(os, fatal, d1).
       case fatal of
         Some x \<Rightarrow> Inr (os @ map (\<lambda>_. None) b, fatal, d1)
       | None \<Rightarrow> bind_res (merge_loop limit1 dflt b d1) (\<lambda>(os2, f2, d2). Inr (os @ os2, f2, d2)))"
proof (induction a arbitrary: d)
  case Nil
  then show ?case by (cases "merge_loop limit1 dflt b d") auto
next
  case (Cons ev a)
  obtain e v where ev: "ev = (e, v)" by fastforce
  have step: "bind_res (bind_res m (\<lambda>(os, fatal, d1).
          case fatal of Some x \<Rightarrow> Inr (os @ map (\<lambda>_. None) b, fatal, d1)
          | None \<Rightarrow> bind_res (merge_loop limit1 dflt b d1) (\<lambda>(os2, f2, d2). Inr (os @ os2, f2, d2))))
        (\<lambda>(os, fatal, d'). Inr (oc # os, fatal, d')) =
      bind_res (bind_res m (\<lambda>(os, fatal, d'). Inr (oc # os, fatal, d'))) (\<lambda>(os, fatal, d1).
          case fatal of Some x \<Rightarrow> Inr (os @ map (\<lambda>_. None) b, fatal, d1)
          | None \<Rightarrow> bind_res (merge_loop limit1 dflt b d1) (\<lambda>(os2, f2, d2). Inr (os @ os2, f2, d2)))"
    for m :: "(outcome option list \<times> pyexc option \<times> db) res" and oc
    by (auto simp: bind_res_def split: option.splits sum.splits)
  show ?case
    by (simp add: ev Cons.IH step split: option.splits sum.splits prod.splits)
qed

lemma merge_loop_skip_failed:
  assumes "merge_loop limit1 dflt a d = Inr (os1, None, d1)" and "fails_alone dflt limit1 ev d1 exc"
    and "merge_loop limit1 dflt b d1 = Inr (os2, fatal, d2)"
  shows "merge_loop limit1 dflt (a @ b) d = Inr (os1 @ os2, fatal, d2) \<and>
    merge_loop limit1 dflt (a @ ev # b) d = Inr (os1 @ Some (Failed exc) # os2, fatal, d2)"
proof -
  obtain e v where ev: "ev = (e, v)" by fastforce
  show ?thesis using assms by (simp add: merge_loop_append fails_alone_def ev)
qed

lemma finish_skip_failed:
  "finish_merge_batch g (os1 @ Some (Failed exc) # os2) fatal d d' =
   finish_merge_batch g (os1 @ os2) fatal d d'"
  by (simp add: finish_merge_batch_def)

section \<open>What the individual transaction writes\<close>

text \<open>One event row of the given disposition and case, and one audit row.\<close>

definition one_event :: "timestamp \<Rightarrow> alert \<Rightarrow> string \<Rightarrow> uuid option \<Rightarrow> string option \<Rightarrow> string \<Rightarrow> db \<Rightarrow> db \<Rightarrow> bool" where
  "one_event now e disp iid reason act d d' \<longleftrightarrow>
     (\<exists>eid au row. uuid_parse (ev_event_id e) = Some eid \<and> eid \<notin> event_id ` set (alert_events d) \<and>
        alert_events d' = alert_events d @ [row] \<and> audits d' = audits d @ [au] \<and>
        event_id row = eid \<and> ae_fingerprint row = ev_fingerprint e \<and>
        ae_platform_key row = Some (ev_platform_key e) \<and> disposition row = disp \<and>
        ae_investigation_id row = iid \<and> reject_reason row = reason \<and> received_at row = now \<and>
        action au = act \<and> au_investigation_id au = iid)"

lemma frame_events:
  "d'\<lparr>alert_events := x, audits := y\<rparr> = d \<Longrightarrow> platforms d' = platforms d \<and> investigations d' = investigations d"
  by auto

lemma frame_open:
  "d'\<lparr>alert_events := x, audits := y, investigations := z\<rparr> = d \<Longrightarrow> platforms d' = platforms d"
  by auto

lemma reject_event_writes:
  assumes "reject_event now e reason d = Inr d'"
  shows "one_event now e ''rejected'' None (Some reason) ''event_rejected'' d d' \<and>
    d'\<lparr>alert_events := alert_events d, audits := audits d\<rparr> = d"
  using assms
  by (auto simp: reject_event_def one_event_def UUID_def insert_alert_event_def res_simps
      dest!: write_audit_Inr)

lemma merge_into_writes:
  assumes "merge_into now e iid d = Inr d'"
  shows "one_event now e ''merged'' (Some iid) None ''event_merged'' d d' \<and>
    d'\<lparr>alert_events := alert_events d, audits := audits d\<rparr> = d"
  using assms
  by (auto simp: merge_into_def one_event_def UUID_def insert_alert_event_def res_simps
      dest!: write_audit_Inr)

lemma open_case_writes:
  assumes "open_case now e iid bud d = Inr d'"
  shows "one_event now e ''opened'' (Some iid) None ''event_received'' d d' \<and>
    d'\<lparr>alert_events := alert_events d, audits := audits d, investigations := investigations d\<rparr> = d \<and>
    (\<exists>i. investigations d' = investigations d @ [i] \<and> investigation_id i = iid \<and>
       status i = ''RECEIVED'' \<and> inv_platform_key i = ev_platform_key e \<and> budget i = bud \<and>
       inv_created_at i = now)"
  using assms
  by (auto simp: open_case_def one_event_def UUID_def insert_alert_event_def create_investigation_def
      res_simps split: if_splits dest!: write_audit_Inr)

text \<open>The correlation decision: the window and the case the re-read finds.\<close>

definition correlates :: "(join_row list \<Rightarrow> join_row option) \<Rightarrow> timestamp \<Rightarrow> int \<Rightarrow> alert \<Rightarrow> db \<Rightarrow>
    timestamp \<Rightarrow> investigation option \<Rightarrow> bool" where
  "correlates limit1 now window e d t0 r \<longleftrightarrow>
     (\<exists>p w. get_platform d (ev_platform_key e) = Some p \<and> str_lower (p_status p) = ''online'' \<and>
        py_window_seconds (p_config p) window = Inr w \<and> window_start now w = Inr t0 \<and>
        map_option snd (limit1 (correlated_rows (ev_fingerprint e) (ev_platform_key e) t0 d)) = r)"

lemma ingest_txn_cases:
  assumes "ingest_txn limit1 now fresh dflts window e d = Inr ((resp, started), d')"
  obtains (rejected) reason where "resp = rejected_response reason" "started = None"
      "reason = ''unknown_platform_key'' \<or> reason = ''platform_not_ready''"
      "reject_event now e reason d = Inr d'"
  | (merged) t0 i where "correlates limit1 now window e d t0 (Some i)"
      "resp = merged_response (investigation_id i)" "started = None"
      "merge_into now e (investigation_id i) d = Inr d'"
  | (opened) t0 bud where "correlates limit1 now window e d t0 None"
      "resp = opened_response fresh" "started = Some fresh" "open_case now e fresh bud d = Inr d'"
proof (cases "get_platform d (ev_platform_key e)")
  case None
  with assms rejected show thesis by (auto simp: ingest_txn_def res_simps)
next
  case (Some p)
  show thesis
  proof (cases "str_lower (p_status p) = ''online''")
    case False
    with Some assms rejected show thesis by (auto simp: ingest_txn_def res_simps)
  next
    case True
    with Some assms obtain w t0 where w: "py_window_seconds (p_config p) window = Inr w"
      "window_start now w = Inr t0"
      by (auto simp: ingest_txn_def find_open_by_fingerprint_def res_simps)
    let ?r = "map_option snd (limit1 (correlated_rows (ev_fingerprint e) (ev_platform_key e) t0 d))"
    from Some True w have c: "correlates limit1 now window e d t0 ?r"
      by (auto simp: correlates_def)
    show thesis
    proof (cases ?r)
      case None
      with Some True w assms have "\<exists>bud. resp = opened_response fresh \<and> started = Some fresh \<and>
          open_case now e fresh bud d = Inr d'"
        by (auto simp: ingest_txn_def find_open_by_fingerprint_def res_simps split: option.splits)
      with c None opened show thesis by auto
    next
      case r: (Some i)
      with Some True w assms have "resp = merged_response (investigation_id i) \<and> started = None \<and>
          merge_into now e (investigation_id i) d = Inr d'"
        by (auto simp: ingest_txn_def find_open_by_fingerprint_def res_simps split: option.splits)
      with c r merged show thesis by auto
    qed
  qed
qed

section \<open>Properties\<close>

text \<open>C23: a hit is durable and nothing else is written.  Whatever the session does, when a group
  returns there is one outcome per candidate, the committed database is the old one extended by
  exactly one \<open>merged\<close> event row and one \<open>event_merged\<close> audit row for each candidate answered with
  a hit, in the order of the candidates, and every other table is untouched.  In particular a group
  that failed, or that only missed, wrote nothing.\<close>

theorem merge_batch_durable:
  assumes "execute_merge_batch limit1 dflt g batch d = Inr (outs, d')"
  shows "length outs = length batch \<and>
    alert_events d' = alert_events d @ hit_rows batch (map Some outs) \<and>
    map audit_view (audits d') = map audit_view (audits d) @ hit_audits batch (map Some outs) \<and>
    d'\<lparr>alert_events := alert_events d, audits := audits d\<rparr> = d"
  using execute_batch_writes[OF assms] by (auto simp: extends_by_def)

definition calm :: item_env where
  "calm = \<lparr>at_time = 1000, begin_fault = None, stmt_fault = None, release_fault = None,
     rollback_fault = None, still_active = True\<rparr>"

definition calm_group :: group_env where
  "calm_group = \<lparr>commit_fault = None, end_rollback_fault = None\<rparr>"

definition demo_alert2 :: alert where
  "demo_alert2 = demo_alert\<lparr>ev_event_id := ''not-a-uuid''\<rparr>"

lemma demo_hit:
  "run_statement (latest_by fst) 1800 calm demo_alert demo_db =
   Inr (Some 7, demo_db\<lparr>alert_events := alert_events demo_db @ [merged_event_row 1000 5 demo_alert 7],
     audits := [\<lparr>seq = 1, audit_at = 1000, au_investigation_id = Some 7, actor = ''system'',
       action = ''event_merged'', detail = Some (merged_detail demo_alert)\<rparr>]\<rparr>)"
proof -
  have "merge_candidate (latest_by fst) 1000 1800 ''p1'' ''fp'' demo_db = Some 7" by code_simp
  moreover have "uuid_parse (uuid_str 5) = Some 5" by (rule uuid_parse_uuid_str) simp
  ultimately show ?thesis
    by (simp add: run_statement_def calm_def merge_existing_event_with_audit_def UUID_def add_row_def
        demo_alert_def merged_event_row_def demo_db_def empty_db_def next_seq_def)
qed

theorem merge_batch_durable_witness:
  "\<exists>d'. execute_merge_batch (latest_by fst) 1800 calm_group [(demo_alert, calm)] demo_db = Inr ([MergeHit 7], d') \<and>
     alert_events d' = alert_events demo_db @ [merged_event_row 1000 5 demo_alert 7]"
proof -
  obtain d' where d': "execute_merge_batch (latest_by fst) 1800 calm_group [(demo_alert, calm)] demo_db =
      Inr ([MergeHit 7], d')"
    using demo_hit
    by (simp add: execute_merge_batch_def finish_merge_batch_def hit_or_miss_def resolve_outcome_def
        calm_group_def calm_def)
  have "uuid_parse (ev_event_id demo_alert) = Some 5"
    by (simp add: demo_alert_def uuid_parse_uuid_str)
  with merge_batch_durable[OF d'] d' show ?thesis
    by (simp add: hit_row_def calm_def)
qed

text \<open>failures are isolated.  Inserting into a group a candidate whose statement fails but
  whose savepoint rolls back leaves the committed database and the outcomes of all the other
  candidates as they were; the failing candidate gets its own exception.\<close>

theorem merge_batch_isolates:
  assumes "merge_loop limit1 dflt a d = Inr (os1, None, d1)"
    and "fails_alone dflt limit1 ev d1 exc"
    and "merge_loop limit1 dflt b d1 = Inr (os2, None, d2)"
    and "execute_merge_batch limit1 dflt g (a @ b) d = Inr (outs, d')"
  shows "\<exists>fl. execute_merge_batch limit1 dflt g (a @ ev # b) d =
      Inr (take (length a) outs @ Failed fl # drop (length a) outs, d') \<and> fl = exc"
proof -
  note l = merge_loop_skip_failed[OF assms(1,2,3)]
  have la: "length os1 = length a" using merge_loop_writes[OF assms(1)] by simp
  from assms(4) l obtain fatal' where
    f: "finish_merge_batch g (os1 @ os2) None d d2 = Inr (fatal', d')"
    and outs: "outs = map (resolve_outcome fatal') (os1 @ os2)"
    by (auto simp: execute_merge_batch_def res_simps)
  have "resolve_outcome fatal' (Some (Failed exc)) = Failed exc"
    by (simp add: resolve_outcome_def split: option.splits)
  with l f outs la show ?thesis
    by (simp add: execute_merge_batch_def finish_skip_failed)
qed

theorem merge_batch_isolates_witness:
  "\<exists>d'. execute_merge_batch (latest_by fst) 1800 calm_group [(demo_alert2, calm), (demo_alert, calm)] demo_db =
     Inr ([Failed (ValueError ''badly formed hexadecimal UUID string''), MergeHit 7], d')"
proof -
  let ?x = "ValueError ''badly formed hexadecimal UUID string''"
  have "uuid_parse ''not-a-uuid'' = None" by code_simp
  then have f: "fails_alone 1800 (latest_by fst) (demo_alert2, calm) demo_db ?x"
    by (simp add: fails_alone_def calm_def run_statement_def merge_existing_event_with_audit_def
        demo_alert2_def UUID_def recover_savepoint_def)
  obtain d1 where l: "merge_loop (latest_by fst) 1800 [(demo_alert, calm)] demo_db =
      Inr ([Some (MergeHit 7)], None, d1)"
    using demo_hit by (simp add: calm_def hit_or_miss_def)
  then have "execute_merge_batch (latest_by fst) 1800 calm_group ([] @ [(demo_alert, calm)]) demo_db =
      Inr ([MergeHit 7], d1)"
    by (simp add: execute_merge_batch_def finish_merge_batch_def resolve_outcome_def calm_group_def)
  from merge_batch_isolates[OF _ f l this] show ?thesis by simp
qed




lemma demo_uuid: "uuid_parse (ev_event_id demo_alert) = Some 5"
  by (simp add: demo_alert_def uuid_parse_uuid_str)

lemma demo_txn:
  "\<exists>d'. ingest_txn (latest_by fst) 1000 11 [] 1800 demo_alert demo_db = Inr ((merged_response 7, None), d')"
proof -
  have 1: "get_platform demo_db ''p1'' = Some (hd (platforms demo_db))"
    "str_lower (p_status (hd (platforms demo_db))) = ''online''"
    "py_window_seconds (p_config (hd (platforms demo_db))) 1800 = Inr 60"
    "find_open_by_fingerprint (latest_by fst) 1000 ''fp'' ''p1'' 60 demo_db = Inr (Some demo_inv)"
    by code_simp+
  have 2: "ev_platform_key demo_alert = ''p1''" "ev_fingerprint demo_alert = ''fp''"
    by (simp_all add: demo_alert_def)
  have "event_id ` set (alert_events demo_db) = {3}"
    by (simp add: demo_db_def merged_event_row_def empty_db_def)
  then have "\<exists>d'. merge_into 1000 demo_alert 7 demo_db = Inr d'"
    by (simp add: merge_into_def UUID_def demo_uuid insert_alert_event_def add_row_def write_audit_def
        AUDIT_ACTIONS_def)
  with 1 2 show ?thesis by (auto simp: ingest_txn_def demo_inv_def)
qed


text \<open>Rows that a new case adds to the correlation query.\<close>

lemma correlated_rows_after_open:
  assumes w: "open_case now e iid bud d = Inr d'"
    and none: "correlated_rows (ev_fingerprint e) (ev_platform_key e) t0 d = []"
    and le: "t0 \<le> t1" "t1 \<le> now"
  shows "correlated_rows (ev_fingerprint e) (ev_platform_key e) t1 d' \<noteq> []"
    and "(t, i) \<in> set (correlated_rows (ev_fingerprint e) (ev_platform_key e) t1 d') \<Longrightarrow>
      investigation_id i = iid"
proof -
  from open_case_writes[OF w] obtain row j where
    row: "alert_events d' = alert_events d @ [row]" "ae_fingerprint row = ev_fingerprint e"
      "ae_platform_key row = Some (ev_platform_key e)" "ae_investigation_id row = Some iid"
      "received_at row = now"
    and j: "investigations d' = investigations d @ [j]" "investigation_id j = iid" "status j = ''RECEIVED''"
    by (auto simp: one_event_def)
  have "(now, j) \<in> set (correlated_rows (ev_fingerprint e) (ev_platform_key e) t1 d')"
    using row j le by (auto simp: correlated_rows_iff NON_TERMINAL_STATUSES_def)
  then show "correlated_rows (ev_fingerprint e) (ev_platform_key e) t1 d' \<noteq> []" by auto
  assume "(t, i) \<in> set (correlated_rows (ev_fingerprint e) (ev_platform_key e) t1 d')"
  then obtain ae where i: "i \<in> set (investigations d')" "status i \<in> set NON_TERMINAL_STATUSES"
    and ae: "ae \<in> set (alert_events d')" "ae_fingerprint ae = ev_fingerprint e"
      "ae_platform_key ae = Some (ev_platform_key e)" "ae_investigation_id ae = Some (investigation_id i)"
      "t1 \<le> received_at ae"
    by (auto simp: correlated_rows_iff)
  show "investigation_id i = iid"
  proof (rule ccontr)
    assume "investigation_id i \<noteq> iid"
    with i ae row j have "i \<in> set (investigations d)" "ae \<in> set (alert_events d)" by auto
    with i ae le have "(received_at ae, i) \<in> set (correlated_rows (ev_fingerprint e) (ev_platform_key e) t0 d)"
      by (auto simp: correlated_rows_iff)
    with none show False by simp
  qed
qed

text \<open>duplicates are absorbed.  After an event opened a case, the next event with the same
  fingerprint and platform merges into that very case, as long as it arrives no earlier, its window
  reaches back to the first event, and its own event id is valid and new.\<close>

theorem reopened_event_merges:
  assumes "picks_latest limit1"
    and "ingest_txn limit1 now fresh dflts window e d = Inr ((opened_response fresh, Some fresh), d')"
    and "ev_fingerprint e2 = ev_fingerprint e" and "ev_platform_key e2 = ev_platform_key e"
    and "uuid_parse (ev_event_id e2) = Some eid2" and "eid2 \<notin> event_id ` set (alert_events d')"
    and "now \<le> now2"
    and "correlates limit1 now2 window e2 d' t1 r" and "t1 \<le> now"
  shows "\<exists>d''. ingest_txn limit1 now2 fresh2 dflts window e2 d' = Inr ((merged_response fresh, None), d'')"
proof -
  from assms(2) obtain t0 bud where c: "correlates limit1 now window e d t0 None"
    and w: "open_case now e fresh bud d = Inr d'"
    by (cases rule: ingest_txn_cases) auto
  from c have none: "correlated_rows (ev_fingerprint e) (ev_platform_key e) t0 d = []"
    using limit1_query.limit1_None[OF limit1_query.intro, OF assms(1)] by (auto simp: correlates_def)
  have pl: "platforms d' = platforms d" using open_case_writes[OF w] frame_open by blast
  from assms(8) obtain p wn where p: "get_platform d' (ev_platform_key e2) = Some p"
      "str_lower (p_status p) = ''online''" "py_window_seconds (p_config p) window = Inr wn"
      "window_start now2 wn = Inr t1"
    by (auto simp: correlates_def)
  from c p pl assms(4) have "window_start now wn = Inr t0"
    by (auto simp: correlates_def get_platform_def)
  with p(4) assms(7) have "t0 \<le> t1" by (auto simp: window_start_def Let_def split: if_splits)
  note rows = correlated_rows_after_open[OF w none this assms(9)]
  from rows(1) obtain t i where ti: "limit1 (correlated_rows (ev_fingerprint e) (ev_platform_key e) t1 d') = Some (t, i)"
    using limit1_query.limit1_None[OF limit1_query.intro, OF assms(1)] by (metis not_None_eq surj_pair)
  with limit1_query.limit1_Some[OF limit1_query.intro, OF assms(1)] rows(2)
  have "investigation_id i = fresh" by blast
  moreover have "\<exists>d''. merge_into now2 e2 fresh d' = Inr d''"
    using assms(5,6) by (simp add: merge_into_def UUID_def insert_alert_event_def add_row_def
        write_audit_def AUDIT_ACTIONS_def)
  ultimately show ?thesis
    using p ti assms(3,4) by (auto simp: ingest_txn_def find_open_by_fingerprint_def)
qed

definition fresh_db :: db where
  "fresh_db = demo_db\<lparr>alert_events := [], investigations := []\<rparr>"

lemma fresh_open:
  "\<exists>bud d'. open_case 10 demo_alert 11 bud fresh_db = Inr d' \<and>
     ingest_txn (latest_by fst) 10 11 [] 1800 demo_alert fresh_db = Inr ((opened_response 11, Some 11), d')"
proof -
  have 1: "get_platform fresh_db ''p1'' = Some (hd (platforms demo_db))"
    "str_lower (p_status (hd (platforms demo_db))) = ''online''"
    "py_window_seconds (p_config (hd (platforms demo_db))) 1800 = Inr 60"
    "find_open_by_fingerprint (latest_by fst) 10 ''fp'' ''p1'' 60 fresh_db = Inr None"
    "merge_platform_budget (budget_base []) (p_config (hd (platforms demo_db))) = Inr (budget_base [])"
    by code_simp+
  have 2: "ev_platform_key demo_alert = ''p1''" "ev_fingerprint demo_alert = ''fp''"
    by (simp_all add: demo_alert_def)
  have "alert_events fresh_db = []" "investigations fresh_db = []" "platform_key ` set (platforms fresh_db) = {''p1''}"
    by (simp_all add: fresh_db_def demo_db_def)
  then have "\<exists>d'. open_case 10 demo_alert 11 (budget_base []) fresh_db = Inr d'"
    by (simp add: open_case_def UUID_def demo_uuid insert_alert_event_def add_row_def write_audit_def
        AUDIT_ACTIONS_def create_investigation_def 2)
  with 1 2 show ?thesis by (auto simp: ingest_txn_def)
qed

theorem reopened_event_merges_witness:
  "\<exists>d' d''. ingest_txn (latest_by fst) 10 11 [] 1800 demo_alert fresh_db =
     Inr ((opened_response 11, Some 11), d') \<and>
   ingest_txn (latest_by fst) 1000 12 [] 1800 (demo_alert\<lparr>ev_event_id := uuid_str 6\<rparr>) d' =
     Inr ((merged_response 11, None), d'')"
proof -
  obtain bud d' where w: "open_case 10 demo_alert 11 bud fresh_db = Inr d'"
    and o: "ingest_txn (latest_by fst) 10 11 [] 1800 demo_alert fresh_db = Inr ((opened_response 11, Some 11), d')"
    using fresh_open by blast
  have "alert_events fresh_db = []" by (simp add: fresh_db_def)
  with open_case_writes[OF w] have ids: "6 \<notin> event_id ` set (alert_events d')"
    by (auto simp: one_event_def demo_uuid)
  have pl: "platforms d' = platforms fresh_db" using open_case_writes[OF w] frame_open by blast
  have p: "get_platform fresh_db ''p1'' = Some (hd (platforms demo_db))"
    "str_lower (p_status (hd (platforms demo_db))) = ''online''"
    "py_window_seconds (p_config (hd (platforms demo_db))) 1800 = Inr 60"
    "window_start 1000 60 = Inr (- 59999000)"
    by code_simp+
  let ?e2 = "demo_alert\<lparr>ev_event_id := uuid_str 6\<rparr>"
  have "correlates (latest_by fst) 1000 1800 ?e2 d' (- 59999000)
      (map_option snd (latest_by fst (correlated_rows ''fp'' ''p1'' (- 59999000) d')))"
    using p pl by (simp add: correlates_def demo_alert_def get_platform_def)
  from reopened_event_merges[OF latest_by_picks o _ _ _ ids _ this, of 12] o show ?thesis
    by (simp add: uuid_parse_uuid_str)
qed

end
