(* ===== verification/HmacAuth.thy ===== *)
theory HmacAuth
  imports Ingest
begin

text \<open>
  The gateway's front door: \<open>gateway/hmac_auth.py\<close>, the \<open>POST /api/v1/events\<close> handler of
  \<open>gateway/app.py\<close> and the integer settings of \<open>gateway/main.py\<close>.

  HMAC-SHA-256 is the parameter \<open>hmac\<close> (key bytes, message bytes, hexadecimal digest) and
  \<open>json_loads\<close> decodes a body (\<open>None\<close> for \<open>JSONDecodeError\<close>).  The ingest service the handler
  calls is the parameter \<open>ingest\<close>.
\<close>

datatype auth_error = HMACAuthError string | AuthCrash pyexc

definition compute_signature :: "(string \<Rightarrow> string \<Rightarrow> string) \<Rightarrow> string \<Rightarrow> string \<Rightarrow> string" where
  "compute_signature hmac body secret = hmac (utf8 secret) body"

definition is_ascii :: "string \<Rightarrow> bool" where
  "is_ascii s \<longleftrightarrow> list_all (\<lambda>c. code_point c < 128) s"

text \<open>\<open>hmac.compare_digest\<close> on two strings raises unless both are ASCII.\<close>

definition compare_digest :: "string \<Rightarrow> string \<Rightarrow> auth_error + bool" where
  "compare_digest a b =
     (if is_ascii a \<and> is_ascii b then Inr (a = b) else Inl (AuthCrash TypeError))"

definition strip_scheme :: "string \<Rightarrow> string" where
  "strip_scheme provided =
     (if starts_with ''sha256='' (str_lower provided)
      then str_strip (case snd (partition_char (CHR ''='') provided) of Some r \<Rightarrow> r | None \<Rightarrow> [])
      else provided)"

definition verify_signature ::
  "(string \<Rightarrow> string \<Rightarrow> string) \<Rightarrow> string \<Rightarrow> string option \<Rightarrow> string \<Rightarrow> auth_error + unit" where
  "verify_signature hmac body header secret =
     (case header of
        None \<Rightarrow> Inl (HMACAuthError ''missing X-Signature header'')
      | Some h \<Rightarrow>
          if h = [] then Inl (HMACAuthError ''missing X-Signature header'')
          else
            bind_res (compare_digest (strip_scheme (str_strip h)) (compute_signature hmac body secret))
              (\<lambda>ok. if ok then Inr () else Inl (HMACAuthError ''invalid signature'')))"

definition resolve_source_secret ::
  "(string \<times> string) list \<Rightarrow> string option \<Rightarrow> auth_error + string" where
  "resolve_source_secret sources source =
     (case source of
        None \<Rightarrow> Inl (HMACAuthError ''unknown source'')
      | Some s \<Rightarrow>
          if s = [] then Inl (HMACAuthError ''unknown source'')
          else (case map_of sources s of
                  None \<Rightarrow> Inl (HMACAuthError (''unknown source: '' @ s))
                | Some secret \<Rightarrow> Inr secret))"

section \<open>The event endpoint\<close>

datatype 'r http =
    HttpError int string
  | Crash pyexc
  | Answer 'r

text \<open>\<open>raw.get("source") or x_alert_source\<close>\<close>

definition request_source :: "raw_alert \<Rightarrow> string option \<Rightarrow> string option" where
  "request_source raw x_alert_source =
     (case raw_source raw of Some (c # s) \<Rightarrow> Some (c # s) | _ \<Rightarrow> x_alert_source)"

definition with_source :: "raw_alert \<Rightarrow> string option \<Rightarrow> raw_alert" where
  "with_source raw source =
     (case raw_source raw of Some (c # s) \<Rightarrow> raw
      | _ \<Rightarrow> (case source of Some (c # s) \<Rightarrow> raw\<lparr>raw_source := Some (c # s)\<rparr> | _ \<Rightarrow> raw))"

definition post_events ::
  "(string \<Rightarrow> string \<Rightarrow> string) \<Rightarrow> (string \<Rightarrow> raw_alert option) \<Rightarrow> (string \<times> string) list \<Rightarrow>
   (raw_alert \<Rightarrow> 'r) \<Rightarrow> string \<Rightarrow> string option \<Rightarrow> string option \<Rightarrow> 'r http" where
  "post_events hmac json_loads sources ingest body x_signature x_alert_source =
     (case json_loads body of
        None \<Rightarrow> HttpError 400 ''invalid JSON''
      | Some raw \<Rightarrow>
          let source = request_source raw x_alert_source in
          case bind_res (resolve_source_secret sources source)
                 (\<lambda>secret. verify_signature hmac body x_signature secret) of
            Inl (HMACAuthError reason) \<Rightarrow> HttpError 401 reason
          | Inl (AuthCrash x) \<Rightarrow> Crash x
          | Inr _ \<Rightarrow> Answer (ingest (with_source raw source)))"

section \<open>Integer settings\<close>

definition parse_positive_int_env :: "string option \<Rightarrow> int \<Rightarrow> int res" where
  "parse_positive_int_env raw dflt =
     (case raw of
        None \<Rightarrow> Inr dflt
      | Some s \<Rightarrow>
          (case int_of_str s of
             None \<Rightarrow> Inl (OtherError ''SystemExit'')
           | Some v \<Rightarrow> if v \<le> 0 then Inl (OtherError ''SystemExit'') else Inr v))"

section \<open>Lemmas\<close>

lemma resolve_Inr_iff [res_simps]:
  "resolve_source_secret sources source = Inr secret \<longleftrightarrow>
   (\<exists>s. source = Some s \<and> s \<noteq> [] \<and> map_of sources s = Some secret)"
  by (auto simp: resolve_source_secret_def split: option.splits)

lemma verify_Inr_iff [res_simps]:
  "verify_signature hmac body header secret = Inr u \<longleftrightarrow>
   (\<exists>h. header = Some h \<and> h \<noteq> [] \<and> is_ascii (compute_signature hmac body secret) \<and>
        strip_scheme (str_strip h) = compute_signature hmac body secret)"
  by (auto simp: verify_signature_def compare_digest_def res_simps split: option.splits if_splits)

lemma with_source_resolved:
  "request_source raw hdr = Some s \<Longrightarrow> s \<noteq> [] \<Longrightarrow> raw_source (with_source raw (Some s)) = Some s"
  by (cases s) (auto simp: request_source_def with_source_def split: option.splits list.splits)

lemma post_events_Answer_iff:
  "post_events hmac json_loads sources ingest body sig hdr = Answer r \<longleftrightarrow>
   (\<exists>raw s secret. json_loads body = Some raw \<and> request_source raw hdr = Some s \<and> s \<noteq> [] \<and>
      map_of sources s = Some secret \<and> verify_signature hmac body sig secret = Inr () \<and>
      r = ingest (with_source raw (Some s)))"
proof (cases "json_loads body")
  case None
  then show ?thesis by (simp add: post_events_def)
next
  case (Some raw)
  let ?v = "bind_res (resolve_source_secret sources (request_source raw hdr))
      (\<lambda>secret. verify_signature hmac body sig secret)"
  have "post_events hmac json_loads sources ingest body sig hdr = Answer r \<longleftrightarrow>
      ?v = Inr () \<and> r = ingest (with_source raw (request_source raw hdr))"
    by (cases ?v) (auto simp: post_events_def Some split: auth_error.splits)
  moreover have "?v = Inr () \<longleftrightarrow> (\<exists>s secret. request_source raw hdr = Some s \<and> s \<noteq> [] \<and>
      map_of sources s = Some secret \<and> verify_signature hmac body sig secret = Inr ())"
    by (auto simp: bind_res_Inr_iff resolve_Inr_iff)
  ultimately show ?thesis using Some by auto
qed

section \<open>Properties\<close>

text \<open>C28: nothing unauthenticated reaches the ingest service.  When the handler answers with the
  service's result, the body was signed with the configured secret of the very source the event is
  then recorded under, so a sender who knows only one source's secret cannot speak for another.\<close>

theorem post_events_authenticated:
  assumes "post_events hmac json_loads sources ingest body x_signature x_alert_source = Answer r"
  shows "\<exists>raw src secret h. r = ingest raw \<and> raw_source raw = Some src \<and> src \<noteq> [] \<and>
    map_of sources src = Some secret \<and> x_signature = Some h \<and>
    strip_scheme (str_strip h) = compute_signature hmac body secret"
proof -
  from assms obtain raw src secret where *: "request_source raw x_alert_source = Some src" "src \<noteq> []"
    "map_of sources src = Some secret" "verify_signature hmac body x_signature secret = Inr ()"
    "r = ingest (with_source raw (Some src))"
    unfolding post_events_Answer_iff by blast
  from *(4) obtain h where "x_signature = Some h"
    "strip_scheme (str_strip h) = compute_signature hmac body secret"
    unfolding verify_Inr_iff by blast
  with * with_source_resolved[OF *(1,2)] show ?thesis by blast
qed

definition demo_raw :: raw_alert where
  "demo_raw = \<lparr>raw_event_id = None, raw_source = None, raw_platform_key = Some ''p1'',
     raw_error_summary = Some ''disk full'', raw_error_detail = PNone, raw_occurred_at = None,
     raw_reporter = PNone, raw_severity = None, raw_labels = PNone, raw_fingerprint = None\<rparr>"

theorem post_events_authenticated_witness:
  "\<exists>raw src secret. post_events (\<lambda>k m. k @ m) (\<lambda>b. Some demo_raw) [(''grafana'', ''s3'')] id ''{}''
      (Some ''SHA256= s3{}'') (Some ''grafana'') = Answer raw \<and>
    raw_source raw = Some src \<and> map_of [(''grafana'', ''s3'')] src = Some secret"
proof -
  have a: "post_events (\<lambda>k m. k @ m) (\<lambda>b. Some demo_raw) [(''grafana'', ''s3'')] id ''{}''
      (Some ''SHA256= s3{}'') (Some ''grafana'') = Answer (demo_raw\<lparr>raw_source := Some ''grafana''\<rparr>)"
    by code_simp
  from post_events_authenticated[OF a] obtain raw src secret where
    r: "demo_raw\<lparr>raw_source := Some ''grafana''\<rparr> = id raw"
    and s: "raw_source raw = Some src \<and> map_of [(''grafana'', ''s3'')] src = Some secret" by blast
  from a[unfolded r] s show ?thesis unfolding id_def by blast
qed

text \<open>a signature header with a character outside ASCII is not refused with 401: the constant
  time comparison raises \<open>TypeError\<close>, which the handler does not catch.\<close>

theorem non_ascii_signature_crashes:
  assumes "json_loads body = Some raw" and "raw_source raw = Some src" and "src \<noteq> []"
    and "map_of sources src = Some secret" and "header \<noteq> []"
    and "\<not> is_ascii (strip_scheme (str_strip header))"
  shows "post_events hmac json_loads sources ingest body (Some header) hdr = Crash TypeError"
proof -
  have "request_source raw hdr = Some src"
    using assms(2,3) by (cases src) (auto simp: request_source_def)
  with assms show ?thesis
    by (simp add: post_events_def resolve_source_secret_def verify_signature_def compare_digest_def)
qed

theorem non_ascii_signature_crashes_witness:
  "post_events (\<lambda>k m. k @ m) (\<lambda>b. Some (demo_raw\<lparr>raw_source := Some ''grafana''\<rparr>)) [(''grafana'', ''s3'')] id ''{}''
      (Some [CHR 0xE9]) None = Crash TypeError"
proof -
  have "\<not> is_ascii (strip_scheme (str_strip [CHR 0xE9]))" by code_simp
  then show ?thesis
    by (intro non_ascii_signature_crashes[where src = "''grafana''" and secret = "''s3''", OF refl]) simp_all
qed

end
