(* ===== verification/MergeCommit.thy ===== *)
theory MergeCommit
  imports Ingest
begin

text \<open>
  \<open>gateway/merge_commit.py\<close>: the per-worker coalescer, as the transition system of its asyncio
  task.  A step is the code between two suspension points.  Every future is named by the number of its
  item; \<open>resolved\<close> lists the futures in the order they were completed, and \<open>accepted\<close> (a ghost
  component) the items in the order they were admitted.

  The clock counts microseconds and may take any value at a step; the callback may return any list of
  outcomes or raise.  Cancelling a waiting caller changes nothing in this state: the accepted item
  stays.
\<close>

definition MERGE_COMMIT_BATCH_SIZE :: nat where
  "MERGE_COMMIT_BATCH_SIZE = 8"

definition MERGE_COMMIT_MAX_WAIT :: int where
  "MERGE_COMMIT_MAX_WAIT = 10000"

record 'e pending =
  pm_id :: nat
  pm_event :: 'e
  enqueued_at :: int

text \<open>Where the drainer task is: before the emptiness check, in \<open>_await_group\<close>, before it takes a
  group, or waiting for the callback.\<close>

datatype drain_pc = AtTop | Waiting int | Taking | Running

record 'e coalescer =
  queue :: "'e pending list"
  inflight :: "'e pending list"
  drainer :: "drain_pc option"
  bound_loop :: "nat option"
  closing :: bool
  failure :: "pyexc option"
  resolved :: "(nat \<times> outcome) list"
  accepted :: "'e pending list"

definition init_coalescer :: "'e coalescer" where
  "init_coalescer = \<lparr>queue = [], inflight = [], drainer = None, bound_loop = None, closing = False,
     failure = None, resolved = [], accepted = []\<rparr>"

section \<open>Admission\<close>

definition refuse_if_closed :: "'e coalescer \<Rightarrow> string option" where
  "refuse_if_closed c =
     (if failure c \<noteq> None then Some ''the merge coalescer stopped after an unexpected drainer exit''
      else if closing c then Some ''the merge coalescer is closing'' else None)"

datatype submit_result = Accepted nat | MergeCommitLoopError | MergeCommitClosed string

definition submit :: "nat \<Rightarrow> int \<Rightarrow> 'e \<Rightarrow> 'e coalescer \<Rightarrow> submit_result \<times> 'e coalescer" where
  "submit lp now e c =
     (if bound_loop c \<noteq> None \<and> bound_loop c \<noteq> Some lp then (MergeCommitLoopError, c)
      else
        let c1 = c\<lparr>bound_loop := Some lp\<rparr> in
        case refuse_if_closed c1 of
          Some reason \<Rightarrow> (MergeCommitClosed reason, c1)
        | None \<Rightarrow>
            let item = \<lparr>pm_id = length (accepted c1), pm_event = e, enqueued_at = now\<rparr> in
            (Accepted (pm_id item),
             c1\<lparr>queue := queue c1 @ [item], accepted := accepted c1 @ [item],
                drainer := (case drainer c1 of None \<Rightarrow> Some AtTop | Some pc \<Rightarrow> Some pc)\<rparr>))"

section \<open>Resolving futures\<close>

text \<open>\<open>_resolve_result\<close> and \<open>_resolve_exception\<close>: only a future that is not done is completed.\<close>

definition resolve :: "nat \<Rightarrow> outcome \<Rightarrow> (nat \<times> outcome) list \<Rightarrow> (nat \<times> outcome) list" where
  "resolve i oc rs = (if i \<in> fst ` set rs then rs else rs @ [(i, oc)])"

definition resolve_all :: "('e pending \<times> outcome) list \<Rightarrow> (nat \<times> outcome) list \<Rightarrow> (nat \<times> outcome) list" where
  "resolve_all ps rs = fold (\<lambda>(p, oc). resolve (pm_id p) oc) ps rs"

definition fail_everything :: "pyexc \<Rightarrow> 'e coalescer \<Rightarrow> 'e coalescer" where
  "fail_everything exc c =
     c\<lparr>failure := Some exc, closing := True, drainer := None, inflight := [], queue := [],
       resolved := resolve_all (map (\<lambda>p. (p, Failed exc)) (inflight c @ queue c)) (resolved c)\<rparr>"

section \<open>The drainer\<close>

definition drain_top :: "'e coalescer \<Rightarrow> 'e coalescer" where
  "drain_top c =
     (case queue c of
        [] \<Rightarrow> c\<lparr>drainer := None\<rparr>
      | p # _ \<Rightarrow>
          if length (queue c) \<ge> MERGE_COMMIT_BATCH_SIZE then c\<lparr>drainer := Some Taking\<rparr>
          else c\<lparr>drainer := Some (Waiting (enqueued_at p + MERGE_COMMIT_MAX_WAIT))\<rparr>)"

text \<open>\<open>_await_group\<close> returns when the deadline has passed or the group is full.\<close>

definition group_ready :: "int \<Rightarrow> int \<Rightarrow> 'e coalescer \<Rightarrow> bool" where
  "group_ready now deadline c \<longleftrightarrow>
     deadline - now \<le> 0 \<or> length (queue c) \<ge> MERGE_COMMIT_BATCH_SIZE"

definition take_batch :: "'e coalescer \<Rightarrow> 'e coalescer" where
  "take_batch c =
     (let size = min (length (queue c)) MERGE_COMMIT_BATCH_SIZE;
          batch = take size (queue c) in
      if batch = [] then c\<lparr>drainer := Some AtTop\<rparr>
      else c\<lparr>queue := drop size (queue c), inflight := batch, drainer := Some Running\<rparr>)"

text \<open>The answers a group gets from what the callback did: an exception, or a list that is used
  only when it has one outcome per item.\<close>

definition group_answers :: "'e pending list \<Rightarrow> outcome list res \<Rightarrow> ('e pending \<times> outcome) list" where
  "group_answers batch result =
     (case result of
        Inl exc \<Rightarrow> map (\<lambda>p. (p, Failed exc)) batch
      | Inr outs \<Rightarrow>
          if length outs \<noteq> length batch
          then map (\<lambda>p. (p, Failed (RuntimeError ''the merge group callback answered''))) batch
          else zip batch outs)"

definition run_batch :: "outcome list res \<Rightarrow> 'e coalescer \<Rightarrow> 'e coalescer" where
  "run_batch result c =
     c\<lparr>inflight := [], drainer := Some AtTop,
       resolved := resolve_all (group_answers (inflight c) result) (resolved c)\<rparr>"

definition close :: "'e coalescer \<Rightarrow> 'e coalescer" where
  "close c = c\<lparr>closing := True\<rparr>"

section \<open>The transition system\<close>

inductive drain_step :: "'e coalescer \<Rightarrow> 'e coalescer \<Rightarrow> bool" where
  Top: "drainer c = Some AtTop \<Longrightarrow> drain_step c (drain_top c)"
| Ready: "drainer c = Some (Waiting t) \<Longrightarrow> group_ready now t c \<Longrightarrow> drain_step c (c\<lparr>drainer := Some Taking\<rparr>)"
| Take: "drainer c = Some Taking \<Longrightarrow> drain_step c (take_batch c)"
| Run: "drainer c = Some Running \<Longrightarrow> drain_step c (run_batch result c)"
| Die: "drainer c \<noteq> None \<Longrightarrow> drain_step c (fail_everything exc c)"

inductive step :: "'e coalescer \<Rightarrow> 'e coalescer \<Rightarrow> bool" where
  Submit: "step c (snd (submit lp now e c))"
| Drain: "drain_step c c' \<Longrightarrow> step c c'"
| Close: "step c (close c)"

inductive reachable :: "'e coalescer \<Rightarrow> bool" where
  Init: "reachable init_coalescer"
| Step: "reachable c \<Longrightarrow> step c c' \<Longrightarrow> reachable c'"

inductive_cases drain_stepE: "drain_step c c'"
inductive_cases stepE: "step c c'"

section \<open>The invariant\<close>

text \<open>The futures already resolved, the group in the database and the queue, in this order, are the
  accepted items in the order of their admission: nothing is lost, answered twice or overtaken.\<close>

definition fifo_account :: "'e coalescer \<Rightarrow> bool" where
  "fifo_account c \<longleftrightarrow>
     map fst (resolved c) @ map pm_id (inflight c) @ map pm_id (queue c) = [0..<length (accepted c)] \<and>
     map pm_id (accepted c) = [0..<length (accepted c)]"

definition coalescer_inv :: "'e coalescer \<Rightarrow> bool" where
  "coalescer_inv c \<longleftrightarrow>
     fifo_account c \<and>
     length (inflight c) \<le> MERGE_COMMIT_BATCH_SIZE \<and>
     (drainer c = Some Running \<longleftrightarrow> inflight c \<noteq> []) \<and>
     (drainer c = None \<longrightarrow> queue c = []) \<and>
     (failure c \<noteq> None \<longrightarrow> closing c \<and> drainer c = None)"

lemma resolve_all_values:
  assumes "distinct (map fst rs @ map (\<lambda>p. pm_id (fst p)) ps)"
  shows "resolve_all ps rs = rs @ map (\<lambda>(p, oc). (pm_id p, oc)) ps"
  using assms
proof (induction ps arbitrary: rs)
  case (Cons p ps)
  obtain q oc where p: "p = (q, oc)" by fastforce
  from Cons.prems p have "pm_id q \<notin> fst ` set rs" by auto
  then have "resolve (pm_id q) oc rs = rs @ [(pm_id q, oc)]" by (simp add: resolve_def)
  with Cons.IH[of "rs @ [(pm_id q, oc)]"] Cons.prems p show ?case
    by (simp add: resolve_all_def)
qed (simp add: resolve_all_def)

lemma map_fst_zip_comp: "length xs = length ys \<Longrightarrow> map (\<lambda>p. f (fst p)) (zip xs ys) = map f xs"
  by (induction xs ys rule: list_induct2) auto

lemma group_answers_ids: "map (\<lambda>p. pm_id (fst p)) (group_answers batch result) = map pm_id batch"
  by (auto simp: group_answers_def comp_def map_fst_zip_comp split: sum.splits)

lemma fifo_distinct:
  "fifo_account c \<Longrightarrow> distinct (map fst (resolved c) @ map pm_id (inflight c) @ map pm_id (queue c))"
  by (simp only: fifo_account_def distinct_upt)

lemma resolve_all_ids:
  assumes "distinct (map fst rs @ map (\<lambda>p. pm_id (fst p)) ps)"
  shows "map fst (resolve_all ps rs) = map fst rs @ map (\<lambda>p. pm_id (fst p)) ps"
  by (simp add: resolve_all_values[OF assms] case_prod_beta comp_def)

lemma inv_init: "coalescer_inv init_coalescer"
  by (simp add: coalescer_inv_def init_coalescer_def fifo_account_def)

lemma inv_submit: "coalescer_inv c \<Longrightarrow> coalescer_inv (snd (submit lp now e c))"
  by (auto simp: coalescer_inv_def fifo_account_def submit_def Let_def refuse_if_closed_def
      split: option.splits)

lemma inv_close: "coalescer_inv c \<Longrightarrow> coalescer_inv (close c)"
  by (simp add: coalescer_inv_def fifo_account_def close_def)

lemma inv_fail_everything: "coalescer_inv c \<Longrightarrow> coalescer_inv (fail_everything exc c)"
proof -
  assume inv: "coalescer_inv c"
  let ?ps = "map (\<lambda>p. (p, Failed exc)) (inflight c @ queue c)"
  from inv have f: "fifo_account c" by (simp add: coalescer_inv_def)
  have "map fst (resolve_all ?ps (resolved c)) = map fst (resolved c) @ map (\<lambda>p. pm_id (fst p)) ?ps"
    by (rule resolve_all_ids) (use fifo_distinct[OF f] in \<open>simp add: comp_def\<close>)
  with f have "fifo_account (fail_everything exc c)"
    by (simp add: fifo_account_def fail_everything_def comp_def)
  then show ?thesis by (simp add: coalescer_inv_def fail_everything_def)
qed

lemma inv_drain_top: "coalescer_inv c \<Longrightarrow> drainer c = Some AtTop \<Longrightarrow> coalescer_inv (drain_top c)"
  by (auto simp: coalescer_inv_def drain_top_def fifo_account_def split: list.splits)

lemma inv_take_batch: "coalescer_inv c \<Longrightarrow> drainer c = Some Taking \<Longrightarrow> coalescer_inv (take_batch c)"
  by (auto simp: coalescer_inv_def take_batch_def fifo_account_def Let_def take_map drop_map
      map_append[symmetric] simp del: map_append)

lemma inv_run_batch: "coalescer_inv c \<Longrightarrow> drainer c = Some Running \<Longrightarrow> coalescer_inv (run_batch result c)"
proof -
  assume inv: "coalescer_inv c" and dr: "drainer c = Some Running"
  let ?ps = "group_answers (inflight c) result"
  from inv have f: "fifo_account c" by (simp add: coalescer_inv_def)
  have "map fst (resolve_all ?ps (resolved c)) = map fst (resolved c) @ map pm_id (inflight c)"
    using resolve_all_ids[of "resolved c" ?ps] fifo_distinct[OF f]
    by (simp add: group_answers_ids Int_Un_distrib)
  with f have "fifo_account (run_batch result c)"
    by (simp add: fifo_account_def run_batch_def)
  with inv dr show ?thesis by (simp add: coalescer_inv_def run_batch_def)
qed

lemma inv_ready: "coalescer_inv c \<Longrightarrow> drainer c = Some (Waiting t) \<Longrightarrow> coalescer_inv (c\<lparr>drainer := Some Taking\<rparr>)"
  by (auto simp: coalescer_inv_def fifo_account_def)

lemmas inv_ops = inv_drain_top inv_take_batch inv_run_batch inv_fail_everything inv_ready

lemma inv_drain_step: "drain_step c c' \<Longrightarrow> coalescer_inv c \<Longrightarrow> coalescer_inv c'"
  by (erule drain_stepE) (blast intro: inv_ops)+

lemma inv_step: "step c c' \<Longrightarrow> coalescer_inv c \<Longrightarrow> coalescer_inv c'"
  by (erule stepE) (auto intro: inv_submit inv_close inv_drain_step)

lemma inv_reachable: "reachable c \<Longrightarrow> coalescer_inv c"
  by (induction rule: reachable.induct) (auto intro: inv_init inv_step)

section \<open>Draining ends\<close>

definition pc_weight :: "drain_pc option \<Rightarrow> nat" where
  "pc_weight pc = (case pc of None \<Rightarrow> 0 | Some AtTop \<Rightarrow> 3 | Some (Waiting t) \<Rightarrow> 2
     | Some Taking \<Rightarrow> 1 | Some Running \<Rightarrow> 4)"

definition drain_measure :: "'e coalescer \<Rightarrow> nat" where
  "drain_measure c = 4 * length (queue c) + pc_weight (drainer c)"

text \<open>A drainer that is about to take a group finds one: only the drainer removes items.\<close>

definition drain_ready :: "'e coalescer \<Rightarrow> bool" where
  "drain_ready c \<longleftrightarrow> (drainer c = Some Taking \<or> (\<exists>t. drainer c = Some (Waiting t)) \<longrightarrow> queue c \<noteq> [])"

lemma ready_drain_step: "drain_step c c' \<Longrightarrow> drain_ready c \<Longrightarrow> drain_ready c'"
proof (erule drain_stepE)
  assume "c' = drain_top c"
  then show "drain_ready c'" by (cases "queue c") (auto simp: drain_ready_def drain_top_def)
next
  assume "c' = take_batch c"
  then show "drain_ready c'" by (auto simp: drain_ready_def take_batch_def Let_def)
qed (auto simp: drain_ready_def run_batch_def fail_everything_def)

lemma ready_step: "step c c' \<Longrightarrow> drain_ready c \<Longrightarrow> drain_ready c'"
proof (erule stepE)
  fix lp now e assume "c' = snd (submit lp now e c)" "drain_ready c"
  then show "drain_ready c'"
    by (cases "refuse_if_closed (c\<lparr>bound_loop := Some lp\<rparr>)")
      (auto simp: drain_ready_def submit_def Let_def split: option.splits)
next
  assume "drain_step c c'" "drain_ready c"
  then show "drain_ready c'" by (rule ready_drain_step)
qed (simp add: drain_ready_def close_def)

lemma ready_reachable: "reachable c \<Longrightarrow> drain_ready c"
proof (induction rule: reachable.induct)
  case Init
  then show ?case by (simp add: init_coalescer_def drain_ready_def)
qed (rule ready_step)

lemma drain_decreases:
  assumes "drain_step c c'" "drain_ready c"
  shows "drain_measure c' < drain_measure c"
  using assms(1)
proof cases
  case Top
  then show ?thesis by (cases "queue c") (auto simp: drain_measure_def drain_top_def pc_weight_def)
next
  case Take
  with assms(2) have "queue c \<noteq> []" by (simp add: drain_ready_def)
  with Take show ?thesis
    by (cases "queue c") (auto simp: drain_measure_def take_batch_def pc_weight_def Let_def
        MERGE_COMMIT_BATCH_SIZE_def min_def)
next
  case (Die exc)
  then show ?thesis
    by (auto simp: drain_measure_def fail_everything_def pc_weight_def split: drain_pc.splits)
qed (simp_all add: drain_measure_def run_batch_def pc_weight_def)

lemma drain_enabled: "drainer c \<noteq> None \<Longrightarrow> \<exists>c'. drain_step c c'"
  by (meson drain_step.Die)

lemma drained_all:
  assumes "coalescer_inv c" "drainer c = None"
  shows "map fst (resolved c) = map pm_id (accepted c)"
  using assms by (auto simp: coalescer_inv_def fifo_account_def)

section \<open>The callback as an interface\<close>

text \<open>What the coalescer relies on: the bound callback answers every item of the group.  The
  service's \<open>_execute_merge_batch\<close> provides it.\<close>

locale group_callback =
  fixes execute :: "'i list \<Rightarrow> 'd \<Rightarrow> (outcome list \<times> 'd) res"
  assumes one_each: "execute batch d = Inr (outs, d') \<Longrightarrow> length outs = length batch"
begin

lemma answers_are_outcomes:
  assumes "execute (map pm_event batch) d = Inr (outs, d')"
  shows "map snd (group_answers batch (Inr outs)) = outs"
  using one_each[OF assms] by (simp add: group_answers_def)

lemma run_answers:
  assumes "coalescer_inv c" "drainer c = Some Running"
    and "execute (map pm_event (inflight c)) d = Inr (outs, d')"
  shows "resolved (run_batch (Inr outs) c) = resolved c @ zip (map pm_id (inflight c)) outs"
proof -
  have f: "fifo_account c" using assms(1) by (simp add: coalescer_inv_def)
  have l: "length outs = length (inflight c)" using one_each[OF assms(3)] by simp
  have "distinct (map fst (resolved c) @ map (\<lambda>p. pm_id (fst p)) (zip (inflight c) outs))"
    using fifo_distinct[OF f] by (simp add: map_fst_zip_comp l Int_Un_distrib)
  from resolve_all_values[OF this] l show ?thesis
    by (simp add: run_batch_def group_answers_def zip_map1)
qed

end

interpretation service_callback: group_callback "execute_merge_batch limit1 dflt g"
  by unfold_locales (use execute_batch_writes in blast)

section \<open>Properties\<close>

text \<open>C26: in every reachable state of the coalescer each accepted item is in exactly one place
  (answered, in the group being executed, or queued), those three in this order spell the admission
  order, at most eight items share a group, and a stopped drainer leaves nothing behind.\<close>

theorem coalescer_fifo_exactly_once:
  assumes "reachable c"
  shows "map fst (resolved c) @ map pm_id (inflight c) @ map pm_id (queue c) = map pm_id (accepted c) \<and>
    distinct (map pm_id (accepted c)) \<and> length (inflight c) \<le> MERGE_COMMIT_BATCH_SIZE \<and>
    (drainer c = None \<longrightarrow> inflight c = [] \<and> queue c = [] \<and> map fst (resolved c) = map pm_id (accepted c))"
proof -
  note inv = inv_reachable[OF assms]
  moreover from inv have "distinct (map pm_id (accepted c))"
    by (metis coalescer_inv_def fifo_account_def distinct_upt)
  ultimately show ?thesis by (auto simp: coalescer_inv_def fifo_account_def)
qed

theorem coalescer_fifo_exactly_once_witness:
  "map fst (resolved (snd (submit 0 5 ''e'' init_coalescer))) @ map pm_id (queue (snd (submit 0 5 ''e'' init_coalescer))) = [0]"
proof -
  have "reachable (snd (submit 0 5 ''e'' init_coalescer))"
    by (rule reachable.Step[OF reachable.Init step.Submit])
  from coalescer_fifo_exactly_once[OF this] show ?thesis
    by (simp add: submit_def init_coalescer_def refuse_if_closed_def Let_def)
qed



text \<open>each waiter of a group gets the outcome the service computed for its own event: when
  the service's callback answers a group, the answers appended to the resolved futures pair the items
  of the group with the callback's outcomes, position by position.\<close>

theorem group_outcomes_delivered:
  assumes "reachable c" and "drainer c = Some Running"
    and "execute_merge_batch limit1 dflt g (map pm_event (inflight c)) d = Inr (outs, d')"
  shows "resolved (run_batch (Inr outs) c) = resolved c @ zip (map pm_id (inflight c)) outs"
  by (rule service_callback.run_answers[OF inv_reachable[OF assms(1)] assms(2,3)])

definition demo_running :: "(alert \<times> item_env) coalescer" where
  "demo_running = take_batch
     (drain_top (snd (submit 0 5 (demo_alert, calm) init_coalescer))\<lparr>drainer := Some Taking\<rparr>)"

lemma demo_running_reachable: "reachable demo_running"
proof -
  let ?c1 = "snd (submit 0 5 (demo_alert, calm) init_coalescer)"
  let ?c3 = "drain_top ?c1\<lparr>drainer := Some Taking\<rparr>"
  have d1: "drainer ?c1 = Some AtTop"
    by (simp add: submit_def init_coalescer_def refuse_if_closed_def Let_def)
  have d2: "drainer (drain_top ?c1) = Some (Waiting 10005)"
    by (simp add: submit_def init_coalescer_def refuse_if_closed_def Let_def drain_top_def
        MERGE_COMMIT_BATCH_SIZE_def MERGE_COMMIT_MAX_WAIT_def)
  have "reachable (drain_top ?c1)"
    using reachable.Step[OF reachable.Init step.Submit] d1 by (meson drain_step.Top step.Drain reachable.Step)
  moreover have "drain_step (drain_top ?c1) ?c3"
    by (rule drain_step.Ready[OF d2, where now = 10005]) (simp add: group_ready_def)
  ultimately have "reachable ?c3" by (meson step.Drain reachable.Step)
  moreover have "drain_step ?c3 demo_running" unfolding demo_running_def by (rule drain_step.Take) simp
  ultimately show ?thesis by (meson step.Drain reachable.Step)
qed

theorem group_outcomes_delivered_witness:
  "\<exists>outs d'. execute_merge_batch (latest_by fst) 1800 calm_group (map pm_event (inflight demo_running)) demo_db = Inr (outs, d') \<and>
     resolved (run_batch (Inr outs) demo_running) = [(0, MergeHit 7)]"
proof -
  have c: "drainer demo_running = Some Running" "map pm_event (inflight demo_running) = [(demo_alert, calm)]"
    "map pm_id (inflight demo_running) = [0]" "resolved demo_running = []"
    by (simp_all add: demo_running_def submit_def init_coalescer_def refuse_if_closed_def Let_def drain_top_def
        take_batch_def MERGE_COMMIT_BATCH_SIZE_def)
  obtain d' where d': "execute_merge_batch (latest_by fst) 1800 calm_group (map pm_event (inflight demo_running)) demo_db =
      Inr ([MergeHit 7], d')"
    using demo_hit
    by (simp add: c execute_merge_batch_def finish_merge_batch_def hit_or_miss_def resolve_outcome_def
        calm_group_def calm_def)
  from group_outcomes_delivered[OF demo_running_reachable c(1) d'] d' c show ?thesis by auto
qed

end
