(* ===== verification/Json.thy ===== *)
theory Json
  imports Prelude
begin

text \<open>
  Two operations of the language on JSON-shaped values that several components use: \<open>==\<close>, which
  identifies numbers across \<open>int\<close>, \<open>float\<close> and \<open>bool\<close> and compares dictionaries without regard to
  order, and \<open>json.dumps\<close> with its default separators and ASCII escapes.  The text of a float is the
  parameter \<open>fr\<close>.
\<close>

section \<open>Equality\<close>

fun num_of :: "pyval \<Rightarrow> rat option" where
  "num_of (PBool b) = Some (if b then 1 else 0)"
| "num_of (PInt i) = Some (of_int i)"
| "num_of (PFloat r) = Some r"
| "num_of _ = None"

fun py_eq :: "pyval \<Rightarrow> pyval \<Rightarrow> bool"
  and eq_list :: "pyval list \<Rightarrow> pyval list \<Rightarrow> bool"
  and eq_dict :: "dict \<Rightarrow> dict \<Rightarrow> bool" where
  "py_eq PNone w = (w = PNone)"
| "py_eq (PStr s) w = (w = PStr s)"
| "py_eq (PBool b) w = (num_of w = Some (if b then 1 else 0))"
| "py_eq (PInt i) w = (num_of w = Some (of_int i))"
| "py_eq (PFloat r) w = (num_of w = Some r)"
| "py_eq (PList xs) w = (case w of PList ys \<Rightarrow> eq_list xs ys | _ \<Rightarrow> False)"
| "py_eq (PDict d) w = (case w of PDict e \<Rightarrow> length d = length e \<and> eq_dict d e | _ \<Rightarrow> False)"
| "eq_list [] ys = (ys = [])"
| "eq_list (x # xs) ys = (case ys of [] \<Rightarrow> False | y # ys' \<Rightarrow> py_eq x y \<and> eq_list xs ys')"
| "eq_dict [] e = True"
| "eq_dict (kv # d) e =
     ((case map_of e (fst kv) of None \<Rightarrow> False | Some w \<Rightarrow> py_eq (snd kv) w) \<and> eq_dict d e)"

lemma py_eq_str [simp]: "py_eq v (PStr s) \<longleftrightarrow> v = PStr s"
  by (cases v) auto

lemma py_eq_none [simp]: "py_eq v PNone \<longleftrightarrow> v = PNone"
  by (cases v) auto

section \<open>Text\<close>

definition json_char :: "char \<Rightarrow> string" where
  "json_char c = (let n = code_point c in
     if n = 34 \<or> n = 92 then [CHR 0x5C, c]
     else if n = 10 then [CHR 0x5C, CHR ''n'']
     else if n = 13 then [CHR 0x5C, CHR ''r'']
     else if n = 9 then [CHR 0x5C, CHR ''t'']
     else if n = 12 then [CHR 0x5C, CHR ''f'']
     else if n = 8 then [CHR 0x5C, CHR ''b'']
     else if 32 \<le> n \<and> n \<le> 126 then [c]
     else [CHR 0x5C, CHR ''u'', CHR ''0'', CHR ''0'', hex_digit (n div 16), hex_digit (n mod 16)])"

definition json_str :: "string \<Rightarrow> string" where
  "json_str s = [CHR 0x22] @ concat (map json_char s) @ [CHR 0x22]"

fun json_dumps :: "(rat \<Rightarrow> string) \<Rightarrow> pyval \<Rightarrow> string" where
  "json_dumps fr PNone = ''null''"
| "json_dumps fr (PBool b) = (if b then ''true'' else ''false'')"
| "json_dumps fr (PInt i) = int_str i"
| "json_dumps fr (PFloat r) = fr r"
| "json_dumps fr (PStr s) = json_str s"
| "json_dumps fr (PList xs) = ''['' @ str_join '', '' (map (json_dumps fr) xs) @ '']''"
| "json_dumps fr (PDict d) =
     ''{'' @ str_join '', '' (map (\<lambda>kv. json_str (fst kv) @ '': '' @ json_dumps fr (snd kv)) d) @ ''}''"

end
