(* ===== verification/Effects.thy ===== *)
theory Effects
  imports Prelude
begin

text \<open>
  Programs that change a state and may raise: the state after an exception is the one the exception
  left behind, as a Python program leaves files and remote systems.
\<close>

type_synonym ('s, 'a) io = "'s \<Rightarrow> 'a res \<times> 's"

definition ret :: "'a \<Rightarrow> ('s, 'a) io" where
  "ret x s = (Inr x, s)"

definition fail :: "pyexc \<Rightarrow> ('s, 'a) io" where
  "fail e s = (Inl e, s)"

definition bind_io :: "('s, 'a) io \<Rightarrow> ('a \<Rightarrow> ('s, 'b) io) \<Rightarrow> ('s, 'b) io" where
  "bind_io m f s = (case m s of (Inl e, s') \<Rightarrow> (Inl e, s') | (Inr x, s') \<Rightarrow> f x s')"

definition lift_io :: "'a res \<Rightarrow> ('s, 'a) io" where
  "lift_io r s = (r, s)"

text \<open>\<open>try: m except Exception as e: h(e)\<close>\<close>

definition try_io :: "('s, 'a) io \<Rightarrow> (pyexc \<Rightarrow> ('s, 'a) io) \<Rightarrow> ('s, 'a) io" where
  "try_io m h s = (case m s of (Inl e, s') \<Rightarrow> h e s' | (Inr x, s') \<Rightarrow> (Inr x, s'))"

fun map_io :: "('a \<Rightarrow> ('s, 'b) io) \<Rightarrow> 'a list \<Rightarrow> ('s, 'b list) io" where
  "map_io f [] = ret []"
| "map_io f (x # xs) = bind_io (f x) (\<lambda>y. bind_io (map_io f xs) (\<lambda>ys. ret (y # ys)))"

lemma io_simps [simp]:
  "ret x s = (Inr x, s)" "fail e s = (Inl e, s)" "lift_io r s = (r, s)"
  "bind_io (ret x) f s = f x s" "bind_io (fail e) f s = (Inl e, s)"
  by (simp_all add: ret_def fail_def lift_io_def bind_io_def)

lemma bind_io_Inr_iff [res_simps]:
  "bind_io m f s = (Inr y, s') \<longleftrightarrow> (\<exists>x s1. m s = (Inr x, s1) \<and> f x s1 = (Inr y, s'))"
  by (auto simp: bind_io_def split: prod.splits sum.splits)

lemma map_io_append:
  "map_io f (xs @ ys) s = bind_io (map_io f xs) (\<lambda>a. bind_io (map_io f ys) (\<lambda>b. ret (a @ b))) s"
  by (induction xs arbitrary: s) (auto simp: bind_io_def split: prod.splits sum.splits)

lemma map_io_length: "map_io f xs s = (Inr ys, s') \<Longrightarrow> length ys = length xs"
  by (induction xs arbitrary: s ys s') (auto simp: bind_io_Inr_iff)

end
