(* ===== verification/Probe.thy ===== *)
theory Probe
  imports Json Effects
begin

text \<open>
  The probe client of the worker (\<open>worker/probeclient.py\<close>): the request a call sends to the probe
  gateway, the result it makes of the response, and the scripted client the tests use.

  A client is a function \<open>ask\<close> that takes its own state and a call, and returns the result or the
  exception together with its next state; the activities take such a function as an argument.  The
  HTTP client is \<open>http_ask\<close> over a transport, the scripted client is \<open>fake_ask\<close>.
\<close>

section \<open>Calls and results\<close>

record tool_result =
  task_id :: pyval
  exit_code :: int
  data :: pyval
  raw_bytes :: string
  r_redacted :: bool
  r_truncated :: bool
  err :: pyval
  r_probe_id :: pyval

datatype probe_call =
    ExecuteTool (pkey: pyval) (tool: pyval) (targs: pyval) (tid: pyval)
  | ExecuteRaw (pkey: pyval) (command: pyval)
  | ExecuteWrite (pkey: pyval) (wplaybook: string) (windex: int) (wop: string) (wparams: dict)
      (wexecution: string) (wsignature: string)
  | ExecuteHealth (pkey: pyval) (builtin: bool) (custom_query: pyval) (wait_seconds: int)

type_synonym 's client = "'s \<Rightarrow> probe_call \<Rightarrow> tool_result res \<times> 's"

section \<open>The HTTP client\<close>

definition DEFAULT_TIMEOUT :: int where
  "DEFAULT_TIMEOUT = 60"

fun call_tid :: "probe_call \<Rightarrow> pyval" where
  "call_tid (ExecuteTool _ _ _ t) = t"
| "call_tid _ = PNone"

text \<open>\<open>_execute\<close>: the body of the request; \<open>fresh\<close> is the generated task id.\<close>

fun execute_body :: "string \<Rightarrow> probe_call \<Rightarrow> dict" where
  "execute_body fresh (ExecuteTool pk t a i) =
     [(''platform_key'', pk), (''task_id'', py_or i (PStr fresh)), (''kind'', PStr ''tool''),
      (''timeout_seconds'', PInt DEFAULT_TIMEOUT), (''tool'', t), (''args'', py_or a (PDict []))]"
| "execute_body fresh (ExecuteRaw pk c) =
     [(''platform_key'', pk), (''task_id'', PStr fresh), (''kind'', PStr ''raw_command''),
      (''timeout_seconds'', PInt DEFAULT_TIMEOUT), (''command'', c)]"
| "execute_body fresh (ExecuteWrite pk p i o' d e s) =
     [(''platform_key'', pk), (''task_id'', PStr fresh), (''kind'', PStr ''write''),
      (''timeout_seconds'', PInt DEFAULT_TIMEOUT), (''playbook_id'', PStr p), (''step_index'', PInt i),
      (''op'', PStr o'), (''params'', PDict d), (''execution_id'', PStr e),
      (''control_plane_signature'', PStr s)]"
| "execute_body fresh (ExecuteHealth pk b q n) =
     [(''platform_key'', pk), (''task_id'', PStr fresh), (''kind'', PStr ''health''),
      (''timeout_seconds'', PInt DEFAULT_TIMEOUT), (''builtin'', PBool b), (''custom_query'', py_or q (PStr [])),
      (''wait_seconds'', PInt n)]"

text \<open>A response of the transport: its status, its text and bytes, and what \<open>json()\<close> gives.\<close>

record response =
  status_code :: int
  rtext :: string
  content :: string
  rjson :: "pyval res"

definition dispatch_timed_out :: "response \<Rightarrow> bool" where
  "dispatch_timed_out r \<longleftrightarrow> status_code r = 502 \<and>
     (contains ''task dispatch timed out'' (rtext r) \<or> contains ''context deadline exceeded'' (rtext r))"

definition timeout_result :: "pyval \<Rightarrow> response \<Rightarrow> tool_result" where
  "timeout_result t r = \<lparr>task_id = t, exit_code = 1, data = PNone, raw_bytes = content r, r_redacted = False,
     r_truncated = False, err = PStr (str_strip (rtext r)), r_probe_id = PNone\<rparr>"

text \<open>\<open>is_success\<close> is the transport library's own test of a status code.\<close>

definition read_response :: "(int \<Rightarrow> bool) \<Rightarrow> pyval \<Rightarrow> response \<Rightarrow> tool_result res" where
  "read_response is_success t r =
     (if dispatch_timed_out r then Inr (timeout_result t r)
      else if \<not> is_success (status_code r) then Inl (OtherError ''HTTPStatusError'')
      else bind_res (rjson r) (\<lambda>payload.
        case payload of
          PDict d \<Rightarrow>
            bind_res (py_int (dget_or d ''exit_code'' (PInt 0))) (\<lambda>code.
              Inr \<lparr>task_id = t, exit_code = code, data = dget d ''data'', raw_bytes = content r,
                r_redacted = truthy (dget d ''redacted''), r_truncated = truthy (dget d ''truncated''),
                err = dget d ''error'', r_probe_id = dget d ''probe_id''\<rparr>)
        | _ \<Rightarrow> Inl (OtherError ''AttributeError'')))"

text \<open>The client over a transport \<open>post\<close>, which answers a body with a response or an exception, and
  a source of fresh identifiers.\<close>

definition http_ask ::
  "(int \<Rightarrow> bool) \<Rightarrow> ('t \<Rightarrow> dict \<Rightarrow> response res \<times> 't) \<Rightarrow> ('t \<Rightarrow> string) \<Rightarrow> 't client" where
  "http_ask is_success post fresh s c =
     (let b = execute_body (fresh s) c; (r, s') = post s b in
      (bind_res r (read_response is_success (dget b ''task_id'')), s'))"

section \<open>The scripted client\<close>

datatype answer = Value pyval | Raise pyexc
datatype script_entry = Always answer | Sequence "answer list"

record fake =
  script :: "(string \<times> script_entry) list"
  fcalls :: "probe_call list"
  counters :: "(string \<times> nat) list"
  killed_queries :: "string list"

definition fake_next :: "string \<Rightarrow> fake \<Rightarrow> answer res \<times> fake" where
  "fake_next key f =
     (case map_of (script f) key of
        None \<Rightarrow> (Inr (Value (PDict [(''ok'', PBool True)])), f)
      | Some (Always a) \<Rightarrow> (Inr a, f)
      | Some (Sequence as) \<Rightarrow>
          (let i = (case map_of (counters f) key of None \<Rightarrow> 0 | Some n \<Rightarrow> n);
               f' = f\<lparr>counters := AList.update key (i + 1) (counters f)\<rparr> in
           if as = [] then (Inl (OtherError ''IndexError''), f')
           else (Inr (as ! min i (length as - 1)), f')))"

definition LIST_QUERIES_ROW_KEYS :: "string list" where
  "LIST_QUERIES_ROW_KEYS = [''query_id'', ''state'', ''user'', ''source'', ''started'', ''ended'', ''error_code'',
     ''query_text_head'', ''resource_group'', ''queued_time'', ''elapsed_time'']"

text \<open>The messages of the fixture errors are not distinguished.\<close>

definition bad_fixture :: pyexc where
  "bad_fixture = ValueError ''presto_list_queries fixture''"

definition row_ok :: "pyval \<Rightarrow> bool" where
  "row_ok row = (case row of
     PDict r \<Rightarrow> list_all (\<lambda>kv. fst kv \<in> set LIST_QUERIES_ROW_KEYS) r \<and> has_key r ''query_id'' \<and> has_key r ''state''
   | _ \<Rightarrow> False)"

definition validate_list_queries_fixture :: "pyval \<Rightarrow> unit res" where
  "validate_list_queries_fixture d =
     (case d of
        PDict m \<Rightarrow> bind_res (py_int (dget_or m ''exit_code'' (PInt 0))) (\<lambda>c.
          if c \<noteq> 0 then Inr () else Inl bad_fixture)
      | PList rows \<Rightarrow> if list_all row_ok rows then Inr () else Inl bad_fixture
      | _ \<Rightarrow> Inl bad_fixture)"

definition killed_row :: "(rat \<Rightarrow> string) \<Rightarrow> string list \<Rightarrow> pyval \<Rightarrow> bool" where
  "killed_row fr killed row \<longleftrightarrow>
     is_dict row \<and> py_str fr (dget_or (as_dict row) ''query_id'' (PStr [])) \<in> set killed"

definition fake_result :: "(rat \<Rightarrow> string) \<Rightarrow> int \<Rightarrow> pyval \<Rightarrow> bool \<Rightarrow> bool \<Rightarrow> pyval \<Rightarrow> tool_result" where
  "fake_result fr code d red trunc e = \<lparr>task_id = PNone, exit_code = code, data = d,
     raw_bytes = utf8 (json_dumps fr d), r_redacted = red, r_truncated = trunc, err = e, r_probe_id = PStr ''fake-probe''\<rparr>"

definition fake_tool :: "(rat \<Rightarrow> string) \<Rightarrow> pyval \<Rightarrow> answer \<Rightarrow> fake \<Rightarrow> tool_result res" where
  "fake_tool fr t a f =
     (case a of Raise e \<Rightarrow> Inl e
      | Value d \<Rightarrow>
        bind_res (if t = PStr ''presto_list_queries'' then validate_list_queries_fixture d else Inr ()) (\<lambda>_.
        let d' = (if t = PStr ''presto_list_queries'' then
                    (case d of PList rows \<Rightarrow> PList (filter (\<lambda>r. \<not> killed_row fr (killed_queries f) r) rows) | _ \<Rightarrow> d)
                  else d);
            m = as_dict d' in
        bind_res (py_int (dget_or m ''exit_code'' (PInt 0))) (\<lambda>code.
          Inr (fake_result fr code d' (truthy (dget m ''redacted'')) (truthy (dget m ''truncated'')) PNone))))"

definition fake_exit :: "pyval \<Rightarrow> int res" where
  "fake_exit d = (case d of
     PDict m \<Rightarrow> py_int (dget_or m ''exit_code'' (PInt (if truthy (dget_or m ''ok'' (PBool True)) then 0 else 1)))
   | _ \<Rightarrow> Inr 0)"

definition default_answer :: answer where
  "default_answer = Value (PDict [(''ok'', PBool True)])"

text \<open>A successful \<open>presto_kill_query\<close> removes the query from what later calls list.\<close>

definition fake_write ::
  "(rat \<Rightarrow> string) \<Rightarrow> string \<Rightarrow> dict \<Rightarrow> answer \<Rightarrow> fake \<Rightarrow> tool_result res \<times> fake" where
  "fake_write fr o' params a f =
     (case a of Raise e \<Rightarrow> (Inl e, f)
      | Value d \<Rightarrow>
        (case fake_exit d of Inl e \<Rightarrow> (Inl e, f)
         | Inr code0 \<Rightarrow>
           (let m = as_dict d;
                code = (if is_dict d \<and> \<not> truthy (dget_or m ''ok'' (PBool True)) \<and> code0 = 0 then 1 else code0);
                qid = dget params ''query_id'';
                f' = (if code = 0 \<and> o' = ''presto_kill_query'' \<and> truthy qid
                      then f\<lparr>killed_queries := py_str fr qid # killed_queries f\<rparr> else f) in
            (Inr (fake_result fr code d False False (dget m ''error'')), f'))))"

definition fake_health :: "(rat \<Rightarrow> string) \<Rightarrow> answer \<Rightarrow> tool_result res" where
  "fake_health fr a =
     (case a of Raise e \<Rightarrow> Inl e
      | Value d \<Rightarrow> bind_res (fake_exit d) (\<lambda>code.
          Inr (fake_result fr code (if is_dict d then d else PDict [(''ok'', PBool True)]) False False
                 (dget (as_dict d) ''error''))))"

text \<open>An exception object as the answer of a raw command is not serializable.\<close>

definition fake_raw :: "(rat \<Rightarrow> string) \<Rightarrow> answer \<Rightarrow> tool_result res" where
  "fake_raw fr a = (case a of Raise e \<Rightarrow> Inl TypeError | Value d \<Rightarrow> Inr (fake_result fr 0 d False False PNone))"

definition with_answer ::
  "answer res \<times> fake \<Rightarrow> (answer \<Rightarrow> fake \<Rightarrow> tool_result res \<times> fake) \<Rightarrow> tool_result res \<times> fake" where
  "with_answer p k = (case p of (Inl e, f) \<Rightarrow> (Inl e, f) | (Inr a, f) \<Rightarrow> k a f)"

definition write_answer :: "string \<Rightarrow> fake \<Rightarrow> answer res \<times> fake" where
  "write_answer o' f =
     (case fake_next (''write:'' @ o') f of
        (Inr a, f') \<Rightarrow>
          if a = default_answer \<and> map_of (script f') (''write:'' @ o') = None then fake_next ''write'' f' else (Inr a, f')
      | (Inl e, f') \<Rightarrow> (Inl e, f'))"

definition tool_answer :: "pyval \<Rightarrow> fake \<Rightarrow> answer res \<times> fake" where
  "tool_answer t f = (case t of PStr k \<Rightarrow> fake_next k f
     | _ \<Rightarrow> if hashable t then (Inr default_answer, f) else (Inl TypeError, f))"

definition fake_ask :: "(rat \<Rightarrow> string) \<Rightarrow> string \<Rightarrow> fake client" where
  "fake_ask fr fresh f c =
     (let f1 = f\<lparr>fcalls := fcalls f @ [c]\<rparr>;
          (r, f2) = (case c of
            ExecuteTool pk t a i \<Rightarrow> with_answer (tool_answer t f1) (\<lambda>a f. (fake_tool fr t a f, f))
          | ExecuteRaw pk cmd \<Rightarrow> with_answer (fake_next ''raw_command'' f1) (\<lambda>a f. (fake_raw fr a, f))
          | ExecuteWrite pk p i o' d e s \<Rightarrow> with_answer (write_answer o' f1) (fake_write fr o' d)
          | ExecuteHealth pk b q n \<Rightarrow> with_answer (fake_next ''health'' f1) (\<lambda>a f. (fake_health fr a, f)))
      in (map_sum id (\<lambda>x. x\<lparr>task_id := py_or (call_tid c) (PStr fresh)\<rparr>) r, f2))"

section \<open>Programs over a client\<close>

text \<open>A client that records the calls it passes on with their results\<close>

definition recording :: "'s client \<Rightarrow> ('s \<times> (probe_call \<times> tool_result res) list) client" where
  "recording ask st c = (let (r, s') = ask (fst st) c in (r, (s', snd st @ [(c, r)])))"

section \<open>Requests and responses\<close>

lemma write_request_faithful:
  "execute_body fresh c = execute_body fresh' (ExecuteWrite pk p i o' d e sg) \<longleftrightarrow>
   c = ExecuteWrite pk p i o' d e sg \<and> fresh = fresh'"
  by (cases c) auto

lemma dispatch_timeout_is_failed_result:
  assumes "dispatch_timed_out r"
  shows "\<exists>x. read_response is_success t r = Inr x \<and> exit_code x = 1 \<and> data x = PNone \<and>
    err x = PStr (str_strip (rtext r))"
  using assms by (simp add: read_response_def timeout_result_def)

end
