(* ===== verification/World.thy ===== *)
theory World
  imports Probe Repo Playbooks
begin

text \<open>
  What an activity of the worker works on: the database, the probe client with its state, the object
  store and the supply of identifiers; and the collaborators it was constructed with.

  A transaction is a function on the database; an exception inside it leaves the database as it was.
\<close>

record 's world =
  adb :: db
  aprobe :: 's
  objects :: "(string \<times> string) list"
  drawn :: nat

text \<open>The collaborators: the decimal text of a float and its parser, the text of an exception, the
  clock, the identifiers \<open>uuid4\<close> draws, the enumeration order of the whitelist set, SHA-256 and the
  canonical form of parameters, the signer, and the probe client (each absent when not configured).\<close>

record 's deps =
  d_fr :: "rat \<Rightarrow> string"
  d_fl :: "string \<Rightarrow> rat option"
  d_es :: "pyexc \<Rightarrow> string"
  d_now :: timestamp
  d_uuid4 :: "nat \<Rightarrow> uuid"
  d_order :: "string list"
  d_sha256 :: "string \<Rightarrow> string"
  d_canon :: "dict \<Rightarrow> string"
  d_signer :: "(string \<Rightarrow> string) option"
  d_probe :: "'s client option"
  d_health :: bool
  d_store :: bool

type_synonym ('s, 'a) act = "('s world, 'a) io"

definition txn :: "(db \<Rightarrow> ('a \<times> db) res) \<Rightarrow> ('s, 'a) act" where
  "txn f w = (case f (adb w) of Inl e \<Rightarrow> (Inl e, w) | Inr (x, d) \<Rightarrow> (Inr x, w\<lparr>adb := d\<rparr>))"

text \<open>A session that only reads\<close>

definition query :: "(db \<Rightarrow> 'a res) \<Rightarrow> ('s, 'a) act" where
  "query f w = (f (adb w), w)"

text \<open>A program on the probe client alone\<close>

definition on_probe :: "('s, 'a) io \<Rightarrow> ('s, 'a) act" where
  "on_probe m w = (case m (aprobe w) of (r, s) \<Rightarrow> (r, w\<lparr>aprobe := s\<rparr>))"

text \<open>A transaction that returns nothing\<close>

definition txn_unit :: "(db \<Rightarrow> db res) \<Rightarrow> ('s, unit) act" where
  "txn_unit f = txn (\<lambda>d. bind_res (f d) (\<lambda>d'. Inr ((), d')))"

definition fresh_uuid :: "'s deps \<Rightarrow> ('s, uuid) act" where
  "fresh_uuid D w = (Inr (d_uuid4 D (drawn w)), w\<lparr>drawn := drawn w + 1\<rparr>)"

text \<open>A call of the probe client; a missing client is \<open>None\<close>, which has no such method.\<close>

definition probe_ask :: "'s deps \<Rightarrow> probe_call \<Rightarrow> ('s, tool_result) act" where
  "probe_ask D c w =
     (case d_probe D of
        None \<Rightarrow> (Inl (OtherError ''AttributeError''), w)
      | Some ask \<Rightarrow> (case ask (aprobe w) c of (r, s) \<Rightarrow> (r, w\<lparr>aprobe := s\<rparr>)))"

definition put_payload :: "'s deps \<Rightarrow> string \<Rightarrow> string \<Rightarrow> ('s, string) act" where
  "put_payload D key bytes w =
     (Inr key, if d_store D then w\<lparr>objects := objects w @ [(key, bytes)]\<rparr> else w)"

text \<open>\<open>uuid.UUID(str(v))\<close>, and the conversion \<open>write_audit\<close> applies to an investigation id\<close>

definition to_uuid :: "'s deps \<Rightarrow> pyval \<Rightarrow> uuid res" where
  "to_uuid D v = UUID (py_str (d_fr D) v)"

definition audit_uuid :: "'s deps \<Rightarrow> pyval \<Rightarrow> uuid option res" where
  "audit_uuid D v = (if v = PNone then Inr None else bind_res (to_uuid D v) (\<lambda>u. Inr (Some u)))"

definition audit :: "'s deps \<Rightarrow> string \<Rightarrow> string \<Rightarrow> pyval \<Rightarrow> dict \<Rightarrow> db \<Rightarrow> db res" where
  "audit D act who iid det d =
     (if act \<notin> set AUDIT_ACTIONS then write_audit (d_now D) act who None (Some det) d
      else bind_res (audit_uuid D iid) (\<lambda>u. write_audit (d_now D) act who u (Some det) d))"

text \<open>\<open>get_platform\<close> with a key taken from a payload\<close>

definition platform_lookup :: "pyval \<Rightarrow> db \<Rightarrow> platform option res" where
  "platform_lookup v d =
     (case v of PStr k \<Rightarrow> Inr (get_platform d k) | PNone \<Rightarrow> Inr None | _ \<Rightarrow> Inl (OtherError ''StatementError''))"

text \<open>A JSON column: the activities store dictionaries or nothing.\<close>

definition json_col :: "pyval \<Rightarrow> dict option" where
  "json_col v = (case v of PDict d \<Rightarrow> Some d | _ \<Rightarrow> None)"

lemma txn_Inr: "txn f w = (Inr x, w') \<longleftrightarrow> (\<exists>d. f (adb w) = Inr (x, d) \<and> w' = w\<lparr>adb := d\<rparr>)"
  by (auto simp: txn_def split: sum.splits)

lemma txn_unit_Inr: "txn_unit f w = (Inr x, w') \<longleftrightarrow> (\<exists>d. f (adb w) = Inr d \<and> w' = w\<lparr>adb := d\<rparr>)"
  by (auto simp: txn_unit_def txn_Inr bind_res_Inr_iff)

lemma txn_Inl: "txn f w = (Inl e, w') \<longleftrightarrow> f (adb w) = Inl e \<and> w' = w"
  by (auto simp: txn_def split: sum.splits)

text \<open>What a transaction leaves alone\<close>

lemma txn_frame:
  "txn f w = (r, w') \<Longrightarrow> aprobe w' = aprobe w \<and> objects w' = objects w \<and> drawn w' = drawn w"
  by (auto simp: txn_def split: sum.splits)

lemma txn_unit_frame:
  "txn_unit f w = (r, w') \<Longrightarrow> aprobe w' = aprobe w \<and> objects w' = objects w \<and> drawn w' = drawn w"
  unfolding txn_unit_def by (rule txn_frame)

end
