(* ===== verification/Signing.thy ===== *)
theory Signing
  imports Effects
begin

text \<open>
  The signing of write steps (\<open>rca_common/signing/signer.py\<close>): the canonical message of a step, the
  signer, base64 text, and the bootstrap of the key file with its public sidecar.  SHA-256, Ed25519 and
  the RFC 8785 canonical form are parameters.
\<close>

section \<open>Base64\<close>

definition B64_ALPHABET :: string where
  "B64_ALPHABET = ''ABCDEFGHIJKLMNOPQRSTUVWXYZabcdefghijklmnopqrstuvwxyz0123456789+/''"

definition b64_digit :: "nat \<Rightarrow> char" where
  "b64_digit n = B64_ALPHABET ! n"

fun index_of :: "char \<Rightarrow> string \<Rightarrow> nat option" where
  "index_of c [] = None"
| "index_of c (d # ds) = (if c = d then Some 0 else map_option Suc (index_of c ds))"

definition b64_value :: "char \<Rightarrow> nat option" where
  "b64_value c = index_of c B64_ALPHABET"

fun b64encode :: "string \<Rightarrow> string" where
  "b64encode [] = []"
| "b64encode [a] = (let x = code_point a in
     [b64_digit (x div 4), b64_digit ((x mod 4) * 16), CHR ''='', CHR ''=''])"
| "b64encode [a, b] = (let x = code_point a; y = code_point b in
     [b64_digit (x div 4), b64_digit ((x mod 4) * 16 + y div 16), b64_digit ((y mod 16) * 4), CHR ''=''])"
| "b64encode (a # b # c # s) = (let x = code_point a; y = code_point b; z = code_point c in
     [b64_digit (x div 4), b64_digit ((x mod 4) * 16 + y div 16), b64_digit ((y mod 16) * 4 + z div 64),
      b64_digit (z mod 64)] @ b64encode s)"

text \<open>The lenient decoder: characters outside the alphabet are skipped, padding that completes a group
  ends the input.\<close>

fun b64_decode_from :: "nat \<Rightarrow> nat \<Rightarrow> nat \<Rightarrow> string \<Rightarrow> string option" where
  "b64_decode_from q left pads [] = (if q = 0 then Some [] else None)"
| "b64_decode_from q left pads (c # cs) =
     (if c = CHR ''='' then
        (if 2 \<le> q then (if 4 \<le> q + pads + 1 then Some [] else b64_decode_from q left (pads + 1) cs)
         else b64_decode_from q left pads cs)
      else case b64_value c of
        None \<Rightarrow> b64_decode_from q left pads cs
      | Some v \<Rightarrow>
          if q = 0 then b64_decode_from 1 v 0 cs
          else if q = 1 then map_option ((#) (char_of (left * 4 + v div 16))) (b64_decode_from 2 (v mod 16) 0 cs)
          else if q = 2 then map_option ((#) (char_of (left * 16 + v div 4))) (b64_decode_from 3 (v mod 4) 0 cs)
          else map_option ((#) (char_of (left * 64 + v))) (b64_decode_from 0 0 0 cs))"

definition b64decode :: "string \<Rightarrow> string option" where
  "b64decode s = (if list_all (\<lambda>c. code_point c < 128) s then b64_decode_from 0 0 0 s else None)"

lemma b64_tables: "list_all (\<lambda>n. b64_value (b64_digit n) = Some n \<and> b64_digit n \<noteq> CHR ''='' \<and> code_point (b64_digit n) < 128) [0..<64]"
  by code_simp

lemma b64_digit_value:
  assumes "n < 64"
  shows "b64_value (b64_digit n) = Some n" "b64_digit n \<noteq> CHR ''=''" "code_point (b64_digit n) < 128"
  using b64_tables assms by (auto simp: list_all_iff)

lemma b64_lens:
  fixes x y z :: nat
  assumes "x < 256" "y < 256" "z < 256"
  shows "x div 4 < 64" "(x mod 4) * 16 + y div 16 < 64" "(y mod 16) * 4 + z div 64 < 64" "z mod 64 < 64"
    "(x mod 4) * 16 < 64" "(y mod 16) * 4 < 64"
  using assms by auto

lemma char_code: "n = code_point c \<Longrightarrow> char_of n = c"
  by (simp add: code_point_def)

lemma pack_unpack:
  fixes q r n :: nat
  assumes "q < n"
  shows "(r * n + q) div n = r" "(r * n + q) mod n = q"
  using assms by auto

lemma b64_groups:
  fixes x y z :: nat
  shows "y < 256 \<Longrightarrow> x div 4 * 4 + (x mod 4 * 16 + y div 16) div 16 = x"
    and "y < 256 \<Longrightarrow> z < 256 \<Longrightarrow> (x mod 4 * 16 + y div 16) mod 16 * 16 + (y mod 16 * 4 + z div 64) div 4 = y"
    and "z < 256 \<Longrightarrow> (y mod 16 * 4 + z div 64) mod 4 * 64 + z mod 64 = z"
  by (simp_all add: pack_unpack less_mult_imp_div_less del: div_mult_self3 mod_mult_self3)

lemma b64_decode_encode: "b64_decode_from 0 0 0 (b64encode s) = Some s"
proof (induction s rule: b64encode.induct)
  case (2 a)
  have b: "code_point a < 256" by (rule code_point_less)
  show ?case
    using b64_digit_value[OF b64_lens(1)[OF b b b]] b64_digit_value[OF b64_lens(5)[OF b b b]]
    by (simp add: Let_def char_code)
next
  case (3 a b)
  note bs = code_point_less[of a] code_point_less[of b] code_point_less[of b]
  show ?case
    using b64_digit_value[OF b64_lens(1)[OF bs]] b64_digit_value[OF b64_lens(2)[OF bs]]
      b64_digit_value[OF b64_lens(6)[OF bs]] b64_groups(1)[OF bs(2), of "code_point a"]
      b64_groups(2)[OF bs(2), of 0 "code_point a"]
    by (simp add: Let_def char_code)
next
  case (4 a b c s)
  note bs = code_point_less[of a] code_point_less[of b] code_point_less[of c]
  show ?case
    using 4 b64_digit_value[OF b64_lens(1)[OF bs]] b64_digit_value[OF b64_lens(2)[OF bs]]
      b64_digit_value[OF b64_lens(3)[OF bs]] b64_digit_value[OF b64_lens(4)[OF bs]]
      b64_groups(1)[OF bs(2), of "code_point a"] b64_groups(2)[OF bs(2,3), of "code_point a"]
      b64_groups(3)[OF bs(3), of "code_point b"]
    by (simp add: Let_def char_code)
qed simp

lemma b64encode_ascii: "list_all (\<lambda>c. code_point c < 128) (b64encode s)"
proof (induction s rule: b64encode.induct)
  case (2 a)
  note b = code_point_less[of a]
  show ?case using b64_digit_value(3)[OF b64_lens(1)[OF b b b]] b64_digit_value(3)[OF b64_lens(5)[OF b b b]]
    by (simp add: Let_def code_point_def)
next
  case (3 a b)
  note bs = code_point_less[of a] code_point_less[of b] code_point_less[of b]
  show ?case
    using b64_digit_value(3)[OF b64_lens(1)[OF bs]] b64_digit_value(3)[OF b64_lens(2)[OF bs]]
      b64_digit_value(3)[OF b64_lens(6)[OF bs]]
    by (simp add: Let_def code_point_def)
next
  case (4 a b c s)
  note bs = code_point_less[of a] code_point_less[of b] code_point_less[of c]
  show ?case
    using 4 b64_digit_value(3)[OF b64_lens(1)[OF bs]] b64_digit_value(3)[OF b64_lens(2)[OF bs]]
      b64_digit_value(3)[OF b64_lens(3)[OF bs]] b64_digit_value(3)[OF b64_lens(4)[OF bs]]
    by (simp add: Let_def code_point_def)
qed simp

lemma b64decode_encode [simp]: "b64decode (b64encode s) = Some s"
  by (simp add: b64decode_def b64_decode_encode b64encode_ascii)

lemma b64encode_inj: "b64encode s = b64encode t \<longleftrightarrow> s = t"
  by (metis b64decode_encode option.inject)

section \<open>The message of a step\<close>

definition step_parts :: "(dict \<Rightarrow> string) \<Rightarrow> string \<Rightarrow> string \<Rightarrow> int \<Rightarrow> string \<Rightarrow> dict \<Rightarrow> string list" where
  "step_parts canon execution_id playbook_id step_index o' params =
     [utf8 execution_id, utf8 playbook_id, utf8 (int_str step_index), utf8 o', canon params]"

definition canonical_step_hash ::
  "(string \<Rightarrow> string) \<Rightarrow> (dict \<Rightarrow> string) \<Rightarrow> string \<Rightarrow> string \<Rightarrow> int \<Rightarrow> string \<Rightarrow> dict \<Rightarrow> string" where
  "canonical_step_hash sha256 canon execution_id playbook_id step_index o' params =
     sha256 (str_join ''|'' (step_parts canon execution_id playbook_id step_index o' params))"

section \<open>Keys on disk\<close>

text \<open>The four files the bootstrap touches, and which of them can be read and written\<close>

record key_files =
  key_file :: "string option"
  key_tmp :: "string option"
  pub_file :: "string option"
  pub_tmp :: "string option"

record file_faults =
  key_writable :: bool
  pub_readable :: bool
  pub_writable :: bool

definition load_signer :: "(string \<Rightarrow> bool) \<Rightarrow> string \<Rightarrow> string res" where
  "load_signer valid_seed raw = (if valid_seed raw then Inr raw else Inl (ValueError ''The seed must be exactly 32 bytes long''))"

definition write_public_key_sidecar :: "file_faults \<Rightarrow> string \<Rightarrow> (key_files, unit) io" where
  "write_public_key_sidecar env public_key fs =
     (let desired = b64encode public_key in
      if pub_file fs = Some desired \<and> pub_readable env then (Inr (), fs)
      else if pub_writable env then (Inr (), fs\<lparr>pub_file := Some desired, pub_tmp := None\<rparr>)
      else (Inl (OSError ''sidecar''), fs\<lparr>pub_tmp := None\<rparr>))"

text \<open>\<open>generated\<close> is the seed \<open>SigningKey.generate()\<close> yields; \<open>public\<close> maps a seed to its public key.\<close>

definition bootstrap_signing_key ::
  "(string \<Rightarrow> bool) \<Rightarrow> (string \<Rightarrow> string) \<Rightarrow> file_faults \<Rightarrow> string \<Rightarrow> (key_files, string) io" where
  "bootstrap_signing_key valid_seed public env generated fs =
     (case key_file fs of
        Some raw \<Rightarrow>
          bind_io (lift_io (load_signer valid_seed raw)) (\<lambda>signer.
          bind_io (write_public_key_sidecar env (public signer)) (\<lambda>_. ret signer)) fs
      | None \<Rightarrow>
          if key_tmp fs \<noteq> None \<or> \<not> key_writable env then (Inl (OSError ''key''), fs)
          else bind_io (write_public_key_sidecar env (public generated)) (\<lambda>_. ret generated)
                 (fs\<lparr>key_file := Some generated, key_tmp := None\<rparr>))"

section \<open>The message determines the step\<close>

definition bar_free :: "string \<Rightarrow> bool" where
  "bar_free s \<longleftrightarrow> CHR ''|'' \<notin> set s"

lemma bar_free_utf8: "bar_free s \<Longrightarrow> bar_free (utf8 s)"
  using utf8_keeps_out[of "CHR ''|''" s] by (simp add: bar_free_def code_point_def)

lemma bar_free_int: "bar_free (int_str i)"
  using int_str_chars[of i] by (auto simp: bar_free_def is_digit_def code_point_def)

lemma join_cancel:
  assumes "a @ CHR ''|'' # x = b @ CHR ''|'' # y" "CHR ''|'' \<notin> set a" "CHR ''|'' \<notin> set b"
  shows "a = b \<and> x = y"
  using assms
proof (induction a arbitrary: b)
  case Nil
  then show ?case by (cases b) auto
next
  case (Cons c a)
  then show ?case by (cases b) auto
qed

lemma step_parts_inj:
  assumes "bar_free e" "bar_free p" "bar_free o1" "bar_free e'" "bar_free p'" "bar_free o2"
    and "str_join ''|'' (step_parts canon e p i o1 d) = str_join ''|'' (step_parts canon e' p' j o2 d')"
  shows "e = e' \<and> p = p' \<and> i = j \<and> o1 = o2 \<and> canon d = canon d'"
proof -
  note bf = assms(1-6)[THEN bar_free_utf8] bar_free_int[of i, THEN bar_free_utf8] bar_free_int[of j, THEN bar_free_utf8]
  note bf = bf[unfolded bar_free_def]
  from assms(7) have "utf8 e @ CHR ''|'' # utf8 p @ CHR ''|'' # utf8 (int_str i) @ CHR ''|'' # utf8 o1 @ CHR ''|'' # canon d =
      utf8 e' @ CHR ''|'' # utf8 p' @ CHR ''|'' # utf8 (int_str j) @ CHR ''|'' # utf8 o2 @ CHR ''|'' # canon d'"
    by (simp add: step_parts_def)
  from join_cancel[OF this bf(1,4)]
  have 1: "utf8 e = utf8 e'" "utf8 p @ CHR ''|'' # utf8 (int_str i) @ CHR ''|'' # utf8 o1 @ CHR ''|'' # canon d =
      utf8 p' @ CHR ''|'' # utf8 (int_str j) @ CHR ''|'' # utf8 o2 @ CHR ''|'' # canon d'" by auto
  from join_cancel[OF 1(2) bf(2,5)]
  have 2: "utf8 p = utf8 p'" "utf8 (int_str i) @ CHR ''|'' # utf8 o1 @ CHR ''|'' # canon d =
      utf8 (int_str j) @ CHR ''|'' # utf8 o2 @ CHR ''|'' # canon d'" by auto
  from join_cancel[OF 2(2) bf(7,8)]
  have 3: "utf8 (int_str i) = utf8 (int_str j)" "utf8 o1 @ CHR ''|'' # canon d = utf8 o2 @ CHR ''|'' # canon d'" by auto
  from join_cancel[OF 3(2) bf(3,6)] 1(1) 2(1) 3(1) show ?thesis
    by (auto dest!: utf8_inj simp: int_str_inj)
qed

text \<open>a signature binds one step.  When the hash does not collide on the two messages, two steps
  with execution id, playbook id and operation free of the separator have the same signed digest only if
  they agree on the execution, the playbook, the index, the operation and the canonical parameters: a
  signature cannot be replayed for another step or another execution.\<close>

theorem signature_binds_step:
  assumes "bar_free e" "bar_free p" "bar_free o1" "bar_free e'" "bar_free p'" "bar_free o2"
    and "sha256 (str_join ''|'' (step_parts canon e p i o1 d)) = sha256 (str_join ''|'' (step_parts canon e' p' j o2 d')) \<Longrightarrow>
      str_join ''|'' (step_parts canon e p i o1 d) = str_join ''|'' (step_parts canon e' p' j o2 d')"
  shows "canonical_step_hash sha256 canon e p i o1 d = canonical_step_hash sha256 canon e' p' j o2 d' \<longleftrightarrow>
    e = e' \<and> p = p' \<and> i = j \<and> o1 = o2 \<and> canon d = canon d'"
proof
  assume "canonical_step_hash sha256 canon e p i o1 d = canonical_step_hash sha256 canon e' p' j o2 d'"
  then show "e = e' \<and> p = p' \<and> i = j \<and> o1 = o2 \<and> canon d = canon d'"
    using assms(7) step_parts_inj[OF assms(1-6)] by (simp add: canonical_step_hash_def)
qed (auto simp: canonical_step_hash_def step_parts_def)

theorem signature_binds_step_witness:
  "canonical_step_hash id (\<lambda>_. ''{}'') ''x'' ''presto.restart_worker'' 1 ''k8s_delete_pod'' [] \<noteq>
   canonical_step_hash id (\<lambda>_. ''{}'') ''x'' ''presto.restart_worker'' 11 ''k8s_delete_pod'' []"
proof -
  have "bar_free ''x''" "bar_free ''presto.restart_worker''" "bar_free ''k8s_delete_pod''"
    by (simp_all add: bar_free_def)
  from signature_binds_step[OF this this, of id "\<lambda>_. ''{}''" 1 "[]" 11 "[]"] show ?thesis by simp
qed

section \<open>The key files\<close>

text \<open>the key bootstrap is idempotent and keeps the sidecar in step.  When it succeeds, the key file
  holds the returned key, the sidecar holds the base64 text of its public key, an existing key is never
  replaced, and a second run (whatever seed it would generate) returns the same key and changes no file.\<close>

theorem bootstrap_idempotent:
  assumes "bootstrap_signing_key valid public env g fs = (Inr k, fs')" "valid g" "pub_readable env"
  shows "key_file fs' = Some k \<and> pub_file fs' = Some (b64encode (public k)) \<and>
    (\<forall>old. key_file fs = Some old \<longrightarrow> k = old) \<and>
    bootstrap_signing_key valid public env g' fs' = (Inr k, fs')"
proof (cases "key_file fs")
  case None
  with assms show ?thesis
    by (auto simp: bootstrap_signing_key_def bind_io_def write_public_key_sidecar_def load_signer_def Let_def
        split: if_splits)
next
  case (Some raw)
  with assms show ?thesis
    by (auto simp: bootstrap_signing_key_def bind_io_def write_public_key_sidecar_def load_signer_def Let_def
        split: if_splits)
qed

definition no_files :: key_files where
  "no_files = \<lparr>key_file = None, key_tmp = None, pub_file = None, pub_tmp = None\<rparr>"

definition no_faults :: file_faults where
  "no_faults = \<lparr>key_writable = True, pub_readable = True, pub_writable = True\<rparr>"

theorem bootstrap_idempotent_witness:
  "\<exists>fs'. bootstrap_signing_key (\<lambda>_. True) rev no_faults ''seed'' no_files = (Inr ''seed'', fs') \<and>
     bootstrap_signing_key (\<lambda>_. True) rev no_faults ''other'' fs' = (Inr ''seed'', fs')"
proof -
  obtain fs' where fs: "bootstrap_signing_key (\<lambda>_. True) rev no_faults ''seed'' no_files = (Inr ''seed'', fs')"
    by (simp add: bootstrap_signing_key_def no_faults_def no_files_def bind_io_def write_public_key_sidecar_def Let_def)
  have "pub_readable no_faults" by (simp add: no_faults_def)
  from bootstrap_idempotent[OF fs _ this, of "''other''"] fs show ?thesis by blast
qed

text \<open>A crash after the temporary key file was created and before it was renamed leaves a file that the
  exclusive creation of every later run refuses.\<close>

lemma stale_key_tmp_blocks_bootstrap:
  assumes "key_file fs = None" "key_tmp fs = Some partial_key"
  shows "bootstrap_signing_key valid public env g fs = (Inl (OSError ''key''), fs)"
  using assms by (simp add: bootstrap_signing_key_def)

end
