(* ===== verification/Verification.thy ===== *)
theory Verification
  imports Probe
begin

text \<open>
  The checks that decide whether a remediation worked (\<open>worker/verification.py\<close>): the default
  checks of each playbook, the checks of the root-cause plan, and the canary query.
\<close>

section \<open>The checks\<close>

record check =
  c_name :: string
  c_ok :: bool
  c_detail :: pyval

definition is_list :: "pyval \<Rightarrow> bool" where
  "is_list v = (case v of PList _ \<Rightarrow> True | _ \<Rightarrow> False)"

definition UNWRAP_KEYS :: "string list" where
  "UNWRAP_KEYS = [''queries'', ''nodes'', ''active'', ''content'', ''text'']"

definition unwrap_data :: "pyval \<Rightarrow> pyval" where
  "unwrap_data v =
     (case v of
        PList xs \<Rightarrow> v
      | PDict d \<Rightarrow>
          (let inner = dget d ''data'' in
           if is_dict inner \<and> list_ex (has_key (as_dict inner)) UNWRAP_KEYS then inner
           else if is_list inner then inner else v)
      | _ \<Rightarrow> PDict [])"

text \<open>\<open>await probe.execute_tool(platform_key, tool=..., args=...)\<close>\<close>

definition ask_tool :: "'s client \<Rightarrow> pyval \<Rightarrow> pyval \<Rightarrow> pyval \<Rightarrow> ('s, tool_result) io" where
  "ask_tool ask pk t args = (\<lambda>s. ask s (ExecuteTool pk t args PNone))"

definition names_query :: "pyval \<Rightarrow> pyval \<Rightarrow> bool" where
  "names_query qid q \<longleftrightarrow>
     (is_dict q \<and> (py_eq (dget (as_dict q) ''queryId'') qid \<or> py_eq (dget (as_dict q) ''query_id'') qid \<or>
        py_eq (dget (as_dict q) ''id'') qid)) \<or> py_eq q qid"

definition listed_queries :: "pyval \<Rightarrow> pyval" where
  "listed_queries d =
     (let qs = (if is_list d then d else py_or (dget (as_dict d) ''queries'') (PList [])) in
      case qs of PDict m \<Rightarrow> PList (map snd m) | _ \<Rightarrow> qs)"

definition query_present :: "pyval \<Rightarrow> pyval \<Rightarrow> bool" where
  "query_present qid v \<longleftrightarrow> list_ex (names_query qid) (as_list (listed_queries (unwrap_data v)))"

definition py_bool_str :: "bool \<Rightarrow> string" where
  "py_bool_str b = (if b then ''True'' else ''False'')"

definition check_query_absent :: "(rat \<Rightarrow> string) \<Rightarrow> 's client \<Rightarrow> pyval \<Rightarrow> dict \<Rightarrow> ('s, check) io" where
  "check_query_absent fr ask pk params =
     (let qid = dget params ''query_id'' in
      bind_io (ask_tool ask pk (PStr ''presto_list_queries'') (PDict [(''state'', PStr ''RUNNING'')])) (\<lambda>r.
        let present = query_present qid (data r) in
        ret \<lparr>c_name = ''query_absent'', c_ok = (\<not> present \<and> exit_code r = 0),
          c_detail = PStr (''query_id='' @ py_str fr qid @ '' present='' @ py_bool_str present)\<rparr>))"

text \<open>The workers a node listing reports: their number, and its text\<close>

definition node_list :: "pyval \<Rightarrow> pyval" where
  "node_list d =
     (case d of PDict m \<Rightarrow>
        py_or (dget m ''active'') (py_or (dget m ''nodes'') (py_or (dget m ''activeWorkers'') (PList [])))
      | _ \<Rightarrow> PList [])"

definition worker_count :: "pyval \<Rightarrow> (int \<times> string) res" where
  "worker_count d =
     (case node_list d of
        PInt i \<Rightarrow> Inr (i, int_str i)
      | PBool b \<Rightarrow> Inr (if b then 1 else 0, py_bool_str b)
      | PList xs \<Rightarrow> Inr (int (length xs), int_str (int (length xs)))
      | _ \<Rightarrow> bind_res (py_int (py_or (dget (as_dict d) ''activeWorkers'') (PInt 0))) (\<lambda>i. Inr (i, int_str i)))"

definition check_workers_active_count :: "'s client \<Rightarrow> pyval \<Rightarrow> dict \<Rightarrow> ('s, check) io" where
  "check_workers_active_count ask pk params =
     bind_io (ask_tool ask pk (PStr ''presto_nodes'') (PDict [])) (\<lambda>r.
     bind_io (lift_io (worker_count (unwrap_data (data r)))) (\<lambda>(count, txt).
     bind_io (lift_io (py_int (py_or (dget params ''min_workers'') (PInt 1)))) (\<lambda>min_workers.
       ret \<lparr>c_name = ''workers_active_count'', c_ok = (exit_code r = 0 \<and> min_workers \<le> count),
         c_detail = PStr (''active='' @ txt @ '' min='' @ int_str min_workers)\<rparr>)))"

text \<open>The key and value the configuration check looks for\<close>

definition expected_setting :: "dict \<Rightarrow> (pyval \<times> pyval) res" where
  "expected_setting params =
     (let key = py_or (dget params ''config_key'') (dget params ''key'');
          expect = py_or (dget params ''config_value'') (dget params ''value'');
          mem = py_or (dget params ''memory_params'') (PDict []);
          patches = dget params ''patches'' in
      if truthy key then Inr (key, expect)
      else if truthy mem then
        (case mem of PDict ((k, v) # _) \<Rightarrow> Inr (PStr k, v) | _ \<Rightarrow> Inl (OtherError ''AttributeError''))
      else if truthy patches then
        (case patches of
           PList (p0 # _) \<Rightarrow> bind_res (py_get p0 ''key'') (\<lambda>k. bind_res (py_get p0 ''value'') (\<lambda>v. Inr (k, v)))
         | PDict _ \<Rightarrow> Inl (KeyError ''0'')
         | PStr _ \<Rightarrow> Inl (OtherError ''AttributeError'')
         | _ \<Rightarrow> Inl TypeError)
      else Inr (key, expect))"

definition config_content :: "(rat \<Rightarrow> string) \<Rightarrow> pyval \<Rightarrow> string" where
  "config_content fr v =
     (let d = unwrap_data v;
          c1 = (if is_dict d then py_or (dget (as_dict d) ''content'') (py_or (dget (as_dict d) ''text'') (PStr []))
                else PStr []);
          c2 = (if \<not> truthy c1 \<and> is_dict v then
                  py_or (dget (as_dict v) ''content'') (py_or (dget (as_dict v) ''text'')
                    (py_or (dget (as_dict v) ''data'') (PStr [])))
                else c1) in
      case c2 of
        PDict m \<Rightarrow> str_join [CHR 0x0A] (map (\<lambda>kv. fst kv @ ''='' @ py_str fr (snd kv)) m)
      | _ \<Rightarrow> py_str fr c2)"

definition setting_found :: "(rat \<Rightarrow> string) \<Rightarrow> pyval \<Rightarrow> pyval \<Rightarrow> string \<Rightarrow> bool" where
  "setting_found fr key expect txt \<longleftrightarrow>
     contains (py_str fr key @ ''='' @ py_str fr expect) txt \<or> contains (py_str fr expect) txt"

definition check_config_key_equals :: "(rat \<Rightarrow> string) \<Rightarrow> 's client \<Rightarrow> pyval \<Rightarrow> dict \<Rightarrow> ('s, check) io" where
  "check_config_key_equals fr ask pk params =
     bind_io (lift_io (expected_setting params)) (\<lambda>(key, expect).
     bind_io (ask_tool ask pk (PStr ''presto_config'')
               (PDict [(''component'', PStr ''worker''), (''file'', PStr ''config'')])) (\<lambda>r.
       ret \<lparr>c_name = ''config_key_equals'',
         c_ok = (exit_code r = 0 \<and> (key \<noteq> PNone \<and> expect \<noteq> PNone \<longrightarrow>
           setting_found fr key expect (config_content fr (data r)))),
         c_detail = PStr (''key='' @ py_str fr key @ '' expect='' @ py_str fr expect)\<rparr>))"

definition check_coordinator_up :: "'s client \<Rightarrow> pyval \<Rightarrow> dict \<Rightarrow> ('s, check) io" where
  "check_coordinator_up ask pk params =
     bind_io (ask_tool ask pk (PStr ''presto_cluster_info'') (PDict [])) (\<lambda>r.
       ret \<lparr>c_name = ''coordinator_up'', c_ok = (exit_code r = 0 \<and> err r = PNone),
         c_detail = py_or (err r) (PStr ''ok'')\<rparr>)"

definition names_worker :: "pyval \<Rightarrow> pyval \<Rightarrow> bool" where
  "names_worker w n \<longleftrightarrow>
     (is_dict n \<and> (py_eq (dget (as_dict n) ''node_id'') w \<or> py_eq (dget (as_dict n) ''nodeId'') w \<or>
        py_eq (dget (as_dict n) ''uri'') w)) \<or> py_eq n w"

definition check_node_active :: "(rat \<Rightarrow> string) \<Rightarrow> 's client \<Rightarrow> pyval \<Rightarrow> dict \<Rightarrow> ('s, check) io" where
  "check_node_active fr ask pk params =
     (let w = dget params ''worker_id'' in
      bind_io (ask_tool ask pk (PStr ''presto_nodes'') (PDict [])) (\<lambda>r.
        let d = unwrap_data (data r); nodes = (if is_list d then d else node_list d) in
        ret \<lparr>c_name = ''node_active'',
          c_ok = (exit_code r = 0 \<and> (truthy w \<and> is_list nodes \<longrightarrow> list_ex (names_worker w) (as_list nodes))),
          c_detail = PStr (''worker_id='' @ py_str fr w)\<rparr>))"

definition check_jmx_memory_pool_ok :: "'s client \<Rightarrow> pyval \<Rightarrow> dict \<Rightarrow> ('s, check) io" where
  "check_jmx_memory_pool_ok ask pk params =
     bind_io (ask_tool ask pk (PStr ''presto_jmx'') (PDict [(''mbean'', PStr ''heap'')])) (\<lambda>r.
       ret \<lparr>c_name = ''jmx_memory_pool_ok'', c_ok = (exit_code r = 0), c_detail = py_or (err r) (PStr ''ok'')\<rparr>)"

text \<open>The canary; \<open>has_health\<close> says whether the client offers \<open>execute_health\<close>.\<close>

definition canary_ok :: "tool_result \<Rightarrow> bool" where
  "canary_ok r =
     (if is_dict (data r) \<and> has_key (as_dict (data r)) ''ok''
      then truthy (dget (as_dict (data r)) ''ok'') \<and> exit_code r = 0
      else exit_code r = 0 \<and> \<not> truthy (err r))"

definition run_canary :: "bool \<Rightarrow> 's client \<Rightarrow> pyval \<Rightarrow> pyval \<Rightarrow> ('s, check) io" where
  "run_canary has_health ask pk health_query =
     (if has_health then
        bind_io (\<lambda>s. ask s (ExecuteHealth pk True (py_or health_query (PStr [])) 0)) (\<lambda>r.
          ret \<lparr>c_name = ''canary'', c_ok = canary_ok r, c_detail = py_or (err r) (PStr ''ok'')\<rparr>)
      else
        bind_io (ask_tool ask pk (PStr ''presto_cluster_info'') (PDict [])) (\<lambda>r.
          ret \<lparr>c_name = ''canary'', c_ok = (exit_code r = 0),
            c_detail = py_or (err r) (PStr ''fallback-cluster-info'')\<rparr>))"

section \<open>The run\<close>

definition PLAYBOOK_VERIFICATIONS ::
  "(rat \<Rightarrow> string) \<Rightarrow> (string \<times> ('s client \<Rightarrow> pyval \<Rightarrow> dict \<Rightarrow> ('s, check) io) list) list" where
  "PLAYBOOK_VERIFICATIONS fr =
     [(''presto.kill_query'', [check_query_absent fr]),
      (''presto.update_config_restart_workers'', [check_workers_active_count, check_config_key_equals fr]),
      (''presto.restart_coordinator'', [check_coordinator_up, check_workers_active_count]),
      (''presto.restart_worker'', [check_node_active fr]),
      (''presto.adjust_memory_config'',
         [check_workers_active_count, check_config_key_equals fr, check_jmx_memory_pool_ok])]"

definition default_checks ::
  "(rat \<Rightarrow> string) \<Rightarrow> pyval \<Rightarrow> ('s client \<Rightarrow> pyval \<Rightarrow> dict \<Rightarrow> ('s, check) io) list res" where
  "default_checks fr pid =
     (case pid of
        PStr p \<Rightarrow> Inr (case map_of (PLAYBOOK_VERIFICATIONS fr) p of None \<Rightarrow> [] | Some fs \<Rightarrow> fs)
      | _ \<Rightarrow> if hashable pid then Inr [] else Inl TypeError)"

text \<open>The tool and arguments an entry of the plan asks for; \<open>None\<close> skips the entry.\<close>

definition plan_entry :: "pyval \<Rightarrow> (pyval \<times> pyval) option" where
  "plan_entry entry =
     (let ta = (case entry of
         PStr t \<Rightarrow> Some (PStr t, PDict [])
       | PDict e \<Rightarrow> Some (py_or (dget e ''tool'') (py_or (dget e ''name'') (PStr [])), py_or (dget e ''args'') (PDict []))
       | _ \<Rightarrow> None) in
      case ta of Some (t, a) \<Rightarrow> if truthy t then Some (t, a) else None | None \<Rightarrow> None)"

definition plan_check :: "(rat \<Rightarrow> string) \<Rightarrow> 's client \<Rightarrow> pyval \<Rightarrow> pyval \<times> pyval \<Rightarrow> ('s, check) io" where
  "plan_check fr ask pk = (\<lambda>(t, a).
     bind_io (ask_tool ask pk t a) (\<lambda>r.
       ret \<lparr>c_name = ''rca:'' @ py_str fr t, c_ok = (exit_code r = 0 \<and> \<not> truthy (err r)),
         c_detail = py_or (err r) (PStr ''ok'')\<rparr>))"

definition check_value :: "check \<Rightarrow> pyval" where
  "check_value c = PDict [(''name'', PStr (c_name c)), (''ok'', PBool (c_ok c)), (''detail'', c_detail c)]"

definition run_checks ::
  "(rat \<Rightarrow> string) \<Rightarrow> bool \<Rightarrow> 's client \<Rightarrow> pyval \<Rightarrow> pyval \<Rightarrow> dict \<Rightarrow> pyval \<Rightarrow> pyval \<Rightarrow> ('s, check list) io" where
  "run_checks fr has_health ask pk pid params plan health_query =
     bind_io (lift_io (default_checks fr pid)) (\<lambda>fs.
     bind_io (map_io (\<lambda>f. f ask pk params) fs) (\<lambda>defaults.
     bind_io (lift_io (py_iter (py_or plan (PList [])))) (\<lambda>entries.
     bind_io (map_io (plan_check fr ask pk) (List.map_filter plan_entry entries)) (\<lambda>planned.
     bind_io (run_canary has_health ask pk health_query) (\<lambda>canary.
       ret (defaults @ planned @ [canary]))))))"

definition run_verification ::
  "(rat \<Rightarrow> string) \<Rightarrow> bool \<Rightarrow> 's client \<Rightarrow> pyval \<Rightarrow> pyval \<Rightarrow> dict \<Rightarrow> pyval \<Rightarrow> pyval \<Rightarrow> ('s, dict) io" where
  "run_verification fr has_health ask pk pid params plan health_query =
     bind_io (run_checks fr has_health ask pk pid params plan health_query) (\<lambda>checks.
       ret [(''ok'', PBool (list_all c_ok checks)), (''checks'', PList (map check_value checks))])"

section \<open>What a passed verification means\<close>

text \<open>A check makes one call, and passes only if that call answered with exit code 0.\<close>

definition one_zero_call :: "(('s \<times> (probe_call \<times> tool_result res) list), check) io \<Rightarrow> bool" where
  "one_zero_call m \<longleftrightarrow> (\<forall>s tr c s' tr'. m (s, tr) = (Inr c, (s', tr')) \<longrightarrow>
     (\<exists>call x. tr' = tr @ [(call, Inr x)] \<and> (c_ok c \<longrightarrow> exit_code x = 0)))"

lemma one_zero_callI:
  assumes "\<And>x s1 c s2. k x s1 = (Inr c, s2) \<Longrightarrow> s2 = s1 \<and> (c_ok c \<longrightarrow> exit_code x = 0)"
  shows "one_zero_call (bind_io (\<lambda>s. recording ask s call) k)"
  unfolding one_zero_call_def
proof (intro allI impI)
  fix s tr c s' tr'
  assume "bind_io (\<lambda>s. recording ask s call) k (s, tr) = (Inr c, s', tr')"
  then obtain x s1 where x: "recording ask (s, tr) call = (Inr x, s1)" "k x s1 = (Inr c, s', tr')"
    by (auto simp: bind_io_Inr_iff)
  from assms[OF x(2)] have c: "c_ok c \<longrightarrow> exit_code x = 0" "s1 = (s', tr')" by auto
  from x(1) have "s1 = (fst s1, tr @ [(call, Inr x)])" by (auto simp: recording_def split: prod.splits)
  with c show "\<exists>call x. tr' = tr @ [(call, Inr x)] \<and> (c_ok c \<longrightarrow> exit_code x = 0)"
    by (metis prod.inject)
qed

lemma checks_one_call:
  "one_zero_call (check_query_absent fr (recording ask) pk params)"
  "one_zero_call (check_workers_active_count (recording ask) pk params)"
  "one_zero_call (check_coordinator_up (recording ask) pk params)"
  "one_zero_call (check_node_active fr (recording ask) pk params)"
  "one_zero_call (check_jmx_memory_pool_ok (recording ask) pk params)"
  "one_zero_call (run_canary hh (recording ask) pk hq)"
  "one_zero_call (plan_check fr (recording ask) pk ta)"
  unfolding check_query_absent_def check_workers_active_count_def check_coordinator_up_def check_node_active_def
    check_jmx_memory_pool_ok_def run_canary_def plan_check_def ask_tool_def Let_def
  by (auto intro!: one_zero_callI simp: bind_io_Inr_iff canary_ok_def split: prod.splits if_splits)

lemma config_check_one_call: "one_zero_call (check_config_key_equals fr (recording ask) pk params)"
proof (cases "expected_setting params")
  case (Inl e)
  then show ?thesis by (simp add: check_config_key_equals_def bind_io_def one_zero_call_def)
next
  case (Inr ke)
  have lift: "bind_io (lift_io (Inr x)) k = k x" for x :: "pyval \<times> pyval" and k :: "_ \<Rightarrow> ('b, check) io"
    by (simp add: fun_eq_iff bind_io_def)
  show ?thesis
    unfolding check_config_key_equals_def ask_tool_def Inr lift
    by (auto intro!: one_zero_callI split: prod.splits)
qed

lemma default_checks_one_call:
  "default_checks fr pid = Inr fs \<Longrightarrow> f \<in> set fs \<Longrightarrow> one_zero_call (f (recording ask) pk params)"
  by (auto simp: default_checks_def PLAYBOOK_VERIFICATIONS_def checks_one_call config_check_one_call
      split: pyval.splits if_splits option.splits)

text \<open>A sequence of such programs extends the trace by one call each.\<close>

definition zero_exit :: "probe_call \<times> tool_result res \<Rightarrow> bool" where
  "zero_exit e \<longleftrightarrow> (\<exists>x. snd e = Inr x \<and> exit_code x = 0)"

lemma zero_exit_pair [simp]: "zero_exit (c, Inr x) \<longleftrightarrow> exit_code x = 0"
  by (simp add: zero_exit_def)

lemma map_io_one_calls:
  assumes "\<And>x. x \<in> set xs \<Longrightarrow> one_zero_call (f x)" "map_io f xs (s, tr) = (Inr cs, (s', tr'))"
  shows "\<exists>new. tr' = tr @ new \<and> length new = length xs \<and> (list_all c_ok cs \<longrightarrow> list_all zero_exit new)"
  using assms
proof (induction xs arbitrary: s tr cs)
  case (Cons x xs)
  from Cons.prems(2) obtain c s1 tr1 cs' where
    1: "f x (s, tr) = (Inr c, (s1, tr1))" "map_io f xs (s1, tr1) = (Inr cs', (s', tr'))" "cs = c # cs'"
    by (auto simp: bind_io_Inr_iff)
  from Cons.prems(1)[of x] 1(1) obtain call r where
    2: "tr1 = tr @ [(call, Inr r)]" "c_ok c \<longrightarrow> exit_code r = 0"
    unfolding one_zero_call_def by (meson list.set_intros(1))
  from Cons.IH[OF Cons.prems(1) 1(2)] obtain new where
    "tr' = tr1 @ new" "length new = length xs" "list_all c_ok cs' \<longrightarrow> list_all zero_exit new" by auto
  with 2 1(3) show ?case
    by (intro exI[of _ "(call, Inr r) # new"]) auto
qed simp

lemma verification_calls:
  fixes ask :: "'s client"
  assumes "run_verification fr hh (recording ask) pk pid params plan hq (s, tr0) = (Inr r, (s', tr))"
    and "dget r ''ok'' = PBool True"
  shows "\<exists>new. tr = tr0 @ new \<and> list_all zero_exit new \<and>
    (\<exists>fs entries. default_checks fr pid = Inr (fs :: (('s \<times> (probe_call \<times> tool_result res) list) client \<Rightarrow> _) list) \<and>
       py_iter (py_or plan (PList [])) = Inr entries \<and>
       length new = length fs + length (List.map_filter plan_entry entries) + 1)"
proof -
  from assms obtain fs ds s1 tr1 entries ps s2 tr2 c where
    run: "default_checks fr pid = Inr (fs :: (('s \<times> (probe_call \<times> tool_result res) list) client \<Rightarrow> _) list)"
      "map_io (\<lambda>f. f (recording ask) pk params) fs (s, tr0) = (Inr ds, (s1, tr1))"
      "py_iter (py_or plan (PList [])) = Inr entries"
      "map_io (plan_check fr (recording ask) pk) (List.map_filter plan_entry entries) (s1, tr1) = (Inr ps, (s2, tr2))"
      "run_canary hh (recording ask) pk hq (s2, tr2) = (Inr c, (s', tr))"
    and ok: "list_all c_ok (ds @ ps @ [c])"
    by (auto simp: run_verification_def run_checks_def bind_io_Inr_iff)
  from map_io_one_calls[OF _ run(2)] default_checks_one_call[OF run(1), of _ ask pk params] ok
  obtain n1 where 1: "tr1 = tr0 @ n1" "length n1 = length fs" "list_all zero_exit n1" by auto
  from map_io_one_calls[OF checks_one_call(7) run(4)] ok
  obtain n2 where 2: "tr2 = tr1 @ n2" "length n2 = length (List.map_filter plan_entry entries)" "list_all zero_exit n2"
    by auto
  from checks_one_call(6)[of hh ask pk hq, unfolded one_zero_call_def] run(5) ok
  obtain call x where 3: "tr = tr2 @ [(call, Inr x)]" "exit_code x = 0" by fastforce
  from run(1,3) 1 2 3 show ?thesis by (intro exI[of _ "n1 @ n2 @ [(call, Inr x)]"]) auto
qed


definition demo_fake :: fake where
  "demo_fake = \<lparr>script = [(''presto_list_queries'', Sequence [Value (PList [PDict [(''query_id'', PStr ''q1''),
       (''state'', PStr ''RUNNING'')]])])], fcalls = [], counters = [], killed_queries = []\<rparr>"

lemma demo_verified:
  "fst (run_verification (\<lambda>_. []) True (recording (fake_ask (\<lambda>_. []) ''t'')) (PStr ''k'') (PStr ''presto.kill_query'')
      [(''query_id'', PStr ''q2'')] (PList [PStr ''presto_nodes'']) PNone (demo_fake, [])) =
   Inr [(''ok'', PBool True), (''checks'', PList [
     PDict [(''name'', PStr ''query_absent''), (''ok'', PBool True), (''detail'', PStr ''query_id=q2 present=False'')],
     PDict [(''name'', PStr ''rca:presto_nodes''), (''ok'', PBool True), (''detail'', PStr ''ok'')],
     PDict [(''name'', PStr ''canary''), (''ok'', PBool True), (''detail'', PStr ''ok'')]])]"
  by code_simp


text \<open>the configuration check does not compare the key.  If the expected value occurs anywhere in
  the file, the check passes whatever the key is set to.\<close>

theorem config_check_ignores_key:
  assumes "expected_setting params = Inr (key, expect)" and "ask_tool ask pk (PStr ''presto_config'')
      (PDict [(''component'', PStr ''worker''), (''file'', PStr ''config'')]) s = (Inr r, s')"
    and "exit_code r = 0" and "contains (py_str fr expect) (config_content fr (data r))"
  shows "\<exists>c. check_config_key_equals fr ask pk params s = (Inr c, s') \<and> c_ok c"
  using assms by (simp add: check_config_key_equals_def bind_io_def setting_found_def)

theorem config_check_ignores_key_witness:
  "\<exists>c s'. check_config_key_equals (\<lambda>_. []) (fake_ask (\<lambda>_. []) ''t'') (PStr ''k'')
      [(''config_key'', PStr ''task.concurrency''), (''config_value'', PStr ''8'')]
      (demo_fake\<lparr>script := [(''presto_config'', Always (Value (PDict [(''content'', PStr ''http-server.port=8080'')])))]\<rparr>) =
      (Inr c, s') \<and> c_ok c"
proof -
  let ?f = "demo_fake\<lparr>script := [(''presto_config'', Always (Value (PDict [(''content'', PStr ''http-server.port=8080'')])))]\<rparr>"
  let ?p = "[(''config_key'', PStr ''task.concurrency''), (''config_value'', PStr ''8'')]"
  let ?a = "ask_tool (fake_ask (\<lambda>_. []) ''t'') (PStr ''k'') (PStr ''presto_config'')
      (PDict [(''component'', PStr ''worker''), (''file'', PStr ''config'')]) ?f"
  obtain r s' where a: "?a = (r, s')" by (metis surj_pair)
  have "(case fst ?a of Inl e \<Rightarrow> False | Inr x \<Rightarrow> exit_code x = 0 \<and> contains (py_str (\<lambda>_. []) (PStr ''8'')) (config_content (\<lambda>_. []) (data x)))"
    by code_simp
  with a obtain x where x: "r = Inr x" "exit_code x = 0"
    "contains (py_str (\<lambda>_. []) (PStr ''8'')) (config_content (\<lambda>_. []) (data x))" by (cases r) auto
  have p: "expected_setting ?p = Inr (PStr ''task.concurrency'', PStr ''8'')" by code_simp
  from config_check_ignores_key[OF p a[unfolded x(1)] x(2,3)] show ?thesis by blast
qed

end
