(* ===== verification/Execution.thy ===== *)
theory Execution
  imports World Signing Verification
begin

text \<open>
  The activity that executes an approved playbook (\<open>execute_playbook\<close> of
  \<open>worker/activities/investigation.py\<close>): the opening transaction, the snapshot, the signed dispatch of
  the steps in order, and the ways it can fail.
\<close>

section \<open>Rows of executions and playbooks\<close>

definition finish_execution ::
  "timestamp \<Rightarrow> uuid \<Rightarrow> string \<Rightarrow> dict option \<Rightarrow> dict option \<Rightarrow> db \<Rightarrow> db" where
  "finish_execution now eid st vr pre d =
     d\<lparr>executions := modify_row execution_id eid
         (\<lambda>r. r\<lparr>re_status := st, re_finished_at := Some now,
            verification_result := (case vr of None \<Rightarrow> verification_result r | Some v \<Rightarrow> Some v),
            pre_snapshot := (if pre_snapshot r = None then (case pre of None \<Rightarrow> None | Some p \<Rightarrow> Some p)
                             else pre_snapshot r)\<rparr>) (executions d)\<rparr>"

definition NEW_MATURITY :: dict where
  "NEW_MATURITY = [(''approved_runs'', PInt 0), (''success'', PInt 0), (''rollbacks'', PInt 0)]"

definition catalog_entry :: "string \<Rightarrow> dict" where
  "catalog_entry pid =
     (case List.find (\<lambda>e. dget e ''playbook_id'' = PStr pid) PLAYBOOK_CATALOG of None \<Rightarrow> [] | Some e \<Rightarrow> e)"

definition seeded_playbook :: "string \<Rightarrow> playbook" where
  "seeded_playbook pid =
     (let e = catalog_entry pid in
      \<lparr>playbook_id = pid, pb_platform_type = as_str (py_or (dget e ''platform_type'') (PStr ''presto'')),
       risk_level = as_str (py_or (dget e ''risk_level'') (PStr ''R2'')),
       params_schema = as_dict (py_or (dget e ''params_schema'') (PDict [])),
       pb_steps = py_or (dget e ''steps'') (PDict []), pb_verification = py_or (dget e ''verification'') (PDict []),
       auto_eligible = False, maturity = NEW_MATURITY\<rparr>)"

text \<open>The catalogue row, created when missing, with one more approved run\<close>

definition count_run :: "string \<Rightarrow> db \<Rightarrow> db res" where
  "count_run pid d =
     (let rows = (case get_row playbook_id pid (playbooks d) of
                    None \<Rightarrow> playbooks d @ [seeded_playbook pid] | Some _ \<Rightarrow> playbooks d);
          mat0 = (case get_row playbook_id pid rows of None \<Rightarrow> [] | Some pb \<Rightarrow> maturity pb);
          mat = (if mat0 = [] then NEW_MATURITY else mat0) in
      bind_res (py_int (py_or (dget mat ''approved_runs'') (PInt 0))) (\<lambda>n.
        Inr (d\<lparr>playbooks := modify_row playbook_id pid
          (\<lambda>r. r\<lparr>maturity := dset mat ''approved_runs'' (PInt (n + 1))\<rparr>) rows\<rparr>)))"

text \<open>\<open>session.merge(row)\<close>: insert, or replace the row with that key; the playbook must exist.\<close>

definition merge_execution :: "remediation_execution \<Rightarrow> db \<Rightarrow> db res" where
  "merge_execution r d =
     (if (\<exists>p \<in> set_option (re_playbook_id r). p \<notin> playbook_id ` set (playbooks d)) then Inl IntegrityError
      else Inr (d\<lparr>executions :=
        (if execution_id r \<in> execution_id ` set (executions d)
         then modify_row execution_id (execution_id r) (\<lambda>_. r) (executions d)
         else executions d @ [r])\<rparr>))"

section \<open>The opening transaction\<close>

definition open_platform :: "dict \<Rightarrow> investigation option \<Rightarrow> db \<Rightarrow> pyval \<times> platform option" where
  "open_platform payload found d =
     (let pk = (case found of
                  Some i \<Rightarrow> py_or (dget payload ''platform_key'') (PStr (inv_platform_key i))
                | None \<Rightarrow> dget payload ''platform_key'') in
      (pk, if truthy pk then (case pk of PStr k \<Rightarrow> get_platform d k | _ \<Rightarrow> None) else None))"

definition open_deployment :: "dict \<Rightarrow> platform option \<Rightarrow> string" where
  "open_deployment payload plat =
     as_str (py_or (dget payload ''deployment'')
       (case plat of Some p \<Rightarrow> py_or (PStr (deployment p)) (PStr ''k8s'') | None \<Rightarrow> PStr ''k8s''))"

definition text_col :: "pyval \<Rightarrow> string option" where
  "text_col v = (case v of PStr s \<Rightarrow> Some s | _ \<Rightarrow> None)"

definition start_execution ::
  "'s deps \<Rightarrow> dict \<Rightarrow> pyval \<Rightarrow> dict \<Rightarrow> uuid \<Rightarrow> db \<Rightarrow> ((pyval \<times> string \<times> dict) \<times> db) res" where
  "start_execution D payload pid params eid d =
     (let iidv = dget payload ''investigation_id''; approver = dget payload ''approved_by'' in
      bind_res (if truthy iidv then bind_res (to_uuid D iidv) (\<lambda>u. Inr (latest_investigation d u)) else Inr None) (\<lambda>found.
      case open_platform payload found d of (pk, plat) \<Rightarrow>
      bind_res (audit D ''remediation_started'' actor_system iidv
        [(''playbook_id'', pid), (''params'', PDict params), (''execution_id'', PStr (uuid_str eid))] d) (\<lambda>d1.
      bind_res (to_uuid D iidv) (\<lambda>iid.
      bind_res (update_investigation_status (d_now D) iid ''EXECUTING'' None None False d1) (\<lambda>d2.
      bind_res (if truthy pid then (case pid of PStr p \<Rightarrow> count_run p d2 | _ \<Rightarrow> Inl (OtherError ''StatementError''))
                else Inr d2) (\<lambda>d3.
      bind_res (if truthy approver then bind_res (to_uuid D approver) (\<lambda>u. Inr (Some u)) else Inr None) (\<lambda>by_user.
      bind_res (merge_execution
        \<lparr>execution_id = eid, re_investigation_id = iid, re_playbook_id = text_col pid, re_params = params,
         re_mode = ''approved'', approved_by = by_user, re_status = ''running'', pre_snapshot = None,
         verification_result = None, re_started_at = Some (d_now D), re_finished_at = None\<rparr> d3) (\<lambda>d4.
        Inr ((pk, open_deployment payload plat, case plat of Some p \<Rightarrow> p_config p | None \<Rightarrow> []), d4)))))))))"

section \<open>The snapshot\<close>

definition snapshot_args :: "dict \<Rightarrow> dict \<Rightarrow> dict" where
  "snapshot_args params entry =
     fold (\<lambda>k args. if has_key params k then dset args k (dget params k) else args)
       (map as_str (as_list (py_or (dget entry ''args_from'') (PList []))))
       (as_dict (py_or (dget entry ''args'') (PDict [])))"

fun take_snapshot :: "'s deps \<Rightarrow> pyval \<Rightarrow> string \<Rightarrow> dict \<Rightarrow> dict list \<Rightarrow> dict \<Rightarrow> ('s, dict) act" where
  "take_snapshot D pk dep params [] acc = ret acc"
| "take_snapshot D pk dep params (e # es) acc =
     (let t = resolve_runtime_tool (as_str (dget e ''tool'')) dep in
      bind_io
        (try_io
           (bind_io (probe_ask D (ExecuteTool pk (PStr t) (PDict (snapshot_args params e)) PNone)) (\<lambda>r. ret (data r)))
           (\<lambda>ex. ret (PDict [(''error'', PStr (d_es D ex))])))
        (\<lambda>v. take_snapshot D pk dep params es (dset acc t v)))"

definition pre_snapshot_of :: "'s deps \<Rightarrow> pyval \<Rightarrow> string \<Rightarrow> string \<Rightarrow> dict \<Rightarrow> ('s, dict) act" where
  "pre_snapshot_of D pk dep pid params =
     (if truthy pk \<and> d_probe D \<noteq> None
      then take_snapshot D pk dep params (case map_of PRE_SNAPSHOT_TOOLS pid of None \<Rightarrow> [] | Some es \<Rightarrow> es) []
      else ret [])"

definition store_snapshot :: "uuid \<Rightarrow> dict \<Rightarrow> db \<Rightarrow> db" where
  "store_snapshot eid pre d =
     d\<lparr>executions := modify_row execution_id eid (\<lambda>r. r\<lparr>pre_snapshot := Some pre\<rparr>) (executions d)\<rparr>"

section \<open>Signed dispatch\<close>

definition signed_write :: "'s deps \<Rightarrow> (string \<Rightarrow> string) \<Rightarrow> pyval \<Rightarrow> string \<Rightarrow> uuid \<Rightarrow> int \<Rightarrow> wstep \<Rightarrow> probe_call" where
  "signed_write D sign pk pid eid idx st =
     ExecuteWrite (py_or pk (PStr [])) pid idx (op st) (op_params st) (uuid_str eid)
       (b64encode (sign (canonical_step_hash (d_sha256 D) (d_canon D) (uuid_str eid) pid idx (op st) (op_params st))))"

definition step_ok :: "tool_result \<Rightarrow> bool" where
  "step_ok r \<longleftrightarrow> exit_code r = 0 \<and> \<not> truthy (err r) \<and>
     \<not> (is_dict (data r) \<and> dget (as_dict (data r)) ''ok'' = PBool False)"

definition step_error :: "tool_result \<Rightarrow> pyval" where
  "step_error r = py_or (err r) (if is_dict (data r) then dget (as_dict (data r)) ''error'' else PNone)"

text \<open>The index, operation and error of the first step that failed, or nothing\<close>

fun dispatch_steps ::
  "'s deps \<Rightarrow> (string \<Rightarrow> string) \<Rightarrow> pyval \<Rightarrow> string \<Rightarrow> uuid \<Rightarrow> int \<Rightarrow> wstep list \<Rightarrow> ('s, (int \<times> string \<times> pyval) option) act" where
  "dispatch_steps D sign pk pid eid idx [] = ret None"
| "dispatch_steps D sign pk pid eid idx (st # sts) =
     bind_io
       (try_io
          (bind_io (probe_ask D (signed_write D sign pk pid eid idx st)) (\<lambda>r. ret (step_ok r, step_error r)))
          (\<lambda>ex. ret (False, PStr (d_es D ex))))
       (\<lambda>(ok, e). if ok then dispatch_steps D sign pk pid eid (idx + 1) sts else ret (Some (idx, op st, e)))"

section \<open>The activity\<close>

definition execution_result :: "bool \<Rightarrow> pyval \<Rightarrow> uuid \<Rightarrow> dict \<Rightarrow> dict \<Rightarrow> pyval" where
  "execution_result ok pid eid pre extra =
     PDict ([(''ok'', PBool ok), (''playbook_id'', pid), (''execution_id'', PStr (uuid_str eid)),
             (''pre_snapshot'', PDict pre)] @ extra)"

definition fail_execution ::
  "'s deps \<Rightarrow> pyval \<Rightarrow> uuid \<Rightarrow> dict \<Rightarrow> dict option \<Rightarrow> dict \<Rightarrow> ('s, unit) act" where
  "fail_execution D iidv eid vr pre det =
     txn_unit (\<lambda>d. audit D ''remediation_finished'' actor_system iidv det
       (finish_execution (d_now D) eid ''failed'' (Some vr) pre d))"

definition rollback_note_of :: "dict \<Rightarrow> int \<Rightarrow> string \<Rightarrow> pyval" where
  "rollback_note_of act idx o' =
     py_or (dget act ''rollback_note'')
       (PStr (''step '' @ int_str idx @ '' ('' @ o' @ '') failed; manual rollback may be required''))"

definition run_steps ::
  "'s deps \<Rightarrow> pyval \<Rightarrow> dict \<Rightarrow> string \<Rightarrow> uuid \<Rightarrow> pyval \<Rightarrow> dict \<Rightarrow> wstep list \<Rightarrow> ('s, pyval) act" where
  "run_steps D iidv act pid eid pk pre steps =
     (case d_signer D of
        None \<Rightarrow>
          bind_io (fail_execution D iidv eid
            [(''rollback_note'', dget act ''rollback_note''), (''error'', PStr ''signer not configured'')] (Some pre)
            [(''playbook_id'', PStr pid), (''ok'', PBool False), (''error'', PStr ''no signer'')]) (\<lambda>_.
          ret (execution_result False (PStr pid) eid pre [(''error'', PStr ''signer not configured'')]))
      | Some sign \<Rightarrow>
          bind_io (dispatch_steps D sign pk pid eid 0 steps) (\<lambda>failed.
          case failed of
            None \<Rightarrow>
              bind_io (txn_unit (audit D ''remediation_finished'' actor_system iidv
                [(''playbook_id'', PStr pid), (''ok'', PBool True), (''steps'', PInt (int (length steps)))])) (\<lambda>_.
              ret (execution_result True (PStr pid) eid pre [(''steps'', PInt (int (length steps)))]))
          | Some (idx, o', e) \<Rightarrow>
              (let note = rollback_note_of act idx o' in
               bind_io (fail_execution D iidv eid
                 [(''rollback_note'', note),
                  (''failed_step'', PDict [(''index'', PInt idx), (''op'', PStr o'), (''error'', e)])] (Some pre)
                 [(''playbook_id'', PStr pid), (''ok'', PBool False), (''failed_step'', PInt idx), (''op'', PStr o'),
                  (''error'', e), (''rollback_note'', note)]) (\<lambda>_.
               ret (execution_result False (PStr pid) eid pre
                 [(''failed_step'', PInt idx), (''error'', e), (''rollback_note'', note)])))))"

text \<open>With the steps at hand: snapshot, then dispatch\<close>

definition snapshot_and_run ::
  "'s deps \<Rightarrow> pyval \<Rightarrow> dict \<Rightarrow> string \<Rightarrow> dict \<Rightarrow> uuid \<Rightarrow> pyval \<Rightarrow> string \<Rightarrow> wstep list \<Rightarrow> ('s, pyval) act" where
  "snapshot_and_run D iidv act pid params eid pk dep steps =
     bind_io (pre_snapshot_of D pk dep pid params) (\<lambda>pre.
     bind_io (txn_unit (\<lambda>d. Inr (store_snapshot eid pre d))) (\<lambda>_.
       run_steps D iidv act pid eid pk pre steps))"

text \<open>A playbook that is unknown, or whose builder raises, fails before anything is sent.\<close>

definition fail_early :: "'s deps \<Rightarrow> pyval \<Rightarrow> dict \<Rightarrow> pyval \<Rightarrow> uuid \<Rightarrow> string \<Rightarrow> dict \<Rightarrow> ('s, pyval) act" where
  "fail_early D iidv act pid eid msg extra =
     bind_io (fail_execution D iidv eid [(''rollback_note'', dget act ''rollback_note''), (''error'', PStr msg)] None
       [(''playbook_id'', pid), (''ok'', PBool False), (''error'', PStr msg)]) (\<lambda>_.
     ret (execution_result False pid eid [] extra))"

definition after_start ::
  "'s deps \<Rightarrow> pyval \<Rightarrow> dict \<Rightarrow> pyval \<Rightarrow> dict \<Rightarrow> uuid \<Rightarrow> pyval \<times> string \<times> dict \<Rightarrow> ('s, pyval) act" where
  "after_start D iidv act pid params eid = (\<lambda>(pk, dep, cfg).
     case map_of (PLAYBOOK_STEPS (d_fr D) (d_order D)) (as_str pid) of
       None \<Rightarrow> fail_early D iidv act pid eid ''unknown playbook'' []
     | Some build \<Rightarrow>
         bind_io (lift_io (resolve_locators dep cfg)) (\<lambda>locators.
           case build dep params locators of
             Inl ex \<Rightarrow> fail_early D iidv act pid eid (d_es D ex) [(''error'', PStr (d_es D ex))]
           | Inr steps \<Rightarrow> snapshot_and_run D iidv act (as_str pid) params eid pk dep steps))"

definition execution_uuid :: "'s deps \<Rightarrow> dict \<Rightarrow> ('s, uuid) act" where
  "execution_uuid D payload =
     (if truthy (dget payload ''execution_id'') then lift_io (to_uuid D (dget payload ''execution_id''))
      else fresh_uuid D)"

definition execute_playbook :: "'s deps \<Rightarrow> dict \<Rightarrow> ('s, pyval) act" where
  "execute_playbook D payload =
     bind_io (lift_io (py_get (py_or (dget payload ''action'') (PDict [])) ''playbook_id'')) (\<lambda>pid.
     let act = as_dict (dget payload ''action'') in
     bind_io (lift_io (py_update [] (py_or (dget act ''playbook_params'') (py_or (dget act ''params'') (PDict []))))) (\<lambda>params.
     bind_io (execution_uuid D payload) (\<lambda>eid.
     bind_io (txn (start_execution D payload pid params eid)) (\<lambda>opened.
       after_start D (dget payload ''investigation_id'') act pid params eid opened))))"

end
