(* ===== verification/ExecutionSafety.thy ===== *)
theory ExecutionSafety
  imports Execution
begin

text \<open>
  What the execution of a playbook guarantees: only signed steps of the playbook reach the probe, in
  order, and none after a failed one; and the recorded execution tells the outcome.
\<close>

section \<open>The trace of a run\<close>

type_synonym trace = "(probe_call \<times> tool_result res) list"

definition is_write :: "probe_call \<Rightarrow> bool" where
  "is_write c = (case c of ExecuteWrite _ _ _ _ _ _ _ \<Rightarrow> True | _ \<Rightarrow> False)"

definition writes :: "trace \<Rightarrow> trace" where
  "writes tr = filter (\<lambda>e. is_write (fst e)) tr"

definition answered_ok :: "probe_call \<times> tool_result res \<Rightarrow> bool" where
  "answered_ok e = (case snd e of Inl _ \<Rightarrow> False | Inr r \<Rightarrow> step_ok r)"

fun signed_from :: "'s deps \<Rightarrow> (string \<Rightarrow> string) \<Rightarrow> pyval \<Rightarrow> string \<Rightarrow> uuid \<Rightarrow> int \<Rightarrow> wstep list \<Rightarrow> probe_call list" where
  "signed_from D sign pk pid eid idx [] = []"
| "signed_from D sign pk pid eid idx (st # sts) =
     signed_write D sign pk pid eid idx st # signed_from D sign pk pid eid (idx + 1) sts"

lemma length_signed_from [simp]: "length (signed_from D sign pk pid eid idx sts) = length sts"
  by (induction sts arbitrary: idx) auto

lemma writes_append [simp]: "writes (a @ b) = writes a @ writes b"
  by (simp add: writes_def)

lemma is_write_signed: "c \<in> set (signed_from D sign pk pid eid idx sts) \<Longrightarrow> is_write c"
  by (induction sts arbitrary: idx) (auto simp: is_write_def signed_write_def)

lemma writes_of_signed:
  assumes "map fst tr = take n (signed_from D sign pk pid eid idx sts)"
  shows "writes tr = tr"
  unfolding writes_def
proof (rule filter_True, rule ballI)
  fix e assume "e \<in> set tr"
  then have "fst e \<in> set (signed_from D sign pk pid eid idx sts)"
    using assms by (metis in_set_takeD list.set_map imageI)
  then show "is_write (fst e)" by (rule is_write_signed)
qed

text \<open>The probe's part of the world moves from one trace to a longer one.\<close>

definition calls_made :: "('s \<times> trace) world \<Rightarrow> ('s \<times> trace) world \<Rightarrow> trace \<Rightarrow> bool" where
  "calls_made w w' tr \<longleftrightarrow> snd (aprobe w') = snd (aprobe w) @ tr"

lemma calls_made_trans: "calls_made w w1 a \<Longrightarrow> calls_made w1 w2 b \<Longrightarrow> calls_made w w2 (a @ b)"
  by (simp add: calls_made_def)

lemma calls_made_txn: "txn f w = (r, w') \<Longrightarrow> calls_made w w' []"
  by (drule txn_frame) (simp add: calls_made_def)

lemma calls_made_txn_unit: "txn_unit f w = (r, w') \<Longrightarrow> calls_made w w' []"
  by (drule txn_unit_frame) (simp add: calls_made_def)

lemma recorded_ask:
  assumes "d_probe D = Some (recording ask)" "probe_ask D c w = (r, w')"
  shows "calls_made w w' [(c, r)] \<and> adb w' = adb w"
  using assms by (auto simp: probe_ask_def recording_def calls_made_def split: prod.splits)

section \<open>Dispatch\<close>

definition dispatched ::
  "'s deps \<Rightarrow> (string \<Rightarrow> string) \<Rightarrow> pyval \<Rightarrow> string \<Rightarrow> uuid \<Rightarrow> int \<Rightarrow> wstep list \<Rightarrow> (int \<times> string \<times> pyval) option \<Rightarrow>
   trace \<Rightarrow> bool" where
  "dispatched D sign pk pid eid idx sts res tr \<longleftrightarrow>
     map fst tr = take (length tr) (signed_from D sign pk pid eid idx sts) \<and>
     (case res of
        None \<Rightarrow> length tr = length sts \<and> list_all answered_ok tr
      | Some (j, o', e) \<Rightarrow> tr \<noteq> [] \<and> j = idx + int (length tr) - 1 \<and>
          list_all answered_ok (butlast tr) \<and> \<not> answered_ok (last tr))"

lemma dispatch_one:
  assumes "d_probe D = Some (recording ask)"
    and "try_io (bind_io (probe_ask D c) (\<lambda>r. ret (step_ok r, step_error r))) (\<lambda>ex. ret (False, PStr (d_es D ex))) w = (x, w')"
  shows "\<exists>r ok e. x = Inr (ok, e) \<and> calls_made w w' [(c, r)] \<and> adb w' = adb w \<and> ok = answered_ok (c, r)"
proof -
  obtain r w1 where r: "probe_ask D c w = (r, w1)" by (rule prod.exhaust)
  with assms(2) have "w1 = w'" "x = (case r of Inl ex \<Rightarrow> Inr (False, PStr (d_es D ex)) | Inr y \<Rightarrow> Inr (step_ok y, step_error y))"
    by (auto simp: try_io_def bind_io_def split: sum.splits)
  with recorded_ask[OF assms(1) r] show ?thesis
    by (intro exI[of _ r]) (cases r; auto simp: answered_ok_def)
qed

lemma dispatch_trace:
  assumes "d_probe D = Some (recording ask)" "dispatch_steps D sign pk pid eid idx sts w = (x, w')"
  shows "\<exists>res tr. x = Inr res \<and> calls_made w w' tr \<and> adb w' = adb w \<and> dispatched D sign pk pid eid idx sts res tr"
  using assms(2)
proof (induction sts arbitrary: idx w)
  case Nil
  then show ?case by (auto simp: calls_made_def dispatched_def)
next
  case (Cons st sts)
  let ?c = "signed_write D sign pk pid eid idx st"
  obtain y w1 where y: "try_io (bind_io (probe_ask D ?c) (\<lambda>r. ret (step_ok r, step_error r)))
      (\<lambda>ex. ret (False, PStr (d_es D ex))) w = (y, w1)" by (rule prod.exhaust)
  from dispatch_one[OF assms(1) y] obtain r ok e where
    1: "y = Inr (ok, e)" "calls_made w w1 [(?c, r)]" "adb w1 = adb w" "ok = answered_ok (?c, r)" by blast
  have step: "(if ok then dispatch_steps D sign pk pid eid (idx + 1) sts else ret (Some (idx, op st, e))) w1 = (x, w')"
    using Cons.prems y 1(1) by (simp add: bind_io_def)
  show ?case
  proof (cases ok)
    case True
    with step Cons.IH[of "idx + 1" w1] obtain res tr where
      2: "x = Inr res" "calls_made w1 w' tr" "adb w' = adb w1" "dispatched D sign pk pid eid (idx + 1) sts res tr" by (simp, blast)
    have "dispatched D sign pk pid eid idx (st # sts) res ((?c, r) # tr)"
      using 2(4) True 1(4) by (auto simp: dispatched_def split: option.splits)
    moreover have "calls_made w w' ((?c, r) # tr)" using calls_made_trans[OF 1(2) 2(2)] by simp
    ultimately show ?thesis using 2(1,3) 1(3) by (metis (no_types))
  next
    case False
    with step 1 have "x = Inr (Some (idx, op st, e))" "w' = w1" by auto
    moreover have "dispatched D sign pk pid eid idx (st # sts) (Some (idx, op st, e)) [(?c, r)]"
      using False 1(4) by (simp add: dispatched_def)
    ultimately show ?thesis using 1 by blast
  qed
qed

section \<open>The snapshot only reads\<close>

lemma snapshot_trace:
  assumes "d_probe D = Some (recording ask)" "take_snapshot D pk dep params es acc w = (x, w')"
  shows "\<exists>pre tr. x = Inr pre \<and> calls_made w w' tr \<and> writes tr = [] \<and> adb w' = adb w"
  using assms(2)
proof (induction es arbitrary: acc w)
  case Nil
  then show ?case by (auto simp: calls_made_def writes_def)
next
  case (Cons e es)
  let ?t = "resolve_runtime_tool (as_str (dget e ''tool'')) dep"
  let ?c = "ExecuteTool pk (PStr ?t) (PDict (snapshot_args params e)) PNone"
  obtain r w1 where r: "probe_ask D ?c w = (r, w1)" by (rule prod.exhaust)
  define v where "v = (case r of Inl ex \<Rightarrow> PDict [(''error'', PStr (d_es D ex))] | Inr y \<Rightarrow> data y)"
  from r Cons.prems have "take_snapshot D pk dep params es (dset acc ?t v) w1 = (x, w')"
    by (cases r) (simp_all add: Let_def bind_io_def try_io_def v_def)
  from Cons.IH[OF this] obtain pre tr where
    2: "x = Inr pre" "calls_made w1 w' tr" "writes tr = []" "adb w' = adb w1" by blast
  from recorded_ask[OF assms(1) r] have "calls_made w w' ((?c, r) # tr)" "adb w' = adb w"
    using calls_made_trans[OF _ 2(2), of w "[(?c, r)]"] 2(4) by simp_all
  moreover have "writes ((?c, r) # tr) = []" using 2(3) by (simp add: writes_def is_write_def)
  ultimately show ?case using 2(1) by blast
qed

lemma pre_snapshot_trace:
  assumes "d_probe D = Some (recording ask)" "pre_snapshot_of D pk dep pid params w = (x, w')"
  shows "\<exists>pre tr. x = Inr pre \<and> calls_made w w' tr \<and> writes tr = [] \<and> adb w' = adb w"
proof (cases "truthy pk \<and> d_probe D \<noteq> None")
  case True
  with assms(2) show ?thesis
    by (intro snapshot_trace[OF assms(1)]) (simp add: pre_snapshot_of_def)
next
  case False
  with assms(2) have "x = Inr [] \<and> w' = w" by (auto simp: pre_snapshot_of_def split: if_splits)
  then show ?thesis by (simp add: calls_made_def writes_def)
qed

section \<open>The whole activity\<close>

definition result_ok :: "pyval \<Rightarrow> bool" where
  "result_ok v \<longleftrightarrow> dget (as_dict v) ''ok'' = PBool True"

lemma result_ok_execution [simp]: "result_ok (execution_result ok pid eid pre extra) = ok"
  by (simp add: result_ok_def execution_result_def)

text \<open>The writes of a run: none and no success, or a prefix of the signed steps with the outcome they
  had\<close>

definition signed_run :: "('s \<times> trace) deps \<Rightarrow> pyval res \<Rightarrow> trace \<Rightarrow> bool" where
  "signed_run D x tr \<longleftrightarrow>
     (tr = [] \<and> (\<forall>v. x = Inr v \<longrightarrow> \<not> result_ok v)) \<or>
     (\<exists>sign pk pid eid build dep params locators steps res.
        d_signer D = Some sign \<and> map_of (PLAYBOOK_STEPS (d_fr D) (d_order D)) pid = Some build \<and>
        build dep params locators = Inr steps \<and> dispatched D sign pk pid eid 0 steps res tr \<and>
        (\<forall>v. x = Inr v \<longrightarrow> (result_ok v \<longleftrightarrow> res = None)))"

lemma bind_ioE:
  assumes "bind_io m f w = (x, w')"
  obtains (raised) e where "m w = (Inl e, w')" "x = Inl e"
  | (went_on) a w1 where "m w = (Inr a, w1)" "f a w1 = (x, w')"
  using assms by (auto simp: bind_io_def split: prod.splits sum.splits)

lemma fail_execution_quiet: "fail_execution D iidv eid vr pre det w = (r, w') \<Longrightarrow> calls_made w w' []"
  unfolding fail_execution_def by (rule calls_made_txn_unit)

lemma fail_then_return:
  assumes "bind_io (fail_execution D iidv eid vr pre det) (\<lambda>_. ret v) w = (x, w')" "\<not> result_ok v"
  shows "calls_made w w' [] \<and> (\<forall>u. x = Inr u \<longrightarrow> \<not> result_ok u)"
  using assms(1)
  by (rule bind_ioE) (use assms(2) fail_execution_quiet in auto)

lemma run_steps_trace:
  assumes "d_probe D = Some (recording ask)"
    and "map_of (PLAYBOOK_STEPS (d_fr D) (d_order D)) pid = Some build" "build dep params locators = Inr steps"
    and "run_steps D iidv act pid eid pk pre steps w = (x, w')"
  shows "\<exists>tr. calls_made w w' tr \<and> writes tr = tr \<and> signed_run D x tr"
proof (cases "d_signer D")
  case None
  with assms(4) have "bind_io (fail_execution D iidv eid
            [(''rollback_note'', dget act ''rollback_note''), (''error'', PStr ''signer not configured'')] (Some pre)
            [(''playbook_id'', PStr pid), (''ok'', PBool False), (''error'', PStr ''no signer'')]) (\<lambda>_.
          ret (execution_result False (PStr pid) eid pre [(''error'', PStr ''signer not configured'')])) w = (x, w')"
    by (simp add: run_steps_def)
  from fail_then_return[OF this] show ?thesis
    by (intro exI[of _ "[]"]) (auto simp: signed_run_def writes_def)
next
  case (Some sign)
  obtain y w1 where y: "dispatch_steps D sign pk pid eid 0 steps w = (y, w1)" by (rule prod.exhaust)
  from dispatch_trace[OF assms(1) y] obtain res tr where
    1: "y = Inr res" "calls_made w w1 tr" "dispatched D sign pk pid eid 0 steps res tr" by blast
  have wr: "writes tr = tr" using 1(3) unfolding dispatched_def by (blast intro: writes_of_signed)
  have "calls_made w1 w' [] \<and> (\<forall>v. x = Inr v \<longrightarrow> (result_ok v \<longleftrightarrow> res = None))"
  proof (cases res)
    case None
    with assms(4) Some y 1(1) have "bind_io (txn_unit (audit D ''remediation_finished'' actor_system iidv
                [(''playbook_id'', PStr pid), (''ok'', PBool True), (''steps'', PInt (int (length steps)))])) (\<lambda>_.
              ret (execution_result True (PStr pid) eid pre [(''steps'', PInt (int (length steps)))])) w1 = (x, w')"
      by (simp add: run_steps_def bind_io_def)
    then show ?thesis by (rule bind_ioE) (use None calls_made_txn_unit in auto)
  next
    case (Some f)
    obtain j o' e where f: "f = (j, o', e)" by (rule prod_cases3)
    let ?note = "rollback_note_of act j o'"
    from assms(4) \<open>d_signer D = Some sign\<close> y 1(1) Some f have "bind_io (fail_execution D iidv eid
          [(''rollback_note'', ?note),
           (''failed_step'', PDict [(''index'', PInt j), (''op'', PStr o'), (''error'', e)])] (Some pre)
          [(''playbook_id'', PStr pid), (''ok'', PBool False), (''failed_step'', PInt j), (''op'', PStr o'),
           (''error'', e), (''rollback_note'', ?note)]) (\<lambda>_.
        ret (execution_result False (PStr pid) eid pre
          [(''failed_step'', PInt j), (''error'', e), (''rollback_note'', ?note)])) w1 = (x, w')"
      by (simp add: run_steps_def bind_io_def Let_def)
    from fail_then_return[OF this] Some show ?thesis by simp
  qed
  then have c: "calls_made w1 w' []" and out: "\<forall>v. x = Inr v \<longrightarrow> (result_ok v \<longleftrightarrow> res = None)" by blast+
  from out Some assms(2,3) 1(3) have "signed_run D x tr" unfolding signed_run_def by blast
  moreover have "calls_made w w' tr" using calls_made_trans[OF 1(2) c] by simp
  ultimately show ?thesis using wr by blast
qed

lemma snapshot_and_run_trace:
  assumes "d_probe D = Some (recording ask)"
    and "map_of (PLAYBOOK_STEPS (d_fr D) (d_order D)) pid = Some build" "build dep params locators = Inr steps"
    and "snapshot_and_run D iidv act pid params eid pk dep steps w = (x, w')"
  shows "\<exists>tr. calls_made w w' tr \<and> signed_run D x (writes tr)"
proof -
  obtain y w1 where y: "pre_snapshot_of D pk dep pid params w = (y, w1)" by (rule prod.exhaust)
  from pre_snapshot_trace[OF assms(1) y] obtain pre tr1 where
    1: "y = Inr pre" "calls_made w w1 tr1" "writes tr1 = []" by blast
  define w2 where "w2 = w1\<lparr>adb := store_snapshot eid pre (adb w1)\<rparr>"
  have c2: "calls_made w1 w2 []" by (simp add: calls_made_def w2_def)
  from assms(4) y 1(1) have "run_steps D iidv act pid eid pk pre steps w2 = (x, w')"
    by (simp add: snapshot_and_run_def bind_io_def txn_unit_def txn_def w2_def)
  from run_steps_trace[OF assms(1-3) this] obtain tr2 where
    2: "calls_made w2 w' tr2" "writes tr2 = tr2" "signed_run D x tr2" by blast
  from calls_made_trans[OF 1(2) calls_made_trans[OF c2 2(1)]] have "calls_made w w' (tr1 @ tr2)" by simp
  with 1(3) 2(2,3) show ?thesis by (intro exI[of _ "tr1 @ tr2"]) simp
qed

lemma quiet_run: "calls_made w w' [] \<Longrightarrow> \<forall>v. x = Inr v \<longrightarrow> \<not> result_ok v \<Longrightarrow>
    \<exists>tr. calls_made w w' tr \<and> signed_run D x (writes tr)"
  by (intro exI[of _ "[]"]) (simp add: signed_run_def writes_def)

lemma fail_early_trace:
  "fail_early D iidv act pid eid msg extra w = (x, w') \<Longrightarrow> \<exists>tr. calls_made w w' tr \<and> signed_run D x (writes tr)"
  unfolding fail_early_def by (drule fail_then_return) (auto intro: quiet_run)

lemma after_start_trace:
  assumes "d_probe D = Some (recording ask)" "after_start D iidv act pid params eid opened w = (x, w')"
  shows "\<exists>tr. calls_made w w' tr \<and> signed_run D x (writes tr)"
proof -
  obtain pk dep cfg where op: "opened = (pk, dep, cfg)" by (rule prod_cases3)
  show ?thesis
  proof (cases "map_of (PLAYBOOK_STEPS (d_fr D) (d_order D)) (as_str pid)")
    case None
    with assms(2) op show ?thesis by (intro fail_early_trace) (simp add: after_start_def)
  next
    case (Some build)
    show ?thesis
    proof (cases "resolve_locators dep cfg")
      case (Inl e)
      with assms(2) Some op show ?thesis
        by (intro quiet_run) (auto simp: after_start_def bind_io_def calls_made_def)
    next
      case (Inr locators)
      show ?thesis
      proof (cases "build dep params locators")
        case (Inl ex)
        with assms(2) Some op Inr show ?thesis
          by (intro fail_early_trace) (simp add: after_start_def bind_io_def)
      next
        case steps: (Inr steps)
        from assms(2) op Some Inr steps
        have "snapshot_and_run D iidv act (as_str pid) params eid pk dep steps w = (x, w')"
          by (simp add: after_start_def bind_io_def)
        from snapshot_and_run_trace[OF assms(1) Some steps this] show ?thesis .
      qed
    qed
  qed
qed

lemma execution_uuid_quiet: "execution_uuid D payload w = (r, w') \<Longrightarrow> calls_made w w' []"
  by (auto simp: execution_uuid_def fresh_uuid_def calls_made_def split: if_splits)


text \<open>A run to instantiate the statements: a client that accepts everything, and a case on a platform.\<close>

definition ok_result :: tool_result where
  "ok_result = \<lparr>task_id = PNone, exit_code = 0, data = PDict [(''ok'', PBool True)], raw_bytes = [], r_redacted = False,
     r_truncated = False, err = PNone, r_probe_id = PNone\<rparr>"

definition demo_deps :: "(unit \<times> trace) deps" where
  "demo_deps = \<lparr>d_fr = (\<lambda>_. []), d_fl = (\<lambda>_. None), d_es = (\<lambda>_. ''error''), d_now = 500, d_uuid4 = (\<lambda>n. 40 + n),
     d_order = MEMORY_CONFIG_WHITELIST, d_sha256 = id, d_canon = (\<lambda>_. ''{}''), d_signer = Some rev,
     d_probe = Some (recording (\<lambda>s c. (Inr ok_result, s))), d_health = True, d_store = True\<rparr>"

definition demo_world :: "(unit \<times> trace) world" where
  "demo_world = \<lparr>adb = demo_db, aprobe = ((), []), objects = [], drawn = 0\<rparr>"

definition demo_payload :: dict where
  "demo_payload = [(''investigation_id'', PStr (uuid_str 7)),
     (''action'', PDict [(''playbook_id'', PStr ''presto.restart_coordinator'')])]"

lemma demo_execution_uuid: "to_uuid D (PStr (uuid_str 7)) = Inr 7"
  using uuid_parse_uuid_str[of 7] by (simp add: to_uuid_def py_str_def UUID_def)

lemma uuid_str_not_empty [simp]: "uuid_str u \<noteq> []"
  by (simp add: uuid_str_def Let_def)

lemma demo_steps:
  "map_of (PLAYBOOK_STEPS fr order) ''presto.restart_coordinator'' = Some steps_restart_coordinator"
  by (simp add: PLAYBOOK_STEPS_def)

lemma demo_start: "\<exists>d4. start_execution demo_deps demo_payload (PStr ''presto.restart_coordinator'') [] 40 demo_db =
    Inr ((PStr ''p1'', ''k8s'', [(''correlation_window_seconds'', PStr ''60'')]), d4)"
  by (simp add: start_execution_def demo_payload_def demo_execution_uuid open_platform_def open_deployment_def audit_def audit_uuid_def
      AUDIT_ACTIONS_def write_audit_def update_investigation_status_def latest_investigation_def demo_db_def demo_inv_def
      empty_db_def count_run_def get_row_def get_platform_def py_or_def Let_def seeded_playbook_def NEW_MATURITY_def
      merge_execution_def text_col_def modify_row_def demo_deps_def)

definition demo_coordinator_restart :: probe_call where
  "demo_coordinator_restart = signed_write demo_deps rev (PStr ''p1'') ''presto.restart_coordinator'' 40 0
     (mk_step ''k8s_rollout_restart'' [(''kind'', PStr ''deployment''), (''name'', PStr ''presto-coordinator''),
        (''namespace'', PStr ''presto'')])"

lemma demo_execution:
  "\<exists>v w'. execute_playbook demo_deps demo_payload demo_world = (Inr v, w') \<and> result_ok v \<and>
     map fst (writes (snd (aprobe w'))) = [demo_coordinator_restart]"
proof -
  obtain d4 where d4: "start_execution demo_deps demo_payload (PStr ''presto.restart_coordinator'') [] 40 demo_db =
    Inr ((PStr ''p1'', ''k8s'', [(''correlation_window_seconds'', PStr ''60'')]), d4)" using demo_start by blast
  have pay: "dget demo_payload ''action'' = PDict [(''playbook_id'', PStr ''presto.restart_coordinator'')]"
    "dget demo_payload ''execution_id'' = PNone" "dget demo_payload ''investigation_id'' = PStr (uuid_str 7)"
    by (simp_all add: demo_payload_def)
  have ask: "probe_ask demo_deps c w = (Inr ok_result, w\<lparr>aprobe := ((), snd (aprobe w) @ [(c, Inr ok_result)])\<rparr>)" for c w
    by (cases "aprobe w") (simp add: probe_ask_def demo_deps_def recording_def)
  have loc: "resolve_locators ''k8s'' [(''correlation_window_seconds'', PStr ''60'')] = Inr (default_locators ''k8s'')"
    by (simp add: resolve_locators_def py_or_def dupdate_def)
  have st: "steps_restart_coordinator ''k8s'' [] (default_locators ''k8s'') = Inr [mk_step ''k8s_rollout_restart''
      [(''kind'', PStr ''deployment''), (''name'', PStr ''presto-coordinator''), (''namespace'', PStr ''presto'')]]"
    by (simp add: steps_restart_coordinator_def default_locators_def loc_def py_or_def)
  have sn: "map_of PRE_SNAPSHOT_TOOLS ''presto.restart_coordinator'' =
      Some [snap ''presto_cluster_info'' [], snap ''presto_nodes'' [], snap ''k8s_pods|swarm_tasks'' []]"
    by (simp add: PRE_SNAPSHOT_TOOLS_def)
  have dep: "d_probe demo_deps \<noteq> None" "d_signer demo_deps = Some rev" "d_uuid4 demo_deps 0 = 40"
    by (simp_all add: demo_deps_def)
  have ok: "step_ok ok_result" by (simp add: step_ok_def ok_result_def)
  show ?thesis
    using dep ok d4
    by (simp add: execute_playbook_def pay py_or_def bind_io_def execution_uuid_def fresh_uuid_def demo_world_def txn_def
        after_start_def demo_steps loc st snapshot_and_run_def pre_snapshot_of_def sn Let_def try_io_def ask
        txn_unit_def run_steps_def dupdate_def audit_def demo_execution_uuid audit_uuid_def AUDIT_ACTIONS_def write_audit_def
        writes_def is_write_def demo_coordinator_restart_def signed_write_def)
qed


section \<open>The recorded execution\<close>

lemma probe_ask_adb: "probe_ask D c w = (r, w') \<Longrightarrow> adb w' = adb w"
  by (auto simp: probe_ask_def split: option.splits prod.splits)

lemma dispatch_adb: "dispatch_steps D sign pk pid eid idx sts w = (x, w') \<Longrightarrow> adb w' = adb w"
proof (induction sts arbitrary: idx w)
  case (Cons st sts)
  obtain r w1 where r: "probe_ask D (signed_write D sign pk pid eid idx st) w = (r, w1)" by (rule prod.exhaust)
  have "w' = w1 \<or> (\<exists>i. dispatch_steps D sign pk pid eid i sts w1 = (x, w'))"
    using Cons.prems r by (cases r) (auto simp: bind_io_def try_io_def split: if_splits)
  with Cons.IH probe_ask_adb[OF r] show ?case by auto
qed simp

lemma snapshot_adb: "take_snapshot D pk dep params es acc w = (x, w') \<Longrightarrow> adb w' = adb w \<and> (\<exists>pre. x = Inr pre)"
proof (induction es arbitrary: acc w)
  case (Cons e es)
  let ?c = "ExecuteTool pk (PStr (resolve_runtime_tool (as_str (dget e ''tool'')) dep)) (PDict (snapshot_args params e)) PNone"
  obtain r w1 where r: "probe_ask D ?c w = (r, w1)" by (rule prod.exhaust)
  have "\<exists>acc'. take_snapshot D pk dep params es acc' w1 = (x, w')"
    using Cons.prems r by (cases r) (auto simp: bind_io_def try_io_def Let_def)
  with Cons.IH probe_ask_adb[OF r] show ?case by auto
qed auto

lemma pre_snapshot_adb: "pre_snapshot_of D pk dep pid params w = (x, w') \<Longrightarrow> adb w' = adb w"
  by (auto simp: pre_snapshot_of_def split: if_splits dest: snapshot_adb)

lemma audit_Inr: "audit D a who iid det d = Inr d' \<Longrightarrow> \<exists>rows. d' = d\<lparr>audits := rows\<rparr>"
  by (auto simp: audit_def bind_res_Inr_iff split: if_splits dest: write_audit_Inr)

text \<open>The row of an execution in a given state\<close>

definition row_state :: "uuid \<Rightarrow> string \<Rightarrow> bool \<Rightarrow> db \<Rightarrow> bool" where
  "row_state eid st finished d \<longleftrightarrow> (\<exists>r. get_row execution_id eid (executions d) = Some r \<and> re_status r = st \<and>
     (re_finished_at r \<noteq> None) = finished)"

lemma row_state_audits [simp]: "row_state eid st f (d\<lparr>audits := rows\<rparr>) = row_state eid st f d"
  by (simp add: row_state_def)

lemma get_row_replace:
  "get_row key k rows = Some q \<Longrightarrow> key r = k \<Longrightarrow> get_row key k (modify_row key k (\<lambda>_. r) rows) = Some r"
  unfolding get_row_def modify_row_def by (induction rows) (auto split: if_splits)

lemma row_state_finish:
  "row_state eid st f d \<Longrightarrow> row_state eid st' True (finish_execution now eid st' vr pre d)"
  by (force simp: row_state_def finish_execution_def get_modify_row simp del: map_option_eq_Some)

lemma row_state_snapshot: "row_state eid st f d \<Longrightarrow> row_state eid st f (store_snapshot eid pre d)"
  by (force simp: row_state_def store_snapshot_def get_modify_row simp del: map_option_eq_Some)

lemma get_row_append: "key r \<notin> key ` set rows \<Longrightarrow> get_row key (key r) (rows @ [r]) = Some r"
  unfolding get_row_def by (induction rows) auto

lemma row_state_start:
  assumes "start_execution D payload pid params eid d = Inr (opened, d')"
  shows "row_state eid ''running'' False d'"
proof -
  let ?found = "if truthy (dget payload ''investigation_id'')
     then bind_res (to_uuid D (dget payload ''investigation_id'')) (\<lambda>u. Inr (latest_investigation d u)) else Inr None"
  from assms obtain f where f: "?found = Inr f" by (auto simp: start_execution_def Let_def bind_res_Inr_iff)
  obtain pk plat where p: "open_platform payload f d = (pk, plat)" by (rule prod.exhaust)
  from assms obtain r d3 where m: "merge_execution r d3 = Inr d'"
    and r: "execution_id r = eid" "re_status r = ''running''" "re_finished_at r = None"
    unfolding start_execution_def Let_def f p bind_res_simps prod.case bind_res_Inr_iff
    by (elim exE conjE) simp
  show ?thesis
  proof (cases "execution_id r \<in> execution_id ` set (executions d3)")
    case True
    then obtain q where q: "get_row execution_id eid (executions d3) = Some q"
      using r(1) get_row_None[of execution_id eid "executions d3"] by auto
    have "get_row execution_id eid (modify_row execution_id eid (\<lambda>_. r) (executions d3)) = Some r"
      using q r(1) by (simp add: get_row_replace)
    with m r True show ?thesis by (auto simp: merge_execution_def row_state_def split: if_splits)
  next
    case False
    then have "get_row execution_id eid (executions d3 @ [r]) = Some r"
      using r(1) get_row_append[of execution_id r "executions d3"] by simp
    with m r False show ?thesis by (auto simp: merge_execution_def row_state_def split: if_splits)
  qed
qed

text \<open>What the returned value says of the row\<close>

definition recorded :: "uuid \<Rightarrow> pyval \<Rightarrow> db \<Rightarrow> bool" where
  "recorded eid v d \<longleftrightarrow> dget (as_dict v) ''execution_id'' = PStr (uuid_str eid) \<and>
     row_state eid (if result_ok v then ''running'' else ''failed'') (\<not> result_ok v) d"

lemma recorded_result:
  "row_state eid (if b then ''running'' else ''failed'') (\<not> b) d \<Longrightarrow> recorded eid (execution_result b pid eid pre extra) d"
  by (simp add: recorded_def execution_result_def result_ok_def dget_def)

lemma fail_execution_row:
  assumes "fail_execution D iidv eid vr pre det w = (Inr u, w')" "row_state eid st f (adb w)"
  shows "row_state eid ''failed'' True (adb w')"
  using assms by (auto simp: fail_execution_def txn_unit_Inr row_state_finish dest!: audit_Inr)

lemma fail_early_recorded:
  assumes "fail_early D iidv act pid eid msg extra w = (Inr v, w')" "row_state eid st f (adb w)"
  shows "recorded eid v (adb w')"
  using assms by (auto simp: fail_early_def bind_io_Inr_iff ret_def intro!: recorded_result dest: fail_execution_row)

lemma run_steps_recorded:
  assumes "run_steps D iidv act pid eid pk pre steps w = (Inr v, w')" "row_state eid ''running'' False (adb w)"
  shows "recorded eid v (adb w')"
proof (cases "d_signer D")
  case None
  with assms show ?thesis
    by (auto simp: run_steps_def bind_io_Inr_iff ret_def intro!: recorded_result dest: fail_execution_row)
next
  case (Some sign)
  with assms(1) obtain failed w1 where d: "dispatch_steps D sign pk pid eid 0 steps w = (Inr failed, w1)"
    by (auto simp: run_steps_def bind_io_Inr_iff)
  then have r: "row_state eid ''running'' False (adb w1)" using assms(2) by (simp add: dispatch_adb)
  show ?thesis
  proof (cases failed)
    case None
    with assms(1) Some d r show ?thesis
      by (auto simp: run_steps_def bind_io_def ret_def txn_unit_Inr intro!: recorded_result dest!: audit_Inr
          split: prod.splits sum.splits)
  next
    case (Some f)
    obtain idx o' e where f: "f = (idx, o', e)" by (cases f)
    with assms(1) \<open>d_signer D = Some sign\<close> Some d r show ?thesis
      by (auto simp: run_steps_def bind_io_def ret_def Let_def intro!: recorded_result dest: fail_execution_row
          split: prod.splits sum.splits)
  qed
qed

lemma snapshot_and_run_recorded:
  assumes "snapshot_and_run D iidv act pid params eid pk dep steps w = (Inr v, w')"
    "row_state eid ''running'' False (adb w)"
  shows "recorded eid v (adb w')"
proof -
  from assms(1) obtain pre w1 where "pre_snapshot_of D pk dep pid params w = (Inr pre, w1)"
    "run_steps D iidv act pid eid pk pre steps (w1\<lparr>adb := store_snapshot eid pre (adb w1)\<rparr>) = (Inr v, w')"
    by (auto simp: snapshot_and_run_def bind_io_Inr_iff txn_unit_Inr)
  then show ?thesis using assms(2) pre_snapshot_adb by (fastforce intro: run_steps_recorded row_state_snapshot)
qed

lemma after_start_recorded:
  assumes "after_start D iidv act pid params eid opened w = (Inr v, w')" "row_state eid ''running'' False (adb w)"
  shows "recorded eid v (adb w')"
proof -
  obtain pk dep cfg where o: "opened = (pk, dep, cfg)" by (cases opened)
  show ?thesis
  proof (cases "map_of (PLAYBOOK_STEPS (d_fr D) (d_order D)) (as_str pid)")
    case None
    with assms o show ?thesis by (auto simp: after_start_def intro: fail_early_recorded)
  next
    case (Some build)
    with assms(1) o obtain locs where "resolve_locators dep cfg = Inr locs"
      by (auto simp: after_start_def bind_io_Inr_iff)
    with assms o Some show ?thesis
      by (cases "build dep params locs")
        (auto simp: after_start_def bind_io_def intro: fail_early_recorded snapshot_and_run_recorded)
  qed
qed

text \<open>C11: An execution that returns a result left its row behind: the row of the identifier in the
  result is \<open>running\<close> with no finish time when the result is ok (the verification decides what becomes of
  it), and \<open>failed\<close> with a finish time when it is not.\<close>

theorem execution_recorded:
  assumes "execute_playbook D payload w = (Inr v, w')"
  shows "\<exists>eid r. dget (as_dict v) ''execution_id'' = PStr (uuid_str eid) \<and>
    get_row execution_id eid (executions (adb w')) = Some r \<and>
    re_status r = (if result_ok v then ''running'' else ''failed'') \<and>
    (re_finished_at r = None) = result_ok v"
proof -
  from assms obtain pid act params eid w1 opened w2 where
    st: "txn (start_execution D payload pid params eid) w1 = (Inr opened, w2)"
    and af: "after_start D (dget payload ''investigation_id'') act pid params eid opened w2 = (Inr v, w')"
    unfolding execute_playbook_def Let_def bind_io_Inr_iff by blast
  from st have "row_state eid ''running'' False (adb w2)" by (auto simp: txn_Inr dest: row_state_start)
  from after_start_recorded[OF af this] show ?thesis by (auto simp: recorded_def row_state_def)
qed

theorem execution_recorded_witness:
  "\<exists>v w' r. execute_playbook demo_deps demo_payload demo_world = (Inr v, w') \<and>
     r \<in> set (executions (adb w')) \<and> re_status r = ''running''"
proof -
  obtain v w' where e: "execute_playbook demo_deps demo_payload demo_world = (Inr v, w')" "result_ok v"
    using demo_execution by (elim exE conjE)
  from execution_recorded[OF e(1)] e(2) obtain eid r where
    "get_row execution_id eid (executions (adb w')) = Some r" "re_status r = ''running''" by auto
  with e(1) show ?thesis by (blast dest: get_row_Some)
qed

end
