(* ===== verification/KeyBootstrap.thy ===== *)
theory KeyBootstrap
  imports Signing
begin

text \<open>
  The pre-install job that shares the signing key through a Kubernetes Secret
  (\<open>worker/scripts/bootstrap_signing_key.py\<close>).  The secrets API is a pair of functions \<open>get\<close> and
  \<open>post\<close> on a state of the cluster; the local files are those of the key bootstrap.
\<close>

record secret_response =
  s_status :: int
  s_json :: "pyval res"

definition HTTPError :: pyexc where
  "HTTPError = OtherError ''HTTPError''"

text \<open>Lifting of programs on the files, and on the cluster, to the pair of both\<close>

definition on_files :: "(key_files, 'a) io \<Rightarrow> (key_files \<times> 'w, 'a) io" where
  "on_files m st = (case m (fst st) of (r, f) \<Rightarrow> (r, (f, snd st)))"

definition on_api :: "('w, 'a) io \<Rightarrow> (key_files \<times> 'w, 'a) io" where
  "on_api m st = (case m (snd st) of (r, w) \<Rightarrow> (r, (fst st, w)))"

definition is_oserror :: "pyexc \<Rightarrow> bool" where
  "is_oserror e = (case e of OSError _ \<Rightarrow> True | _ \<Rightarrow> False)"

definition is_runtime_error :: "pyexc \<Rightarrow> bool" where
  "is_runtime_error e = (case e of RuntimeError _ \<Rightarrow> True | _ \<Rightarrow> False)"

text \<open>The job's environment: the service account mount and the command line\<close>

record pod_env =
  token :: "string res option"
  namespace_file :: "string res"
  explicit_namespace :: "string option"
  client_given :: bool
  ca_usable :: bool
  ca_bundle_loads :: bool

definition read_sa_namespace :: "pod_env \<Rightarrow> string res" where
  "read_sa_namespace env =
     (case explicit_namespace env of
        Some (c # cs) \<Rightarrow> Inr (c # cs)
      | _ \<Rightarrow> (case namespace_file env of
               Inl e \<Rightarrow> if is_oserror e then Inl (RuntimeError ''cannot determine k8s namespace'') else Inl e
             | Inr t \<Rightarrow> Inr (str_strip t)))"

definition decode_text :: "pyval \<Rightarrow> string option" where
  "decode_text v = (case v of PStr s \<Rightarrow> b64decode s | _ \<Rightarrow> None)"

text \<open>\<open>write_bytes\<close> of the key and, quietly, of the sidecar\<close>

definition write_key :: "file_faults \<Rightarrow> string \<Rightarrow> (key_files, unit) io" where
  "write_key ff raw fs =
     (if key_writable ff then (Inr (), fs\<lparr>key_file := Some raw\<rparr>) else (Inl (OSError ''key''), fs))"

definition restore_pub :: "file_faults \<Rightarrow> pyval \<Rightarrow> (key_files, unit) io" where
  "restore_pub ff pub_b64 fs =
     (if truthy pub_b64 \<and> pub_writable ff then
        (case decode_text pub_b64 of None \<Rightarrow> (Inr (), fs) | Some t \<Rightarrow> (Inr (), fs\<lparr>pub_file := Some t\<rparr>))
      else (Inr (), fs))"

definition catch_oserror :: "('s, int) io \<Rightarrow> ('s, int) io" where
  "catch_oserror m = try_io m (\<lambda>e. if is_oserror e then ret 1 else fail e)"

definition load_secret_to_path ::
  "(string \<Rightarrow> bool) \<Rightarrow> (string \<Rightarrow> string) \<Rightarrow> file_faults \<Rightarrow> string \<Rightarrow> pyval \<Rightarrow> (key_files, int) io" where
  "load_secret_to_path valid public ff generated body =
     bind_io (lift_io (py_get body ''data'')) (\<lambda>d0.
     bind_io (lift_io (py_get (py_or d0 (PDict [])) ''ed25519.key'')) (\<lambda>raw_b64.
       if \<not> truthy raw_b64 then ret 1
       else case decode_text raw_b64 of
         None \<Rightarrow> ret 1
       | Some raw \<Rightarrow>
           bind_io (write_key ff raw) (\<lambda>_.
           bind_io (restore_pub ff (dget (as_dict d0) ''ed25519.key.pub'')) (\<lambda>_.
             catch_oserror (bind_io (bootstrap_signing_key valid public ff generated) (\<lambda>_. ret 0))))))"

definition secret_body :: "string \<Rightarrow> string \<Rightarrow> string \<Rightarrow> string \<Rightarrow> dict" where
  "secret_body name ns raw pub =
     [(''apiVersion'', PStr ''v1''), (''kind'', PStr ''Secret''),
      (''metadata'', PDict [(''name'', PStr name), (''namespace'', PStr ns)]), (''type'', PStr ''Opaque''),
      (''data'', PDict [(''ed25519.key'', PStr (b64encode raw)), (''ed25519.key.pub'', PStr (b64encode pub))])]"

definition json_body :: "secret_response \<Rightarrow> ('s, pyval) io" where
  "json_body r = lift_io (s_json r)"

definition create_secret ::
  "(string \<Rightarrow> bool) \<Rightarrow> (string \<Rightarrow> string) \<Rightarrow> file_faults \<Rightarrow> string \<Rightarrow>
   ('w, secret_response) io \<Rightarrow> (dict \<Rightarrow> ('w, secret_response) io) \<Rightarrow> string \<Rightarrow> string \<Rightarrow> (key_files \<times> 'w, int) io" where
  "create_secret valid public ff generated get post name ns st0 =
     (case on_files (bootstrap_signing_key valid public ff generated) st0 of
        (Inl e, st) \<Rightarrow> if is_oserror e then (Inr 1, st) else (Inl e, st)
      | (Inr signer, st) \<Rightarrow>
          (case key_file (fst st) of
             None \<Rightarrow> (Inl (OSError ''key''), st)
           | Some raw \<Rightarrow>
               bind_io (on_api (post (secret_body name ns raw
                   (case pub_file (fst st) of None \<Rightarrow> [] | Some p \<Rightarrow> p)))) (\<lambda>r.
                 if s_status r = 200 \<or> s_status r = 201 then ret 0
                 else if s_status r = 409 then
                   bind_io (on_api get) (\<lambda>g.
                     if s_status g = 200
                     then bind_io (json_body g) (\<lambda>b. on_files (load_secret_to_path valid public ff generated b))
                     else ret 1)
                 else ret 1) st))"

definition call_secrets_api ::
  "(string \<Rightarrow> bool) \<Rightarrow> (string \<Rightarrow> string) \<Rightarrow> file_faults \<Rightarrow> string \<Rightarrow>
   ('w, secret_response) io \<Rightarrow> (dict \<Rightarrow> ('w, secret_response) io) \<Rightarrow> string \<Rightarrow> string \<Rightarrow> (key_files \<times> 'w, int) io" where
  "call_secrets_api valid public ff generated get post name ns =
     try_io
       (bind_io (on_api get) (\<lambda>r.
          if s_status r = 200
          then bind_io (json_body r) (\<lambda>b. on_files (load_secret_to_path valid public ff generated b))
          else if s_status r = 404 then create_secret valid public ff generated get post name ns
          else ret 1))
       (\<lambda>e. if e = HTTPError then ret 1 else fail e)"

definition bootstrap_from_k8s_secret ::
  "(string \<Rightarrow> bool) \<Rightarrow> (string \<Rightarrow> string) \<Rightarrow> pod_env \<Rightarrow> file_faults \<Rightarrow> string \<Rightarrow>
   ('w, secret_response) io \<Rightarrow> (dict \<Rightarrow> ('w, secret_response) io) \<Rightarrow> string \<Rightarrow> (key_files \<times> 'w, int) io" where
  "bootstrap_from_k8s_secret valid public env ff generated get post name =
     (case token env of
        None \<Rightarrow> ret 1
      | Some tok \<Rightarrow>
          (case bind_res tok (\<lambda>t. bind_res (read_sa_namespace env) (\<lambda>ns. Inr ns)) of
             Inl e \<Rightarrow> if is_oserror e \<or> is_runtime_error e then ret 1 else fail e
           | Inr ns \<Rightarrow>
               if \<not> client_given env \<and> (\<not> ca_usable env \<or> \<not> ca_bundle_loads env) then ret 1
               else call_secrets_api valid public ff generated get post name ns))"

section \<open>Agreement with the cluster\<close>

text \<open>What the local files hold after a successful run, given the text the Secret stores\<close>

definition in_step :: "(string \<Rightarrow> string) \<Rightarrow> key_files \<Rightarrow> string option \<Rightarrow> bool" where
  "in_step public fs stored \<longleftrightarrow> (\<exists>raw tx. key_file fs = Some raw \<and> stored = Some tx \<and>
     b64decode tx = Some raw \<and> pub_file fs = Some (b64encode (public raw)))"

definition secret_key_text :: "pyval \<Rightarrow> pyval" where
  "secret_key_text body = dget (as_dict (dget (as_dict body) ''data'')) ''ed25519.key''"

lemma bootstrap_result:
  assumes "bootstrap_signing_key valid public env g fs = (Inr k, fs')"
  shows "key_file fs' = Some k \<and> pub_file fs' = Some (b64encode (public k)) \<and>
    (\<forall>old. key_file fs = Some old \<longrightarrow> k = old)"
  using assms
  by (auto simp: bootstrap_signing_key_def bind_io_def write_public_key_sidecar_def load_signer_def Let_def
      split: if_splits option.splits)

lemma try_io_0: "try_io m (\<lambda>e. if P e then ret (1 :: int) else fail e) s = (Inr 0, s') \<longleftrightarrow> m s = (Inr 0, s')"
  by (auto simp: try_io_def split: prod.splits sum.splits if_splits)

lemma catch_oserror_0: "catch_oserror m s = (Inr 0, s') \<longleftrightarrow> m s = (Inr 0, s')"
  by (auto simp: catch_oserror_def try_io_0)

lemma restore_pub_keeps_key: "restore_pub ff p fs = (r, fs') \<Longrightarrow> key_file fs' = key_file fs"
  by (auto simp: restore_pub_def split: if_splits option.splits)

lemma load_secret_ok:
  assumes "load_secret_to_path valid public ff g body fs = (Inr 0, fs')"
  shows "\<exists>tx. secret_key_text body = PStr tx \<and> in_step public fs' (Some tx)"
proof -
  from assms obtain d0 raw_b64 raw where
    d: "py_get body ''data'' = Inr d0" "py_get (py_or d0 (PDict [])) ''ed25519.key'' = Inr raw_b64"
      "truthy raw_b64" "decode_text raw_b64 = Some raw"
    and w: "bind_io (write_key ff raw) (\<lambda>_.
      bind_io (restore_pub ff (dget (as_dict d0) ''ed25519.key.pub'')) (\<lambda>_.
        catch_oserror (bind_io (bootstrap_signing_key valid public ff g) (\<lambda>_. ret 0)))) fs = (Inr 0, fs')"
    by (auto simp: load_secret_to_path_def bind_io_Inr_iff split: if_splits option.splits)
  from w obtain fs1 fs2 k where f: "write_key ff raw fs = (Inr (), fs1)"
    "restore_pub ff (dget (as_dict d0) ''ed25519.key.pub'') fs1 = (Inr (), fs2)"
    "bootstrap_signing_key valid public ff g fs2 = (Inr k, fs')"
    by (auto simp: bind_io_Inr_iff catch_oserror_0)
  from f(1) have "key_file fs1 = Some raw" by (auto simp: write_key_def split: if_splits)
  with restore_pub_keeps_key[OF f(2)] bootstrap_result[OF f(3)]
  have kf: "key_file fs' = Some raw" "pub_file fs' = Some (b64encode (public raw))" by auto
  from d(4) obtain tx where tx: "raw_b64 = PStr tx" "b64decode tx = Some raw"
    by (auto simp: decode_text_def split: pyval.splits)
  have "secret_key_text body = raw_b64"
    using d(1,2,3) by (cases body; cases d0) (auto simp: secret_key_text_def py_or_def split: if_splits)
  with tx kf show ?thesis by (auto simp: in_step_def)
qed

lemma on_files_Inr: "on_files m st = (Inr x, st') \<longleftrightarrow> m (fst st) = (Inr x, fst st') \<and> snd st' = snd st"
  by (cases st') (auto simp: on_files_def split: prod.splits)

lemma on_api_Inr: "on_api m st = (Inr x, st') \<longleftrightarrow> m (snd st) = (Inr x, snd st') \<and> fst st' = fst st"
  by (cases st') (auto simp: on_api_def split: prod.splits)

text \<open>The laws of the API: a Secret that is read is the stored one, and a Secret that was accepted is
  stored.\<close>

definition get_law :: "('w \<Rightarrow> string option) \<Rightarrow> ('w, secret_response) io \<Rightarrow> bool" where
  "get_law stored get \<longleftrightarrow> (\<forall>w r w' body tx. get w = (Inr r, w') \<longrightarrow> s_status r = 200 \<longrightarrow> s_json r = Inr body \<longrightarrow>
     secret_key_text body = PStr tx \<longrightarrow> stored w' = Some tx)"

definition post_law :: "('w \<Rightarrow> string option) \<Rightarrow> (dict \<Rightarrow> ('w, secret_response) io) \<Rightarrow> bool" where
  "post_law stored post \<longleftrightarrow> (\<forall>w r w' body tx. post body w = (Inr r, w') \<longrightarrow> s_status r = 200 \<or> s_status r = 201 \<longrightarrow>
     secret_key_text (PDict body) = PStr tx \<longrightarrow> stored w' = Some tx)"

lemma read_and_load_ok:
  assumes "get_law stored get" "on_api get st = (Inr r, st1)" "s_status r = 200"
    and "bind_io (json_body r) (\<lambda>b. on_files (load_secret_to_path valid public ff g b)) st1 = (Inr 0, st')"
  shows "in_step public (fst st') (stored (snd st'))"
proof -
  from assms(4) obtain b where b: "s_json r = Inr b"
    "load_secret_to_path valid public ff g b (fst st1) = (Inr 0, fst st')" "snd st' = snd st1"
    by (auto simp: bind_io_Inr_iff json_body_def on_files_Inr)
  from load_secret_ok[OF b(2)] obtain tx where t: "secret_key_text b = PStr tx" "in_step public (fst st') (Some tx)"
    by blast
  from assms(1,2,3) b(1) t(1) have "stored (snd st1) = Some tx" unfolding get_law_def on_api_Inr by blast
  with t(2) b(3) show ?thesis by simp
qed

lemma create_secret_ok:
  assumes "get_law stored get" "post_law stored post"
    and "create_secret valid public ff g get post name ns st = (Inr 0, st')"
  shows "in_step public (fst st') (stored (snd st'))"
proof -
  from assms(3) obtain k st1 raw where
    k: "on_files (bootstrap_signing_key valid public ff g) st = (Inr k, st1)" "key_file (fst st1) = Some raw"
    unfolding create_secret_def by (auto split: prod.splits sum.splits option.splits if_splits)
  from k(1) bootstrap_result have b: "raw = k" "pub_file (fst st1) = Some (b64encode (public k))"
    using k(2) by (fastforce simp: on_files_Inr)+
  let ?body = "secret_body name ns raw (b64encode (public k))"
  from assms(3) k b(2) obtain r st2 where
    p: "post ?body (snd st1) = (Inr r, snd st2)" "fst st2 = fst st1"
    and cont: "(if s_status r = 200 \<or> s_status r = 201 then ret 0
       else if s_status r = 409 then
         bind_io (on_api get) (\<lambda>g'. if s_status g' = 200
           then bind_io (json_body g') (\<lambda>b. on_files (load_secret_to_path valid public ff g b)) else ret 1)
       else ret 1) st2 = (Inr 0, st')"
    unfolding create_secret_def by (auto simp: bind_io_Inr_iff on_api_Inr)
  show ?thesis
  proof (cases "s_status r = 200 \<or> s_status r = 201")
    case True
    have "secret_key_text (PDict ?body) = PStr (b64encode raw)" by (simp add: secret_key_text_def secret_body_def)
    with assms(2) p(1) True have "stored (snd st2) = Some (b64encode raw)" unfolding post_law_def by blast
    moreover from True cont have "st' = st2" by auto
    ultimately show ?thesis using p(2) k(2) b by (auto simp: in_step_def)
  next
    case False
    with cont have "s_status r = 409" by (auto split: if_splits)
    with False cont obtain r' st3 where g3: "on_api get st2 = (Inr r', st3)"
      "(if s_status r' = 200 then bind_io (json_body r') (\<lambda>b. on_files (load_secret_to_path valid public ff g b))
        else ret 1) st3 = (Inr 0, st')"
      by (auto simp: bind_io_Inr_iff[of "on_api get"])
    then have "s_status r' = 200"
      "bind_io (json_body r') (\<lambda>b. on_files (load_secret_to_path valid public ff g b)) st3 = (Inr 0, st')"
      by (auto split: if_splits)
    from read_and_load_ok[OF assms(1) g3(1) this] show ?thesis .
  qed
qed

text \<open>C22: whenever the job exits with 0, the key file holds exactly the key that the cluster's Secret
  stores, and the sidecar its public key: two jobs that run concurrently end with the same key, whichever
  of them created the Secret.\<close>

theorem secret_bootstrap_agrees:
  assumes "get_law stored get" "post_law stored post"
    and "bootstrap_from_k8s_secret valid public env ff g get post name st = (Inr 0, st')"
  shows "in_step public (fst st') (stored (snd st'))"
proof -
  from assms(3) obtain ns where "call_secrets_api valid public ff g get post name ns st = (Inr 0, st')"
    unfolding bootstrap_from_k8s_secret_def by (auto split: option.splits sum.splits if_splits)
  then obtain r st1 where r: "on_api get st = (Inr r, st1)"
    "(if s_status r = 200
      then bind_io (json_body r) (\<lambda>b. on_files (load_secret_to_path valid public ff g b))
      else if s_status r = 404 then create_secret valid public ff g get post name ns
      else ret 1) st1 = (Inr 0, st')"
    unfolding call_secrets_api_def
    by (auto simp: try_io_0 bind_io_Inr_iff[of "on_api get"])
  show ?thesis
  proof (cases "s_status r = 200")
    case True
    with r read_and_load_ok[OF assms(1) r(1) True] show ?thesis by auto
  next
    case False
    with r(2) have "create_secret valid public ff g get post name ns st1 = (Inr 0, st')"
      by (auto split: if_splits)
    from create_secret_ok[OF assms(1,2) this] show ?thesis .
  qed
qed

text \<open>A cluster that stores one Secret\<close>

definition demo_get :: "(string option, secret_response) io" where
  "demo_get w = (case w of
     None \<Rightarrow> (Inr \<lparr>s_status = 404, s_json = Inr PNone\<rparr>, w)
   | Some t \<Rightarrow> (Inr \<lparr>s_status = 200, s_json = Inr (PDict [(''data'', PDict [(''ed25519.key'', PStr t)])])\<rparr>, w))"

definition demo_post :: "dict \<Rightarrow> (string option, secret_response) io" where
  "demo_post body w = (case w of
     None \<Rightarrow> (Inr \<lparr>s_status = 201, s_json = Inr PNone\<rparr>,
       case secret_key_text (PDict body) of PStr t \<Rightarrow> Some t | _ \<Rightarrow> None)
   | Some t \<Rightarrow> (Inr \<lparr>s_status = 409, s_json = Inr PNone\<rparr>, w))"

definition demo_pod :: pod_env where
  "demo_pod = \<lparr>token = Some (Inr ''t''), namespace_file = Inr ''ns'', explicit_namespace = None, client_given = False,
     ca_usable = True, ca_bundle_loads = True\<rparr>"

theorem secret_bootstrap_agrees_witness:
  "\<exists>st'. bootstrap_from_k8s_secret (\<lambda>_. True) rev demo_pod no_faults ''seed'' demo_get demo_post ''s'' (no_files, None) =
     (Inr 0, st') \<and> in_step rev (fst st') (snd st')"
proof -
  have g: "get_law id demo_get" and p: "post_law id demo_post"
    by (auto simp: get_law_def post_law_def demo_get_def demo_post_def secret_key_text_def split: option.splits)
  let ?m = "bootstrap_from_k8s_secret (\<lambda>_. True) rev demo_pod no_faults ''seed'' demo_get demo_post ''s'' (no_files, None)"
  have "fst ?m = Inr 0" by code_simp
  then obtain st' where m: "?m = (Inr 0, st')" by (metis prod.collapse)
  from secret_bootstrap_agrees[OF g p m] m show ?thesis by auto
qed

end
