(* ===== verification/CaseActivities.thy ===== *)
theory CaseActivities
  imports Execution Rawcmd
begin

text \<open>
  The activities of \<open>worker/activities/investigation.py\<close> that keep the case: opening it, recording
  iterations, validating raw commands, approvals and their decisions, the verification of a fix and the
  four ways to close.  A payload is the dictionary the workflow sends.
\<close>

section \<open>Configuration\<close>

record act_config =
  cfg_models :: "(string \<times> (string \<times> int)) list"
  cfg_budget :: dict
  cfg_max_calls :: int
  cfg_threshold :: rat

definition budget_defaults :: "act_config option \<Rightarrow> dict" where
  "budget_defaults cfg =
     (case cfg of Some c \<Rightarrow> cfg_budget c
      | None \<Rightarrow> [(''max_rounds'', PInt 15), (''max_cost_usd'', PFloat 10), (''max_wall_seconds'', PInt 1800)])"

definition max_calls_of :: "act_config option \<Rightarrow> int" where
  "max_calls_of cfg = (case cfg of Some c \<Rightarrow> cfg_max_calls c | None \<Rightarrow> 8)"

definition confidence_threshold :: "act_config option \<Rightarrow> rat" where
  "confidence_threshold cfg = (case cfg of Some c \<Rightarrow> cfg_threshold c | None \<Rightarrow> 85 / 100)"

section \<open>Opening a case\<close>

text \<open>The transaction returns the platform and the budget.  The identifier \<open>spare\<close> is used as event
  identifier when the event has none.\<close>

definition create_case_txn ::
  "'s deps \<Rightarrow> act_config option \<Rightarrow> pyval \<Rightarrow> uuid \<Rightarrow> pyval \<Rightarrow> uuid \<Rightarrow> db \<Rightarrow> ((platform option \<times> dict) \<times> db) res" where
  "create_case_txn D cfg event iid wid spare d =
     bind_res (py_item event ''platform_key'') (\<lambda>pk.
     bind_res (platform_lookup pk d) (\<lambda>plat.
     bind_res (case plat of None \<Rightarrow> Inr (budget_defaults cfg)
               | Some p \<Rightarrow> merge_platform_budget (budget_defaults cfg) (p_config p)) (\<lambda>bud.
     bind_res (case latest_investigation d iid of
         Some i \<Rightarrow>
           write_audit (d_now D) ''case_opened'' actor_system (Some iid)
             (Some [(''platform_key'', pk), (''workflow_id'', wid)])
             (d\<lparr>investigations := modify_row inv_key (inv_key i) (\<lambda>r. r\<lparr>status := ''OPEN'', budget := bud\<rparr>) (investigations d)\<rparr>)
       | None \<Rightarrow>
           bind_res (text_arg wid) (\<lambda>wtext.
             open_case_from_event (d_fr D) (d_now D) iid spare (as_dict event) wtext bud d)) (\<lambda>d'.
       Inr ((plat, bud), d')))))"

definition platform_rejects :: "platform option \<Rightarrow> bool" where
  "platform_rejects plat =
     (case plat of None \<Rightarrow> False
      | Some p \<Rightarrow> (let st = str_lower (p_status p) in st \<noteq> [] \<and> st \<noteq> ''online''))"

definition case_result :: "act_config option \<Rightarrow> uuid \<Rightarrow> pyval \<Rightarrow> platform option \<Rightarrow> dict \<Rightarrow> dict \<Rightarrow> pyval" where
  "case_result cfg iid pk plat bud remediation =
     PDict [(''investigation_id'', PStr (uuid_str iid)), (''platform_key'', pk), (''budget'', PDict bud),
       (''confidence_threshold'', PFloat (confidence_threshold cfg)),
       (''max_calls_per_round'', PInt (max_calls_of cfg)),
       (''deployment'', PStr (case plat of None \<Rightarrow> ''k8s'' | Some p \<Rightarrow> if deployment p = [] then ''k8s'' else deployment p)),
       (''remediation'', PDict remediation), (''rejected'', PBool (platform_rejects plat)),
       (''reject_reason'', if platform_rejects plat then PStr ''platform_not_ready'' else PNone)]"

definition create_case :: "'s deps \<Rightarrow> act_config option \<Rightarrow> dict \<Rightarrow> ('s, pyval) act" where
  "create_case D cfg payload =
     bind_io (lift_io (ditem payload ''event'')) (\<lambda>event.
     bind_io (if truthy (dget payload ''investigation_id'') then lift_io (to_uuid D (dget payload ''investigation_id''))
              else fresh_uuid D) (\<lambda>iid.
     let wid = py_or (dget payload ''workflow_id'') (PStr (''investigation-'' @ uuid_str iid)) in
     bind_io (fresh_uuid D) (\<lambda>spare.
     bind_io (txn (create_case_txn D cfg event iid wid spare)) (\<lambda>(plat, bud).
     bind_io (lift_io (case plat of None \<Rightarrow> Inr []
         | Some p \<Rightarrow> if p_config p = [] then Inr [] else py_update [] (py_or (dget (p_config p) ''remediation'') (PDict [])))) (\<lambda>remediation.
       ret (case_result cfg iid (dget (as_dict event) ''platform_key'') plat bud remediation))))))"

section \<open>Iterations and raw commands\<close>

definition bump_spent :: "'s deps \<Rightarrow> pyval \<Rightarrow> dict \<Rightarrow> dict res" where
  "bump_spent D cost sp =
     bind_res (py_int (py_or (dget sp ''rounds'') (PInt 0))) (\<lambda>n.
     let sp1 = dset sp ''rounds'' (PInt (n + 1)) in
     if cost = PNone then Inr sp1
     else bind_res (py_float (d_fl D) (py_or (dget sp1 ''cost_usd'') (PInt 0))) (\<lambda>old.
          bind_res (py_float (d_fl D) cost) (\<lambda>new. Inr (dset sp1 ''cost_usd'' (PFloat (old + new))))))"

definition record_iteration_txn :: "'s deps \<Rightarrow> dict \<Rightarrow> db \<Rightarrow> db res" where
  "record_iteration_txn D payload d =
     bind_res (bind_res (ditem payload ''investigation_id'') (to_uuid D)) (\<lambda>iid.
     bind_res (bind_res (ditem payload ''round'') py_int) (\<lambda>rnd.
     bind_res (number_col (dget payload ''cost_usd'')) (\<lambda>cost.
     bind_res (int_col (dget payload ''duration_ms'')) (\<lambda>dur.
     bind_res (record_iteration (d_now D) iid rnd (as_dict (dget payload ''plan'')) (json_col (dget payload ''report''))
         cost dur None None d) (\<lambda>d1.
       case latest_investigation d1 iid of
         None \<Rightarrow> Inr d1
       | Some i \<Rightarrow>
           bind_res (bump_spent D (dget payload ''cost_usd'') (spent i)) (\<lambda>sp.
             Inr (d1\<lparr>investigations := modify_row inv_key (inv_key i)
               (\<lambda>r. r\<lparr>spent := sp, status := ''INVESTIGATING''\<rparr>) (investigations d1)\<rparr>)))))))"

definition record_iteration_activity :: "'s deps \<Rightarrow> dict \<Rightarrow> ('s, unit) act" where
  "record_iteration_activity D payload = txn_unit (record_iteration_txn D payload)"

definition static_validate_raw_command :: "'s deps \<Rightarrow> dict \<Rightarrow> ('s, pyval) act" where
  "static_validate_raw_command D payload =
     (case py_or (dget payload ''command'') (PStr []) of
        PStr cmd \<Rightarrow>
          (let r = static_validate (Some cmd);
               fields = [(''ok'', PBool (vr_ok r)), (''reason'', PStr (vr_reason r))] in
           bind_io (txn_unit (audit D ''raw_cmd_requested'' (actor_agent ''rca'') (dget payload ''investigation_id'')
             ((''command'', PStr cmd) # fields))) (\<lambda>_.
           ret (PDict (fields @ [(''command'', PStr cmd)]))))
      | _ \<Rightarrow> fail (OtherError ''AttributeError''))"

definition evidence_ref :: "uuid \<Rightarrow> uuid \<Rightarrow> string" where
  "evidence_ref iid eid = ''evidence/'' @ uuid_str iid @ ''/'' @ uuid_str eid @ ''.json''"

definition raw_summary :: "tool_result \<Rightarrow> string" where
  "raw_summary r = ''raw_command output (exit='' @ int_str (exit_code r) @ '')''"

definition raw_evidence_txn :: "'s deps \<Rightarrow> uuid \<Rightarrow> uuid \<Rightarrow> int \<Rightarrow> pyval \<Rightarrow> tool_result \<Rightarrow> db \<Rightarrow> db res" where
  "raw_evidence_txn D iid eid rnd cmd r d =
     bind_res (opt_text (py_or (r_probe_id r) (PStr ''probe''))) (\<lambda>exby.
     bind_res (insert_evidence (d_now D) eid iid rnd ''raw_command'' (PDict [(''command'', cmd)]) (Some (exit_code r))
       (Some (raw_summary r)) (Some (evidence_ref iid eid)) (Some (int (length (raw_bytes r)))) (r_redacted r) exby d) (\<lambda>d1.
       write_audit (d_now D) ''tool_executed'' (actor_agent ''collector'') (Some iid)
         (Some [(''tool'', PStr ''raw_command''), (''evidence_id'', PStr (uuid_str eid))]) d1))"

definition run_raw_command :: "'s deps \<Rightarrow> dict \<Rightarrow> ('s, pyval) act" where
  "run_raw_command D payload =
     bind_io (lift_io (bind_res (ditem payload ''investigation_id'') (to_uuid D))) (\<lambda>iid.
     bind_io (lift_io (ditem payload ''platform_key'')) (\<lambda>pk.
     bind_io (lift_io (ditem payload ''command'')) (\<lambda>cmd.
     bind_io (lift_io (py_int (py_or (dget payload ''round'') (PInt 0)))) (\<lambda>rnd.
     bind_io (probe_ask D (ExecuteRaw pk cmd)) (\<lambda>r.
     bind_io (fresh_uuid D) (\<lambda>eid.
     bind_io (put_payload D (evidence_ref iid eid) (raw_bytes r)) (\<lambda>pref.
     bind_io (txn_unit (raw_evidence_txn D iid eid rnd cmd r)) (\<lambda>_.
       ret (PList [PDict [(''evidence_id'', PStr (uuid_str eid)), (''tool_name'', PStr ''raw_command''),
         (''args'', PDict [(''command'', cmd)]), (''round'', PInt rnd), (''summary'', PStr (raw_summary r)),
         (''payload'', data r), (''payload_ref'', PStr pref), (''exit_code'', PInt (exit_code r))]])))))))))"

section \<open>Approvals\<close>

definition create_approval_txn :: "'s deps \<Rightarrow> uuid \<Rightarrow> pyval \<Rightarrow> dict \<Rightarrow> uuid \<Rightarrow> db \<Rightarrow> db res" where
  "create_approval_txn D iid kind subject aid d =
     bind_res (text_arg kind) (\<lambda>k.
     bind_res (create_approval (d_now D) aid iid k subject d) (\<lambda>d1.
     bind_res (write_audit (d_now D) ''approval_requested'' actor_system (Some iid)
         (Some [(''approval_id'', PStr (uuid_str aid)), (''kind'', kind)]) d1)
       (update_investigation_status (d_now D) iid ''AWAITING_APPROVAL'' None None False)))"

definition create_approval_activity :: "'s deps \<Rightarrow> dict \<Rightarrow> ('s, pyval) act" where
  "create_approval_activity D payload =
     bind_io (lift_io (bind_res (ditem payload ''investigation_id'') (to_uuid D))) (\<lambda>iid.
     bind_io (lift_io (ditem payload ''kind'')) (\<lambda>kind.
     bind_io (fresh_uuid D) (\<lambda>aid.
     bind_io (txn_unit (create_approval_txn D iid kind (as_dict (dget payload ''subject'')) aid)) (\<lambda>_.
       ret (PDict [(''approval_id'', PStr (uuid_str aid)), (''kind'', kind)])))))"

text \<open>The write of the decision, which may find the approval decided already (\<open>ValueError\<close>, also the
  answer to a malformed identifier) or unknown (\<open>KeyError\<close>)\<close>

definition write_decision :: "'s deps \<Rightarrow> dict \<Rightarrow> db \<Rightarrow> (bool \<times> db) res" where
  "write_decision D payload d =
     (let dec = py_or (dget payload ''decision'') (PStr ''denied'') in
      case bind_res (ditem payload ''approval_id'') (\<lambda>aid.
             decide_approval (d_now D) (py_str (d_fr D) aid) (as_str dec) None
               (case dget payload ''comment'' of PStr c \<Rightarrow> Some c | _ \<Rightarrow> None) d) of
        Inr d1 \<Rightarrow>
          bind_res (text_arg dec) (\<lambda>_. bind_res (opt_text (dget payload ''comment'')) (\<lambda>_. Inr (False, d1)))
      | Inl (KeyError _) \<Rightarrow> Inr (False, d)
      | Inl (ValueError _) \<Rightarrow> Inr (True, d)
      | Inl e \<Rightarrow> Inl e)"

definition decision_action :: "dict \<Rightarrow> string option" where
  "decision_action payload =
     (if dget payload ''kind'' \<noteq> PStr ''raw_command'' then None
      else if dget payload ''decision'' = PStr ''denied'' then Some ''raw_cmd_denied''
      else if dget payload ''decision'' = PStr ''approved'' then Some ''raw_cmd_approved''
      else None)"

definition record_approval_decision_txn :: "'s deps \<Rightarrow> dict \<Rightarrow> db \<Rightarrow> db res" where
  "record_approval_decision_txn D payload d =
     bind_res (write_decision D payload d) (\<lambda>(already_decided, d1).
       if already_decided \<and> \<not> truthy (dget payload ''is_timeout'') then Inr d1
       else
         bind_res (audit D ''approval_decided'' actor_system (dget payload ''investigation_id'')
           [(''approval_id'', dget payload ''approval_id''), (''decision'', dget payload ''decision''),
            (''comment'', dget payload ''comment''), (''kind'', dget payload ''kind'')] d1) (\<lambda>d2.
         case decision_action payload of
           None \<Rightarrow> Inr d2
         | Some a \<Rightarrow> audit D a actor_system (dget payload ''investigation_id'')
                       [(''approval_id'', dget payload ''approval_id'')] d2))"

definition record_approval_decision :: "'s deps \<Rightarrow> dict \<Rightarrow> ('s, unit) act" where
  "record_approval_decision D payload = txn_unit (record_approval_decision_txn D payload)"

section \<open>Verification of a fix\<close>

definition verify_wiring :: "'s deps \<Rightarrow> dict \<Rightarrow> db \<Rightarrow> (pyval \<times> pyval) res" where
  "verify_wiring D payload d =
     (let iidv = dget payload ''investigation_id''; pk0 = dget payload ''platform_key''; hq0 = dget payload ''health_query'' in
      bind_res (if \<not> truthy pk0 \<and> truthy iidv
                then bind_res (to_uuid D iidv) (\<lambda>u.
                  Inr (case latest_investigation d u of None \<Rightarrow> pk0 | Some i \<Rightarrow> PStr (inv_platform_key i)))
                else Inr pk0) (\<lambda>pk.
      if truthy pk then
        bind_res (platform_lookup pk d) (\<lambda>plat.
          Inr (pk, case plat of None \<Rightarrow> hq0
                   | Some p \<Rightarrow> if p_config p = [] then hq0 else py_or hq0 (dget (p_config p) ''health_query'')))
      else Inr (pk, hq0)))"

definition missing_wiring :: "bool \<Rightarrow> pyval \<Rightarrow> pyval \<Rightarrow> pyval \<Rightarrow> dict" where
  "missing_wiring has_probe pk pid plan =
     (let missing = (if truthy pk then [] else [''platform_key'']) @ (if has_probe then [] else [''probe'']) @
                    (if truthy pid then [] else [''playbook_id'']) in
      [(''ok'', PBool False),
       (''checks'', PList [PDict [(''name'', PStr ''wiring''), (''ok'', PBool False),
          (''error'', PStr (if missing = [] then ''missing wiring'' else ''missing wiring: '' @ str_join '', '' missing))]]),
       (''plan'', plan)])"

definition verify_checks :: "'s deps \<Rightarrow> dict \<Rightarrow> pyval \<Rightarrow> dict \<Rightarrow> pyval \<Rightarrow> ('s, dict) act" where
  "verify_checks D payload pid params plan =
     (if truthy (dget payload ''force_fail'') then
        ret [(''ok'', PBool False), (''checks'', PList [PDict [(''name'', PStr ''force_fail''), (''ok'', PBool False)]])]
      else
        bind_io (query (verify_wiring D payload)) (\<lambda>(pk, hq).
          case d_probe D of
            Some ask \<Rightarrow>
              if truthy pk \<and> truthy pid
              then on_probe (run_verification (d_fr D) (d_health D) ask pk pid params plan hq)
              else ret (missing_wiring True pk pid plan)
          | None \<Rightarrow> ret (missing_wiring False pk pid plan)))"

definition count_success :: "string \<Rightarrow> db \<Rightarrow> db res" where
  "count_success pid d =
     (case get_row playbook_id pid (playbooks d) of
        None \<Rightarrow> Inr d
      | Some p \<Rightarrow>
          bind_res (py_int (py_or (dget (maturity p) ''success'') (PInt 0))) (\<lambda>n.
            Inr (d\<lparr>playbooks := modify_row playbook_id pid
              (\<lambda>r. r\<lparr>maturity := dset (maturity p) ''success'' (PInt (n + 1))\<rparr>) (playbooks d)\<rparr>)))"

definition settle_execution :: "timestamp \<Rightarrow> uuid \<Rightarrow> bool \<Rightarrow> dict \<Rightarrow> db \<Rightarrow> db res" where
  "settle_execution now eid ok result d =
     (case get_row execution_id eid (executions d) of
        None \<Rightarrow> Inr d
      | Some row \<Rightarrow>
          (let d1 = d\<lparr>executions := modify_row execution_id eid
               (\<lambda>r. r\<lparr>verification_result := Some result, re_status := (if ok then ''succeeded'' else ''failed''),
                      re_finished_at := Some now\<rparr>) (executions d)\<rparr> in
           case re_playbook_id row of
             Some (c # cs) \<Rightarrow> if ok then count_success (c # cs) d1 else Inr d1
           | _ \<Rightarrow> Inr d1))"

definition verify_txn :: "'s deps \<Rightarrow> dict \<Rightarrow> pyval \<Rightarrow> dict \<Rightarrow> db \<Rightarrow> db res" where
  "verify_txn D payload plan result d =
     (let ok = truthy (dget result ''ok''); eidv = dget payload ''execution_id'' in
      bind_res (audit D ''verification_run'' actor_system (dget payload ''investigation_id'')
        [(''plan'', plan), (''ok'', PBool ok), (''result'', PDict result)] d) (\<lambda>d1.
      bind_res (if truthy eidv
                then (case to_uuid D eidv of Inl _ \<Rightarrow> Inr d1 | Inr eid \<Rightarrow> settle_execution (d_now D) eid ok result d1)
                else Inr d1) (\<lambda>d2.
      if ok then bind_res (bind_res (ditem payload ''investigation_id'') (to_uuid D)) (\<lambda>iid.
             update_investigation_status (d_now D) iid ''VERIFYING'' None None False d2)
      else Inr d2)))"

text \<open>The playbook and the parameters to verify, from the payload or from its action\<close>

definition verify_subject :: "dict \<Rightarrow> (pyval \<times> dict) res" where
  "verify_subject payload =
     (let action_of = (\<lambda>k. py_get (py_or (dget payload ''action'') (PDict [])) k) in
      bind_res (if truthy (dget payload ''playbook_id'') then Inr (dget payload ''playbook_id'')
                else action_of ''playbook_id'') (\<lambda>pid.
      bind_res (if truthy (dget payload ''params'') then Inr (dget payload ''params'')
                else action_of ''playbook_params'') (\<lambda>p.
      bind_res (py_update [] (py_or p (PDict []))) (\<lambda>params. Inr (pid, params)))))"

definition verify_result :: "pyval \<Rightarrow> dict \<Rightarrow> pyval" where
  "verify_result plan result =
     PDict (dupdate [(''ok'', PBool (truthy (dget result ''ok''))), (''plan'', plan)] result)"

definition verify_fix :: "'s deps \<Rightarrow> dict \<Rightarrow> ('s, pyval) act" where
  "verify_fix D payload =
     (let plan = py_or (dget payload ''verification_plan'') (PList []) in
      bind_io (lift_io (verify_subject payload)) (\<lambda>(pid, params).
      bind_io (verify_checks D payload pid params plan) (\<lambda>result.
      bind_io (txn_unit (verify_txn D payload plan result)) (\<lambda>_. ret (verify_result plan result)))))"

section \<open>Closing a case\<close>

definition close_txn :: "'s deps \<Rightarrow> uuid \<Rightarrow> string \<Rightarrow> pyval \<Rightarrow> dict \<Rightarrow> db \<Rightarrow> db res" where
  "close_txn D iid st report det d =
     bind_res (update_investigation_status (d_now D) iid st (json_col report) None True d)
       (write_audit (d_now D) ''case_closed'' actor_system (Some iid) (Some det))"

definition close_with_summary :: "'s deps \<Rightarrow> dict \<Rightarrow> ('s, pyval) act" where
  "close_with_summary D payload =
     bind_io (lift_io (bind_res (ditem payload ''investigation_id'') (to_uuid D))) (\<lambda>iid.
     bind_io (txn_unit (close_txn D iid ''CLOSED_SUMMARY'' (dget payload ''rca_report'')
         [(''status'', PStr ''CLOSED_SUMMARY''), (''reason'', dget payload ''reason'')])) (\<lambda>_.
       ret (PDict [(''status'', PStr ''CLOSED_SUMMARY'')])))"

definition close_resolved :: "'s deps \<Rightarrow> dict \<Rightarrow> ('s, pyval) act" where
  "close_resolved D payload =
     bind_io (lift_io (bind_res (ditem payload ''investigation_id'') (to_uuid D))) (\<lambda>iid.
     bind_io (txn_unit (close_txn D iid ''RESOLVED'' (dget payload ''rca_report'') [(''status'', PStr ''RESOLVED'')])) (\<lambda>_.
       ret (PDict [(''status'', PStr ''RESOLVED'')])))"

definition BUDGET_REASONS :: "pyval list" where
  "BUDGET_REASONS = [PStr ''time_budget'', PStr ''cost_budget'', PStr ''round_budget'']"

definition to_needs_human :: "'s deps \<Rightarrow> dict \<Rightarrow> ('s, pyval) act" where
  "to_needs_human D payload =
     (let reason = py_or (dget payload ''reason'') (PStr ''unknown'') in
      bind_io (lift_io (bind_res (ditem payload ''investigation_id'') (to_uuid D))) (\<lambda>iid.
      bind_io (txn_unit (\<lambda>d.
          bind_res (if reason \<in> set BUDGET_REASONS
                    then write_audit (d_now D) ''budget_exceeded'' actor_system (Some iid) (Some [(''reason'', reason)]) d
                    else Inr d)
            (close_txn D iid ''NEEDS_HUMAN'' (dget payload ''rca_report'')
               [(''status'', PStr ''NEEDS_HUMAN''), (''reason'', reason)]))) (\<lambda>_.
        ret (PDict [(''status'', PStr ''NEEDS_HUMAN''), (''reason'', reason)]))))"

definition reject_case :: "'s deps \<Rightarrow> dict \<Rightarrow> ('s, pyval) act" where
  "reject_case D payload =
     bind_io (lift_io (bind_res (ditem payload ''investigation_id'') (to_uuid D))) (\<lambda>iid.
     bind_io (txn_unit (close_txn D iid ''REJECTED'' PNone
         [(''status'', PStr ''REJECTED''), (''reason'', dget payload ''reason'')])) (\<lambda>_.
       ret (PDict [(''status'', PStr ''REJECTED''), (''reason'', dget payload ''reason'')])))"

end
