(* ===== verification/CaseSafety.thy ===== *)
theory CaseSafety
  imports CaseActivities ExecutionSafety
begin

text \<open>
  What the activities guarantee about the database: keys stay unique, the audit log only grows, a
  decided approval stays as decided, the closing activities close, and a fix counts as verified only
  after every check was answered.
\<close>

section \<open>Relations that every activity keeps\<close>

definition keeps :: "(db \<Rightarrow> db \<Rightarrow> bool) \<Rightarrow> ('s, 'a) act \<Rightarrow> bool" where
  "keeps R m \<longleftrightarrow> (\<forall>w. R (adb w) (adb (snd (m w))))"

text \<open>A reflexive and transitive relation between databases is kept by a program as soon as its
  transactions keep it.\<close>

locale db_order =
  fixes R :: "db \<Rightarrow> db \<Rightarrow> bool"
  assumes R_refl: "R d d" and R_trans: "R a b \<Longrightarrow> R b c \<Longrightarrow> R a c"
begin

lemma keeps_quiet:
  "keeps R (ret x)" "keeps R (fail e)" "keeps R (lift_io r)" "keeps R (query f)" "keeps R (fresh_uuid D)"
  "keeps R (probe_ask D c)" "keeps R (on_probe m)" "keeps R (put_payload D k b)"
  by (auto simp: keeps_def R_refl query_def fresh_uuid_def probe_ask_def on_probe_def put_payload_def
      split: option.splits prod.splits)

lemma keeps_bind: "keeps R m \<Longrightarrow> (\<And>x. keeps R (f x)) \<Longrightarrow> keeps R (bind_io m f)"
  unfolding keeps_def bind_io_def
  by (auto split: prod.splits sum.splits) (metis R_trans snd_conv)+

lemma keeps_try: "keeps R m \<Longrightarrow> (\<And>e. keeps R (h e)) \<Longrightarrow> keeps R (try_io m h)"
  unfolding keeps_def try_io_def
  by (auto split: prod.splits sum.splits) (metis R_trans snd_conv)+

lemma keeps_txn: "(\<And>d x d'. f d = Inr (x, d') \<Longrightarrow> R d d') \<Longrightarrow> keeps R (txn f)"
  unfolding keeps_def txn_def by (auto simp: R_refl split: sum.splits)

lemma keeps_txn_unit: "(\<And>d d'. f d = Inr d' \<Longrightarrow> R d d') \<Longrightarrow> keeps R (txn_unit f)"
  unfolding txn_unit_def by (rule keeps_txn) (auto simp: bind_res_Inr_iff)

lemma keeps_map_io: "(\<And>x. keeps R (f x)) \<Longrightarrow> keeps R (map_io f xs)"
  by (induction xs) (auto intro: keeps_bind keeps_quiet)

lemmas keeps_rules = keeps_quiet keeps_bind keeps_try keeps_map_io

end

text \<open>The relation of interest\<close>

definition db_evolves :: "db \<Rightarrow> db \<Rightarrow> bool" where
  "db_evolves d d' \<longleftrightarrow> (db_ok d \<longrightarrow> db_ok d') \<and> (\<exists>rows. audits d' = audits d @ rows) \<and>
     (\<forall>aid row. get_row approval_id aid (approvals d) = Some row \<and> decision row \<noteq> None \<longrightarrow>
        get_row approval_id aid (approvals d') = Some row)"

interpretation evolution: db_order db_evolves
proof
  show "db_evolves d d" for d by (simp add: db_evolves_def)
  show "db_evolves a c" if "db_evolves a b" "db_evolves b c" for a b c
    using that by (fastforce simp: db_evolves_def)
qed

named_theorems evolves \<open>updates of the database that are steps of its evolution\<close>

lemma evolvesI:
  assumes "db_ok d \<Longrightarrow> db_ok d'" "audits d' = audits d" "approvals d' = approvals d"
  shows "db_evolves d d'"
  using assms by (simp add: db_evolves_def)

lemma write_audit_evolves [evolves]: "write_audit now act who iid det d = Inr d' \<Longrightarrow> db_evolves d d'"
  using write_audit_ok by (auto simp: db_evolves_def dest!: write_audit_Inr)

lemma audit_evolves [evolves]: "audit D act who iid det d = Inr d' \<Longrightarrow> db_evolves d d'"
  by (auto simp: audit_def bind_res_Inr_iff write_audit_evolves split: if_splits)

lemma repo_inserts_evolve [evolves]:
  "create_investigation now iid pk st trig wid bud sp d = Inr d' \<Longrightarrow> db_evolves d d'"
  "record_iteration now iid rnd plan out cost dur ts tf d = Inr d' \<Longrightarrow> db_evolves d d'"
  "insert_evidence now eid iid rnd tn args ec summ pref pb red exby d = Inr d' \<Longrightarrow> db_evolves d d'"
  by (rule evolvesI, erule (1) db_ok_inserts, (auto simp: create_investigation_def record_iteration_def
      insert_evidence_def bind_res_Inr_iff split: if_splits)[2])+

lemma update_status_evolves [evolves]:
  "update_investigation_status now iid st report sp cl d = Inr d' \<Longrightarrow> db_evolves d d'"
  by (rule evolvesI, erule (1) db_ok_updates) (auto simp: update_investigation_status_def split: option.splits)

lemma create_approval_evolves [evolves]:
  assumes "create_approval now aid iid kind subj d = Inr d'"
  shows "db_evolves d d'"
proof -
  have app: "get_row approval_id k rows = Some r \<Longrightarrow> get_row approval_id k (rows @ new) = Some r" for k rows new r
    unfolding get_row_def by (induction rows) auto
  from assms show ?thesis using db_ok_inserts(5)[OF assms]
    by (auto simp: db_evolves_def create_approval_def bind_res_Inr_iff add_row_Inr_iff app)
qed

lemma decide_approval_evolves [evolves]:
  assumes "decide_approval now t dec u c d = Inr d'"
  shows "db_evolves d d'"
proof -
  from assms have "db_ok d \<longrightarrow> db_ok d'" using db_ok_updates(2) by blast
  with assms show ?thesis
    by (elim decide_approval_cases) (auto simp: db_evolves_def get_modify_row)
qed

lemma table_updates_evolve:
  "(\<And>r. inv_key (f r) = inv_key r) \<Longrightarrow> db_evolves d (d\<lparr>investigations := modify_row inv_key k f (investigations d)\<rparr>)"
  "(\<And>r. execution_id (g r) = execution_id r) \<Longrightarrow> db_evolves d (d\<lparr>executions := modify_row execution_id eid g (executions d)\<rparr>)"
  "(\<And>r. playbook_id (h r) = playbook_id r) \<Longrightarrow> db_evolves d (d\<lparr>playbooks := modify_row playbook_id pid h (playbooks d)\<rparr>)"
  by (rule evolvesI; auto simp: db_ok_def inv_key_def)+

lemma evolves_then:
  "bind_res m f = Inr d' \<Longrightarrow> (\<And>d1. m = Inr d1 \<Longrightarrow> db_evolves d d1) \<Longrightarrow>
   (\<And>d1. f d1 = Inr d' \<Longrightarrow> db_evolves d1 d') \<Longrightarrow> db_evolves d d'"
  using evolution.R_trans by (auto simp: bind_res_Inr_iff)

lemma evolves_value:
  "bind_res m f = Inr d' \<Longrightarrow> (\<And>x. m = Inr x \<Longrightarrow> f x = Inr d' \<Longrightarrow> db_evolves d d') \<Longrightarrow> db_evolves d d'"
  by (auto simp: bind_res_Inr_iff)

section \<open>The transactions\<close>

lemma open_case_evolves [evolves]:
  "open_case_from_event fr now iid eid event wid bud d = Inr d' \<Longrightarrow> db_evolves d d'"
  unfolding open_case_from_event_def
  by (erule evolves_value, erule evolves_value) (erule evolves_then; erule evolves)

lemma create_case_evolves: "create_case_txn D cfg event iid wid spare d = Inr (x, d') \<Longrightarrow> db_evolves d d'"
proof -
  assume "create_case_txn D cfg event iid wid spare d = Inr (x, d')"
  then obtain pk bud where "(case latest_investigation d iid of
      Some i \<Rightarrow> write_audit (d_now D) ''case_opened'' actor_system (Some iid) (Some [(''platform_key'', pk), (''workflow_id'', wid)])
         (d\<lparr>investigations := modify_row inv_key (inv_key i) (\<lambda>r. r\<lparr>status := ''OPEN'', budget := bud\<rparr>) (investigations d)\<rparr>)
    | None \<Rightarrow> bind_res (text_arg wid) (\<lambda>wtext.
         open_case_from_event (d_fr D) (d_now D) iid spare (as_dict event) wtext bud d)) = Inr d'"
    unfolding create_case_txn_def bind_res_Inr_iff by auto
  then show ?thesis
  proof (cases "latest_investigation d iid")
    case None
    then show ?thesis using \<open>_ = Inr d'\<close> by (auto simp: bind_res_Inr_iff intro: evolves)
  next
    case (Some i)
    have "db_evolves d (d\<lparr>investigations := modify_row inv_key (inv_key i) (\<lambda>r. r\<lparr>status := ''OPEN'', budget := bud\<rparr>) (investigations d)\<rparr>)"
      by (rule table_updates_evolve) (simp add: inv_key_def)
    then show ?thesis using Some \<open>_ = Inr d'\<close> by (auto intro: evolution.R_trans evolves)
  qed
qed

lemma record_iteration_evolves: "record_iteration_txn D payload d = Inr d' \<Longrightarrow> db_evolves d d'"
  unfolding record_iteration_txn_def
  by (erule evolves_value, erule evolves_value, erule evolves_value, erule evolves_value, erule evolves_then, erule evolves)
    (auto simp: bind_res_Inr_iff inv_key_def split: option.splits intro!: table_updates_evolve evolution.R_refl)

lemma raw_evidence_evolves: "raw_evidence_txn D iid eid rnd cmd r d = Inr d' \<Longrightarrow> db_evolves d d'"
  unfolding raw_evidence_txn_def by (erule evolves_value) (erule evolves_then; erule evolves)

lemma create_approval_txn_evolves: "create_approval_txn D iid kind subj aid d = Inr d' \<Longrightarrow> db_evolves d d'"
  unfolding create_approval_txn_def
  by (erule evolves_value) (erule evolves_then, erule evolves, erule evolves_then; erule evolves)

lemma write_decision_evolves: "write_decision D payload d = Inr (b, d') \<Longrightarrow> db_evolves d d'"
  unfolding write_decision_def Let_def
  by (auto simp: bind_res_Inr_iff evolution.R_refl split: sum.splits pyexc.splits dest!: evolves)

lemma record_decision_evolves: "record_approval_decision_txn D payload d = Inr d' \<Longrightarrow> db_evolves d d'"
  unfolding record_approval_decision_txn_def bind_res_Inr_iff
  by (auto simp: bind_res_Inr_iff split: if_splits option.splits dest!: write_decision_evolves evolves intro: evolution.R_trans)

lemma close_evolves: "close_txn D iid st report det d = Inr d' \<Longrightarrow> db_evolves d d'"
  unfolding close_txn_def by (erule evolves_then; erule evolves)

lemma count_success_evolves: "count_success pid d = Inr d' \<Longrightarrow> db_evolves d d'"
  by (auto simp: count_success_def bind_res_Inr_iff split: option.splits intro!: table_updates_evolve evolution.R_refl)

lemma settle_execution_evolves:
  assumes "settle_execution now eid ok result d = Inr d'"
  shows "db_evolves d d'"
proof -
  let ?d1 = "d\<lparr>executions := modify_row execution_id eid
     (\<lambda>r. r\<lparr>verification_result := Some result, re_status := (if ok then ''succeeded'' else ''failed''),
            re_finished_at := Some now\<rparr>) (executions d)\<rparr>"
  have "db_evolves d ?d1" by (rule table_updates_evolve) simp
  moreover have "d' = d \<or> d' = ?d1 \<or> (\<exists>pid. count_success pid ?d1 = Inr d')"
    using assms by (auto simp: settle_execution_def Let_def split: option.splits list.splits if_splits)
  ultimately show ?thesis
    by (elim disjE exE) (simp_all only: evolution.R_refl, rule evolution.R_trans, assumption, erule count_success_evolves)
qed

lemma verify_txn_evolves: "verify_txn D payload plan result d = Inr d' \<Longrightarrow> db_evolves d d'"
  unfolding verify_txn_def Let_def
  apply (erule evolves_then, erule evolves)
  apply (erule evolves_then)
   apply (auto simp: evolution.R_refl settle_execution_evolves split: if_splits sum.splits)[1]
  apply (auto simp: bind_res_Inr_iff evolution.R_refl split: if_splits dest!: evolves)
  done

lemma count_run_evolves: "count_run pid d = Inr d' \<Longrightarrow> db_evolves d d'"
proof -
  assume c: "count_run pid d = Inr d'"
  define rows where "rows = (case get_row playbook_id pid (playbooks d) of
     None \<Rightarrow> playbooks d @ [seeded_playbook pid] | Some _ \<Rightarrow> playbooks d)"
  have "db_evolves d (d\<lparr>playbooks := rows\<rparr>)"
  proof (rule evolvesI)
    assume "db_ok d"
    moreover have "playbook_id (seeded_playbook pid) = pid" by (simp add: seeded_playbook_def Let_def)
    ultimately have "distinct (map playbook_id rows)"
      using get_row_None[of playbook_id pid "playbooks d"] by (auto simp: rows_def db_ok_def split: option.splits)
    with \<open>db_ok d\<close> show "db_ok (d\<lparr>playbooks := rows\<rparr>)" by (simp add: db_ok_def)
  qed simp_all
  moreover obtain f where "d' = d\<lparr>playbooks := modify_row playbook_id pid f rows\<rparr>" "\<And>r. playbook_id (f r) = playbook_id r"
    using c unfolding count_run_def Let_def rows_def[symmetric] by (auto simp: bind_res_Inr_iff)
  then have "db_evolves (d\<lparr>playbooks := rows\<rparr>) d'"
    using table_updates_evolve(3)[of f "d\<lparr>playbooks := rows\<rparr>" pid] by simp
  ultimately show ?thesis by (rule evolution.R_trans)
qed

lemma merge_execution_evolves: "merge_execution r d = Inr d' \<Longrightarrow> db_evolves d d'"
proof (rule evolvesI)
  assume m: "merge_execution r d = Inr d'" and "db_ok d"
  have "map execution_id (modify_row execution_id (execution_id r) (\<lambda>_. r) (executions d)) = map execution_id (executions d)"
    by (simp add: modify_row_def)
  then have "distinct (map execution_id (executions d'))"
    using m \<open>db_ok d\<close> by (auto simp: merge_execution_def db_ok_def simp del: map_map split: if_splits)
  then show "db_ok d'" using m \<open>db_ok d\<close> by (auto simp: merge_execution_def db_ok_def split: if_splits)
qed (auto simp: merge_execution_def split: if_splits)

lemma start_execution_evolves:
  assumes "start_execution D payload pid params eid d = Inr (x, d')"
  shows "db_evolves d d'"
proof -
  let ?found = "if truthy (dget payload ''investigation_id'')
     then bind_res (to_uuid D (dget payload ''investigation_id'')) (\<lambda>u. Inr (latest_investigation d u)) else Inr None"
  from assms obtain f where f: "?found = Inr f" by (auto simp: start_execution_def Let_def bind_res_Inr_iff)
  obtain pk plat where p: "open_platform payload f d = (pk, plat)" by (rule prod.exhaust)
  from assms obtain d1 iid d2 d3 r where
    "audit D ''remediation_started'' actor_system (dget payload ''investigation_id'')
        [(''playbook_id'', pid), (''params'', PDict params), (''execution_id'', PStr (uuid_str eid))] d = Inr d1"
    "update_investigation_status (d_now D) iid ''EXECUTING'' None None False d1 = Inr d2"
    "(if truthy pid then (case pid of PStr p \<Rightarrow> count_run p d2 | _ \<Rightarrow> Inl (OtherError ''StatementError'')) else Inr d2) = Inr d3"
    "merge_execution r d3 = Inr d'"
    unfolding start_execution_def Let_def f p bind_res_simps prod.case bind_res_Inr_iff
    by (elim exE conjE, unfold sum.inject prod.inject, elim conjE, hypsubst) (rule that)
  then have 1: "db_evolves d d1" "db_evolves d1 d2" "db_evolves d3 d'"
    and c: "(if truthy pid then (case pid of PStr p \<Rightarrow> count_run p d2 | _ \<Rightarrow> Inl (OtherError ''StatementError'')) else Inr d2) = Inr d3"
    by (auto intro: evolves merge_execution_evolves)
  from c have "db_evolves d2 d3"
    by (cases pid) (auto intro: count_run_evolves evolution.R_refl split: if_splits)
  with 1 show ?thesis by (blast intro: evolution.R_trans)
qed

lemma fail_execution_evolves:
  "audit D ''remediation_finished'' actor_system iidv det (finish_execution now eid st vr pre d) = Inr d' \<Longrightarrow> db_evolves d d'"
  by (rule evolution.R_trans[where b = "finish_execution now eid st vr pre d"])
    (auto simp: finish_execution_def intro!: table_updates_evolve elim: audit_evolves)

lemma store_snapshot_evolves: "db_evolves d (store_snapshot eid pre d)"
  unfolding store_snapshot_def by (rule table_updates_evolve) simp

section \<open>The activities\<close>

lemmas txn_rules = evolution.keeps_txn evolution.keeps_txn_unit

lemma case_activities_keep:
  "keeps db_evolves (create_case D cfg payload)"
  "keeps db_evolves (record_iteration_activity D payload)"
  "keeps db_evolves (static_validate_raw_command D payload)"
  "keeps db_evolves (run_raw_command D payload)"
  "keeps db_evolves (create_approval_activity D payload)"
  "keeps db_evolves (record_approval_decision D payload)"
  by (auto simp: create_case_def record_iteration_activity_def static_validate_raw_command_def run_raw_command_def
      create_approval_activity_def record_approval_decision_def Let_def
      split: pyval.splits prod.splits
      intro!: evolution.keeps_rules txn_rules
      dest: create_case_evolves record_iteration_evolves audit_evolves
        raw_evidence_evolves create_approval_txn_evolves record_decision_evolves)

lemma closing_activities_keep:
  "keeps db_evolves (close_with_summary D payload)"
  "keeps db_evolves (close_resolved D payload)"
  "keeps db_evolves (reject_case D payload)"
  by (auto simp: close_with_summary_def close_resolved_def reject_case_def
      intro!: evolution.keeps_rules txn_rules close_evolves)

lemma needs_human_keeps: "keeps db_evolves (to_needs_human D payload)"
proof -
  have "db_evolves d d'" if "bind_res (if b then write_audit now ''budget_exceeded'' who iid det d else Inr d)
      (close_txn D u st report det') = Inr d'" for b now who iid det d u st report det' d'
    using that by (rule evolves_then) (auto intro: close_evolves write_audit_evolves evolution.R_refl split: if_splits)
  then show ?thesis unfolding to_needs_human_def Let_def
    by (intro evolution.keeps_rules txn_rules)
qed

lemma verify_fix_keeps: "keeps db_evolves (verify_fix D payload)"
proof -
  have "keeps db_evolves (verify_checks D payload pid params plan)" for pid params plan
    by (auto simp: verify_checks_def intro!: evolution.keeps_rules split: option.splits)
  then show ?thesis unfolding verify_fix_def Let_def case_prod_beta
    by (intro evolution.keeps_rules txn_rules verify_txn_evolves)
qed

lemma dispatch_keeps: "keeps db_evolves (dispatch_steps D sign pk pid eid idx steps)"
  by (induction steps arbitrary: idx) (auto intro!: evolution.keeps_rules)

lemma snapshot_keeps: "keeps db_evolves (take_snapshot D pk dep params es acc)"
  by (induction es arbitrary: acc) (auto simp: Let_def intro!: evolution.keeps_rules)

lemma fail_execution_keeps: "keeps db_evolves (fail_execution D iidv eid vr pre det)"
  unfolding fail_execution_def by (rule txn_rules, erule fail_execution_evolves)

lemma run_steps_keeps: "keeps db_evolves (run_steps D iidv act pid eid pk pre steps)"
  by (auto simp: run_steps_def Let_def split: option.splits prod.splits
      intro!: evolution.keeps_rules dispatch_keeps fail_execution_keeps txn_rules audit_evolves)

lemma execute_playbook_keeps: "keeps db_evolves (execute_playbook D payload)"
proof -
  have "keeps db_evolves (snapshot_and_run D iidv act pid params eid pk dep steps)" for iidv act pid params eid pk dep steps
    by (auto simp: snapshot_and_run_def pre_snapshot_of_def
        intro!: evolution.keeps_rules snapshot_keeps run_steps_keeps txn_rules store_snapshot_evolves)
  then have "keeps db_evolves (after_start D iidv act pid params eid opened)" for iidv act pid params eid opened
    by (auto simp: after_start_def fail_early_def split: prod.splits option.splits sum.splits
        intro!: evolution.keeps_rules fail_execution_keeps)
  then show ?thesis
    by (auto simp: execute_playbook_def execution_uuid_def Let_def
        intro!: evolution.keeps_rules txn_rules start_execution_evolves)
qed

section \<open>Verified fixes\<close>

definition reports_ok :: "pyval \<Rightarrow> bool" where
  "reports_ok v \<longleftrightarrow> truthy (dget (as_dict v) ''ok'')"

lemma run_verification_ok_bool:
  "run_verification fr hh ask pk pid params plan hq s = (Inr r, s') \<Longrightarrow> \<exists>b cs. r = [(''ok'', PBool b), (''checks'', cs)]"
  by (auto simp: run_verification_def bind_io_Inr_iff)

lemma missing_wiring_not_ok [simp]: "dget (missing_wiring hp pk pid plan) ''ok'' = PBool False"
  by (simp add: missing_wiring_def Let_def dget_def)

lemma verify_checks_ok:
  assumes "verify_checks D payload pid params plan w = (Inr r, w1)" "truthy (dget r ''ok'')"
    and "d_probe D = Some (recording ask)"
  shows "\<exists>new. snd (aprobe w1) = snd (aprobe w) @ new \<and> new \<noteq> [] \<and> list_all zero_exit new \<and> adb w1 = adb w \<and>
    truthy pid \<and> \<not> truthy (dget payload ''force_fail'') \<and> (\<exists>b cs. r = [(''ok'', PBool b), (''checks'', cs)])"
proof -
  have nf: "\<not> truthy (dget payload ''force_fail'')"
    using assms(1,2) by (auto simp: verify_checks_def dget_def)
  with assms obtain pk hq where v: "on_probe (run_verification (d_fr D) (d_health D) (recording ask) pk pid params plan hq) w = (Inr r, w1)"
    and t: "truthy pid"
    by (auto simp: verify_checks_def bind_io_Inr_iff query_def split: if_splits)
  obtain s tr where w: "aprobe w = (s, tr)" by (cases "aprobe w")
  obtain x st where rv0: "run_verification (d_fr D) (d_health D) (recording ask) pk pid params plan hq (s, tr) = (x, st)"
    by (rule prod.exhaust)
  obtain s' tr' where st: "st = (s', tr')" by (rule prod.exhaust)
  note rv = rv0[unfolded st]
  with v w have r: "x = Inr r" "w1 = w\<lparr>aprobe := (s', tr')\<rparr>" by (auto simp: on_probe_def)
  from run_verification_ok_bool[OF rv[unfolded r(1)]] obtain b cs where b: "r = [(''ok'', PBool b), (''checks'', cs)]"
    by (elim exE)
  with assms(2) have "dget r ''ok'' = PBool True" by (simp add: dget_def)
  from verification_calls[OF rv[unfolded r(1)] this]
  obtain new where "tr' = tr @ new" "list_all zero_exit new" "length new > 0"
    by (elim exE conjE) (rule that, assumption, assumption, simp)
  with r(2) w nf t b show ?thesis by auto
qed

lemma verify_checks_shape:
  assumes "verify_checks D payload pid params plan w = (Inr r, w1)"
  shows "distinct (map fst r) \<and> adb w1 = adb w \<and>
    (truthy (dget r ''ok'') \<longrightarrow> d_probe D \<noteq> None \<and> \<not> truthy (dget payload ''force_fail''))"
proof (cases "truthy (dget payload ''force_fail'')")
  case True
  with assms show ?thesis by (auto simp: verify_checks_def dget_def)
next
  case nf: False
  with assms obtain pk hq where
    q: "(case d_probe D of
           Some ask \<Rightarrow> if truthy pk \<and> truthy pid then on_probe (run_verification (d_fr D) (d_health D) ask pk pid params plan hq)
                      else ret (missing_wiring True pk pid plan)
         | None \<Rightarrow> ret (missing_wiring False pk pid plan)) w = (Inr r, w1)"
    by (auto simp: verify_checks_def bind_io_Inr_iff query_def)
  have m: "distinct (map fst (missing_wiring hp pk pid plan))" for hp by (simp add: missing_wiring_def Let_def)
  show ?thesis
  proof (cases "d_probe D")
    case None
    with q m show ?thesis by auto
  next
    case (Some ask)
    show ?thesis
    proof (cases "truthy pk \<and> truthy pid")
      case False
      with q Some m show ?thesis by auto
    next
      case True
      with q Some have o: "on_probe (run_verification (d_fr D) (d_health D) ask pk pid params plan hq) w = (Inr r, w1)" by simp
      obtain x st where rv: "run_verification (d_fr D) (d_health D) ask pk pid params plan hq (aprobe w) = (x, st)" by (rule prod.exhaust)
      with o have x: "x = Inr r" "w1 = w\<lparr>aprobe := st\<rparr>" by (auto simp: on_probe_def)
      from run_verification_ok_bool[OF rv[unfolded x(1)]] have "distinct (map fst r)" by auto
      with x(2) Some nf show ?thesis by simp
    qed
  qed
qed

text \<open>The row of an execution, and what the activity made of it\<close>

lemma verify_txn_row:
  assumes "verify_txn D payload plan result d = Inr d'" "to_uuid D (dget payload ''execution_id'') = Inr eid"
    "truthy (dget payload ''execution_id'')" "get_row execution_id eid (executions d) = Some row"
  shows "\<exists>row'. get_row execution_id eid (executions d') = Some row' \<and> verification_result row' = Some result \<and>
    re_status row' = (if truthy (dget result ''ok'') then ''succeeded'' else ''failed'') \<and> re_finished_at row' \<noteq> None"
proof -
  let ?ok = "truthy (dget result ''ok'')"
  have aud: "audit D a who iid det e = Inr e' \<Longrightarrow> executions e' = executions e" for a who iid det e e'
    by (auto simp: audit_def bind_res_Inr_iff dest!: write_audit_Inr split: if_splits)
  have upd: "update_investigation_status n u st rep sp cl e = Inr e' \<Longrightarrow> executions e' = executions e" for n u st rep sp cl e e'
    by (auto simp: update_investigation_status_def split: option.splits)
  have cnt: "count_success pid e = Inr e' \<Longrightarrow> executions e' = executions e" for pid e e'
    by (auto simp: count_success_def bind_res_Inr_iff split: option.splits)
  from assms(1) obtain d1 d2 where
    a: "audit D ''verification_run'' actor_system (dget payload ''investigation_id'')
        [(''plan'', plan), (''ok'', PBool ?ok), (''result'', PDict result)] d = Inr d1"
    and e: "(if truthy (dget payload ''execution_id'')
       then (case to_uuid D (dget payload ''execution_id'') of Inl _ \<Rightarrow> Inr d1
             | Inr eid \<Rightarrow> settle_execution (d_now D) eid ?ok result d1) else Inr d1) = Inr d2"
    and u: "(if ?ok then bind_res (bind_res (ditem payload ''investigation_id'') (to_uuid D)) (\<lambda>iid.
             update_investigation_status (d_now D) iid ''VERIFYING'' None None False d2) else Inr d2) = Inr d'"
    unfolding verify_txn_def Let_def bind_res_Inr_iff by (elim exE conjE) (rule that)
  from a have d1: "executions d1 = executions d" by (rule aud)
  from e assms(2,3) have d2: "settle_execution (d_now D) eid ?ok result d1 = Inr d2" by simp
  from u have d': "executions d' = executions d2" by (auto simp: bind_res_Inr_iff dest: upd split: if_splits)
  let ?f = "\<lambda>r. r\<lparr>verification_result := Some result, re_status := (if ?ok then ''succeeded'' else ''failed''), re_finished_at := Some (d_now D)\<rparr>"
  have "executions d2 = modify_row execution_id eid ?f (executions d)"
    using d2 assms(4) d1
    by (cases "re_playbook_id row") (auto simp: settle_execution_def Let_def dest: cnt split: list.splits if_splits)
  then have "get_row execution_id eid (executions d') = Some (?f row)"
    using d' assms(4) get_modify_row[of execution_id ?f eid eid "executions d"] by simp
  then show ?thesis by simp
qed

lemma verify_fix_Inr:
  assumes "verify_fix D payload w = (Inr v, w')"
  obtains pid params plan r w1 d where "verify_checks D payload pid params plan w = (Inr r, w1)"
    "verify_txn D payload plan r (adb w) = Inr d" "w' = w1\<lparr>adb := d\<rparr>" "reports_ok v = truthy (dget r ''ok'')"
proof -
  define plan where "plan = py_or (dget payload ''verification_plan'') (PList [])"
  note def = verify_fix_def[of D payload, unfolded Let_def, folded plan_def]
  from assms obtain pid params where "verify_subject payload = Inr (pid, params)"
    unfolding def by (auto simp: bind_io_Inr_iff)
  then have "bind_io (verify_checks D payload pid params plan) (\<lambda>r.
      bind_io (txn_unit (verify_txn D payload plan r)) (\<lambda>_. ret (verify_result plan r))) w = (Inr v, w')"
    using assms unfolding def by (simp add: bind_io_def)
  then obtain r w1 d where r: "verify_checks D payload pid params plan w = (Inr r, w1)"
    and d: "verify_txn D payload plan r (adb w1) = Inr d" "w' = w1\<lparr>adb := d\<rparr>" and v: "v = verify_result plan r"
    by (auto simp: bind_io_Inr_iff txn_unit_Inr)
  from verify_checks_shape[OF r] have sh: "distinct (map fst r)" "adb w1 = adb w" by auto
  have "reports_ok v = truthy (dget r ''ok'')"
    unfolding v reports_ok_def verify_result_def as_dict.simps by (simp add: dget_def map_of_dupdate[OF sh(1)] split: option.splits)
  with r d sh(2) show thesis by (intro that) simp_all
qed

text \<open>C12: a fix counts as verified only after real checks.  If \<open>verify_fix\<close> reports success, a
  probe client was configured, the failure was not forced, and the calls it made to the probe were at
  least one and were all answered with exit code 0; in every case the row of the execution it was given
  ends as \<open>succeeded\<close> or \<open>failed\<close>, in agreement with the report.\<close>

theorem verify_fix_fail_closed:
  assumes "verify_fix D payload w = (Inr v, w')"
  shows "(reports_ok v \<longrightarrow> d_probe D \<noteq> None \<and> \<not> truthy (dget payload ''force_fail'') \<and>
      (\<forall>ask. d_probe D = Some (recording ask) \<longrightarrow>
        (\<exists>new. snd (aprobe w') = snd (aprobe w) @ new \<and> new \<noteq> [] \<and> list_all zero_exit new))) \<and>
    (\<forall>eid row. truthy (dget payload ''execution_id'') \<and> to_uuid D (dget payload ''execution_id'') = Inr eid \<and>
      get_row execution_id eid (executions (adb w)) = Some row \<longrightarrow>
      (\<exists>row'. get_row execution_id eid (executions (adb w')) = Some row' \<and>
        re_status row' = (if reports_ok v then ''succeeded'' else ''failed'') \<and> re_finished_at row' \<noteq> None))"
proof -
  obtain pid params plan r w1 d where r: "verify_checks D payload pid params plan w = (Inr r, w1)"
    and d: "verify_txn D payload plan r (adb w) = Inr d" "w' = w1\<lparr>adb := d\<rparr>" and v: "reports_ok v = truthy (dget r ''ok'')"
    using verify_fix_Inr[OF assms] by blast
  note sh = verify_checks_shape[OF r]
  have calls: "\<exists>new. snd (aprobe w') = snd (aprobe w) @ new \<and> new \<noteq> [] \<and> list_all zero_exit new"
    if "reports_ok v" "d_probe D = Some (recording ask)" for ask
    using verify_checks_ok[OF r that(1)[unfolded v] that(2)] d(2) by auto
  have row: "\<exists>row'. get_row execution_id eid (executions (adb w')) = Some row' \<and>
        re_status row' = (if reports_ok v then ''succeeded'' else ''failed'') \<and> re_finished_at row' \<noteq> None"
    if "to_uuid D (dget payload ''execution_id'') = Inr eid" "truthy (dget payload ''execution_id'')"
      "get_row execution_id eid (executions (adb w)) = Some row" for eid row
    using verify_txn_row[OF d(1) that] d(2) v by auto
  from sh v calls row show ?thesis by blast
qed

definition demo_verify :: dict where
  "demo_verify = [(''investigation_id'', PStr (uuid_str 7)), (''platform_key'', PStr ''p1''),
     (''playbook_id'', PStr ''presto.kill_query''), (''params'', PDict [(''query_id'', PStr ''q9'')])]"

lemma demo_verify_checks:
  "fst (run_verification (\<lambda>_. []) True (recording (\<lambda>s c. (Inr ok_result, s))) (PStr ''p1'') (PStr ''presto.kill_query'')
     [(''query_id'', PStr ''q9'')] (PList []) PNone ((), [])) =
   Inr [(''ok'', PBool True), (''checks'', PList [
     PDict [(''name'', PStr ''query_absent''), (''ok'', PBool True), (''detail'', PStr ''query_id=q9 present=False'')],
     PDict [(''name'', PStr ''canary''), (''ok'', PBool True), (''detail'', PStr ''ok'')]])]"
  by code_simp

lemma demo_verify_fix: "\<exists>v w'. verify_fix demo_deps demo_verify demo_world = (Inr v, w') \<and> reports_ok v"
proof -
  let ?run = "run_verification (\<lambda>_. []) True (recording (\<lambda>s c. (Inr ok_result, s))) (PStr ''p1'') (PStr ''presto.kill_query'')
     [(''query_id'', PStr ''q9'')] (PList []) PNone ((), [])"
  obtain x st where run: "?run = (x, st)" by (rule prod.exhaust)
  with demo_verify_checks have x: "\<exists>cs. x = Inr [(''ok'', PBool True), (''checks'', cs)]" by simp
  have pay: "dget demo_verify ''force_fail'' = PNone" "dget demo_verify ''investigation_id'' = PStr (uuid_str 7)"
    "dget demo_verify ''execution_id'' = PNone" "dget demo_verify ''verification_plan'' = PNone"
    "ditem demo_verify ''investigation_id'' = Inr (PStr (uuid_str 7))"
    by (simp_all add: demo_verify_def ditem_def)
  have sub: "verify_subject demo_verify = Inr (PStr ''presto.kill_query'', [(''query_id'', PStr ''q9'')])"
    by (simp add: verify_subject_def demo_verify_def py_or_def dupdate_def dset_def)
  have wire: "verify_wiring demo_deps demo_verify demo_db = Inr (PStr ''p1'', PNone)"
    by (simp add: verify_wiring_def demo_verify_def platform_lookup_def demo_db_def empty_db_def get_platform_def get_row_def py_or_def)
  have tx: "\<exists>d'. update_investigation_status n 7 ''VERIFYING'' None None False (demo_db\<lparr>audits := rows\<rparr>) = Inr d'" for n rows
    by (simp add: update_investigation_status_def latest_investigation_def demo_db_def demo_inv_def empty_db_def)
  have dep: "d_probe demo_deps = Some (recording (\<lambda>s c. (Inr ok_result, s)))" "d_fr demo_deps = (\<lambda>_. [])" "d_health demo_deps"
    by (simp_all add: demo_deps_def)
  from x obtain cs where x: "x = Inr [(''ok'', PBool True), (''checks'', cs)]" by blast
  have chk: "verify_checks demo_deps demo_verify (PStr ''presto.kill_query'') [(''query_id'', PStr ''q9'')] (PList []) demo_world =
      (Inr [(''ok'', PBool True), (''checks'', cs)], demo_world\<lparr>aprobe := st\<rparr>)"
    using run unfolding x
    by (simp add: verify_checks_def pay query_def bind_io_def demo_world_def wire dep on_probe_def)
  have "\<exists>d'. verify_txn demo_deps demo_verify (PList []) [(''ok'', PBool True), (''checks'', cs)] demo_db = Inr d'"
    using tx by (simp add: verify_txn_def pay demo_execution_uuid audit_def audit_uuid_def AUDIT_ACTIONS_def write_audit_def)
  then show ?thesis
    using chk by (auto simp: verify_fix_def Let_def sub pay py_or_def bind_io_def txn_unit_def txn_def demo_world_def
        verify_result_def dupdate_def dset_def reports_ok_def)
qed

theorem verify_fix_fail_closed_witness:
  "\<exists>v w'. verify_fix demo_deps demo_verify demo_world = (Inr v, w') \<and> reports_ok v \<and>
     (\<exists>new. snd (aprobe w') = snd (aprobe demo_world) @ new \<and> new \<noteq> [] \<and> list_all zero_exit new)"
proof -
  obtain v w' where e: "verify_fix demo_deps demo_verify demo_world = (Inr v, w')" "reports_ok v"
    using demo_verify_fix by (elim exE conjE)
  have "d_probe demo_deps = Some (recording (\<lambda>s c. (Inr ok_result, s)))" by (simp add: demo_deps_def)
  with verify_fix_fail_closed[OF e(1)] e show ?thesis by blast
qed

section \<open>Opening and closing\<close>

lemma latest_by_map: "(\<And>x. key (g x) = key x) \<Longrightarrow> latest_by key (map g xs) = map_option g (latest_by key xs)"
  by (induction xs) (auto split: option.splits)

lemma latest_modified:
  assumes "latest_investigation d iid = Some i" "\<And>r. inv_key (f r) = inv_key r"
  shows "latest_investigation (d\<lparr>investigations := modify_row inv_key (inv_key i) f (investigations d)\<rparr>) iid = Some (f i)"
proof -
  let ?g = "\<lambda>r. if inv_key r = inv_key i then f r else r"
  have k: "investigation_id (?g r) = investigation_id r" "inv_created_at (?g r) = inv_created_at r" for r
    using assms(2)[of r] by (auto simp: inv_key_def)
  have "filter (\<lambda>r. investigation_id r = iid) (map ?g rows) = map ?g (filter (\<lambda>r. investigation_id r = iid) rows)" for rows
    using k by (simp add: filter_map comp_def)
  then show ?thesis
    using assms(1) latest_by_map[of inv_created_at ?g, OF k(2)]
    by (simp add: latest_investigation_def modify_row_def)
qed

lemma close_txn_Inr:
  assumes "close_txn D iid st report det d = Inr d'"
  shows "\<exists>i rows. latest_investigation d' iid = Some i \<and> status i = st \<and> closed_at i = Some (d_now D) \<and>
     audits d' = audits d @ rows \<and> map action rows = [''case_closed''] \<and> map detail rows = [Some det]"
proof -
  from assms obtain i where i: "latest_investigation d iid = Some i"
    and w: "write_audit (d_now D) ''case_closed'' actor_system (Some iid) (Some det)
      (d\<lparr>investigations := modify_row inv_key (inv_key i) (set_status (d_now D) st (json_col report) None True) (investigations d)\<rparr>) = Inr d'"
    by (auto simp: close_txn_def bind_res_Inr_iff update_investigation_status_def split: option.splits)
  have "latest_investigation (d\<lparr>investigations := modify_row inv_key (inv_key i) (set_status (d_now D) st (json_col report) None True)
      (investigations d)\<rparr>) iid = Some (set_status (d_now D) st (json_col report) None True i)"
    by (rule latest_modified[OF i]) (simp add: inv_key_def set_status_def)
  with write_audit_Inr[OF w] show ?thesis by (auto simp: latest_investigation_def set_status_def)
qed

definition closers :: "'s deps \<Rightarrow> dict \<Rightarrow> (('s, pyval) act \<times> string) list" where
  "closers D payload = [(close_with_summary D payload, ''CLOSED_SUMMARY''), (close_resolved D payload, ''RESOLVED''),
     (to_needs_human D payload, ''NEEDS_HUMAN''), (reject_case D payload, ''REJECTED'')]"

lemma closing_shape:
  "bind_io (lift_io m) (\<lambda>iid. bind_io (txn_unit (f iid)) (\<lambda>_. ret r)) w = (Inr v, w') \<Longrightarrow>
   \<exists>iid. m = Inr iid \<and> f iid (adb w) = Inr (adb w') \<and> v = r"
  by (auto simp: bind_io_Inr_iff txn_unit_Inr)

lemma closing_raises:
  "bind_io (lift_io m) (\<lambda>iid. bind_io (txn_unit (f iid)) (\<lambda>_. ret r)) w = (Inl e, w') \<Longrightarrow> w' = w"
  by (auto simp: bind_io_def txn_unit_def txn_def split: sum.splits prod.splits)

lemma closers_Inr:
  assumes "(a, st) \<in> set (closers D payload)" "a w = (Inr v, w')"
  shows "\<exists>iid report det d. bind_res (ditem payload ''investigation_id'') (to_uuid D) = Inr iid \<and>
    close_txn D iid st report det d = Inr (adb w') \<and> dget (as_dict v) ''status'' = PStr st \<and>
    db_evolves (adb w) d"
proof -
  note shape = closing_shape[of "bind_res (ditem payload ''investigation_id'') (to_uuid D)" _ _ w v w']
  from assms(1) consider "a = close_with_summary D payload" "st = ''CLOSED_SUMMARY''" | "a = close_resolved D payload" "st = ''RESOLVED''"
    | "a = to_needs_human D payload" "st = ''NEEDS_HUMAN''" | "a = reject_case D payload" "st = ''REJECTED''"
    by (auto simp: closers_def)
  then show ?thesis
  proof cases
    case 1
    from shape[OF assms(2)[unfolded 1(1) close_with_summary_def]] 1(2) show ?thesis
      using evolution.R_refl by fastforce
  next
    case 2
    from shape[OF assms(2)[unfolded 2(1) close_resolved_def]] 2(2) show ?thesis
      using evolution.R_refl by fastforce
  next
    case 3
    from shape[OF assms(2)[unfolded 3(1) to_needs_human_def Let_def]] 3(2) obtain iid d where
      "bind_res (ditem payload ''investigation_id'') (to_uuid D) = Inr iid"
      "(if py_or (dget payload ''reason'') (PStr ''unknown'') \<in> set BUDGET_REASONS
        then write_audit (d_now D) ''budget_exceeded'' actor_system (Some iid) (Some [(''reason'', py_or (dget payload ''reason'') (PStr ''unknown''))]) (adb w)
        else Inr (adb w)) = Inr d"
      "close_txn D iid st (dget payload ''rca_report'') [(''status'', PStr ''NEEDS_HUMAN''),
         (''reason'', py_or (dget payload ''reason'') (PStr ''unknown''))] d = Inr (adb w')" "dget (as_dict v) ''status'' = PStr st"
      unfolding bind_res_Inr_iff[of "if _ then _ else _"] by (elim exE conjE) simp
    then show ?thesis by (intro exI conjI) (auto intro: evolution.R_refl write_audit_evolves split: if_splits)
  next
    case 4
    from shape[OF assms(2)[unfolded 4(1) reject_case_def]] 4(2) show ?thesis
      using evolution.R_refl by fastforce
  qed
qed

text \<open>closing closes.  When one of the four closing activities returns, the case of the payload has
  the status the activity stands for, which is terminal, and a closing time, the answer names that status,
  and the audit log has grown by an entry for the closing; when it raises, the database is as before.\<close>

theorem closing_closes:
  assumes "(a, st) \<in> set (closers D payload)" "a w = (x, w')"
  shows "case x of
      Inr v \<Rightarrow> st \<in> set TERMINAL_STATUSES \<and> dget (as_dict v) ''status'' = PStr st \<and>
        (\<exists>iid i rows e. bind_res (ditem payload ''investigation_id'') (to_uuid D) = Inr iid \<and>
           latest_investigation (adb w') iid = Some i \<and> status i = st \<and> closed_at i = Some (d_now D) \<and>
           audits (adb w') = audits (adb w) @ rows @ [e] \<and> action e = ''case_closed'')
    | Inl _ \<Rightarrow> adb w' = adb w"
proof (cases x)
  case (Inl e)
  have "w' = w"
    using assms(1) assms(2)[unfolded Inl]
    by (auto simp: closers_def close_with_summary_def close_resolved_def to_needs_human_def reject_case_def Let_def
        dest: closing_raises)
  with Inl show ?thesis by simp
next
  case (Inr v)
  from closers_Inr[OF assms(1)] assms(2) Inr obtain iid report det d where
    c: "bind_res (ditem payload ''investigation_id'') (to_uuid D) = Inr iid" "close_txn D iid st report det d = Inr (adb w')"
      "dget (as_dict v) ''status'' = PStr st" "db_evolves (adb w) d" by blast
  from close_txn_Inr[OF c(2)] obtain i rows where
    i: "latest_investigation (adb w') iid = Some i" "status i = st" "closed_at i = Some (d_now D)"
      "audits (adb w') = audits d @ rows" "map action rows = [''case_closed'']"
    by (elim exE conjE) (rule that)
  from i(5) obtain e where "rows = [e]" "action e = ''case_closed''" by auto
  moreover from c(4) obtain more where "audits d = audits (adb w) @ more" by (auto simp: db_evolves_def)
  moreover have "st \<in> set TERMINAL_STATUSES" using assms(1) by (auto simp: closers_def TERMINAL_STATUSES_def)
  ultimately show ?thesis using c i Inr by auto
qed

lemma demo_close: "\<exists>v w'. to_needs_human demo_deps [(''investigation_id'', PStr (uuid_str 7))] demo_world = (Inr v, w')"
  by (simp add: to_needs_human_def Let_def ditem_def demo_execution_uuid py_or_def BUDGET_REASONS_def bind_io_def txn_unit_def txn_def
      close_txn_def update_investigation_status_def latest_investigation_def demo_world_def demo_db_def demo_inv_def empty_db_def
      write_audit_def AUDIT_ACTIONS_def)

theorem closing_closes_witness:
  "\<exists>v w'. to_needs_human demo_deps [(''investigation_id'', PStr (uuid_str 7))] demo_world = (Inr v, w') \<and>
     dget (as_dict v) ''status'' = PStr ''NEEDS_HUMAN''"
proof -
  let ?p = "[(''investigation_id'', PStr (uuid_str 7))]"
  obtain v w' where e: "to_needs_human demo_deps ?p demo_world = (Inr v, w')" using demo_close by blast
  have "(to_needs_human demo_deps ?p, ''NEEDS_HUMAN'') \<in> set (closers demo_deps ?p)" by (simp add: closers_def)
  from closing_closes[OF this e] e show ?thesis by auto
qed

lemma latest_appended:
  "filter (\<lambda>r. investigation_id r = iid) rows = [] \<Longrightarrow> investigation_id i = iid \<Longrightarrow>
   latest_by inv_created_at (filter (\<lambda>r. investigation_id r = iid) (rows @ [i])) = Some i"
  by simp

lemma latest_by_None_iff: "latest_by key xs = None \<longleftrightarrow> xs = []"
  by (cases xs) (auto split: option.splits)

lemma open_case_Inr:
  assumes "open_case_from_event fr now iid eid event wid bud d = Inr d'" "latest_investigation d iid = None"
  shows "\<exists>i. latest_investigation d' iid = Some i \<and> status i = ''OPEN'' \<and> budget i = bud"
proof -
  from assms(1) obtain pk te d1 where "create_investigation now iid pk ''OPEN'' te wid bud None d = Inr d1"
    "write_audit now ''case_opened'' actor_system (Some iid) (Some [(''platform_key'', PStr pk), (''workflow_id'', PStr wid)]) d1 = Inr d'"
    by (auto simp: open_case_from_event_def bind_res_Inr_iff)
  then obtain i where "investigations d' = investigations d @ [i]" "investigation_id i = iid" "status i = ''OPEN''" "budget i = bud"
    by (auto simp: create_investigation_def bind_res_Inr_iff add_row_Inr_iff split: if_splits dest!: write_audit_Inr)
  moreover from assms(2) have "filter (\<lambda>r. investigation_id r = iid) (investigations d) = []"
    by (simp add: latest_investigation_def latest_by_None_iff)
  ultimately show ?thesis using latest_appended[of iid "investigations d" i] by (auto simp: latest_investigation_def)
qed

lemma create_case_txn_Inr:
  assumes "create_case_txn D cfg event iid wid spare d = Inr ((plat, bud), d')"
  shows "\<exists>pk i. py_item event ''platform_key'' = Inr pk \<and> platform_lookup pk d = Inr plat \<and>
    latest_investigation d' iid = Some i \<and> status i = ''OPEN'' \<and> budget i = bud"
proof -
  from assms obtain pk where pk: "py_item event ''platform_key'' = Inr pk" "platform_lookup pk d = Inr plat"
    and w: "(case latest_investigation d iid of
      Some i \<Rightarrow> write_audit (d_now D) ''case_opened'' actor_system (Some iid) (Some [(''platform_key'', pk), (''workflow_id'', wid)])
         (d\<lparr>investigations := modify_row inv_key (inv_key i) (\<lambda>r. r\<lparr>status := ''OPEN'', budget := bud\<rparr>) (investigations d)\<rparr>)
    | None \<Rightarrow> bind_res (text_arg wid) (\<lambda>wtext.
         open_case_from_event (d_fr D) (d_now D) iid spare (as_dict event) wtext bud d)) = Inr d'"
    unfolding create_case_txn_def bind_res_Inr_iff by auto
  have "\<exists>i. latest_investigation d' iid = Some i \<and> status i = ''OPEN'' \<and> budget i = bud"
  proof (cases "latest_investigation d iid")
    case None
    with w show ?thesis by (auto simp: bind_res_Inr_iff dest: open_case_Inr)
  next
    case (Some i)
    let ?f = "\<lambda>r. r\<lparr>status := ''OPEN'', budget := bud\<rparr>"
    have "latest_investigation (d\<lparr>investigations := modify_row inv_key (inv_key i) ?f (investigations d)\<rparr>) iid = Some (?f i)"
      by (rule latest_modified[OF Some]) (simp add: inv_key_def)
    with w Some show ?thesis by (auto simp: latest_investigation_def dest!: write_audit_Inr)
  qed
  with pk show ?thesis by blast
qed

lemma create_case_Inr:
  assumes "create_case D cfg payload w = (Inr v, w')"
  obtains event iid w1 wid spare plat bud w2 remediation where
    "ditem payload ''event'' = Inr event" "adb w1 = adb w"
    "txn (create_case_txn D cfg event iid wid spare) w1 = (Inr (plat, bud), w2)"
    "v = case_result cfg iid (dget (as_dict event) ''platform_key'') plat bud remediation" "w' = w2"
proof -
  from assms obtain event where ev: "ditem payload ''event'' = Inr event" by (auto simp: create_case_def bind_io_Inr_iff)
  let ?iid = "if truthy (dget payload ''investigation_id'') then lift_io (to_uuid D (dget payload ''investigation_id'')) else fresh_uuid D"
  from assms ev obtain iid w0 where i: "?iid w = (Inr iid, w0)" by (auto simp: create_case_def bind_io_Inr_iff)
  then have w0: "adb w0 = adb w" by (auto simp: fresh_uuid_def split: if_splits)
  define wid where "wid = py_or (dget payload ''workflow_id'') (PStr (''investigation-'' @ uuid_str iid))"
  define w1 where "w1 = w0\<lparr>drawn := drawn w0 + 1\<rparr>"
  define rem where "rem plat = (case plat of None \<Rightarrow> Inr []
     | Some p \<Rightarrow> if p_config p = [] then Inr [] else py_update [] (py_or (dget (p_config p) ''remediation'') (PDict [])))"
    for plat :: "platform option"
  have "create_case D cfg payload w =
      bind_io (txn (create_case_txn D cfg event iid wid (d_uuid4 D (drawn w0)))) (\<lambda>(plat, bud).
        bind_io (lift_io (rem plat)) (\<lambda>r. ret (case_result cfg iid (dget (as_dict event) ''platform_key'') plat bud r))) w1"
    unfolding create_case_def rem_def wid_def w1_def by (simp add: bind_io_def ev i fresh_uuid_def Let_def)
  with assms obtain plat bud w2 r where
    "txn (create_case_txn D cfg event iid wid (d_uuid4 D (drawn w0))) w1 = (Inr (plat, bud), w2)"
    "v = case_result cfg iid (dget (as_dict event) ''platform_key'') plat bud r" "w' = w2"
    by (auto simp: bind_io_Inr_iff)
  moreover have "adb w1 = adb w" using w0 by (simp add: w1_def)
  ultimately show thesis using ev that by blast
qed

text \<open>opening opens.  When \<open>create_case\<close> returns, the case it names is stored as \<open>OPEN\<close> with the
  budget it reports, and it reports a rejection exactly when the platform of the event is registered with
  a status other than online.\<close>

theorem create_case_opens:
  assumes "create_case D cfg payload w = (Inr v, w')"
  shows "\<exists>iid i event pk plat. dget (as_dict v) ''investigation_id'' = PStr (uuid_str iid) \<and>
    latest_investigation (adb w') iid = Some i \<and> status i = ''OPEN'' \<and> dget (as_dict v) ''budget'' = PDict (budget i) \<and>
    dget payload ''event'' = event \<and> py_item event ''platform_key'' = Inr pk \<and> platform_lookup pk (adb w) = Inr plat \<and>
    truthy (dget (as_dict v) ''rejected'') = (\<exists>p. plat = Some p \<and> str_lower (p_status p) \<notin> {[], ''online''})"
proof -
  from assms obtain event iid w1 wid spare plat bud w2 remediation where
    ev: "ditem payload ''event'' = Inr event"
    and w1: "adb w1 = adb w" and t: "txn (create_case_txn D cfg event iid wid spare) w1 = (Inr (plat, bud), w2)"
    and v: "v = case_result cfg iid (dget (as_dict event) ''platform_key'') plat bud remediation" "w' = w2"
    by (rule create_case_Inr)
  from t w1 have t: "create_case_txn D cfg event iid wid spare (adb w) = Inr ((plat, bud), adb w2)"
    by (auto simp: txn_Inr)
  from create_case_txn_Inr[OF this] obtain pk i where
    "py_item event ''platform_key'' = Inr pk" "platform_lookup pk (adb w) = Inr plat"
    "latest_investigation (adb w2) iid = Some i" "status i = ''OPEN''" "budget i = bud" by blast
  moreover have "dget payload ''event'' = event" using ev by (auto simp: ditem_def dget_def lift_opt_Inr_iff)
  moreover have "dget (as_dict v) ''investigation_id'' = PStr (uuid_str iid)" "dget (as_dict v) ''budget'' = PDict bud"
    "truthy (dget (as_dict v) ''rejected'') = platform_rejects plat"
    unfolding v case_result_def by simp_all
  ultimately show ?thesis using v(2)
    by (intro exI conjI) (auto simp: platform_rejects_def Let_def split: option.splits)
qed

definition demo_opening :: dict where
  "demo_opening = [(''event'', PDict [(''platform_key'', PStr ''p1'')]), (''investigation_id'', PStr (uuid_str 7))]"

lemma demo_create: "\<exists>v w'. create_case demo_deps None demo_opening demo_world = (Inr v, w')"
proof -
  have "\<exists>p bud d'. create_case_txn demo_deps None (PDict [(''platform_key'', PStr ''p1'')]) 7 wid spare demo_db = Inr ((Some p, bud), d') \<and>
      p_config p = [(''correlation_window_seconds'', PStr ''60'')]" for wid spare
    by (simp add: create_case_txn_def ditem_def platform_lookup_def get_platform_def demo_db_def empty_db_def get_row_def
        merge_platform_budget_def py_or_def BUDGET_KEYS_def has_key_def latest_investigation_def demo_inv_def write_audit_def
        AUDIT_ACTIONS_def)
  then obtain p bud d' where t: "create_case_txn demo_deps None (PDict [(''platform_key'', PStr ''p1'')]) 7
      (PStr (''investigation-'' @ uuid_str 7)) 40 demo_db = Inr ((Some p, bud), d')" "p_config p = [(''correlation_window_seconds'', PStr ''60'')]"
    by blast
  have "d_uuid4 demo_deps 0 = 40" by (simp add: demo_deps_def)
  with t show ?thesis
    by (simp add: create_case_def demo_opening_def ditem_def bind_io_def demo_execution_uuid py_or_def fresh_uuid_def txn_def
        demo_world_def Let_def)
qed

theorem create_case_opens_witness:
  "\<exists>v w' iid i. create_case demo_deps None demo_opening demo_world = (Inr v, w') \<and>
     dget (as_dict v) ''investigation_id'' = PStr (uuid_str iid) \<and>
     latest_investigation (adb w') iid = Some i \<and> status i = ''OPEN''"
proof -
  obtain v w' where e: "create_case demo_deps None demo_opening demo_world = (Inr v, w')" using demo_create by blast
  from create_case_opens[OF e] obtain iid i where "dget (as_dict v) ''investigation_id'' = PStr (uuid_str iid)"
    "latest_investigation (adb w') iid = Some i" "status i = ''OPEN''" by (elim exE conjE) (rule that)
  with e show ?thesis by (intro exI conjI)
qed

section \<open>Decisions\<close>

text \<open>The effect of the decision activity on an approval that exists\<close>

lemma write_decision_row:
  assumes "ditem payload ''approval_id'' = Inr (PStr t)" "uuid_parse t = Some aid"
    "get_row approval_id aid (approvals d) = Some row" "write_decision D payload d = Inr (b, d1)"
  shows "if decision row = None
    then \<not> b \<and> audits d1 = audits d \<and> (\<exists>dec row'. py_or (dget payload ''decision'') (PStr ''denied'') = PStr dec \<and>
      get_row approval_id aid (approvals d1) = Some row' \<and> decision row' = Some dec)
    else b \<and> d1 = d"
proof (cases "decision row")
  case None
  with assms obtain dec where dec: "text_arg (py_or (dget payload ''decision'') (PStr ''denied'')) = Inr dec"
    and d1: "\<not> b" "d1 = d\<lparr>approvals := modify_row approval_id aid (\<lambda>r. r\<lparr>decision := Some (as_str (py_or (dget payload ''decision'') (PStr ''denied''))),
        decided_by := None, ap_comment := (case dget payload ''comment'' of PStr c \<Rightarrow> Some c | _ \<Rightarrow> None), decided_at := Some (d_now D)\<rparr>) (approvals d)\<rparr>"
    by (auto simp: write_decision_def Let_def py_str_def decide_approval_def UUID_def bind_res_Inr_iff)
  from dec have p: "py_or (dget payload ''decision'') (PStr ''denied'') = PStr dec"
    by (auto simp: text_arg_def split: pyval.splits)
  then show ?thesis using None d1 assms(3) by (auto simp: get_modify_row)
next
  case (Some x)
  with assms show ?thesis
    by (auto simp: write_decision_def Let_def py_str_def decide_approval_def UUID_def bind_res_Inr_iff)
qed

lemma audit_entry:
  assumes "audit D a who iid det d = Inr d'"
  shows "approvals d' = approvals d \<and> (\<exists>x. audits d' = audits d @ [x] \<and> action x = a \<and> actor x = who \<and> detail x = Some det)"
  using assms by (auto simp: audit_def bind_res_Inr_iff split: if_splits dest!: write_audit_Inr)

lemma decision_logged:
  assumes "record_approval_decision D payload w = (Inr u, w')" "write_decision D payload (adb w) = Inr (b, d1)"
    "\<not> (b \<and> \<not> truthy (dget payload ''is_timeout''))"
  shows "approvals (adb w') = approvals d1 \<and> (\<exists>e rest. audits (adb w') = audits d1 @ e # rest \<and>
    action e = ''approval_decided'' \<and> actor e = actor_system \<and>
    (\<exists>det. detail e = Some det \<and> dget det ''decision'' = dget payload ''decision''))"
proof -
  from assms obtain d2 where
    d2: "audit D ''approval_decided'' actor_system (dget payload ''investigation_id'')
           [(''approval_id'', dget payload ''approval_id''), (''decision'', dget payload ''decision''),
            (''comment'', dget payload ''comment''), (''kind'', dget payload ''kind'')] d1 = Inr d2"
    and rest: "(case decision_action payload of None \<Rightarrow> Inr d2
         | Some a \<Rightarrow> audit D a actor_system (dget payload ''investigation_id'') [(''approval_id'', dget payload ''approval_id'')] d2) = Inr (adb w')"
    by (auto simp: record_approval_decision_def txn_unit_Inr record_approval_decision_txn_def bind_res_Inr_iff)
  from audit_entry[OF d2] obtain x where "approvals d2 = approvals d1" "audits d2 = audits d1 @ [x]"
    "action x = ''approval_decided''" "actor x = actor_system" "\<exists>det. detail x = Some det \<and> dget det ''decision'' = dget payload ''decision''"
    by auto
  moreover from rest have "approvals (adb w') = approvals d2 \<and> (\<exists>more. audits (adb w') = audits d2 @ more)"
    by (cases "decision_action payload") (auto dest!: audit_entry)
  ultimately show ?thesis by auto
qed

lemma record_decision_writes:
  assumes "record_approval_decision D payload w = (Inr u, w')"
  obtains b d1 where "write_decision D payload (adb w) = Inr (b, d1)"
    "b \<and> \<not> truthy (dget payload ''is_timeout'') \<Longrightarrow> adb w' = d1"
  using assms by (auto simp: record_approval_decision_def txn_unit_Inr record_approval_decision_txn_def bind_res_Inr_iff
      split: if_splits)

text \<open>a decision is recorded once.  For an approval that exists, outside the timeout path, the
  activity changes nothing at all if the approval is decided; if it is not, the approval is decided as the
  payload says (denied when it says nothing) and the log gains an entry of the system for it.\<close>

theorem decision_recorded_once:
  assumes "ditem payload ''approval_id'' = Inr (PStr t)" "uuid_parse t = Some aid"
    "get_row approval_id aid (approvals (adb w)) = Some row" "\<not> truthy (dget payload ''is_timeout'')"
    "record_approval_decision D payload w = (Inr u, w')"
  shows "if decision row \<noteq> None then adb w' = adb w
    else (\<exists>dec row' e rest. py_or (dget payload ''decision'') (PStr ''denied'') = PStr dec \<and>
      get_row approval_id aid (approvals (adb w')) = Some row' \<and> decision row' = Some dec \<and>
      audits (adb w') = audits (adb w) @ e # rest \<and> action e = ''approval_decided'' \<and> actor e = actor_system)"
proof -
  obtain b d1 where wd: "write_decision D payload (adb w) = Inr (b, d1)" and d1: "b \<Longrightarrow> adb w' = d1"
    using record_decision_writes[OF assms(5)] assms(4) by blast
  note row = write_decision_row[OF assms(1,2,3) wd]
  show ?thesis
  proof (cases "decision row = None")
    case False
    with row d1 show ?thesis by simp
  next
    case True
    with row have "\<not> b" by simp
    with decision_logged[OF assms(5) wd] row True show ?thesis by auto
  qed
qed

definition demo_approval_world :: "string option \<Rightarrow> (unit \<times> trace) world" where
  "demo_approval_world dec = demo_world\<lparr>adb := empty_db\<lparr>approvals := [\<lparr>approval_id = 9, ap_investigation_id = 7,
     ap_kind = ''remediation'', ap_subject = [], decision = dec, decided_by = None, decided_at = None, ap_comment = None,
     ap_created_at = 0\<rparr>]\<rparr>\<rparr>"

lemma demo_decision:
  "\<exists>w'. record_approval_decision demo_deps [(''approval_id'', PStr (uuid_str 9)), (''decision'', PStr ''denied''), (''is_timeout'', PBool b)]
     (demo_approval_world dec) = (Inr (), w')"
  using uuid_parse_uuid_str[of 9]
  by (simp add: record_approval_decision_def txn_unit_def txn_def record_approval_decision_txn_def write_decision_def Let_def
      ditem_def py_str_def decide_approval_def UUID_def demo_approval_world_def get_row_def py_or_def text_arg_def opt_text_def
      audit_def audit_uuid_def write_audit_def AUDIT_ACTIONS_def decision_action_def)

theorem decision_recorded_once_witness:
  "\<exists>w' row'. record_approval_decision demo_deps [(''approval_id'', PStr (uuid_str 9)), (''decision'', PStr ''denied''), (''is_timeout'', PBool False)]
     (demo_approval_world None) = (Inr (), w') \<and>
     get_row approval_id 9 (approvals (adb w')) = Some row' \<and> decision row' = Some ''denied''"
proof -
  let ?p = "[(''approval_id'', PStr (uuid_str 9)), (''decision'', PStr ''denied''), (''is_timeout'', PBool False)]"
  obtain w' where e: "record_approval_decision demo_deps ?p (demo_approval_world None) = (Inr (), w')" using demo_decision by blast
  have "ditem ?p ''approval_id'' = Inr (PStr (uuid_str 9))" "uuid_parse (uuid_str 9) = Some 9" "\<not> truthy (dget ?p ''is_timeout'')"
    "\<exists>row. get_row approval_id 9 (approvals (adb (demo_approval_world None))) = Some row \<and> decision row = None"
    using uuid_parse_uuid_str[of 9] by (simp_all add: ditem_def demo_approval_world_def get_row_def)
  with decision_recorded_once[OF _ _ _ _ e] e show ?thesis by (fastforce simp: py_or_def)
qed

text \<open>a timeout that loses the race is logged as if it had won.  If the approval is already decided
  when the timeout path records its decision, the stored decision stays, and the log nevertheless gains an
  entry of the system with the decision of the timeout.\<close>

theorem timeout_logged_against_decision:
  assumes "ditem payload ''approval_id'' = Inr (PStr t)" "uuid_parse t = Some aid"
    "get_row approval_id aid (approvals (adb w)) = Some row" "decision row = Some x" "truthy (dget payload ''is_timeout'')"
    "record_approval_decision D payload w = (Inr u, w')"
  shows "get_row approval_id aid (approvals (adb w')) = Some row \<and>
    (\<exists>e rest det. audits (adb w') = audits (adb w) @ e # rest \<and> action e = ''approval_decided'' \<and> actor e = actor_system \<and>
       detail e = Some det \<and> dget det ''decision'' = dget payload ''decision'')"
proof -
  obtain b d1 where wd: "write_decision D payload (adb w) = Inr (b, d1)"
    using record_decision_writes[OF assms(6)] by blast
  with write_decision_row[OF assms(1,2,3) wd] assms(4) have "d1 = adb w" by simp
  with decision_logged[OF assms(6) wd] assms(3,5) show ?thesis by auto
qed

theorem timeout_logged_against_decision_witness:
  "\<exists>w' row e det. record_approval_decision demo_deps [(''approval_id'', PStr (uuid_str 9)), (''decision'', PStr ''denied''), (''is_timeout'', PBool True)]
     (demo_approval_world (Some ''approved'')) = (Inr (), w') \<and>
     get_row approval_id 9 (approvals (adb w')) = Some row \<and> decision row = Some ''approved'' \<and>
     e \<in> set (audits (adb w')) \<and> detail e = Some det \<and> dget det ''decision'' = PStr ''denied''"
proof -
  let ?p = "[(''approval_id'', PStr (uuid_str 9)), (''decision'', PStr ''denied''), (''is_timeout'', PBool True)]"
  let ?w = "demo_approval_world (Some ''approved'')"
  obtain w' where e: "record_approval_decision demo_deps ?p ?w = (Inr (), w')" using demo_decision by blast
  have p: "ditem ?p ''approval_id'' = Inr (PStr (uuid_str 9))" "uuid_parse (uuid_str 9) = Some 9" "truthy (dget ?p ''is_timeout'')"
    using uuid_parse_uuid_str[of 9] by (simp_all add: ditem_def)
  obtain row where r: "get_row approval_id 9 (approvals (adb ?w)) = Some row" "decision row = Some ''approved''"
    by (simp add: demo_approval_world_def get_row_def)
  have "dget ?p ''decision'' = PStr ''denied''" by simp
  with timeout_logged_against_decision[OF p(1,2) r p(3) e] e r(2) show ?thesis by fastforce
qed

end
