(* ===== verification/Prompting.thy ===== *)
theory Prompting
  imports Json Repo
begin

text \<open>
  What the agents' prompts are made of: template rendering (\<open>worker/agents/templates.py\<close>), the context
  of the root-cause analysis (\<open>worker/context_assembly.py\<close>) and the tools that run without a probe
  (\<open>worker/control_tools.py\<close>).  Decoding of bytes with replacement characters is the parameter \<open>dec\<close>,
  because its results need characters the model does not have.
\<close>

section \<open>Templates\<close>

text \<open>\<open>s.index(p)\<close>\<close>

fun find_sub :: "string \<Rightarrow> string \<Rightarrow> nat option" where
  "find_sub p [] = (if p = [] then Some 0 else None)"
| "find_sub p (c # s) = (if starts_with p (c # s) then Some 0 else map_option Suc (find_sub p s))"

lemma find_sub_Some: "find_sub p s = Some n \<Longrightarrow> starts_with p (drop n s) \<and> n + length p \<le> length s"
proof (induction s arbitrary: n)
  case (Cons c s)
  then show ?case
    by (auto simp: starts_with_def split: if_splits) (metis length_Cons length_take min.absorb_iff2 nle_le)
qed (auto simp: starts_with_def split: if_splits)

lemma find_sub_None: "find_sub p s = None \<longleftrightarrow> \<not> contains p s"
  by (induction s) auto

definition open_mark :: string where "open_mark = ''{{''"
definition close_mark :: string where "close_mark = ''}}''"

function strip_placeholders :: "string \<Rightarrow> string res" where
  "strip_placeholders out =
     (case find_sub open_mark out of
        None \<Rightarrow> Inr out
      | Some start \<Rightarrow>
          if find_sub close_mark out = None then Inr out
          else (case find_sub close_mark (drop start out) of
             None \<Rightarrow> Inl (ValueError ''substring not found'')
           | Some k \<Rightarrow> strip_placeholders (take start out @ drop (start + k + 2) out)))"
  by pat_completeness auto
termination
  by (relation "measure length") (auto simp: open_mark_def dest!: find_sub_Some)

declare strip_placeholders.simps [simp del]

fun substitute :: "(rat \<Rightarrow> string) \<Rightarrow> string \<Rightarrow> dict \<Rightarrow> string" where
  "substitute fr out [] = out"
| "substitute fr out ((k, v) # vs) =
     substitute fr (str_replace (open_mark @ k @ close_mark) (if v = PNone then [] else py_str fr v) out) vs"

definition render :: "(rat \<Rightarrow> string) \<Rightarrow> string \<Rightarrow> dict \<Rightarrow> string res" where
  "render fr template variables = strip_placeholders (substitute fr template variables)"

section \<open>The context of the analysis\<close>

definition compact_report :: "pyval \<Rightarrow> pyval res" where
  "compact_report report =
     bind_res (py_get report ''status'') (\<lambda>_.
       let r = as_dict report in
       Inr (PDict (map (\<lambda>k. (k, dget r k)) [''status'', ''confidence'', ''root_cause'', ''rca_compact'', ''missing_info''])))"

definition format_approver_feedback :: "(rat \<Rightarrow> string) \<Rightarrow> pyval \<Rightarrow> string res" where
  "format_approver_feedback fr feedback =
     bind_res (py_iter (py_or feedback (PList []))) (\<lambda>xs.
       let items = filter (\<lambda>s. s \<noteq> []) (map (\<lambda>x. str_strip (py_str fr x)) xs) in
       Inr (if items = [] then []
            else str_join [CHR 0x0A] (''Approver feedback from prior rounds:'' # map (\<lambda>i. ''- '' @ i) items)))"

definition evidence_summary :: "dict \<Rightarrow> pyval" where
  "evidence_summary ev =
     PDict [(''evidence_id'', dget ev ''evidence_id''), (''tool_name'', dget ev ''tool_name''),
            (''round'', dget ev ''round''), (''summary'', py_or (dget ev ''summary'') (PStr []))]"

definition evidence_full :: "dict \<Rightarrow> pyval" where
  "evidence_full ev =
     PDict [(''evidence_id'', dget ev ''evidence_id''), (''tool_name'', dget ev ''tool_name''), (''args'', dget ev ''args''),
            (''payload'', dget ev ''payload''), (''exit_code'', dget ev ''exit_code'')]"

text \<open>One pass of the loop over the evidence: the summary, and whether the entry is of the latest round\<close>

definition classify :: "int \<Rightarrow> pyval \<Rightarrow> (dict \<times> bool) res" where
  "classify latest v =
     bind_res (py_get v ''evidence_id'') (\<lambda>_.
       let ev = as_dict v in
       bind_res (py_int (py_or (dget ev ''round'') (PInt 0))) (\<lambda>r. Inr (ev, r = latest)))"

text \<open>\<open>f"{x:.4f}"\<close>: correctly rounded, ties to even\<close>

definition round_even :: "rat \<Rightarrow> int" where
  "round_even x =
     (let f = floor x; r = x - of_int f in
      if r < 1 / 2 then f else if 1 / 2 < r then f + 1 else if even f then f else f + 1)"

definition fixed4 :: "rat \<Rightarrow> string" where
  "fixed4 x =
     (let n = nat (round_even (\<bar>x\<bar> * 10000)); frac = nat_str (n mod 10000) in
      (if x < 0 then ''-'' else []) @ nat_str (n div 10000) @ ''.'' @ replicate (4 - length frac) (CHR ''0'') @ frac)"

definition CONTEXT_BUDGET_CHARS :: int where
  "CONTEXT_BUDGET_CHARS = 200000"

text \<open>The loop that drops the oldest summaries; \<open>sz\<close> is the assembled size with the given summaries.\<close>

fun trim_summaries :: "(pyval list \<Rightarrow> int) \<Rightarrow> int \<Rightarrow> nat \<Rightarrow> pyval list \<Rightarrow> pyval list" where
  "trim_summaries sz limit keep [] = []"
| "trim_summaries sz limit keep (s # ss) =
     (if limit < sz (s # ss) \<and> keep < length (s # ss) then trim_summaries sz limit keep ss else s # ss)"

record rca_context =
  variables :: dict
  build_ms :: rat
  assembled_chars :: int
  latest_round_truncated :: bool

text \<open>\<open>len(v)\<close>\<close>

fun py_len :: "pyval \<Rightarrow> int res" where
  "py_len (PStr s) = Inr (int (length s))"
| "py_len (PList xs) = Inr (int (length xs))"
| "py_len (PDict d) = Inr (int (length d))"
| "py_len _ = Inl TypeError"

definition context_texts ::
  "(rat \<Rightarrow> string) \<Rightarrow> pyval \<Rightarrow> int \<Rightarrow> int \<Rightarrow> rat \<Rightarrow> pyval list \<Rightarrow> pyval list \<Rightarrow> string \<Rightarrow> pyval list \<Rightarrow> (string \<times> string) list" where
  "context_texts fr event round_num max_rounds spent_usd latest_full previous block summaries =
     [(''alert_event'', json_dumps fr event), (''round'', int_str round_num),
      (''max_rounds'', int_str max_rounds), (''spent'', fixed4 spent_usd),
      (''evidence_summaries'', json_dumps fr (PList summaries)),
      (''latest_evidence_full'', json_dumps fr (PList latest_full)),
      (''previous_reports_compact'', json_dumps fr (PList previous)),
      (''approver_feedback'', block)]"

definition texts_chars :: "(string \<times> string) list \<Rightarrow> int" where
  "texts_chars ts = sum_list (map (\<lambda>kv. int (length (snd kv))) ts)"

definition assemble_rca_context ::
  "(rat \<Rightarrow> string) \<Rightarrow> rat \<Rightarrow> pyval \<Rightarrow> pyval list \<Rightarrow> pyval list \<Rightarrow> int \<Rightarrow> int \<Rightarrow> rat \<Rightarrow> pyval \<Rightarrow> pyval \<Rightarrow> int \<Rightarrow> pyval \<Rightarrow> rca_context res" where
  "assemble_rca_context fr elapsed event evidence reports round_num max_rounds spent_usd ptype version limit feedback =
     bind_res (map_res (classify round_num) evidence) (\<lambda>evs.
     bind_res (map_res compact_report reports) (\<lambda>previous.
     bind_res (format_approver_feedback fr feedback) (\<lambda>block.
     bind_res (py_len ptype) (\<lambda>n1. bind_res (py_len version) (\<lambda>n2.
       let latest_full = map (\<lambda>(ev, _). evidence_full ev) (filter snd evs);
           texts = context_texts fr event round_num max_rounds spent_usd latest_full previous block;
           chars = (\<lambda>ss. n1 + n2 + texts_chars (texts ss));
           kept = trim_summaries chars limit (length latest_full) (map (\<lambda>(ev, _). evidence_summary ev) evs) in
       Inr \<lparr>variables = (''platform_type'', ptype) # (''engine_version'', version) # map (\<lambda>(k, t). (k, PStr t)) (texts kept),
            build_ms = elapsed, assembled_chars = chars kept, latest_round_truncated = False\<rparr>)))))"

section \<open>Tools of the control plane\<close>

text \<open>\<open>xs[start:end]\<close> with the language's reading of negative positions\<close>

definition slice_pos :: "nat \<Rightarrow> int \<Rightarrow> nat" where
  "slice_pos n i = (if i < 0 then nat (max 0 (i + int n)) else min n (nat i))"

definition py_slice :: "int \<Rightarrow> int \<Rightarrow> 'a list \<Rightarrow> 'a list" where
  "py_slice s e xs = (let n = length xs in take (slice_pos n e - slice_pos n s) (drop (slice_pos n s) xs))"

text \<open>The operations of a source store, and the in-memory one\<close>

record source_ops =
  so_fetch :: "pyval \<Rightarrow> pyval \<Rightarrow> pyval res"
  so_diff :: "pyval \<Rightarrow> pyval \<Rightarrow> pyval \<Rightarrow> pyval res"
  so_search :: "pyval \<Rightarrow> pyval \<Rightarrow> int \<Rightarrow> pyval res"

fun py_lower :: "pyval \<Rightarrow> string res" where
  "py_lower (PStr s) = Inr (str_lower s)"
| "py_lower _ = Inl (OtherError ''AttributeError'')"

definition commit_hit :: "string \<Rightarrow> dict \<Rightarrow> bool res" where
  "commit_hit kw c = bind_res (py_lower (dget_or c ''message'' (PStr []))) (\<lambda>m. Inr (contains kw m))"

definition fake_source :: "(rat \<Rightarrow> string) \<Rightarrow> (string \<times> string) list \<Rightarrow> dict list \<Rightarrow> source_ops" where
  "fake_source fr files commits =
     \<lparr>so_fetch = (\<lambda>path ref.
        let p = py_str fr path; r = py_str fr ref in
        if \<not> hashable path then Inl TypeError
        else Inr (PStr (case map_of files (r @ '':'' @ p) of Some c \<Rightarrow> c
          | None \<Rightarrow> (case path of PStr q \<Rightarrow> (case map_of files q of Some c \<Rightarrow> c
                         | None \<Rightarrow> ''// source for '' @ p @ ''@'' @ r @ [CHR 0x0A])
                     | _ \<Rightarrow> ''// source for '' @ p @ ''@'' @ r @ [CHR 0x0A])))),
      so_diff = (\<lambda>path f t.
        let p = py_str fr path in
        Inr (PStr (''--- '' @ p @ '' '' @ py_str fr f @ [CHR 0x0A] @ ''+++ '' @ p @ '' '' @ py_str fr t @ [CHR 0x0A]))),
      so_search = (\<lambda>keyword from_tag limit.
        bind_res (if commits = [] then Inr [] else bind_res (py_lower keyword) (\<lambda>kw. map_res (commit_hit kw) commits)) (\<lambda>hits.
          Inr (PList (map PDict (py_slice 0 limit (map fst (filter snd (zip commits hits))))))))\<rparr>"

definition control_answer :: "string \<Rightarrow> int \<Rightarrow> dict \<Rightarrow> dict" where
  "control_answer name code payload = [(''tool'', PStr name), (''exit_code'', PInt code), (''data'', PDict payload)]"

definition byte_window :: "pyval \<Rightarrow> string \<Rightarrow> string res" where
  "byte_window rng payload =
     (case rng of
        PList [a, b] \<Rightarrow> bind_res (py_int a) (\<lambda>s. bind_res (py_int b) (\<lambda>e. Inr (py_slice s e payload)))
      | _ \<Rightarrow> Inr payload)"

definition read_evidence ::
  "(rat \<Rightarrow> string) \<Rightarrow> (string \<Rightarrow> string) \<Rightarrow> (string \<Rightarrow> string res) \<Rightarrow> (pyval \<Rightarrow> evidence option) \<Rightarrow> dict \<Rightarrow> dict res" where
  "read_evidence fr dec get_bytes lookup args =
     (case lookup (dget args ''evidence_id'') of
        None \<Rightarrow> Inr (control_answer ''read_evidence'' 1 [(''error'', PStr ''not_found'')])
      | Some row \<Rightarrow>
          bind_res (case ev_payload_ref row of Some (c # cs) \<Rightarrow> get_bytes (c # cs) | _ \<Rightarrow> Inr []) (\<lambda>payload0.
          bind_res (byte_window (dget args ''byte_range'') payload0) (\<lambda>payload.
            Inr (control_answer ''read_evidence'' 0
              [(''evidence_id'', PStr (py_str fr (dget args ''evidence_id''))), (''bytes'', PStr (dec payload)),
               (''byte_length'', PInt (int (length payload)))]))))"

definition run_control_tool ::
  "(rat \<Rightarrow> string) \<Rightarrow> (string \<Rightarrow> string) \<Rightarrow> source_ops \<Rightarrow> (string \<Rightarrow> string res) \<Rightarrow> (pyval \<Rightarrow> evidence option) \<Rightarrow>
   string \<Rightarrow> pyval \<Rightarrow> dict res" where
  "run_control_tool fr dec src get_bytes lookup name argsv =
     (let args = as_dict argsv; arg = (\<lambda>k d. dget_or args k (PStr d)) in
      if name \<notin> {''read_evidence'', ''fetch_source'', ''diff_versions'', ''search_commits''}
      then Inr (control_answer name 1 [(''error'', PStr (''unknown control tool '' @ name))])
      else if \<not> is_dict argsv then Inl (OtherError ''AttributeError'')
      else if name = ''read_evidence'' then read_evidence fr dec get_bytes lookup args
      else if name = ''fetch_source'' then
        bind_res (so_fetch src (arg ''file_path'' []) (arg ''ref'' ''HEAD'')) (\<lambda>c. Inr (control_answer name 0 [(''content'', c)]))
      else if name = ''diff_versions'' then
        bind_res (so_diff src (arg ''path_or_symbol'' []) (arg ''from_tag'' []) (arg ''to_tag'' []))
          (\<lambda>c. Inr (control_answer name 0 [(''diff'', c)]))
      else
        bind_res (py_int (dget_or args ''limit'' (PInt 10))) (\<lambda>limit.
        bind_res (so_search src (arg ''keyword'' []) (arg ''from_tag'' []) limit)
          (\<lambda>c. Inr (control_answer name 0 [(''commits'', c)]))))"

section \<open>Properties\<close>

lemma strip_placeholders_clean:
  "strip_placeholders s = Inr out \<Longrightarrow> \<not> (contains open_mark out \<and> contains close_mark out)"
proof (induction s rule: strip_placeholders.induct)
  case (1 s)
  from 1(2)[unfolded strip_placeholders.simps[of s]] 1(1) show ?case
    using find_sub_None[of open_mark s] find_sub_None[of close_mark s] by (auto split: option.splits if_splits)
qed

lemma strip_placeholders_raises:
  assumes "find_sub open_mark s = Some k" "contains close_mark s" "\<not> contains close_mark (drop k s)"
  shows "strip_placeholders s = Inl (ValueError ''substring not found'')"
  using assms find_sub_None[of close_mark s] find_sub_None[of close_mark "drop k s"]
  by (subst strip_placeholders.simps) auto

text \<open>rendering leaves no placeholder behind, or raises.  A rendered prompt never contains both
  marks; and a text in which the first opening mark is not followed by a closing one, although a closing
  mark stands before it, is not rendered at all.\<close>

theorem render_clean_or_raises:
  "(case render fr template vars of
      Inr out \<Rightarrow> \<not> (contains open_mark out \<and> contains close_mark out)
    | Inl e \<Rightarrow> e = ValueError ''substring not found'') \<and>
   (let s = substitute fr template vars in
    case find_sub open_mark s of
      None \<Rightarrow> render fr template vars = Inr s
    | Some k \<Rightarrow> contains close_mark s \<and> \<not> contains close_mark (drop k s) \<longrightarrow>
        render fr template vars = Inl (ValueError ''substring not found''))"
proof -
  have err: "strip_placeholders s = Inl e \<Longrightarrow> e = ValueError ''substring not found''" for s e
  proof (induction s rule: strip_placeholders.induct)
    case (1 s)
    from 1(2)[unfolded strip_placeholders.simps[of s]] 1(1) show ?case by (auto split: option.splits if_splits)
  qed
  have none: "find_sub open_mark s = None \<Longrightarrow> strip_placeholders s = Inr s" for s
    by (subst strip_placeholders.simps) simp
  show ?thesis
    unfolding render_def Let_def
    by (auto split: sum.splits option.splits dest: strip_placeholders_clean err none strip_placeholders_raises)
qed

text \<open>The last line of the template of the evidence summary (\<open>prompts/collector_summary.txt\<close>)\<close>

definition summary_line :: string where
  "summary_line = ''Args: {{args}} Output: {{payload_head_64kb}}''"

text \<open>Arguments with a nested object end in two closing braces, and the output of a tool may contain two
  opening ones.\<close>

theorem render_clean_or_raises_witness:
  "render (\<lambda>_. []) summary_line [(''args'', PStr (json_dumps (\<lambda>_. []) (PDict [(''f'', PDict [(''app'', PStr ''p'')])]))),
      (''payload_head_64kb'', PStr ''range {{ .Values'')] = Inl (ValueError ''substring not found'')"
proof -
  let ?vars = "[(''args'', PStr (json_dumps (\<lambda>_. []) (PDict [(''f'', PDict [(''app'', PStr ''p'')])]))),
      (''payload_head_64kb'', PStr ''range {{ .Values'')]"
  have "case find_sub open_mark (substitute (\<lambda>_. []) summary_line ?vars) of None \<Rightarrow> False
    | Some k \<Rightarrow> contains close_mark (substitute (\<lambda>_. []) summary_line ?vars) \<and>
        \<not> contains close_mark (drop k (substitute (\<lambda>_. []) summary_line ?vars))"
    by code_simp
  with render_clean_or_raises[of "\<lambda>_. []" summary_line ?vars] show ?thesis
    by (auto simp: Let_def split: option.splits)
qed

end
