(* ===== verification/LlmClient.thy ===== *)
theory LlmClient
  imports World
begin

text \<open>
  The wrapper around the model gateway (\<open>rca_common/llmclient\<close>): the HTTP backend, the call with its one
  retry on an output that does not meet its schema, the two stored payloads and the trace row.

  The transport, the JSON decoder and the schema validator are parameters; the state \<open>'s\<close> of the outside
  world is shared with the probe client.  The trace row goes to the table \<open>llm_calls\<close>, as \<open>PGTraceStore\<close>
  does; \<open>LLMBackendError\<close> and \<open>LLMOutputError\<close> are the exceptions of those names.
\<close>

section \<open>The backend\<close>

record llm_response =
  lr_content :: pyval
  lr_input_tokens :: "int option"
  lr_output_tokens :: "int option"
  lr_cost_usd :: "rat option"
  lr_provider :: "string option"
  lr_raw :: pyval

record llm_request =
  rq_model :: string
  rq_messages :: "dict list"
  rq_max_tokens :: int
  rq_metadata :: dict
  rq_format :: "dict option"

text \<open>What the backend does with a request: answer, raise \<open>LLMBackendError\<close>, or raise anything else\<close>

datatype backend_answer =
    Completed llm_response
  | BackendError string
  | BackendRaise pyexc

definition request_body :: "llm_request \<Rightarrow> dict" where
  "request_body q =
     [(''model'', PStr (rq_model q)), (''messages'', PList (map PDict (rq_messages q))),
      (''max_tokens'', PInt (rq_max_tokens q)), (''metadata'', PDict (rq_metadata q))] @
     (case rq_format q of None \<Rightarrow> [] | Some f \<Rightarrow> [(''response_format'', PDict f)])"

record gateway_response =
  gr_status :: int
  gr_text :: string
  gr_json :: "pyval res"
  gr_cost_header :: "string option"

definition first_choice :: "pyval \<Rightarrow> pyval res" where
  "first_choice choices =
     (case choices of
        PList [] \<Rightarrow> Inl (OtherError ''IndexError'')
      | PList (c # cs) \<Rightarrow> Inr c
      | PStr [] \<Rightarrow> Inl (OtherError ''IndexError'')
      | PStr (c # cs) \<Rightarrow> Inr (PStr [c])
      | PDict _ \<Rightarrow> Inl (KeyError ''0'')
      | _ \<Rightarrow> Inl TypeError)"

definition response_cost :: "(string \<Rightarrow> rat option) \<Rightarrow> gateway_response \<Rightarrow> dict \<Rightarrow> rat option res" where
  "response_cost fl r payload =
     (case gr_cost_header r of
        Some h \<Rightarrow> bind_res (py_float fl (PStr h)) (\<lambda>c. Inr (Some c))
      | None \<Rightarrow> if has_key payload ''response_cost''
                then bind_res (py_float fl (dget payload ''response_cost'')) (\<lambda>c. Inr (Some c))
                else Inr None)"

text \<open>\<open>model.split("/", 1)[0] if "/" in model else None\<close>\<close>

definition provider_of :: "string \<Rightarrow> string option" where
  "provider_of model = (case partition_char (CHR ''/'') model of (p, Some _) \<Rightarrow> Some p | (_, None) \<Rightarrow> None)"

text \<open>A token count is an integer or missing.\<close>

definition tokens :: "pyval \<Rightarrow> int option" where
  "tokens v = (case v of PInt i \<Rightarrow> Some i | _ \<Rightarrow> None)"

definition read_completion :: "(string \<Rightarrow> rat option) \<Rightarrow> string \<Rightarrow> gateway_response \<Rightarrow> llm_response res" where
  "read_completion fl model r =
     bind_res (gr_json r) (\<lambda>payload.
     bind_res (bind_res (py_item payload ''choices'') first_choice) (\<lambda>choice.
     bind_res (bind_res (py_item choice ''message'') (\<lambda>m. py_item m ''content'')) (\<lambda>content.
     bind_res (py_get (py_or (dget (as_dict payload) ''usage'') (PDict [])) ''prompt_tokens'') (\<lambda>n_in.
     bind_res (response_cost fl r (as_dict payload)) (\<lambda>cost.
       let usage = as_dict (dget (as_dict payload) ''usage'') in
       Inr \<lparr>lr_content = content, lr_input_tokens = tokens n_in,
            lr_output_tokens = tokens (dget usage ''completion_tokens''), lr_cost_usd = cost,
            lr_provider = provider_of model, lr_raw = payload\<rparr>)))))"

text \<open>\<open>LiteLLMHTTPBackend.chat_completion\<close>, given what the transport returned: an HTTP error as its text,
  or a response\<close>

definition chat_completion ::
  "(string \<Rightarrow> rat option) \<Rightarrow> ('s \<Rightarrow> dict \<Rightarrow> (string + gateway_response) \<times> 's) \<Rightarrow> 's \<Rightarrow> llm_request \<Rightarrow> backend_answer \<times> 's" where
  "chat_completion fl post s q =
     (case post s (request_body q) of
        (Inl e, s') \<Rightarrow> (BackendError (''transport error calling model gateway: '' @ e), s')
      | (Inr r, s') \<Rightarrow>
          if 400 \<le> gr_status r
          then (BackendError (''model gateway returned '' @ int_str (gr_status r) @ '': '' @ gr_text r), s')
          else (case read_completion fl (rq_model q) r of Inl e \<Rightarrow> (BackendRaise e, s') | Inr a \<Rightarrow> (Completed a, s')))"

section \<open>The client\<close>

text \<open>Its collaborators: the backend, the JSON decoder, the schema validator (the text of the violation, if
  any), the text of what a failed decoding or validation says, the optional trace store and sink, and the
  measured latency\<close>

record 's llm =
  l_backend :: "'s \<Rightarrow> llm_request \<Rightarrow> backend_answer \<times> 's"
  l_loads :: "string \<Rightarrow> string + pyval"
  l_validate :: "pyval \<Rightarrow> dict \<Rightarrow> string option"
  l_trace :: bool
  l_sink :: "('s \<Rightarrow> dict \<Rightarrow> unit res \<times> 's) option"
  l_tracing_backend :: string
  l_latency_ms :: int

record gen_result =
  g_call_id :: uuid
  g_content :: pyval
  g_parsed :: pyval
  g_input_tokens :: "int option"
  g_output_tokens :: "int option"
  g_cost_usd :: "rat option"
  g_latency_ms :: int
  g_retried :: bool

text \<open>The variables of the attempt loop\<close>

record chat =
  ch_messages :: "dict list"
  ch_retried :: bool
  ch_error :: "string option"
  ch_response :: "llm_response option"
  ch_parsed :: pyval
  ch_content :: pyval

definition start_chat :: "dict list \<Rightarrow> chat" where
  "start_chat messages = \<lparr>ch_messages = messages, ch_retried = False, ch_error = None, ch_response = None,
     ch_parsed = PNone, ch_content = PStr []\<rparr>"

definition llm_ask :: "'s llm \<Rightarrow> llm_request \<Rightarrow> ('s, backend_answer) act" where
  "llm_ask L q w = (case l_backend L (aprobe w) q of (a, s) \<Rightarrow> (Inr a, w\<lparr>aprobe := s\<rparr>))"

text \<open>\<open>json.loads\<close> raises \<open>TypeError\<close> on a reply that is not text, which the loop does not catch; a reply that does not
  decode or does not meet the schema gives the text of the failure.\<close>

definition decode_output :: "'s llm \<Rightarrow> dict \<Rightarrow> pyval \<Rightarrow> (string + pyval) res" where
  "decode_output L schema reply =
     (case reply of
        PStr t \<Rightarrow> Inr (case l_loads L t of
            Inl e \<Rightarrow> Inl e
          | Inr v \<Rightarrow> (case l_validate L v schema of None \<Rightarrow> Inr v | Some e \<Rightarrow> Inl e))
      | _ \<Rightarrow> Inl TypeError)"

definition retry_messages :: "dict list \<Rightarrow> pyval \<Rightarrow> string \<Rightarrow> dict list" where
  "retry_messages messages reply e = messages @
     [[(''role'', PStr ''assistant''), (''content'', reply)],
      [(''role'', PStr ''user''),
       (''content'', PStr (''Your previous output failed schema validation: '' @ e @
          ''. Re-emit a corrected JSON object that conforms exactly to the required schema.''))]]"

fun attempts :: "'s llm \<Rightarrow> (dict list \<Rightarrow> llm_request) \<Rightarrow> dict option \<Rightarrow> nat list \<Rightarrow> chat \<Rightarrow> ('s, chat) act" where
  "attempts L request schema [] c = ret c"
| "attempts L request schema (k # ks) c =
     bind_io (llm_ask L (request (ch_messages c))) (\<lambda>a.
       case a of
         BackendRaise e \<Rightarrow> fail e
       | BackendError e \<Rightarrow> ret (c\<lparr>ch_error := Some e\<rparr>)
       | Completed r \<Rightarrow>
           (let c1 = c\<lparr>ch_response := Some r, ch_content := lr_content r\<rparr> in
            case schema of
              None \<Rightarrow> ret (c1\<lparr>ch_parsed := PNone, ch_error := None\<rparr>)
            | Some sch \<Rightarrow>
                (case decode_output L sch (lr_content r) of
                   Inl e \<Rightarrow> fail e
                 | Inr (Inr v) \<Rightarrow> ret (c1\<lparr>ch_parsed := v, ch_error := None\<rparr>)
                 | Inr (Inl e) \<Rightarrow>
                     (let c2 = c1\<lparr>ch_error := Some (''output schema validation failed: '' @ e)\<rparr> in
                      if k = 0 then attempts L request schema ks
                        (c2\<lparr>ch_retried := True, ch_messages := retry_messages (ch_messages c) (lr_content r) e\<rparr>)
                      else ret c2))))"

definition call_request :: "string \<Rightarrow> string \<Rightarrow> int \<Rightarrow> dict \<Rightarrow> dict option \<Rightarrow> dict list \<Rightarrow> llm_request" where
  "call_request role model max_tokens metadata schema messages =
     \<lparr>rq_model = model, rq_messages = messages, rq_max_tokens = max_tokens, rq_metadata = metadata,
      rq_format = (case schema of None \<Rightarrow> None
        | Some s \<Rightarrow> Some [(''type'', PStr ''json_schema''),
            (''json_schema'', PDict [(''name'', PStr role), (''schema'', PDict s)])])\<rparr>"

definition lc_key :: "llm_call \<Rightarrow> uuid \<times> timestamp" where
  "lc_key c = (call_id c, lc_created_at c)"

definition insert_llm_call :: "llm_call \<Rightarrow> db \<Rightarrow> db res" where
  "insert_llm_call c d = bind_res (add_row lc_key c (llm_calls d)) (\<lambda>rows. Inr (d\<lparr>llm_calls := rows\<rparr>))"

definition sink_call :: "'s llm \<Rightarrow> dict \<Rightarrow> ('s, unit) act" where
  "sink_call L kwargs w =
     (case l_sink L of
        None \<Rightarrow> (Inr (), w)
      | Some f \<Rightarrow> (case f (aprobe w) kwargs of (r, s) \<Rightarrow> (r, w\<lparr>aprobe := s\<rparr>)))"

definition store_object :: "string \<Rightarrow> string \<Rightarrow> ('s, string) act" where
  "store_object key bytes w = (Inr key, w\<lparr>objects := objects w @ [(key, bytes)]\<rparr>)"

definition LLMBackendError :: "string \<Rightarrow> pyexc" where
  "LLMBackendError e = OtherError (''LLMBackendError: '' @ e)"

definition LLMOutputError :: "string \<Rightarrow> pyexc" where
  "LLMOutputError e = OtherError (''LLMOutputError: '' @ e)"

definition call_metadata :: "'s deps \<Rightarrow> string \<Rightarrow> pyval \<Rightarrow> pyval \<Rightarrow> dict" where
  "call_metadata D role iidv rnd =
     [(''investigation_id'', if truthy iidv then PStr (py_str (d_fr D) iidv) else PNone),
      (''agent_role'', PStr role), (''round'', rnd)]"

definition prompt_key :: "uuid \<Rightarrow> string" where
  "prompt_key cid = ''llm/'' @ uuid_str cid @ ''/prompt.json''"

definition response_key :: "uuid \<Rightarrow> string" where
  "response_key cid = ''llm/'' @ uuid_str cid @ ''/response.json''"

definition trace_row ::
  "'s deps \<Rightarrow> 's llm \<Rightarrow> uuid \<Rightarrow> uuid option \<Rightarrow> int option \<Rightarrow> string \<Rightarrow> string \<Rightarrow> chat \<Rightarrow> llm_call" where
  "trace_row D L cid iid rnd role model c =
     (let of_response = (\<lambda>f. case ch_response c of None \<Rightarrow> None | Some r \<Rightarrow> f r) in
      \<lparr>call_id = cid, lc_created_at = d_now D, lc_investigation_id = iid, lc_round = rnd, agent_role = role,
       lc_model = model, lc_provider = (case ch_response c of None \<Rightarrow> None | Some r \<Rightarrow> lr_provider r),
       prompt_ref = Some (prompt_key cid), response_ref = Some (response_key cid),
       input_tokens = of_response lr_input_tokens, output_tokens = of_response lr_output_tokens,
       lc_cost_usd = (case ch_response c of None \<Rightarrow> None | Some r \<Rightarrow> lr_cost_usd r),
       latency_ms = Some (l_latency_ms L), lc_error = ch_error c\<rparr>)"

definition opt_str :: "string option \<Rightarrow> pyval" where
  "opt_str v = (case v of None \<Rightarrow> PNone | Some s \<Rightarrow> PStr s)"

definition opt_int :: "int option \<Rightarrow> pyval" where
  "opt_int v = (case v of None \<Rightarrow> PNone | Some i \<Rightarrow> PInt i)"

definition opt_float :: "rat option \<Rightarrow> pyval" where
  "opt_float v = (case v of None \<Rightarrow> PNone | Some r \<Rightarrow> PFloat r)"

definition sink_kwargs :: "'s deps \<Rightarrow> dict \<Rightarrow> llm_call \<Rightarrow> chat \<Rightarrow> dict" where
  "sink_kwargs D metadata row c =
     [(''call_id'', PStr (uuid_str (call_id row))), (''investigation_id'', dget metadata ''investigation_id''),
      (''round'', dget metadata ''round''), (''agent_role'', PStr (agent_role row)), (''model'', PStr (lc_model row)),
      (''prompt'', PStr (json_dumps (d_fr D) (PList (map PDict (ch_messages c))))), (''response'', ch_content c),
      (''input_tokens'', opt_int (input_tokens row)), (''output_tokens'', opt_int (output_tokens row)),
      (''cost_usd'', opt_float (lc_cost_usd row)), (''latency_ms'', opt_int (latency_ms row)),
      (''error'', opt_str (ch_error c))]"

definition conclude :: "'s llm \<Rightarrow> uuid \<Rightarrow> chat \<Rightarrow> ('s, gen_result) act" where
  "conclude L cid c =
     (let of_response = (\<lambda>f. case ch_response c of None \<Rightarrow> None | Some r \<Rightarrow> f r) in
      case ch_error c of
        Some e \<Rightarrow> fail (if ch_response c = None then LLMBackendError e else LLMOutputError e)
      | None \<Rightarrow> ret \<lparr>g_call_id = cid, g_content = ch_content c, g_parsed = ch_parsed c,
                     g_input_tokens = of_response lr_input_tokens, g_output_tokens = of_response lr_output_tokens,
                     g_cost_usd = (case ch_response c of None \<Rightarrow> None | Some r \<Rightarrow> lr_cost_usd r),
                     g_latency_ms = l_latency_ms L, g_retried = ch_retried c\<rparr>)"

definition prompt_body :: "'s deps \<Rightarrow> string \<Rightarrow> chat \<Rightarrow> string" where
  "prompt_body D model c = utf8 (json_dumps (d_fr D)
     (PDict [(''model'', PStr model), (''messages'', PList (map PDict (ch_messages c)))]))"

definition response_body :: "'s deps \<Rightarrow> chat \<Rightarrow> string" where
  "response_body D c = utf8 (json_dumps (d_fr D)
     (case ch_response c of Some r \<Rightarrow> lr_raw r | None \<Rightarrow> PDict [(''error'', opt_str (ch_error c))]))"

text \<open>After the attempts: payloads, trace row and sink, then the result or the error\<close>

definition record_call ::
  "'s deps \<Rightarrow> 's llm \<Rightarrow> uuid \<Rightarrow> string \<Rightarrow> string \<Rightarrow> dict \<Rightarrow> pyval \<Rightarrow> pyval \<Rightarrow> chat \<Rightarrow> ('s, unit) act" where
  "record_call D L cid role model metadata iidv rnd c =
     bind_io (store_object (prompt_key cid) (prompt_body D model c)) (\<lambda>_.
     bind_io (store_object (response_key cid) (response_body D c)) (\<lambda>_.
     bind_io (lift_io (if truthy iidv then bind_res (to_uuid D iidv) (\<lambda>u. Inr (Some u)) else Inr None)) (\<lambda>iid.
     bind_io (if l_tracing_backend L \<in> {''builtin'', ''both''} \<and> l_trace L
              then txn_unit (\<lambda>d. bind_res (int_col rnd) (\<lambda>r. insert_llm_call (trace_row D L cid iid r role model c) d))
              else ret ()) (\<lambda>_.
       if l_tracing_backend L \<in> {''langfuse'', ''both''}
       then sink_call L (sink_kwargs D metadata (trace_row D L cid iid None role model c) c)
       else ret ()))))"

definition generate ::
  "'s deps \<Rightarrow> 's llm \<Rightarrow> string \<Rightarrow> string \<Rightarrow> int \<Rightarrow> dict list \<Rightarrow> pyval \<Rightarrow> pyval \<Rightarrow> dict option \<Rightarrow> ('s, gen_result) act" where
  "generate D L role model max_tokens messages iidv rnd schema =
     bind_io (fresh_uuid D) (\<lambda>cid.
     let metadata = call_metadata D role iidv rnd in
     bind_io (attempts L (call_request role model max_tokens metadata schema) schema [0, 1] (start_chat messages)) (\<lambda>c.
     bind_io (record_call D L cid role model metadata iidv rnd c) (\<lambda>_. conclude L cid c)))"

text \<open>\<open>PGTraceStore.get_spend\<close>: the sum of the recorded costs of a case, absent ones not counting\<close>

definition spend_of :: "uuid \<Rightarrow> db \<Rightarrow> rat" where
  "spend_of iid d =
     sum_list (List.map_filter lc_cost_usd (filter (\<lambda>c. lc_investigation_id c = Some iid) (llm_calls d)))"

end
