(* ===== verification/AgentActivities.thy ===== *)
theory AgentActivities
  imports CaseActivities Prompting LlmClient
begin

text \<open>
  The activities of \<open>worker/activities/investigation.py\<close> in which a model takes part: planning the
  collection of evidence, collecting and summarising it, analysing it, and proposing a remediation.
\<close>

section \<open>What the agents are given\<close>

text \<open>The configuration, the model client, the texts of the prompt directory, the schema files of the
  repository (absent in an isolated environment), the model overrides, the source store, the decoding of
  bytes with replacement characters, and the measured time of the context assembly\<close>

record 's agents =
  ag_config :: "act_config option"
  ag_llm :: "'s llm"
  ag_prompt :: "string \<Rightarrow> string"
  ag_schema_file :: "string \<Rightarrow> dict option"
  ag_overrides :: "(string \<times> (string option \<times> pyval option)) list"
  ag_source :: source_ops
  ag_decode :: "string \<Rightarrow> string"
  ag_elapsed :: rat

definition typ_of :: "string \<Rightarrow> pyval" where
  "typ_of t = PDict [(''type'', PStr t)]"

definition strings :: "string list \<Rightarrow> pyval" where
  "strings xs = PList (map PStr xs)"

definition object_schema :: "string list \<Rightarrow> dict \<Rightarrow> dict" where
  "object_schema required props =
     [(''type'', PStr ''object''), (''required'', strings required), (''properties'', PDict props)]"

definition array_of :: "dict \<Rightarrow> pyval" where
  "array_of items = PDict [(''type'', PStr ''array''), (''items'', PDict items)]"

definition load_schema :: "(string \<Rightarrow> dict option) \<Rightarrow> string \<Rightarrow> dict res" where
  "load_schema file name =
     (case file name of
        Some s \<Rightarrow> Inr s
      | None \<Rightarrow>
          if name = ''plan'' then Inr (object_schema [''tool_calls'', ''unresolvable'']
            [(''tool_calls'', array_of (object_schema [''tool'', ''args'', ''purpose'']
               [(''tool'', typ_of ''string''), (''args'', typ_of ''object''), (''purpose'', typ_of ''string'')])),
             (''unresolvable'', array_of (object_schema [''what'', ''reason'']
               [(''what'', typ_of ''string''), (''reason'', typ_of ''string'')]))])
          else if name = ''rca_report'' then Inr (object_schema [''status'', ''confidence'']
            [(''status'', PDict [(''enum'', strings [''concluded'', ''need_more_data'', ''inconclusive''])]),
             (''confidence'', PDict [(''type'', PStr ''number''), (''minimum'', PInt 0), (''maximum'', PInt 1)])])
          else if name = ''evidence_summary'' then Inr (object_schema [''summary'']
            [(''summary'', typ_of ''string''), (''notable_lines'', array_of [(''type'', PStr ''string'')]),
             (''anomaly_detected'', typ_of ''boolean'')])
          else if name = ''remediation'' then Inr (object_schema [''proposed_actions'']
            [(''proposed_actions'', typ_of ''array''), (''rca_compact'', typ_of ''string'')])
          else Inl (OtherError (''FileNotFoundError: '' @ name)))"

definition DEFAULT_TOOL_CATALOG :: "string list" where
  "DEFAULT_TOOL_CATALOG =
     [''presto_cluster_info'', ''presto_nodes'', ''presto_list_queries'', ''presto_query_detail'',
      ''presto_query_json_section'', ''presto_config'', ''presto_session_properties'', ''presto_jmx'', ''pod_logs'',
      ''container_logs'', ''k8s_pods'', ''swarm_tasks'', ''k8s_describe'', ''docker_inspect'', ''k8s_events'',
      ''docker_events'', ''resource_usage'', ''jvm_thread_dump'', ''jvm_heap_histo'', ''fetch_source'',
      ''diff_versions'', ''search_commits'', ''read_evidence'']"

definition CONTROL_TOOLS :: "string list" where
  "CONTROL_TOOLS = [''fetch_source'', ''diff_versions'', ''search_commits'', ''read_evidence'']"

definition mvp_playbook :: "string \<Rightarrow> string \<Rightarrow> dict \<Rightarrow> pyval" where
  "mvp_playbook pid risk props =
     PDict [(''playbook_id'', PStr pid), (''risk_level'', PStr risk),
       (''params_schema'', PDict ((''type'', PStr ''object'') # (if props = [] then [] else [(''properties'', PDict props)])))]"

definition MVP_PLAYBOOKS :: "pyval list" where
  "MVP_PLAYBOOKS =
     [mvp_playbook ''presto.kill_query'' ''R1'' [(''query_id'', typ_of ''string'')],
      mvp_playbook ''presto.update_config_restart_workers'' ''R2'' [],
      mvp_playbook ''presto.restart_coordinator'' ''R2'' [],
      mvp_playbook ''presto.restart_worker'' ''R2'' [(''worker_id'', typ_of ''string'')],
      mvp_playbook ''presto.adjust_memory_config'' ''R2'' []]"

definition RISK_DEFS :: string where
  "RISK_DEFS = ''R0 no-op/read-only; R1 reversible low impact; R2 service-interrupting; '' @
     ''R3 destructive/irreversible''"

text \<open>The model of a role\<close>

definition model_defaults :: "(string \<times> (string \<times> int)) list" where
  "model_defaults =
     [(''planner'', (''ollama/qwen2.5:14b'', 2000)), (''collector'', (''ollama/qwen2.5:14b'', 2000)),
      (''rca'', (''bedrock/anthropic.claude-fable-5'', 8000)),
      (''remediation'', (''bedrock/anthropic.claude-fable-5'', 4000))]"

definition model_for :: "'s agents \<Rightarrow> string \<Rightarrow> (string \<times> int) res" where
  "model_for A role =
     (case (case ag_config A of None \<Rightarrow> None | Some c \<Rightarrow> map_of (cfg_models c) role) of
        Some route \<Rightarrow> Inr route
      | None \<Rightarrow>
          (case map_of (ag_overrides A) role of
             Some (m, t) \<Rightarrow>
               if m = None \<and> t = None
               then Inr (case map_of model_defaults role of Some r \<Rightarrow> r | None \<Rightarrow> (''ollama/qwen2.5:14b'', 2000))
               else (case map_of model_defaults role of
                       None \<Rightarrow> Inl (KeyError role)
                     | Some (m0, t0) \<Rightarrow>
                         bind_res (py_int (case t of None \<Rightarrow> PInt t0 | Some v \<Rightarrow> v)) (\<lambda>n.
                           Inr (case m of None \<Rightarrow> m0 | Some m1 \<Rightarrow> m1, n)))
           | None \<Rightarrow> Inr (case map_of model_defaults role of Some r \<Rightarrow> r | None \<Rightarrow> (''ollama/qwen2.5:14b'', 2000))))"

text \<open>A structured call of an agent, whose prompt is the only message: what is prepared before the call, and
  the call\<close>

definition agent_prompt :: "'s deps \<Rightarrow> 's agents \<Rightarrow> string \<Rightarrow> string \<Rightarrow> dict \<Rightarrow> (string \<times> string \<times> int) res" where
  "agent_prompt D A role template vars =
     bind_res (render (d_fr D) (ag_prompt A template) vars) (\<lambda>prompt.
     bind_res (model_for A role) (\<lambda>route. Inr (prompt, route)))"

definition call_agent ::
  "'s deps \<Rightarrow> 's agents \<Rightarrow> string \<Rightarrow> string \<Rightarrow> string \<times> string \<times> int \<Rightarrow> pyval \<Rightarrow> pyval \<Rightarrow> ('s, pyval) act" where
  "call_agent D A role schema = (\<lambda>(prompt, model, max_tokens) iidv rnd.
     bind_io (lift_io (load_schema (ag_schema_file A) schema)) (\<lambda>sch.
     bind_io (generate D (ag_llm A) role model max_tokens
       [[(''role'', PStr ''user''), (''content'', PStr prompt)]] iidv rnd (Some sch)) (\<lambda>g.
       ret (g_parsed g))))"

definition ask_agent ::
  "'s deps \<Rightarrow> 's agents \<Rightarrow> string \<Rightarrow> string \<Rightarrow> string \<Rightarrow> dict \<Rightarrow> pyval \<Rightarrow> pyval \<Rightarrow> ('s, pyval) act" where
  "ask_agent D A role template schema vars iidv rnd =
     bind_io (lift_io (agent_prompt D A role template vars)) (\<lambda>p. call_agent D A role schema p iidv rnd)"

section \<open>Planning\<close>

definition plan_body :: "'s deps \<Rightarrow> dict \<Rightarrow> string \<Rightarrow> string" where
  "plan_body D payload mode =
     (let js = (\<lambda>v. json_dumps (d_fr D) v); nl = [CHR 0x0A] in
      if mode = ''initial'' then
        ''Alert: '' @ js (py_or (dget payload ''event'') (PDict [])) @ nl @
        ''Produce the first collection plan: choose 3-8 tool calls that most quickly '' @
        ''narrow the fault domain. Prioritize: error context (relevant logs, failed '' @
        ''query details), overall cluster state, resource snapshot.''
      else
        ''Existing evidence summaries: '' @ js (py_or (dget payload ''evidence_summaries'') (PList [])) @ nl @
        ''Gaps requested by the RCA agent: '' @ js (py_or (dget payload ''missing_info'') (PList [])) @ nl @
        ''Map each gap to concrete tool calls. If the catalog cannot satisfy a gap, '' @
        ''list it under \"unresolvable\" with the reason.'')"

definition round_limit :: "'s agents \<Rightarrow> dict \<Rightarrow> int res" where
  "round_limit A payload = py_int (py_or (dget payload ''max_calls_per_round'') (PInt (max_calls_of (ag_config A))))"

definition cap_plan :: "int \<Rightarrow> pyval \<Rightarrow> pyval res" where
  "cap_plan max_calls plan =
     bind_res (py_get plan ''tool_calls'') (\<lambda>cv.
     bind_res (py_iter (py_or cv (PList []))) (\<lambda>calls.
       if int (length calls) > max_calls
       then Inr (PDict (dset (as_dict plan) ''tool_calls'' (PList (py_slice 0 max_calls calls))))
       else Inr plan))"

definition plan :: "'s deps \<Rightarrow> 's agents \<Rightarrow> string \<Rightarrow> dict \<Rightarrow> ('s, pyval) act" where
  "plan D A mode payload =
     bind_io (lift_io (round_limit A payload)) (\<lambda>max_calls.
     bind_io (ask_agent D A ''planner'' ''planner.txt'' ''plan''
       [(''platform_type'', dget_or payload ''platform_type'' (PStr ''presto'')),
        (''engine_version'', dget_or payload ''engine_version'' (PStr ''0.298'')),
        (''deployment'', dget_or payload ''deployment'' (PStr ''k8s'')),
        (''tool_catalog'', PStr (json_dumps (d_fr D) (py_or (dget payload ''tool_catalog'') (strings DEFAULT_TOOL_CATALOG)))),
        (''mode'', PStr mode), (''mode_body'', PStr (plan_body D payload mode)),
        (''max_calls_per_round'', PStr (int_str max_calls))]
       (dget payload ''investigation_id'') (dget payload ''round'')) (\<lambda>p.
       lift_io (cap_plan max_calls p)))"

definition plan_initial :: "'s deps \<Rightarrow> 's agents \<Rightarrow> dict \<Rightarrow> ('s, pyval) act" where
  "plan_initial D A = plan D A ''initial''"

definition plan_next :: "'s deps \<Rightarrow> 's agents \<Rightarrow> dict \<Rightarrow> ('s, pyval) act" where
  "plan_next D A = plan D A ''next''"

section \<open>Collecting\<close>

text \<open>\<open>v[:n]\<close>\<close>

fun py_prefix :: "nat \<Rightarrow> pyval \<Rightarrow> pyval res" where
  "py_prefix n (PStr s) = Inr (PStr (take n s))"
| "py_prefix n (PList xs) = Inr (PList (take n xs))"
| "py_prefix n _ = Inl TypeError"

definition join_lines :: "pyval \<Rightarrow> string res" where
  "join_lines v =
     bind_res (py_prefix 10 v) (\<lambda>p. bind_res (py_iter p) (\<lambda>xs. bind_res (map_res text_arg xs) (\<lambda>ls.
       Inr (str_join [CHR 0x0A] ls))))"

definition summary_text :: "string \<Rightarrow> pyval \<Rightarrow> pyval res" where
  "summary_text head parsed =
     bind_res (py_get (py_or parsed (PDict [])) ''summary'') (\<lambda>sv.
     bind_res (py_get (py_or parsed (PDict [])) ''notable_lines'') (\<lambda>nv.
       let summary = py_or sv (PStr (take 500 head)) in
       if truthy nv
       then bind_res (text_arg summary) (\<lambda>t. bind_res (join_lines nv) (\<lambda>ls. Inr (PStr (take 4000 (t @ [CHR 0x0A] @ ls)))))
       else py_prefix 4000 summary))"

definition summarize_evidence ::
  "'s deps \<Rightarrow> 's agents \<Rightarrow> pyval \<Rightarrow> pyval \<Rightarrow> string \<Rightarrow> uuid \<Rightarrow> int \<Rightarrow> ('s, pyval) act" where
  "summarize_evidence D A tnm args raw iid rnd =
     (let head = ag_decode A (take 65536 raw) in
      bind_io (lift_io (agent_prompt D A ''collector'' ''collector_summary.txt''
        [(''tool'', tnm), (''args'', PStr (json_dumps (d_fr D) args)), (''payload_head_64kb'', PStr head)])) (\<lambda>p.
      try_io
        (bind_io (call_agent D A ''collector'' ''evidence_summary'' p (PStr (uuid_str iid)) (PInt rnd)) (\<lambda>parsed.
           lift_io (summary_text head parsed)))
        (\<lambda>_. ret (PStr (take 500 head)))))"

text \<open>What one call produced, whichever side ran it\<close>

record collected =
  co_raw :: string
  co_exit :: int
  co_redacted :: bool
  co_by :: pyval
  co_data :: pyval

definition object_bytes :: "'s deps \<Rightarrow> (string \<times> string) list \<Rightarrow> string \<Rightarrow> string res" where
  "object_bytes D store key =
     (if \<not> d_store D then Inr []
      else case map_of (rev store) key of Some b \<Rightarrow> Inr b | None \<Rightarrow> Inl (KeyError key))"

definition run_control :: "'s deps \<Rightarrow> 's agents \<Rightarrow> string \<Rightarrow> pyval \<Rightarrow> ('s, collected) act" where
  "run_control D A tnm args w =
     (bind_res (run_control_tool (d_fr D) (ag_decode A) (ag_source A) (object_bytes D (objects w))
         (\<lambda>v. get_evidence (adb w) (py_str (d_fr D) v)) tnm args) (\<lambda>r.
      bind_res (py_int (dget_or r ''exit_code'' (PInt 0))) (\<lambda>code.
        Inr \<lparr>co_raw = utf8 (json_dumps (d_fr D) (PDict r)), co_exit = code, co_redacted = False,
             co_by = PStr ''control-plane'', co_data = dget r ''data''\<rparr>)), w)"

definition run_probe :: "'s deps \<Rightarrow> pyval \<Rightarrow> pyval \<Rightarrow> pyval \<Rightarrow> string \<Rightarrow> ('s, collected) act" where
  "run_probe D pk tnm args task =
     bind_io (probe_ask D (ExecuteTool pk tnm args (PStr task))) (\<lambda>r.
       ret \<lparr>co_raw = raw_bytes r, co_exit = exit_code r, co_redacted = r_redacted r,
            co_by = py_or (r_probe_id r) (PStr ''probe''), co_data = data r\<rparr>)"

definition control_tool :: "pyval \<Rightarrow> bool" where
  "control_tool tnm = (case tnm of PStr t \<Rightarrow> t \<in> set CONTROL_TOOLS | _ \<Rightarrow> False)"

definition run_tool :: "'s deps \<Rightarrow> 's agents \<Rightarrow> pyval \<Rightarrow> pyval \<Rightarrow> pyval \<Rightarrow> string \<Rightarrow> ('s, collected) act" where
  "run_tool D A pk tnm args task =
     (if \<not> hashable tnm then fail TypeError
      else if control_tool tnm then run_control D A (as_str tnm) args
      else run_probe D pk tnm args task)"

definition evidence_txn ::
  "'s deps \<Rightarrow> uuid \<Rightarrow> uuid \<Rightarrow> int \<Rightarrow> pyval \<Rightarrow> pyval \<Rightarrow> pyval \<Rightarrow> collected \<Rightarrow> db \<Rightarrow> db res" where
  "evidence_txn D iid eid rnd tnm args summary r d =
     bind_res (text_arg tnm) (\<lambda>name.
     bind_res (opt_text summary) (\<lambda>summ.
     bind_res (opt_text (co_by r)) (\<lambda>exby.
     bind_res (insert_evidence (d_now D) eid iid rnd name args (Some (co_exit r)) summ (Some (evidence_ref iid eid))
       (Some (int (length (co_raw r)))) (co_redacted r) exby d) (\<lambda>d1.
       write_audit (d_now D) ''tool_executed'' (actor_agent ''collector'') (Some iid)
         (Some [(''tool'', tnm), (''evidence_id'', PStr (uuid_str eid)), (''exit_code'', PInt (co_exit r)),
           (''executed_by'', co_by r)]) d1))))"

definition evidence_out :: "uuid \<Rightarrow> uuid \<Rightarrow> int \<Rightarrow> pyval \<Rightarrow> pyval \<Rightarrow> pyval \<Rightarrow> collected \<Rightarrow> pyval" where
  "evidence_out iid eid rnd tnm args summary r =
     PDict [(''evidence_id'', PStr (uuid_str eid)), (''tool_name'', tnm), (''args'', args), (''round'', PInt rnd),
       (''summary'', summary), (''payload'', co_data r), (''payload_ref'', PStr (evidence_ref iid eid)),
       (''exit_code'', PInt (co_exit r)), (''redacted'', PBool (co_redacted r)), (''executed_by'', co_by r)]"

definition collect_one ::
  "'s deps \<Rightarrow> 's agents \<Rightarrow> uuid \<Rightarrow> pyval \<Rightarrow> int \<Rightarrow> pyval \<Rightarrow> ('s, pyval) act" where
  "collect_one D A iid pk rnd call =
     bind_io (lift_io (py_get call ''tool'')) (\<lambda>tv. bind_io (lift_io (py_get call ''args'')) (\<lambda>av.
     let tnm = py_or tv (PStr []); args = py_or av (PDict []) in
     bind_io (fresh_uuid D) (\<lambda>tag.
     let task = uuid_str iid @ '':'' @ int_str rnd @ '':'' @ py_str (d_fr D) tnm @ '':'' @ take 8 (hex_pad 32 tag) in
     bind_io (txn_unit (write_audit (d_now D) ''task_dispatched'' (actor_agent ''collector'') (Some iid)
       (Some [(''tool'', tnm), (''args'', args), (''task_id'', PStr task)]))) (\<lambda>_.
     bind_io (run_tool D A pk tnm args task) (\<lambda>r.
     bind_io (summarize_evidence D A tnm args (co_raw r) iid rnd) (\<lambda>summary.
     bind_io (fresh_uuid D) (\<lambda>eid.
     bind_io (put_payload D (evidence_ref iid eid) (co_raw r)) (\<lambda>_.
     bind_io (txn_unit (evidence_txn D iid eid rnd tnm args summary r)) (\<lambda>_.
       ret (evidence_out iid eid rnd tnm args summary r))))))))))"

definition collect :: "'s deps \<Rightarrow> 's agents \<Rightarrow> dict \<Rightarrow> ('s, pyval) act" where
  "collect D A payload =
     bind_io (lift_io (ditem payload ''plan'')) (\<lambda>p.
     bind_io (lift_io (bind_res (ditem payload ''investigation_id'') (to_uuid D))) (\<lambda>iid.
     bind_io (lift_io (ditem payload ''platform_key'')) (\<lambda>pk.
     bind_io (lift_io (bind_res (ditem payload ''round'') py_int)) (\<lambda>rnd.
     bind_io (lift_io (round_limit A payload)) (\<lambda>max_calls.
     bind_io (lift_io (bind_res (py_get p ''tool_calls'') (\<lambda>v. py_iter (py_or v (PList []))))) (\<lambda>all_calls.
     let calls = py_slice 0 max_calls all_calls in
     bind_io (txn_unit (write_audit (d_now D) ''round_started'' (actor_agent ''collector'') (Some iid)
       (Some [(''round'', PInt rnd), (''n_tools'', PInt (int (length calls)))]))) (\<lambda>_.
     bind_io (map_io (collect_one D A iid pk rnd) calls) (\<lambda>out.
       ret (PList out)))))))))"

section \<open>Analysis, remediation and spend\<close>

definition context_metrics :: "rca_context \<Rightarrow> pyval" where
  "context_metrics c =
     PDict [(''build_ms'', PFloat (build_ms c)), (''assembled_chars'', PInt (assembled_chars c)),
       (''latest_round_truncated'', PBool (latest_round_truncated c))]"

definition analysis_context :: "'s deps \<Rightarrow> 's agents \<Rightarrow> dict \<Rightarrow> (int \<times> rca_context) res" where
  "analysis_context D A payload =
     bind_res (ditem payload ''event'') (\<lambda>event.
     bind_res (bind_res (ditem payload ''round'') py_int) (\<lambda>rnd.
     bind_res (py_float (d_fl D) (py_or (dget payload ''spent_usd'') (PFloat 0))) (\<lambda>spent.
     bind_res (case py_or (dget payload ''budget'') (PDict (budget_defaults (ag_config A))) of
         PDict b \<Rightarrow> py_int (dget_or b ''max_rounds'' (PInt 15))
       | _ \<Rightarrow> Inl (OtherError ''AttributeError'')) (\<lambda>max_rounds.
     bind_res (py_iter (py_or (dget payload ''evidence'') (PList []))) (\<lambda>evidence.
     bind_res (py_iter (py_or (dget payload ''reports'') (PList []))) (\<lambda>reports.
     bind_res (assemble_rca_context (d_fr D) (ag_elapsed A) event evidence reports rnd max_rounds spent
         (dget_or payload ''platform_type'' (PStr ''presto'')) (dget_or payload ''engine_version'' (PStr ''0.298''))
         CONTEXT_BUDGET_CHARS (py_or (dget payload ''approver_feedback'') (PList []))) (\<lambda>c.
       Inr (rnd, c))))))))"

definition rca_audit :: "'s deps \<Rightarrow> dict \<Rightarrow> int \<Rightarrow> rca_context \<Rightarrow> pyval \<Rightarrow> db \<Rightarrow> db res" where
  "rca_audit D payload rnd c report d =
     bind_res (py_get report ''status'') (\<lambda>st. bind_res (py_get report ''confidence'') (\<lambda>conf.
       audit D ''rca_produced'' (actor_agent ''rca'') (dget payload ''investigation_id'')
         [(''status'', st), (''confidence'', conf), (''round'', PInt rnd), (''context_build_ms'', PFloat (build_ms c))] d))"

definition analyze :: "'s deps \<Rightarrow> 's agents \<Rightarrow> dict \<Rightarrow> ('s, pyval) act" where
  "analyze D A payload =
     bind_io (lift_io (analysis_context D A payload)) (\<lambda>(rnd, c).
     bind_io (ask_agent D A ''rca'' ''rca.txt'' ''rca_report'' (variables c) (dget payload ''investigation_id'') (PInt rnd)) (\<lambda>report.
     bind_io (txn_unit (rca_audit D payload rnd c report)) (\<lambda>_.
       ret (PDict (dset (as_dict report) ''_context_metrics'' (context_metrics c))))))"

definition WRITE_OPS_PROMPT :: "string list" where
  "WRITE_OPS_PROMPT =
     [''k8s_patch_configmap'', ''k8s_rollout_restart'', ''k8s_delete_pod'', ''swarm_update_service_env'',
      ''swarm_restart_service'', ''presto_kill_query'']"

definition proposal_audit :: "'s deps \<Rightarrow> dict \<Rightarrow> pyval \<Rightarrow> db \<Rightarrow> db res" where
  "proposal_audit D payload out d =
     bind_res (py_get out ''proposed_actions'') (\<lambda>v. bind_res (py_len (py_or v (PList []))) (\<lambda>n.
       audit D ''remediation_proposed'' (actor_agent ''remediation'') (dget payload ''investigation_id'')
         [(''n_actions'', PInt n)] d))"

definition plan_remediation :: "'s deps \<Rightarrow> 's agents \<Rightarrow> dict \<Rightarrow> ('s, pyval) act" where
  "plan_remediation D A payload =
     bind_io (ask_agent D A ''remediation'' ''remediation.txt'' ''remediation''
       [(''rca_report'', PStr (json_dumps (d_fr D) (py_or (dget payload ''rca_report'') (PDict [])))),
        (''playbooks'', PStr (json_dumps (d_fr D) (PList MVP_PLAYBOOKS))),
        (''write_ops'', PStr (json_dumps (d_fr D) (strings WRITE_OPS_PROMPT))),
        (''health_query'', py_or (dget payload ''health_query'') (PStr ''SELECT 1'')),
        (''risk_defs'', PStr RISK_DEFS)]
       (dget payload ''investigation_id'') PNone) (\<lambda>out.
     bind_io (txn_unit (proposal_audit D payload out)) (\<lambda>_. ret out))"

definition get_spend :: "'s deps \<Rightarrow> dict \<Rightarrow> ('s, rat) act" where
  "get_spend D payload =
     bind_io (lift_io (bind_res (ditem payload ''investigation_id'') (to_uuid D))) (\<lambda>iid.
       query (\<lambda>d. Inr (spend_of iid d)))"

end
