(* ===== verification/Notifications.thy ===== *)
theory Notifications
  imports World Prompting
begin

text \<open>
  Outbound notifications (\<open>rca_common/notifications.py\<close>): redaction of secrets in the payload, the two
  message formats, delivery to the webhooks with retries, and the activity that sends them.
\<close>

section \<open>Redaction\<close>

definition REDACTION_PLACEHOLDER :: string where
  "REDACTION_PLACEHOLDER = ''***REDACTED***''"

text \<open>\<open>re.sub\<close> for a pattern given by its matcher, which returns the replacement and the text after the
  match; matches are taken from left to right and do not overlap.\<close>

function re_sub :: "(string \<Rightarrow> (string \<times> string) option) \<Rightarrow> string \<Rightarrow> string" where
  "re_sub m [] = []"
| "re_sub m (c # s) =
     (case m (c # s) of
        Some (r, rest) \<Rightarrow> if length rest \<le> length s then r @ re_sub m rest else c # re_sub m s
      | None \<Rightarrow> c # re_sub m s)"
  by pat_completeness auto

termination
  by (relation "measure (\<lambda>(m, s). length s)") auto

text \<open>\<open>_PASSWORD_PAIR_RE\<close>: a keyword in any case, a separator with optional white space around it, and a run of
  value characters\<close>

definition SECRET_WORDS :: "string list" where
  "SECRET_WORDS = [''password'', ''passwd'', ''secret'', ''api_key'', ''api-key'', ''apikey'', ''token'']"

definition is_sep :: "char \<Rightarrow> bool" where
  "is_sep c \<longleftrightarrow> c = CHR ''='' \<or> c = CHR '':''"

definition value_char :: "char \<Rightarrow> bool" where
  "value_char c \<longleftrightarrow> \<not> is_space c \<and> c \<notin> {CHR ''&'', CHR '';'', CHR 0x22, CHR 0x27}"

definition secret_word :: "string \<Rightarrow> string option" where
  "secret_word s = List.find (\<lambda>k. str_lower (take (length k) s) = k) SECRET_WORDS"

definition pair_match :: "string \<Rightarrow> (string \<times> string \<times> string) option" where
  "pair_match s =
     (case secret_word s of
        None \<Rightarrow> None
      | Some k \<Rightarrow>
          (case dropWhile is_space (drop (length k) s) of
             [] \<Rightarrow> None
           | c # t \<Rightarrow>
               (let t' = dropWhile is_space t; v = takeWhile value_char t' in
                if is_sep c \<and> v \<noteq> [] then Some (take (length s - length t') s, v, dropWhile value_char t') else None)))"

text \<open>\<open>_USERINFO_RE\<close>\<close>

definition user_char :: "char \<Rightarrow> bool" where
  "user_char c \<longleftrightarrow> \<not> is_space c \<and> c \<notin> {CHR ''/'', CHR '':'', CHR ''@''}"

definition pass_char :: "char \<Rightarrow> bool" where
  "pass_char c \<longleftrightarrow> \<not> is_space c \<and> c \<notin> {CHR ''@'', CHR ''/''}"

definition userinfo_match :: "string \<Rightarrow> (string \<times> string \<times> string) option" where
  "userinfo_match s =
     (if \<not> starts_with ''://'' s then None
      else let u = takeWhile user_char (drop 3 s) in
        (case dropWhile user_char (drop 3 s) of
           [] \<Rightarrow> None
         | c # t \<Rightarrow>
             (case dropWhile pass_char t of
                [] \<Rightarrow> None
              | a # rest \<Rightarrow>
                  if u \<noteq> [] \<and> c = CHR '':'' \<and> takeWhile pass_char t \<noteq> [] \<and> a = CHR ''@''
                  then Some (''://'' @ u, takeWhile pass_char t, rest) else None)))"

definition redact_pairs :: "string \<Rightarrow> string" where
  "redact_pairs = re_sub (\<lambda>s. case pair_match s of None \<Rightarrow> None | Some (g, v, rest) \<Rightarrow> Some (g @ REDACTION_PLACEHOLDER, rest))"

definition redact_userinfo :: "string \<Rightarrow> string" where
  "redact_userinfo = re_sub (\<lambda>s. case userinfo_match s of None \<Rightarrow> None
     | Some (g, v, rest) \<Rightarrow> Some (g @ '':'' @ REDACTION_PLACEHOLDER @ ''@'', rest))"

definition sanitize_string :: "string \<Rightarrow> string" where
  "sanitize_string value = redact_userinfo (redact_pairs value)"

fun sanitize_val :: "pyval \<Rightarrow> pyval" where
  "sanitize_val (PStr s) = PStr (sanitize_string s)"
| "sanitize_val (PDict d) = PDict (map (\<lambda>kv. (fst kv, sanitize_val (snd kv))) d)"
| "sanitize_val (PList xs) = PList (map sanitize_val xs)"
| "sanitize_val v = v"

definition sanitize_payload :: "dict \<Rightarrow> dict" where
  "sanitize_payload payload = map (\<lambda>kv. (fst kv, sanitize_val (snd kv))) payload"

section \<open>Formats\<close>

definition SEVERITY_RANK :: "(string \<times> int) list" where
  "SEVERITY_RANK = [(''critical'', 4), (''high'', 3), (''medium'', 2), (''low'', 1), (''unknown'', 0)]"

definition severity_rank :: "string \<Rightarrow> int \<Rightarrow> int" where
  "severity_rank k dflt = (case map_of SEVERITY_RANK k of Some r \<Rightarrow> r | None \<Rightarrow> dflt)"

definition severity_at_least :: "pyval \<Rightarrow> pyval \<Rightarrow> bool res" where
  "severity_at_least actual minimum =
     bind_res (py_lower (py_or actual (PStr ''unknown''))) (\<lambda>a.
     bind_res (py_lower (py_or minimum (PStr ''low''))) (\<lambda>m.
       Inr (severity_rank a 0 \<ge> severity_rank m 1)))"

text \<open>The first truthy value of several keys\<close>

definition first_of :: "dict \<Rightarrow> string list \<Rightarrow> pyval \<Rightarrow> pyval" where
  "first_of d ks dflt = foldr (\<lambda>k v. py_or (dget d k) v) ks dflt"

definition format_generic :: "string \<Rightarrow> pyval \<Rightarrow> dict \<Rightarrow> dict" where
  "format_generic now_iso event payload =
     [(''event'', event), (''investigation_id'', dget payload ''investigation_id''),
      (''platform_key'', dget payload ''platform_key''),
      (''severity'', first_of payload [''severity''] (PStr ''unknown'')),
      (''summary'', first_of payload [''summary'', ''rca_compact''] (PStr [])),
      (''digest'', first_of payload [''digest''] (PStr [])),
      (''dashboard_url'', first_of payload [''dashboard_url''] (PStr [])),
      (''occurred_at'', first_of payload [''occurred_at''] (PStr now_iso))]"

definition block_text :: "string \<Rightarrow> string \<Rightarrow> pyval" where
  "block_text kind t = PDict [(''type'', PStr kind), (''text'', PStr t)]"

definition slack_title :: "(rat \<Rightarrow> string) \<Rightarrow> pyval \<Rightarrow> dict \<Rightarrow> string" where
  "slack_title fr event payload =
     py_str fr event @ '' '' @ [CHR 0xB7] @ '' '' @ py_str fr (first_of payload [''platform_key''] (PStr ''unknown'')) @
     '' '' @ [CHR 0xB7] @ '' '' @ py_str fr (first_of payload [''severity''] (PStr ''unknown''))"

definition format_slack :: "(rat \<Rightarrow> string) \<Rightarrow> pyval \<Rightarrow> dict \<Rightarrow> dict" where
  "format_slack fr event payload =
     (let title = slack_title fr event payload;
          body = first_of payload [''summary'', ''rca_compact'', ''digest''] (PStr ''(no summary)'');
          url = first_of payload [''dashboard_url''] (PStr []);
          blocks = [PDict [(''type'', PStr ''header''), (''text'', block_text ''plain_text'' (take 150 title))],
                    PDict [(''type'', PStr ''section''), (''text'', block_text ''mrkdwn'' (take 3000 (py_str fr body)))]] @
                   (if truthy url
                    then [PDict [(''type'', PStr ''actions''), (''elements'', PList
                            [PDict [(''type'', PStr ''button''), (''text'', block_text ''plain_text'' ''Open in dashboard''),
                                    (''url'', url)]])]]
                    else []) in
      [(''text'', PStr title), (''blocks'', PList blocks)])"

definition format_payload :: "(rat \<Rightarrow> string) \<Rightarrow> string \<Rightarrow> pyval \<Rightarrow> pyval \<Rightarrow> dict \<Rightarrow> dict res" where
  "format_payload fr now_iso fmt event payload =
     bind_res (py_lower (py_or fmt (PStr ''generic''))) (\<lambda>f.
       Inr (if f = ''slack'' then format_slack fr event payload else format_generic now_iso event payload))"

section \<open>Delivery\<close>

text \<open>A webhook of the configuration, or a value of the payload\<close>

record outbound_webhook =
  wh_name :: string
  wh_url :: string
  wh_format :: string
  wh_events :: "string list"
  wh_min_severity :: string

datatype webhook = Configured outbound_webhook | Given pyval

record target =
  tg_name :: pyval
  tg_url :: pyval
  tg_format :: pyval
  tg_events :: "pyval list"
  tg_min :: pyval

definition read_webhook :: "webhook \<Rightarrow> target res" where
  "read_webhook wh =
     (case wh of
        Configured c \<Rightarrow>
          Inr \<lparr>tg_name = PStr (if wh_name c = [] then wh_url c else wh_name c), tg_url = PStr (wh_url c),
               tg_format = py_or (PStr (wh_format c)) (PStr ''generic''), tg_events = map PStr (wh_events c),
               tg_min = py_or (PStr (wh_min_severity c)) (PStr ''low'')\<rparr>
      | Given v \<Rightarrow>
          (let d = as_dict v in
           bind_res (if is_dict v then py_iter (py_or (dget d ''events'') (PList [])) else Inr []) (\<lambda>evs.
             Inr \<lparr>tg_name = first_of d [''name'', ''url''] (PStr ''unknown''), tg_url = first_of d [''url''] (PStr []),
                  tg_format = first_of d [''format''] (PStr ''generic''), tg_events = evs,
                  tg_min = first_of d [''min_severity''] (PStr ''low'')\<rparr>)))"

text \<open>The HTTP client: the status of the answer, or the text of the exception\<close>

type_synonym 's poster = "'s \<Rightarrow> pyval \<Rightarrow> dict \<Rightarrow> (string + int) \<times> 's"

definition post_once :: "'s poster \<Rightarrow> pyval \<Rightarrow> dict \<Rightarrow> 's \<Rightarrow> (bool \<times> pyval \<times> pyval) \<times> 's" where
  "post_once post url body s =
     (case post s url body of
        (Inl e, s') \<Rightarrow> ((False, PStr e, PNone), s')
      | (Inr code, s') \<Rightarrow>
          if 200 \<le> code \<and> code < 300 then ((True, PNone, PInt code), s')
          else ((False, PStr (''status '' @ int_str code), PInt code), s'))"

text \<open>The attempts at one webhook, from the \<open>n\<close>-th on: the outcome of the last one and its number\<close>

fun post_attempts :: "'s poster \<Rightarrow> pyval \<Rightarrow> dict \<Rightarrow> nat \<Rightarrow> nat \<Rightarrow> 's \<Rightarrow> (bool \<times> pyval \<times> pyval \<times> nat) \<times> 's" where
  "post_attempts post url body 0 n s = ((False, PNone, PNone, n), s)"
| "post_attempts post url body (Suc k) n s =
     (case post_once post url body s of
        ((ok, e, code), s') \<Rightarrow>
          if ok \<or> k = 0 then ((ok, e, code, Suc n), s') else post_attempts post url body k (Suc n) s')"

definition MAX_ATTEMPTS :: nat where
  "MAX_ATTEMPTS = 3"

definition subscribed :: "pyval \<Rightarrow> pyval list \<Rightarrow> bool" where
  "subscribed event events \<longleftrightarrow> events = [] \<or> (\<exists>e \<in> set events. py_eq event e) \<or> event = PStr ''notification_test''"

definition send_one ::
  "(rat \<Rightarrow> string) \<Rightarrow> string \<Rightarrow> 's poster \<Rightarrow> pyval \<Rightarrow> dict \<Rightarrow> webhook \<Rightarrow> ('s, pyval) io" where
  "send_one fr now_iso post event payload wh =
     bind_io (lift_io (read_webhook wh)) (\<lambda>t.
     bind_io (lift_io (severity_at_least (dget payload ''severity'') (tg_min t))) (\<lambda>sev_ok.
       if \<not> subscribed event (tg_events t) \<or> \<not> sev_ok
       then ret (PDict [(''name'', tg_name t), (''ok'', PBool False), (''skipped'', PBool True), (''reason'', PStr ''filtered'')])
       else if \<not> truthy (tg_url t)
       then ret (PDict [(''name'', tg_name t), (''ok'', PBool False), (''error'', PStr ''empty url'')])
       else bind_io (lift_io (format_payload fr now_iso (tg_format t) event (sanitize_payload payload))) (\<lambda>body s.
         case post_attempts post (tg_url t) body MAX_ATTEMPTS 0 s of
           ((ok, e, code, n), s') \<Rightarrow>
             (Inr (PDict [(''name'', tg_name t), (''ok'', PBool ok), (''status_code'', code), (''error'', e),
                (''attempts'', PInt (int n))]), s'))))"

definition send_to_webhooks ::
  "(rat \<Rightarrow> string) \<Rightarrow> string \<Rightarrow> 's poster \<Rightarrow> webhook list \<Rightarrow> pyval \<Rightarrow> dict \<Rightarrow> ('s, pyval list) io" where
  "send_to_webhooks fr now_iso post webhooks event payload = map_io (send_one fr now_iso post event payload) webhooks"

section \<open>The activity\<close>

record 's notifier =
  nt_post :: "'s poster"
  nt_webhooks :: "outbound_webhook list option"
  nt_base_url :: string
  nt_now_iso :: string

definition rstrip_slash :: "string \<Rightarrow> string" where
  "rstrip_slash s = rev (dropWhile (\<lambda>c. c = CHR ''/'') (rev s))"

definition with_dashboard_url :: "'s deps \<Rightarrow> 's notifier \<Rightarrow> dict \<Rightarrow> dict" where
  "with_dashboard_url D N p =
     (if \<not> truthy (dget p ''dashboard_url'') \<and> nt_base_url N \<noteq> []
      then (let inv = dget p ''investigation_id'' in
            dset p ''dashboard_url'' (PStr (if truthy inv
              then rstrip_slash (nt_base_url N) @ ''/cases/'' @ py_str (d_fr D) inv else nt_base_url N)))
      else p)"

fun audit_sent :: "'s deps \<Rightarrow> pyval \<Rightarrow> pyval \<Rightarrow> pyval list \<Rightarrow> db \<Rightarrow> db res" where
  "audit_sent D event iidv [] d = Inr d"
| "audit_sent D event iidv (r # rs) d =
     bind_res (if truthy (dget (as_dict r) ''ok'')
       then audit D ''notification_sent'' actor_system iidv
         [(''event'', event), (''webhook'', dget (as_dict r) ''name''), (''status_code'', dget (as_dict r) ''status_code'')] d
       else Inr d) (audit_sent D event iidv rs)"

definition send_notifications :: "'s deps \<Rightarrow> 's notifier \<Rightarrow> dict \<Rightarrow> ('s, pyval) act" where
  "send_notifications D N payload =
     (let event = py_or (dget payload ''event'') (PStr ''case_resolved'') in
      bind_io (lift_io (py_update [] (py_or (dget payload ''payload'') (PDict payload)))) (\<lambda>p0.
      bind_io (lift_io (if truthy (dget payload ''webhooks'')
          then bind_res (py_iter (dget payload ''webhooks'')) (\<lambda>ws. Inr (map Given ws))
          else Inr (map Configured (case nt_webhooks N of None \<Rightarrow> [] | Some ws \<Rightarrow> ws)))) (\<lambda>webhooks.
      let p = with_dashboard_url D N p0 in
      bind_io (try_io
          (bind_io (on_probe (send_to_webhooks (d_fr D) (nt_now_iso N) (nt_post N) webhooks event p)) (\<lambda>rs. ret (Inr rs)))
          (\<lambda>e. ret (Inl (d_es D e)))) (\<lambda>sent.
        case sent of
          Inl e \<Rightarrow> ret (PDict [(''ok'', PBool False), (''error'', PStr e), (''results'', PList [])])
        | Inr rs \<Rightarrow>
            bind_io (txn_unit (audit_sent D event (dget p ''investigation_id'') rs)) (\<lambda>_.
              ret (PDict [(''ok'', PBool True), (''results'', PList rs)]))))))"

end
