(* ===== verification/NotificationSafety.thy ===== *)
theory NotificationSafety
  imports Notifications "HOL-Library.Sublist"
begin

text \<open>
  What leaves through the webhooks: text in which every secret pair and every user password of a URL is
  redacted, with a bounded number of attempts and one result for each webhook.
\<close>

section \<open>The matchers\<close>

text \<open>The part of a pair before its value\<close>

definition pair_head :: "string \<Rightarrow> bool" where
  "pair_head g \<longleftrightarrow> (\<exists>k sp c sp'. g = k @ sp @ [c] @ sp' \<and> str_lower k \<in> set SECRET_WORDS \<and> is_sep c \<and>
     (\<forall>x \<in> set sp \<union> set sp'. is_space x))"

lemma sep_facts: "is_sep c \<Longrightarrow> \<not> is_space c \<and> c \<noteq> CHR ''*''"
  by (auto simp: is_sep_def is_space_def code_point_def)

lemma secret_word_Some:
  "secret_word s = Some k \<Longrightarrow> k \<in> set SECRET_WORDS \<and> str_lower (take (length k) s) = k"
  by (auto simp: secret_word_def find_Some_iff in_set_conv_nth)

lemma length_str_lower [simp]: "length (str_lower s) = length s"
  by (simp add: str_lower_def)

lemma take_before: "s = a @ b \<Longrightarrow> take (length s - length b) s = a"
  by simp

lemma pair_match_Some:
  assumes "pair_match s = Some (g, v, r)"
  shows "s = g @ v @ r \<and> pair_head g \<and> v \<noteq> [] \<and> v = takeWhile value_char (v @ r)"
proof -
  from assms obtain k c t where k: "secret_word s = Some k"
    and c: "dropWhile is_space (drop (length k) s) = c # t" "is_sep c"
    and v: "v = takeWhile value_char (dropWhile is_space t)" "v \<noteq> []" "r = dropWhile value_char (dropWhile is_space t)"
    and g: "g = take (length s - length (dropWhile is_space t)) s"
    by (auto simp: pair_match_def Let_def split: option.splits list.splits if_splits)
  let ?k = "take (length k) s" and ?sp = "takeWhile is_space (drop (length k) s)" and ?sp' = "takeWhile is_space t"
  have s: "s = (?k @ ?sp @ [c] @ ?sp') @ dropWhile is_space t"
  proof -
    have "drop (length k) s = ?sp @ c # t" using takeWhile_dropWhile_id[of is_space "drop (length k) s"] c(1) by simp
    then have "s = ?k @ ?sp @ c # t" using append_take_drop_id[of "length k" s] by metis
    then show ?thesis unfolding append.assoc append_Cons append_Nil takeWhile_dropWhile_id .
  qed
  have "g = ?k @ ?sp @ [c] @ ?sp'"
    using g take_before[OF s] by (rule trans)
  moreover have "pair_head (?k @ ?sp @ [c] @ ?sp')"
    unfolding pair_head_def using secret_word_Some[OF k] c(2)
    by (intro exI[of _ ?k] exI[of _ ?sp] exI[of _ c] exI[of _ ?sp']) (auto dest: set_takeWhileD)
  moreover have "dropWhile is_space t = v @ r" using v by simp
  moreover have "v = takeWhile value_char (v @ r)" using v(1,3) by simp
  ultimately show ?thesis using s v(2) by simp
qed

lemma find_unique: "(\<And>b. b \<in> set xs \<Longrightarrow> P b = (b = k)) \<Longrightarrow> k \<in> set xs \<Longrightarrow> List.find P xs = Some k"
  by (induction xs) auto

lemma secret_word_prefix:
  assumes "str_lower k \<in> set SECRET_WORDS"
  shows "secret_word (k @ t) = Some (str_lower k)"
proof -
  have apart: "\<forall>a \<in> set SECRET_WORDS. \<forall>b \<in> set SECRET_WORDS. take (length a) b = a \<longrightarrow> a = b"
    by (simp add: SECRET_WORDS_def)
  have "str_lower (take (length b) (k @ t)) = b \<longleftrightarrow> b = str_lower k" if "b \<in> set SECRET_WORDS" for b
  proof
    assume b: "str_lower (take (length b) (k @ t)) = b"
    show "b = str_lower k"
    proof (cases "length b \<le> length k")
      case True
      then have "take (length b) (str_lower k) = b" using b by (simp add: str_lower_def take_map)
      then show ?thesis using apart that assms by blast
    next
      case False
      then have "take (length (str_lower k)) b = str_lower k"
        using arg_cong[OF b, of "take (length k)"] by (simp add: str_lower_def take_map)
      then show ?thesis using apart that assms by blast
    qed
  qed (simp add: str_lower_def)
  note u = this
  show ?thesis unfolding secret_word_def by (rule find_unique) (erule u, rule assms)
qed

lemma dropWhile_all: "(\<forall>x \<in> set xs. P x) \<Longrightarrow> dropWhile P (xs @ ys) = dropWhile P ys"
  by (induction xs) auto

lemma pair_match_head:
  assumes "pair_head g" "t \<noteq> []" "value_char (hd t)"
  shows "pair_match (g @ t) = Some (g, takeWhile value_char t, dropWhile value_char t)"
proof -
  obtain k sp c sp' where g: "g = k @ sp @ [c] @ sp'" "str_lower k \<in> set SECRET_WORDS" "is_sep c"
    "\<forall>x \<in> set sp. is_space x" "\<forall>x \<in> set sp'. is_space x"
    using assms(1) unfolding pair_head_def by blast
  have t: "dropWhile is_space t = t" using assms(2,3) by (cases t) (auto simp: value_char_def)
  have v: "takeWhile value_char t \<noteq> []" using assms(2,3) by (cases t) auto
  show ?thesis
    using g sep_facts[OF g(3)] v
    by (simp add: pair_match_def secret_word_prefix dropWhile_all t Let_def)
qed

lemma secret_words_plain: "str_lower k \<in> set SECRET_WORDS \<Longrightarrow> c \<in> set k \<Longrightarrow> c \<noteq> CHR ''*'' \<and> \<not> is_sep c"
proof -
  assume k: "str_lower k \<in> set SECRET_WORDS" "c \<in> set k"
  have "\<forall>w \<in> set SECRET_WORDS. \<forall>x \<in> set w. x \<noteq> CHR ''*'' \<and> x \<noteq> CHR ''='' \<and> x \<noteq> CHR '':''"
    by (simp add: SECRET_WORDS_def)
  moreover have "lower_char c \<in> set (str_lower k)" using k(2) by (simp add: str_lower_def)
  ultimately have "lower_char c \<noteq> CHR ''*'' \<and> lower_char c \<noteq> CHR ''='' \<and> lower_char c \<noteq> CHR '':''" using k(1) by blast
  then show ?thesis by (auto simp: is_sep_def lower_char_def code_point_def)
qed

lemma space_plain: "is_space c \<Longrightarrow> c \<noteq> CHR ''*'' \<and> \<not> is_sep c \<and> \<not> value_char c"
  by (auto simp: is_sep_def is_space_def value_char_def code_point_def)

lemma pair_head_plain: "pair_head g \<Longrightarrow> CHR ''*'' \<notin> set g \<and> (\<exists>c \<in> set g. is_sep c)"
  unfolding pair_head_def using secret_words_plain space_plain sep_facts by fastforce

text \<open>After the separator of a pair only white space precedes the value.\<close>

lemma pair_head_inner:
  assumes "pair_head g" "g = g0 @ g1 @ q" "pair_head g1"
  shows "\<forall>x \<in> set q. is_space x"
proof -
  obtain k sp c sp' where g: "g = (k @ sp @ [c]) @ sp'" "str_lower k \<in> set SECRET_WORDS"
    "\<forall>x \<in> set sp. is_space x" "\<forall>x \<in> set sp'. is_space x"
    using assms(1) unfolding pair_head_def by auto
  obtain d where d: "d \<in> set g1" "is_sep d" using pair_head_plain[OF assms(3)] by blast
  have "(g0 @ g1) @ q = (k @ sp @ [c]) @ sp'" using assms(2) g(1) by simp
  then consider us where "g0 @ g1 = (k @ sp @ [c]) @ us" "sp' = us @ q" | us where "(g0 @ g1) @ us = k @ sp @ [c]" "q = us @ sp'"
    unfolding append_eq_append_conv2 by blast
  then show ?thesis
  proof cases
    case 2
    show ?thesis
    proof (cases us rule: rev_cases)
      case (snoc us' x)
      then have "set g1 \<subseteq> set k \<union> set sp" using arg_cong[OF 2(1), of butlast] by (auto simp: butlast_append) (metis Un_iff set_append)
      then show ?thesis using d secret_words_plain[OF g(2)] g(3) space_plain by blast
    qed (use 2 g(4) in simp)
  qed (use g(4) in simp)
qed

section \<open>Pairs\<close>

definition pairs_redacted :: "string \<Rightarrow> bool" where
  "pairs_redacted s \<longleftrightarrow> (\<forall>t g v r. suffix t s \<and> pair_match t = Some (g, v, r) \<longrightarrow> starts_with REDACTION_PLACEHOLDER v)"

lemma placeholder_value: "\<forall>c \<in> set REDACTION_PLACEHOLDER. value_char c \<and> \<not> is_sep c"
  by (simp add: REDACTION_PLACEHOLDER_def value_char_def is_space_def code_point_def is_sep_def)

lemma placeholder_starts: "starts_with REDACTION_PLACEHOLDER (takeWhile value_char (REDACTION_PLACEHOLDER @ y))"
  using placeholder_value by (simp add: starts_with_def)

lemma pair_match_splice:
  assumes "pair_match (q @ REDACTION_PLACEHOLDER @ y) = Some (g, v, r)"
  shows "starts_with REDACTION_PLACEHOLDER v \<or> (\<exists>q'. q = g @ q' \<and> q' \<noteq> [] \<and> value_char (hd q') \<and> pair_head g)"
proof -
  note m = pair_match_Some[OF assms]
  have star: "CHR ''*'' \<notin> set g" using m pair_head_plain by blast
  from m have "q @ (REDACTION_PLACEHOLDER @ y) = g @ (v @ r)" by simp
  then consider us where "q = g @ us" "us @ REDACTION_PLACEHOLDER @ y = v @ r"
    | us where "q @ us = g" "REDACTION_PLACEHOLDER @ y = us @ v @ r"
    unfolding append_eq_append_conv2 by blast
  then show ?thesis
  proof cases
    case 1
    show ?thesis
    proof (cases us)
      case Nil
      then show ?thesis using 1(2) m placeholder_starts by (metis append_Nil)
    next
      case (Cons a us')
      have "value_char (hd v)" using m by (metis hd_in_set set_takeWhileD)
      then have "value_char (hd us)" using 1(2) Cons m by (cases v) auto
      then show ?thesis using 1(1) Cons m by blast
    qed
  next
    case 2
    have "hd (us @ v @ r) = CHR ''*''" unfolding 2(2)[symmetric] by (simp add: REDACTION_PLACEHOLDER_def)
    then have "us = []" using 2(1) star by (cases us) auto
    then show ?thesis using 2 m placeholder_starts by (metis append_Nil)
  qed
qed

lemma pair_match_in_placeholder:
  assumes "suffix p REDACTION_PLACEHOLDER" "p \<noteq> []"
  shows "pair_match (p @ y) = None"
proof (rule ccontr)
  assume "pair_match (p @ y) \<noteq> None"
  then obtain g v r where "pair_match (p @ y) = Some (g, v, r)" by (cases "pair_match (p @ y)") auto
  note m = pair_match_Some[OF this]
  obtain p' where p: "p = p' @ ''*''"
  proof -
    have "last p = CHR ''*''" using assms by (auto simp: suffix_def REDACTION_PLACEHOLDER_def last_append dest: arg_cong[where f = last])
    then show ?thesis using that[of "butlast p"] assms(2) by (metis append_butlast_last_id)
  qed
  have "p' @ (''*'' @ y) = g @ (v @ r)" using m p by simp
  then obtain us where "p' = g @ us \<or> p' @ us = g \<and> ''*'' @ y = us @ v @ r" unfolding append_eq_append_conv2 by blast
  then have "set g \<subseteq> set p'" using m pair_head_plain[of g] by (cases us) auto
  moreover have "set p' \<subseteq> set REDACTION_PLACEHOLDER" using set_mono_suffix[OF assms(1)] p by simp
  ultimately show False using m pair_head_plain[of g] placeholder_value by blast
qed

lemma redact_pairs_simps [simp]:
  "redact_pairs [] = []"
  "pair_match (c # s) = None \<Longrightarrow> redact_pairs (c # s) = c # redact_pairs s"
  "pair_match (c # s) = Some (g, v, r) \<Longrightarrow> redact_pairs (c # s) = g @ REDACTION_PLACEHOLDER @ redact_pairs r"
proof -
  show "pair_match (c # s) = Some (g, v, r) \<Longrightarrow> redact_pairs (c # s) = g @ REDACTION_PLACEHOLDER @ redact_pairs r"
    using pair_match_Some[of "c # s" g v r] by (cases g; cases v) (auto simp: redact_pairs_def)
qed (simp_all add: redact_pairs_def)

lemma redact_pairs_shape:
  "redact_pairs s = s \<or> (\<exists>p t g v r. s = p @ t \<and> pair_match t = Some (g, v, r) \<and>
     redact_pairs s = p @ g @ REDACTION_PLACEHOLDER @ redact_pairs r)"
proof (induction s)
  case (Cons c s)
  show ?case
  proof (cases "pair_match (c # s)")
    case None
    show ?thesis
    proof (cases "redact_pairs s = s")
      case False
      then obtain p t g v r where "s = p @ t" "pair_match t = Some (g, v, r)"
        "redact_pairs s = p @ g @ REDACTION_PLACEHOLDER @ redact_pairs r" using Cons.IH by blast
      then have "c # s = (c # p) @ t \<and> pair_match t = Some (g, v, r) \<and>
          redact_pairs (c # s) = (c # p) @ g @ REDACTION_PLACEHOLDER @ redact_pairs r" using None by simp
      then show ?thesis by blast
    qed (use None in simp)
  next
    case (Some m)
    obtain g v r where "m = (g, v, r)" by (cases m)
    then have "c # s = [] @ (c # s) \<and> pair_match (c # s) = Some (g, v, r) \<and>
        redact_pairs (c # s) = [] @ g @ REDACTION_PLACEHOLDER @ redact_pairs r" using Some by simp
    then show ?thesis by blast
  qed
qed simp

lemma pairs_redacted_redact: "pairs_redacted (redact_pairs s)"
proof (induction s rule: length_induct)
  case (1 s)
  show ?case
  proof (cases s)
    case Nil
    then show ?thesis by (simp add: pairs_redacted_def pair_match_def secret_word_def SECRET_WORDS_def str_lower_def)
  next
    case (Cons c s')
    show ?thesis
    proof (cases "pair_match s")
      case None
      have out: "redact_pairs s = c # redact_pairs s'" using None Cons by simp
      have "starts_with REDACTION_PLACEHOLDER v" if m: "pair_match (c # redact_pairs s') = Some (g, v, r)" for g v r
      proof -
        obtain p t g1 v1 r1 where sh: "s' = p @ t" "pair_match t = Some (g1, v1, r1)"
          "redact_pairs s' = p @ g1 @ REDACTION_PLACEHOLDER @ redact_pairs r1"
          using redact_pairs_shape[of s'] m None Cons by auto
        have "pair_match ((c # p @ g1) @ REDACTION_PLACEHOLDER @ redact_pairs r1) = Some (g, v, r)" using m sh(3) by simp
        from pair_match_splice[OF this] show ?thesis
        proof (elim disjE exE conjE)
          fix q' assume q: "c # p @ g1 = g @ q'" "q' \<noteq> []" "value_char (hd q')" "pair_head g"
          have "s = g @ (q' @ v1 @ r1)" using q(1) Cons sh(1) pair_match_Some[OF sh(2)] by (metis append.assoc append_Cons)
          then show ?thesis using pair_match_head[OF q(4), of "q' @ v1 @ r1"] q(2,3) None by simp
        qed
      qed
      moreover have "pairs_redacted (redact_pairs s')" using 1 Cons by simp
      ultimately show ?thesis unfolding out pairs_redacted_def suffix_Cons by blast
    next
      case (Some m)
      then obtain g v r where m: "pair_match s = Some (g, v, r)" by (cases m) auto
      note pm = pair_match_Some[OF m]
      have out: "redact_pairs s = g @ REDACTION_PLACEHOLDER @ redact_pairs r" using m Cons by simp
      have r: "pairs_redacted (redact_pairs r)" using 1 pm by simp
      have "starts_with REDACTION_PLACEHOLDER v2" if "suffix t (redact_pairs s)" "pair_match t = Some (g2, v2, r2)" for t g2 v2 r2
      proof -
        from that(1) consider q where "t = q @ REDACTION_PLACEHOLDER @ redact_pairs r" "suffix q g"
          | q where "t = q @ redact_pairs r" "suffix q REDACTION_PLACEHOLDER" "q \<noteq> []" | "suffix t (redact_pairs r)"
          unfolding out suffix_append by (metis append_Nil suffix_order.order_refl)
        then show ?thesis
        proof cases
          case 1
          from pair_match_splice[OF that(2)[unfolded 1(1)]] show ?thesis
          proof (elim disjE exE conjE)
            fix q' assume q: "q = g2 @ q'" "q' \<noteq> []" "value_char (hd q')" "pair_head g2"
            obtain g0 where "g = g0 @ g2 @ q'" using 1(2) q(1) by (auto simp: suffix_def)
            then show ?thesis using pair_head_inner[OF _ _ q(4)] pm q(2,3) space_plain by (metis hd_in_set)
          qed
        next
          case 2
          then show ?thesis using pair_match_in_placeholder that(2) by simp
        next
          case 3
          then show ?thesis using r that(2) unfolding pairs_redacted_def by blast
        qed
      qed
      then show ?thesis unfolding pairs_redacted_def by blast
    qed
  qed
qed

section \<open>User information in URLs\<close>

definition users_redacted :: "string \<Rightarrow> bool" where
  "users_redacted s \<longleftrightarrow> (\<forall>t g v r. suffix t s \<and> userinfo_match t = Some (g, v, r) \<longrightarrow> v = REDACTION_PLACEHOLDER)"

definition user_head :: "string \<Rightarrow> bool" where
  "user_head g \<longleftrightarrow> (\<exists>u. g = ''://'' @ u \<and> u \<noteq> [] \<and> (\<forall>c \<in> set u. user_char c))"

lemma userinfo_match_iff:
  "userinfo_match s = Some (g, v, r) \<longleftrightarrow>
     s = g @ '':'' @ v @ ''@'' @ r \<and> user_head g \<and> v \<noteq> [] \<and> (\<forall>c \<in> set v. pass_char c)"
proof
  assume "userinfo_match s = Some (g, v, r)"
  then obtain t where st: "starts_with ''://'' s" "dropWhile user_char (drop 3 s) = CHR '':'' # t"
    "takeWhile user_char (drop 3 s) \<noteq> []" "g = ''://'' @ takeWhile user_char (drop 3 s)"
    and v: "dropWhile pass_char t = CHR ''@'' # r" "v = takeWhile pass_char t" "v \<noteq> []"
    by (auto simp: userinfo_match_def Let_def split: if_splits list.splits)
  let ?u = "takeWhile user_char (drop 3 s)"
  have A: "s = ''://'' @ drop 3 s"
    using st(1) append_take_drop_id[of 3 s] by (simp add: starts_with_def numeral_3_eq_3 del: append_take_drop_id)
  have B: "drop 3 s = ?u @ CHR '':'' # t"
    using st(2) takeWhile_dropWhile_id[of user_char "drop 3 s"] by (simp del: takeWhile_dropWhile_id)
  have C: "t = v @ CHR ''@'' # r" using v(1,2) takeWhile_dropWhile_id[of pass_char t] by simp
  have "s = ''://'' @ ?u @ CHR '':'' # v @ CHR ''@'' # r"
    using trans[OF A arg_cong[where f = "\<lambda>x. ''://'' @ x", OF B]] unfolding C .
  moreover have "\<forall>c \<in> set ?u. user_char c" by (auto dest: set_takeWhileD)
  moreover have "\<forall>c \<in> set v. pass_char c" unfolding v(2) by (auto dest: set_takeWhileD)
  moreover have "user_head g" unfolding user_head_def using st(3,4) calculation(2) by blast
  ultimately show "s = g @ '':'' @ v @ ''@'' @ r \<and> user_head g \<and> v \<noteq> [] \<and> (\<forall>c \<in> set v. pass_char c)"
    using v(3) unfolding st(4) append.assoc append_Cons append_Nil by (intro conjI)
next
  assume "s = g @ '':'' @ v @ ''@'' @ r \<and> user_head g \<and> v \<noteq> [] \<and> (\<forall>c \<in> set v. pass_char c)"
  then obtain u where u: "s = ''://'' @ u @ CHR '':'' # v @ CHR ''@'' # r" "g = ''://'' @ u" "u \<noteq> []"
    "\<forall>c \<in> set u. user_char c" "v \<noteq> []" "\<forall>c \<in> set v. pass_char c"
    unfolding user_head_def by auto
  have c: "\<not> user_char (CHR '':'')" "\<not> pass_char (CHR ''@'')" by (simp_all add: user_char_def pass_char_def)
  have "dropWhile user_char (u @ CHR '':'' # v @ CHR ''@'' # r) = CHR '':'' # v @ CHR ''@'' # r"
    "takeWhile user_char (u @ CHR '':'' # v @ CHR ''@'' # r) = u"
    "dropWhile pass_char (v @ CHR ''@'' # r) = CHR ''@'' # r" "takeWhile pass_char (v @ CHR ''@'' # r) = v"
    using u(4,6) c by (simp_all add: dropWhile_all)
  then show "userinfo_match s = Some (g, v, r)"
    using u(1,2,3,5) by (simp add: userinfo_match_def starts_with_def Let_def)
qed

lemma user_head_colons: "user_head g \<Longrightarrow> count_list g (CHR '':'') = 1"
proof -
  assume "user_head g"
  then obtain u where u: "g = ''://'' @ u" "\<forall>c \<in> set u. user_char c" unfolding user_head_def by blast
  have "CHR '':'' \<notin> set u" using u(2) by (auto simp: user_char_def)
  then show ?thesis using u(1) by (simp add: count_list_0_iff)
qed

lemma at_free: "v @ CHR ''@'' # x = v' @ CHR ''@'' # x' \<Longrightarrow> CHR ''@'' \<notin> set v \<Longrightarrow> CHR ''@'' \<notin> set v' \<Longrightarrow> v = v' \<and> x = x'"
  by (induction v arbitrary: v'; case_tac v') auto

lemma placeholder_at: "CHR ''@'' \<notin> set REDACTION_PLACEHOLDER" "CHR '':'' \<notin> set REDACTION_PLACEHOLDER" "CHR ''/'' \<notin> set REDACTION_PLACEHOLDER"
  by (simp_all add: REDACTION_PLACEHOLDER_def)

lemma pass_at: "\<forall>c \<in> set v. pass_char c \<Longrightarrow> CHR ''@'' \<notin> set v"
  by (auto simp: pass_char_def)

lemma userinfo_splice:
  assumes "userinfo_match (q @ '':'' @ REDACTION_PLACEHOLDER @ ''@'' @ y) = Some (g, v, r)"
  shows "v = REDACTION_PLACEHOLDER \<or>
    user_head g \<and> (\<exists>q'. q @ '':'' = g @ '':'' @ q' \<and> q' \<noteq> [] \<and>
      ((\<forall>c \<in> set q'. pass_char c) \<or> (\<exists>v r'. q' = v @ ''@'' @ r' \<and> v \<noteq> [] \<and> (\<forall>c \<in> set v. pass_char c))))"
proof -
  from assms have m: "q @ '':'' @ REDACTION_PLACEHOLDER @ ''@'' @ y = g @ '':'' @ v @ ''@'' @ r" "user_head g" "v \<noteq> []"
    "\<forall>c \<in> set v. pass_char c" unfolding userinfo_match_iff by blast+
  note v = pass_at[OF m(4)]
  have "(q @ '':'') @ (REDACTION_PLACEHOLDER @ CHR ''@'' # y) = (g @ '':'') @ (v @ CHR ''@'' # r)" using m(1) by simp
  then consider us where "q @ '':'' = (g @ '':'') @ us" "us @ REDACTION_PLACEHOLDER @ CHR ''@'' # y = v @ CHR ''@'' # r"
    | us where "(q @ '':'') @ us = g @ '':''" "REDACTION_PLACEHOLDER @ CHR ''@'' # y = us @ v @ CHR ''@'' # r"
    unfolding append_eq_append_conv2 by blast
  then show ?thesis
  proof cases
    case 1
    show ?thesis
    proof (cases "us = []")
      case True
      then show ?thesis using 1(2) at_free[of REDACTION_PLACEHOLDER y v r] v placeholder_at(1) by simp
    next
      case False
      show ?thesis
      proof (cases "CHR ''@'' \<in> set us")
        case True
        then obtain a b where ab: "us = a @ CHR ''@'' # b" "CHR ''@'' \<notin> set a" using split_list_first by metis
        then have "a = v" using 1(2) at_free[of a _ v r] v by simp
        then show ?thesis using ab 1(1) False m by auto
      next
        case no: False
        then have "us @ REDACTION_PLACEHOLDER = v"
          using 1(2) at_free[of "us @ REDACTION_PLACEHOLDER" y v r] v placeholder_at(1) by simp
        then show ?thesis using 1(1) False m by auto
      qed
    qed
  next
    case 2
    show ?thesis
    proof (cases us rule: rev_cases)
      case Nil
      then show ?thesis using 2(2) at_free[of REDACTION_PLACEHOLDER y v r] v placeholder_at(1) by simp
    next
      case (snoc us' x)
      then have g: "g = q @ '':'' @ us'" using 2(1) by simp
      obtain u where u: "g = ''://'' @ u" "u \<noteq> []" "\<forall>c \<in> set u. user_char c" using m(2) unfolding user_head_def by blast
      have "CHR '':'' \<notin> set u" using u(3) by (auto simp: user_char_def)
      then have "q = []" using g u(1) by (cases q) (auto simp: append_eq_Cons_conv Cons_eq_append_conv)
      then have "hd us = CHR ''/''" using g u(1) snoc by auto
      moreover have "hd (us @ v @ CHR ''@'' # r) = CHR ''*''" unfolding 2(2)[symmetric] by (simp add: REDACTION_PLACEHOLDER_def)
      moreover have "hd (us @ v @ CHR ''@'' # r) = hd us" using snoc by (simp add: hd_append)
      ultimately show ?thesis by simp
    qed
  qed
qed

lemma redact_userinfo_simps [simp]:
  "redact_userinfo [] = []"
  "userinfo_match (c # s) = None \<Longrightarrow> redact_userinfo (c # s) = c # redact_userinfo s"
  "userinfo_match (c # s) = Some (g, v, r) \<Longrightarrow>
     redact_userinfo (c # s) = g @ '':'' @ REDACTION_PLACEHOLDER @ ''@'' @ redact_userinfo r"
proof -
  show "userinfo_match (c # s) = Some (g, v, r) \<Longrightarrow>
     redact_userinfo (c # s) = g @ '':'' @ REDACTION_PLACEHOLDER @ ''@'' @ redact_userinfo r"
  proof -
    assume m: "userinfo_match (c # s) = Some (g, v, r)"
    then have "length (c # s) = length (g @ '':'' @ v @ ''@'' @ r)" unfolding userinfo_match_iff by (metis (no_types))
    then have "length r \<le> length s" by simp
    then show ?thesis using m by (simp add: redact_userinfo_def)
  qed
qed (simp_all add: redact_userinfo_def)

lemma redact_userinfo_shape:
  "redact_userinfo s = s \<or> (\<exists>p t g v r. s = p @ t \<and> userinfo_match t = Some (g, v, r) \<and>
     redact_userinfo s = p @ g @ '':'' @ REDACTION_PLACEHOLDER @ ''@'' @ redact_userinfo r)"
proof (induction s)
  case (Cons c s)
  show ?case
  proof (cases "userinfo_match (c # s)")
    case None
    show ?thesis
    proof (cases "redact_userinfo s = s")
      case False
      then obtain p t g v r where "s = p @ t" "userinfo_match t = Some (g, v, r)"
        "redact_userinfo s = p @ g @ '':'' @ REDACTION_PLACEHOLDER @ ''@'' @ redact_userinfo r" using Cons.IH by blast
      then have "c # s = (c # p) @ t \<and> userinfo_match t = Some (g, v, r) \<and>
          redact_userinfo (c # s) = (c # p) @ g @ '':'' @ REDACTION_PLACEHOLDER @ ''@'' @ redact_userinfo r" using None by simp
      then show ?thesis by blast
    qed (use None in simp)
  next
    case (Some m)
    obtain g v r where "m = (g, v, r)" by (cases m)
    then have "c # s = [] @ (c # s) \<and> userinfo_match (c # s) = Some (g, v, r) \<and>
        redact_userinfo (c # s) = [] @ g @ '':'' @ REDACTION_PLACEHOLDER @ ''@'' @ redact_userinfo r" using Some by simp
    then show ?thesis by blast
  qed
qed simp

text \<open>The suffixes of a text with a redacted password\<close>

lemma redacted_suffix:
  assumes "suffix t (g @ '':'' @ REDACTION_PLACEHOLDER @ ''@'' @ y)"
  obtains (head) q where "t = q @ '':'' @ REDACTION_PLACEHOLDER @ ''@'' @ y" "suffix q g"
    | (placeholder) q where "t = q @ ''@'' @ y" "suffix q REDACTION_PLACEHOLDER" "q \<noteq> []"
    | (at) "t = ''@'' @ y" | (rest) "suffix t y"
proof -
  from assms consider (rest') "suffix t ('':'' @ REDACTION_PLACEHOLDER @ ''@'' @ y)"
    | (head') q where "t = q @ '':'' @ REDACTION_PLACEHOLDER @ ''@'' @ y" "suffix q g"
    unfolding suffix_append[of t g] by blast
  then show thesis
  proof cases
    case rest'
    then consider "t = '':'' @ REDACTION_PLACEHOLDER @ ''@'' @ y" | "suffix t (REDACTION_PLACEHOLDER @ (''@'' @ y))"
      by (simp add: suffix_Cons) blast
    then show thesis
    proof cases
      case 1
      then show thesis using head[of "[]"] by simp
    next
      case 2
      then consider "suffix t (''@'' @ y)" | q where "t = q @ ''@'' @ y" "suffix q REDACTION_PLACEHOLDER"
        unfolding suffix_append[of t REDACTION_PLACEHOLDER] by blast
      then show thesis
      proof cases
        case 1
        then show thesis using at rest by (auto simp: suffix_Cons)
      next
        case (2 q)
        then show thesis using at placeholder[of q] by (cases "q = []") simp_all
      qed
    qed
  qed (rule head)
qed

lemma users_redacted_redact: "users_redacted (redact_userinfo s)"
proof (induction s rule: length_induct)
  case (1 s)
  show ?case
  proof (cases s)
    case Nil
    then show ?thesis by (simp add: users_redacted_def userinfo_match_def starts_with_def)
  next
    case (Cons c s')
    show ?thesis
    proof (cases "userinfo_match s")
      case None
      have out: "redact_userinfo s = c # redact_userinfo s'" using None Cons by simp
      have "v = REDACTION_PLACEHOLDER" if m: "userinfo_match (c # redact_userinfo s') = Some (g, v, r)" for g v r
      proof -
        obtain p t g1 v1 r1 where sh: "s' = p @ t" "userinfo_match t = Some (g1, v1, r1)"
          "redact_userinfo s' = p @ g1 @ '':'' @ REDACTION_PLACEHOLDER @ ''@'' @ redact_userinfo r1"
          using redact_userinfo_shape[of s'] m None Cons by auto
        have v1: "t = g1 @ '':'' @ v1 @ ''@'' @ r1" "\<forall>c \<in> set v1. pass_char c" using sh(2) unfolding userinfo_match_iff by blast+
        have "userinfo_match ((c # p @ g1) @ '':'' @ REDACTION_PLACEHOLDER @ ''@'' @ redact_userinfo r1) = Some (g, v, r)"
          using m sh(3) by simp
        from userinfo_splice[OF this] show ?thesis
        proof (elim disjE exE conjE)
          fix q' assume q: "user_head g" "(c # p @ g1) @ '':'' = g @ '':'' @ q'" "q' \<noteq> []" "\<forall>c \<in> set q'. pass_char c"
          have "s = ((c # p @ g1) @ '':'') @ v1 @ ''@'' @ r1" using Cons sh(1) v1(1) by simp
          then have "s = g @ '':'' @ (q' @ v1) @ ''@'' @ r1" unfolding q(2) by simp
          then have "userinfo_match s = Some (g, q' @ v1, r1)" unfolding userinfo_match_iff using q(1,3,4) v1(2) by auto
          then show ?thesis using None by simp
        next
          fix q' v2 r2 assume q: "user_head g" "(c # p @ g1) @ '':'' = g @ '':'' @ q'" "q' = v2 @ ''@'' @ r2" "v2 \<noteq> []"
            "\<forall>c \<in> set v2. pass_char c"
          have "s = ((c # p @ g1) @ '':'') @ v1 @ ''@'' @ r1" using Cons sh(1) v1(1) by simp
          then have "s = g @ '':'' @ v2 @ ''@'' @ (r2 @ v1 @ ''@'' @ r1)" unfolding q(2,3) by simp
          then have "userinfo_match s = Some (g, v2, r2 @ v1 @ ''@'' @ r1)" unfolding userinfo_match_iff using q(1,4,5) by auto
          then show ?thesis using None by simp
        qed
      qed
      moreover have "users_redacted (redact_userinfo s')" using 1 Cons by simp
      ultimately show ?thesis unfolding out users_redacted_def suffix_Cons by blast
    next
      case (Some m)
      then obtain g v r where m: "userinfo_match s = Some (g, v, r)" by (cases m) auto
      then have pm: "s = g @ '':'' @ v @ ''@'' @ r" "user_head g" unfolding userinfo_match_iff by blast+
      have out: "redact_userinfo s = g @ '':'' @ REDACTION_PLACEHOLDER @ ''@'' @ redact_userinfo r" using m Cons by simp
      have r: "users_redacted (redact_userinfo r)" using 1 arg_cong[OF pm(1), of length] by simp
      have "v2 = REDACTION_PLACEHOLDER" if "suffix t (redact_userinfo s)" "userinfo_match t = Some (g2, v2, r2)" for t g2 v2 r2
        using that(1)[unfolded out]
      proof (cases rule: redacted_suffix)
        case (head q)
        have colons: "count_list (q @ '':'') (CHR '':'') \<le> 2"
          using head(2) user_head_colons[OF pm(2)] by (auto simp: suffix_def)
        from userinfo_splice[OF that(2)[unfolded head(1)]] show ?thesis
        proof
          assume "user_head g2 \<and> (\<exists>q'. q @ '':'' = g2 @ '':'' @ q' \<and> q' \<noteq> [] \<and>
            ((\<forall>c \<in> set q'. pass_char c) \<or> (\<exists>v r'. q' = v @ ''@'' @ r' \<and> v \<noteq> [] \<and> (\<forall>c \<in> set v. pass_char c))))"
          then obtain q' where q': "user_head g2" "q @ '':'' = g2 @ '':'' @ q'" "q' \<noteq> []" by blast
          have "last q' = CHR '':''" using arg_cong[OF q'(2), of last] q'(3) by simp
          then obtain q2 where "q' = q2 @ '':''" using q'(3) by (metis append_butlast_last_id)
          then show ?thesis using colons user_head_colons[OF q'(1)] unfolding q'(2) by simp
        qed
      next
        case (placeholder q)
        then have "hd t \<in> set REDACTION_PLACEHOLDER" using set_mono_suffix[OF placeholder(2)] by (cases q) auto
        then have "\<not> starts_with ''://'' t" using placeholder_at by (cases t) (auto simp: starts_with_def)
        then show ?thesis using that(2) by (simp add: userinfo_match_def)
      next
        case at
        then show ?thesis using that(2) by (simp add: userinfo_match_def starts_with_def)
      next
        case rest
        then show ?thesis using r that(2) unfolding users_redacted_def by blast
      qed
      then show ?thesis unfolding users_redacted_def by blast
    qed
  qed
qed

text \<open>The second substitution keeps what the first one achieved.\<close>

lemma pairs_redacted_splice:
  assumes "pair_match (q @ '':'' @ REDACTION_PLACEHOLDER @ y) = Some (g, v, r)" "pairs_redacted (q @ '':'' @ x)"
  shows "starts_with REDACTION_PLACEHOLDER v"
proof -
  have m: "pair_match ((q @ '':'') @ REDACTION_PLACEHOLDER @ y) = Some (g, v, r)" using assms(1) by simp
  from pair_match_splice[OF m] show ?thesis
  proof (elim disjE exE conjE)
    fix q' assume q: "q @ '':'' = g @ q'" "q' \<noteq> []" "value_char (hd q')" "pair_head g"
    have v: "v = takeWhile value_char (q' @ REDACTION_PLACEHOLDER @ y)"
      using m pair_match_head[OF q(4), of "q' @ REDACTION_PLACEHOLDER @ y"] q(2,3) unfolding q(1) by simp
    have "q @ '':'' @ x = g @ (q' @ x)" using q(1) by (metis append.assoc)
    moreover have "pair_match (g @ (q' @ x)) = Some (g, takeWhile value_char (q' @ x), dropWhile value_char (q' @ x))"
      using q(2,3) by (intro pair_match_head[OF q(4)]) simp_all
    ultimately have "pair_match (q @ '':'' @ x) = Some (g, takeWhile value_char (q' @ x), dropWhile value_char (q' @ x))" by (rule ssubst)
    then have x: "starts_with REDACTION_PLACEHOLDER (takeWhile value_char (q' @ x))"
      using assms(2) unfolding pairs_redacted_def by (metis suffix_order.order_refl)
    show ?thesis
    proof (cases "\<forall>c \<in> set q'. value_char c")
      case False
      then have "takeWhile value_char (q' @ x) = takeWhile value_char q'" "v = takeWhile value_char q'"
        unfolding v by (auto simp: takeWhile_append)
      then show ?thesis using x by simp
    next
      case True
      have q': "last q' = CHR '':''" using arg_cong[OF q(1), of last] q(2) by simp
      have pre: "take (length REDACTION_PLACEHOLDER) (q' @ takeWhile value_char x) = REDACTION_PLACEHOLDER"
        using x True by (simp add: starts_with_def)
      have "length REDACTION_PLACEHOLDER \<le> length q'"
      proof (rule ccontr)
        assume "\<not> length REDACTION_PLACEHOLDER \<le> length q'"
        then have "set q' \<subseteq> set REDACTION_PLACEHOLDER" using arg_cong[OF pre, of set] by auto
        then show False using q' q(2) placeholder_at(2) by (metis last_in_set subsetD)
      qed
      then show ?thesis using pre True unfolding v by (simp add: starts_with_def)
    qed
  qed
qed

lemma pairs_redacted_suffix: "pairs_redacted s \<Longrightarrow> suffix t s \<Longrightarrow> pairs_redacted t"
  unfolding pairs_redacted_def by (meson suffix_order.order_trans)

lemma pairs_redacted_userinfo: "pairs_redacted s \<Longrightarrow> pairs_redacted (redact_userinfo s)"
proof (induction s rule: length_induct)
  case (1 s)
  show ?case
  proof (cases s)
    case (Cons c s')
    show ?thesis
    proof (cases "userinfo_match s")
      case None
      have out: "redact_userinfo s = c # redact_userinfo s'" using None Cons by simp
      have "pairs_redacted s'" using 1(2) Cons by (auto intro: pairs_redacted_suffix simp: suffix_Cons)
      then have s': "pairs_redacted (redact_userinfo s')" using 1(1) Cons by simp
      have "starts_with REDACTION_PLACEHOLDER v" if m: "pair_match (c # redact_userinfo s') = Some (g, v, r)" for g v r
      proof (cases "redact_userinfo s' = s'")
        case True
        then show ?thesis using m 1(2) Cons unfolding pairs_redacted_def by (metis suffix_order.order_refl)
      next
        case False
        then obtain p t g1 v1 r1 where sh: "s' = p @ t" "userinfo_match t = Some (g1, v1, r1)"
          "redact_userinfo s' = p @ g1 @ '':'' @ REDACTION_PLACEHOLDER @ ''@'' @ redact_userinfo r1"
          using redact_userinfo_shape[of s'] by blast
        have "t = g1 @ '':'' @ v1 @ ''@'' @ r1" using sh(2) unfolding userinfo_match_iff by blast
        then have "pairs_redacted ((c # p @ g1) @ '':'' @ (v1 @ ''@'' @ r1))" using 1(2) Cons sh(1) by simp
        moreover have "pair_match ((c # p @ g1) @ '':'' @ REDACTION_PLACEHOLDER @ ''@'' @ redact_userinfo r1) = Some (g, v, r)"
          using m sh(3) by simp
        ultimately show ?thesis by (rule pairs_redacted_splice[rotated])
      qed
      with s' show ?thesis unfolding out pairs_redacted_def suffix_Cons by blast
    next
      case (Some m)
      then obtain g v r where m: "userinfo_match s = Some (g, v, r)" by (cases m) auto
      then have pm: "s = g @ '':'' @ v @ ''@'' @ r" unfolding userinfo_match_iff by blast
      have out: "redact_userinfo s = g @ '':'' @ REDACTION_PLACEHOLDER @ ''@'' @ redact_userinfo r" using m Cons by simp
      have sr: "suffix r s" unfolding pm by (simp add: suffix_def)
      have r: "pairs_redacted (redact_userinfo r)"
        using 1(1) arg_cong[OF pm, of length] pairs_redacted_suffix[OF 1(2) sr] by simp
      have "starts_with REDACTION_PLACEHOLDER v2" if "suffix t (redact_userinfo s)" "pair_match t = Some (g2, v2, r2)" for t g2 v2 r2
        using that(1)[unfolded out]
      proof (cases rule: redacted_suffix)
        case (head q)
        have "suffix (q @ '':'' @ v @ ''@'' @ r) s" using head(2) unfolding pm by (auto simp: suffix_def)
        from pairs_redacted_splice[OF that(2)[unfolded head(1)] pairs_redacted_suffix[OF 1(2) this]] show ?thesis .
      next
        case (placeholder q)
        then show ?thesis using pair_match_in_placeholder that(2) by simp
      next
        case at
        then show ?thesis using that(2) by (simp add: pair_match_def secret_word_def SECRET_WORDS_def str_lower_def lower_char_def code_point_def)
      next
        case rest
        then show ?thesis using r that(2) unfolding pairs_redacted_def by blast
      qed
      then show ?thesis unfolding pairs_redacted_def by blast
    qed
  qed (use 1 in simp)
qed

section \<open>Properties\<close>


text \<open>Secrets that are quoted, or whose keyword is the key of a dictionary, are not recognised: a digest with a quoted
  password leaves the control plane as it came.\<close>

theorem quoted_secret_kept:
  "sanitize_payload [(''digest'', PStr (''password='' @ [CHR 0x22] @ ''hunter2'' @ [CHR 0x22])), (''password'', PStr ''hunter2'')] =
    [(''digest'', PStr (''password='' @ [CHR 0x22] @ ''hunter2'' @ [CHR 0x22])), (''password'', PStr ''hunter2'')]"
  by code_simp

text \<open>A client that logs what it posts\<close>

definition recording_post :: "'s poster \<Rightarrow> ('s \<times> (pyval \<times> dict) list) poster" where
  "recording_post post = (\<lambda>(s, sent) url body. case post s url body of (r, s') \<Rightarrow> (r, (s', sent @ [(url, body)])))"

lemma post_once_sent: "\<exists>r s'. post_once (recording_post post) url body (s, sent) = (r, (s', sent @ [(url, body)]))"
  by (auto simp: post_once_def recording_post_def split: prod.splits sum.splits)

lemma post_attempts_sent:
  "post_attempts (recording_post post) url body k n (s, sent) = (r, (s', sent')) \<Longrightarrow>
   \<exists>j \<le> k. sent' = sent @ replicate j (url, body)"
proof (induction k arbitrary: n s sent)
  case (Suc k)
  obtain r1 s1 where p: "post_once (recording_post post) url body (s, sent) = (r1, (s1, sent @ [(url, body)]))"
    using post_once_sent[of post url body s sent] by (elim exE)
  obtain ok e code where r1: "r1 = (ok, e, code)" by (rule prod_cases3)
  show ?case
  proof (cases "ok \<or> k = 0")
    case True
    then show ?thesis using Suc.prems p r1 by (intro exI[of _ 1]) auto
  next
    case False
    then have "post_attempts (recording_post post) url body k (Suc n) (s1, sent @ [(url, body)]) = (r, (s', sent'))"
      using Suc.prems p r1 by simp
    from Suc.IH[OF this] obtain j where "j \<le> k" "sent' = (sent @ [(url, body)]) @ replicate j (url, body)" by blast
    then show ?thesis by (intro exI[of _ "Suc j"]) simp
  qed
qed simp

definition sanitized_body :: "(rat \<Rightarrow> string) \<Rightarrow> string \<Rightarrow> pyval \<Rightarrow> dict \<Rightarrow> dict \<Rightarrow> bool" where
  "sanitized_body fr now_iso event payload body \<longleftrightarrow>
     (\<exists>fmt. format_payload fr now_iso fmt event (sanitize_payload payload) = Inr body)"

lemma send_one_sent:
  assumes "send_one fr now (recording_post post) event payload wh (s, sent) = (x, (s', sent'))"
  shows "\<exists>new. sent' = sent @ new \<and> length new \<le> 3 \<and> (\<forall>b \<in> set new. sanitized_body fr now event payload (snd b))"
proof (cases "\<exists>t body. read_webhook wh = Inr t \<and> severity_at_least (dget payload ''severity'') (tg_min t) = Inr True \<and>
    subscribed event (tg_events t) \<and> truthy (tg_url t) \<and>
    format_payload fr now (tg_format t) event (sanitize_payload payload) = Inr body")
  case True
  then obtain t body where t: "read_webhook wh = Inr t" "severity_at_least (dget payload ''severity'') (tg_min t) = Inr True"
    "subscribed event (tg_events t)" "truthy (tg_url t)"
    "format_payload fr now (tg_format t) event (sanitize_payload payload) = Inr body" by blast
  obtain r s1 sent1 where p: "post_attempts (recording_post post) (tg_url t) body MAX_ATTEMPTS 0 (s, sent) = (r, (s1, sent1))"
    by (metis prod.exhaust)
  have "sent' = sent1" using assms t p by (auto simp: send_one_def bind_io_def split: prod.splits)
  with post_attempts_sent[OF p] t(5) show ?thesis by (auto simp: MAX_ATTEMPTS_def sanitized_body_def)
next
  case False
  then have "sent' = sent" using assms
    by (auto simp: send_one_def bind_io_def split: sum.splits if_splits)
  then show ?thesis by simp
qed

text \<open>C33: A notification makes at most three posts for each webhook, and the body of every post is formatted from the
  sanitised payload.\<close>

theorem posts_bounded_and_sanitized:
  assumes "send_to_webhooks fr now (recording_post post) webhooks event payload (s, []) = (x, (s', sent))"
  shows "length sent \<le> 3 * length webhooks \<and> (\<forall>b \<in> set sent. sanitized_body fr now event payload (snd b))"
proof -
  have "map_io (send_one fr now (recording_post post) event payload) webhooks (s, sent0) = (x, (s', sent')) \<Longrightarrow>
    \<exists>new. sent' = sent0 @ new \<and> length new \<le> 3 * length webhooks \<and> (\<forall>b \<in> set new. sanitized_body fr now event payload (snd b))"
    for sent0 sent' s x
  proof (induction webhooks arbitrary: s sent0 x)
    case (Cons wh whs)
    obtain y s1 sent1 where one: "send_one fr now (recording_post post) event payload wh (s, sent0) = (y, (s1, sent1))"
      by (metis prod.exhaust)
    from send_one_sent[OF one] obtain new1 where n1: "sent1 = sent0 @ new1" "length new1 \<le> 3"
      "\<forall>b \<in> set new1. sanitized_body fr now event payload (snd b)" by blast
    show ?case
    proof (cases y)
      case (Inl e)
      then show ?thesis using Cons.prems one n1 by (auto simp: bind_io_def)
    next
      case (Inr a)
      obtain z s2 sent2 where rest: "map_io (send_one fr now (recording_post post) event payload) whs (s1, sent1) = (z, (s2, sent2))"
        by (metis prod.exhaust)
      have "sent' = sent2" "s' = s2" using Cons.prems one rest Inr by (auto simp: bind_io_def split: sum.splits)
      then obtain new2 where "sent' = sent1 @ new2" "length new2 \<le> 3 * length whs"
        "\<forall>b \<in> set new2. sanitized_body fr now event payload (snd b)" using Cons.IH[of s1 sent1 z] rest by blast
      then show ?thesis using n1 by (intro exI[of _ "new1 @ new2"]) auto
    qed
  qed simp
  from this[of s "[]" x sent] assms show ?thesis by (auto simp: send_to_webhooks_def)
qed

definition demo_webhook :: outbound_webhook where
  "demo_webhook = \<lparr>wh_name = ''ops'', wh_url = ''http://h'', wh_format = ''generic'', wh_events = [], wh_min_severity = ''low''\<rparr>"

theorem posts_bounded_and_sanitized_witness:
  "\<exists>x s' sent. send_to_webhooks (\<lambda>_. []) [] (recording_post (\<lambda>s _ _. (Inr 500, s))) [Configured demo_webhook] (PStr ''e'')
      [(''severity'', PStr ''high'')] ((), []) = (x, (s', sent)) \<and> sent \<noteq> [] \<and> length sent \<le> 3"
proof -
  obtain x s' sent where r: "send_to_webhooks (\<lambda>_. []) [] (recording_post (\<lambda>s _ _. (Inr 500, s))) [Configured demo_webhook] (PStr ''e'')
      [(''severity'', PStr ''high'')] ((), []) = (x, (s', sent))" by (metis prod.exhaust)
  have "sent \<noteq> []" using r
    by (auto simp: send_to_webhooks_def send_one_def bind_io_def read_webhook_def demo_webhook_def py_or_def severity_at_least_def
        str_lower_def lower_char_def code_point_def severity_rank_def SEVERITY_RANK_def subscribed_def format_payload_def
        MAX_ATTEMPTS_def numeral_3_eq_3 post_once_def recording_post_def split: if_splits prod.splits)
  with posts_bounded_and_sanitized[OF r] r show ?thesis by auto
qed

text \<open>Delivery to configured webhooks raises exactly when there is one and the severity of the payload is a value that is
  neither a string nor empty; otherwise it returns one result for each.\<close>

theorem delivery_raises_iff:
  "(\<exists>e s'. send_to_webhooks fr now post (map Configured ws) event payload s = (Inl e, s')) \<longleftrightarrow>
     ws \<noteq> [] \<and> truthy (dget payload ''severity'') \<and> (\<nexists>t. dget payload ''severity'' = PStr t)"
proof -
  let ?sev = "dget payload ''severity''"
  let ?bad = "truthy ?sev \<and> (\<nexists>t. ?sev = PStr t)"
  have low: "(\<exists>b. severity_at_least ?sev (py_or (PStr m) (PStr ''low'')) = Inr b) \<longleftrightarrow> \<not> ?bad" for m
    by (cases ?sev) (auto simp: severity_at_least_def py_or_def bind_res_def)
  have one: "(\<exists>e s'. send_one fr now post event payload (Configured w) s = (Inl e, s')) \<longleftrightarrow> ?bad" for w s
  proof (cases ?bad)
    case True
    with low obtain e where "severity_at_least ?sev (py_or (PStr (wh_min_severity w)) (PStr ''low'')) = Inl e"
      by (metis sum.exhaust)
    then show ?thesis using True by (simp add: send_one_def bind_io_def read_webhook_def)
  next
    case False
    with low obtain b where b: "severity_at_least ?sev (py_or (PStr (wh_min_severity w)) (PStr ''low'')) = Inr b" by metis
    have "\<exists>body. format_payload fr now (py_or (PStr (wh_format w)) (PStr ''generic'')) event p = Inr body" for p
      by (simp add: format_payload_def py_or_def bind_res_def)
    then obtain body where "format_payload fr now (py_or (PStr (wh_format w)) (PStr ''generic'')) event (sanitize_payload payload) = Inr body"
      by blast
    then show ?thesis using False b
      by (auto simp: send_one_def bind_io_def read_webhook_def split: prod.splits if_splits)
  qed
  show ?thesis
  proof (cases ?bad)
    case True
    then show ?thesis
    proof (cases ws)
      case (Cons w ws')
      obtain e s' where "send_one fr now post event payload (Configured w) s = (Inl e, s')" using one True by blast
      then show ?thesis using True Cons by (simp add: send_to_webhooks_def bind_io_def)
    qed (simp add: send_to_webhooks_def)
  next
    case False
    have "\<exists>rs s'. map_io (send_one fr now post event payload) (map Configured ws) s = (Inr rs, s')"
    proof (induction ws arbitrary: s)
      case (Cons w ws)
      obtain r s1 where r: "send_one fr now post event payload (Configured w) s = (r, s1)" by (rule prod.exhaust)
      then obtain a where "r = Inr a" using one False by (cases r) blast+
      then show ?case using r Cons[of s1] by (auto simp: bind_io_def)
    qed simp
    then show ?thesis using False by (auto simp: send_to_webhooks_def)
  qed
qed

end
