(* ===== verification/LlmSafety.thy ===== *)
theory LlmSafety
  imports LlmClient ExecutionSafety
begin

text \<open>
  What a model call guarantees: at most one retry, a result that meets its schema, and a trace row and two
  stored payloads for every call, failed ones included.  The requests are observed through a backend that
  logs them.
\<close>

type_synonym llm_log = "(llm_request \<times> backend_answer) list"

definition recording_llm :: "('s \<Rightarrow> llm_request \<Rightarrow> backend_answer \<times> 's) \<Rightarrow> 's \<times> llm_log \<Rightarrow> llm_request \<Rightarrow> backend_answer \<times> ('s \<times> llm_log)" where
  "recording_llm b = (\<lambda>(s, tr) q. case b s q of (a, s') \<Rightarrow> (a, (s', tr @ [(q, a)])))"

definition completed :: "llm_log \<Rightarrow> llm_response list" where
  "completed tr = List.map_filter (\<lambda>(q, a). case a of Completed r \<Rightarrow> Some r | _ \<Rightarrow> None) tr"

lemma completed_simps [simp]:
  "completed [] = []"
  "completed ((q, a) # tr) = (case a of Completed r \<Rightarrow> r # completed tr | _ \<Rightarrow> completed tr)"
  "completed (xs @ ys) = completed xs @ completed ys"
  by (auto simp: completed_def map_filter_simps map_filter_def split: backend_answer.splits)

definition last_of :: "'a list \<Rightarrow> 'a option" where
  "last_of xs = (if xs = [] then None else Some (last xs))"

lemma llm_ask_recorded:
  assumes "l_backend L = recording_llm b"
  shows "\<exists>a s. llm_ask L q w = (Inr a, w\<lparr>aprobe := (s, snd (aprobe w) @ [(q, a)])\<rparr>)"
  using assms by (cases "aprobe w") (auto simp: llm_ask_def recording_llm_def split: prod.splits)

text \<open>What one attempt leaves in the variables of the loop\<close>

definition settled :: "'s llm \<Rightarrow> dict option \<Rightarrow> chat \<Rightarrow> bool" where
  "settled L schema c \<longleftrightarrow> ch_error c = None \<longrightarrow>
     ch_response c \<noteq> None \<and> (case schema of None \<Rightarrow> True | Some sch \<Rightarrow> decode_output L sch (ch_content c) = Inr (Inr (ch_parsed c)))"

definition made :: "('s \<times> llm_log) world \<Rightarrow> llm_log \<Rightarrow> ('s \<times> llm_log) world \<Rightarrow> bool" where
  "made w new w' \<longleftrightarrow> snd (aprobe w') = snd (aprobe w) @ new \<and> adb w' = adb w \<and> objects w' = objects w \<and> drawn w' = drawn w"

lemma attempt_second:
  assumes "l_backend L = recording_llm b" "attempts L req schema [Suc k] c w = (Inr c', w')"
  shows "\<exists>a. made w [(req (ch_messages c), a)] w' \<and> settled L schema c' \<and> ch_messages c' = ch_messages c \<and>
    ch_retried c' = ch_retried c \<and>
    ch_response c' = (case a of Completed r \<Rightarrow> Some r | _ \<Rightarrow> ch_response c)"
proof -
  obtain a s where a: "llm_ask L (req (ch_messages c)) w = (Inr a, w\<lparr>aprobe := (s, snd (aprobe w) @ [(req (ch_messages c), a)])\<rparr>)"
    using llm_ask_recorded[OF assms(1)] by blast
  have run: "attempts L req schema [Suc k] c w = (case a of
         BackendRaise e \<Rightarrow> fail e
       | BackendError e \<Rightarrow> ret (c\<lparr>ch_error := Some e\<rparr>)
       | Completed r \<Rightarrow>
           (let c1 = c\<lparr>ch_response := Some r, ch_content := lr_content r\<rparr> in
            case schema of
              None \<Rightarrow> ret (c1\<lparr>ch_parsed := PNone, ch_error := None\<rparr>)
            | Some sch \<Rightarrow>
                (case decode_output L sch (lr_content r) of
                   Inl e \<Rightarrow> fail e
                 | Inr (Inr v) \<Rightarrow> ret (c1\<lparr>ch_parsed := v, ch_error := None\<rparr>)
                 | Inr (Inl e) \<Rightarrow> ret (c1\<lparr>ch_error := Some (''output schema validation failed: '' @ e)\<rparr>))))
       (w\<lparr>aprobe := (s, snd (aprobe w) @ [(req (ch_messages c), a)])\<rparr>)"
    by (auto simp: bind_io_def a Let_def split: backend_answer.splits option.splits sum.splits)
  from assms(2) show ?thesis unfolding run
    by (intro exI[of _ a])
      (auto simp: made_def settled_def Let_def split: backend_answer.splits option.splits sum.splits)
qed

lemma attempts_log:
  assumes "l_backend L = recording_llm b" "attempts L req schema [0, 1] (start_chat msgs) w = (Inr c, w')"
  shows "\<exists>new. made w new w' \<and> settled L schema c \<and> ch_response c = last_of (completed new) \<and>
    (\<exists>q a. new = [(q, a)] \<and> q = req msgs \<and> \<not> ch_retried c \<or>
     (\<exists>r e sch a2. new = [(req msgs, Completed r), (req (retry_messages msgs (lr_content r) e), a2)] \<and> ch_retried c \<and>
        schema = Some sch \<and> decode_output L sch (lr_content r) = Inr (Inl e)))"
proof -
  obtain a s where a: "llm_ask L (req msgs) w = (Inr a, w\<lparr>aprobe := (s, snd (aprobe w) @ [(req msgs, a)])\<rparr>)"
    using llm_ask_recorded[OF assms(1)] by blast
  let ?w1 = "w\<lparr>aprobe := (s, snd (aprobe w) @ [(req msgs, a)])\<rparr>"
  show ?thesis
  proof (cases "\<exists>r sch e. a = Completed r \<and> schema = Some sch \<and> decode_output L sch (lr_content r) = Inr (Inl e)")
    case True
    then obtain r sch e where r: "a = Completed r" "schema = Some sch" "decode_output L sch (lr_content r) = Inr (Inl e)" by blast
    let ?c = "\<lparr>ch_messages = retry_messages msgs (lr_content r) e, ch_retried = True,
       ch_error = Some (''output schema validation failed: '' @ e), ch_response = Some r, ch_parsed = PNone, ch_content = lr_content r\<rparr>"
    have "attempts L req schema [0, 1] (start_chat msgs) w = attempts L req schema [1] ?c ?w1"
      by (subst attempts.simps(2)) (simp del: attempts.simps add: bind_io_def a r start_chat_def Let_def)
    with assms(2) have "attempts L req schema [Suc 0] ?c ?w1 = (Inr c, w')" by (simp del: attempts.simps)
    from attempt_second[OF assms(1) this] obtain a2 where
      a2: "made ?w1 [(req (ch_messages ?c), a2)] w' \<and> settled L schema c \<and> ch_messages c = ch_messages ?c \<and>
        ch_retried c = ch_retried ?c \<and> ch_response c = (case a2 of Completed r' \<Rightarrow> Some r' | _ \<Rightarrow> ch_response ?c)" by (rule exE)
    then have 2: "made ?w1 [(req (retry_messages msgs (lr_content r) e), a2)] w'" "settled L schema c" "ch_retried c"
        "ch_response c = (case a2 of Completed r' \<Rightarrow> Some r' | _ \<Rightarrow> Some r)" by (simp_all split: backend_answer.splits)
    have "made w [(req msgs, Completed r), (req (retry_messages msgs (lr_content r) e), a2)] w'"
      using 2(1) r(1) by (simp add: made_def)
    moreover have "ch_response c = last_of (completed [(req msgs, Completed r), (req (retry_messages msgs (lr_content r) e), a2)])"
      using 2(4) by (auto simp: last_of_def split: backend_answer.splits)
    ultimately show ?thesis using 2(2,3) r by blast
  next
    case False
    have "made w [(req msgs, a)] w' \<and> settled L schema c \<and> \<not> ch_retried c \<and> ch_response c = last_of (completed [(req msgs, a)])"
      using assms(2) False
      by (auto simp: bind_io_def a start_chat_def Let_def made_def settled_def last_of_def
          split: backend_answer.splits option.splits sum.splits)
    then show ?thesis by blast
  qed
qed

lemma attempts_settle:
  "attempts L req schema ks c w = (Inr c', w') \<Longrightarrow> ks \<noteq> [] \<or> settled L schema c \<Longrightarrow> settled L schema c'"
proof (induction ks arbitrary: c w)
  case (Cons k ks)
  from Cons.prems(1) obtain a w1 where a: "llm_ask L (req (ch_messages c)) w = (Inr a, w1)"
    by (auto simp: bind_io_Inr_iff)
  show ?case using Cons.prems(1) Cons.IH
    by (auto simp: bind_io_def a Let_def settled_def split: backend_answer.splits option.splits sum.splits if_splits)
qed simp

text \<open>A backend that answers every request with a text completion or a \<open>BackendError\<close>\<close>

definition well_behaved :: "('s \<Rightarrow> llm_request \<Rightarrow> backend_answer \<times> 's) \<Rightarrow> bool" where
  "well_behaved b \<longleftrightarrow> (\<forall>s q. case fst (b s q) of Completed r \<Rightarrow> \<exists>t. lr_content r = PStr t | BackendError e \<Rightarrow> True | BackendRaise e \<Rightarrow> False)"

lemma attempts_return:
  "well_behaved (l_backend L) \<Longrightarrow> \<exists>c' w'. attempts L req schema ks c w = (Inr c', w')"
proof (induction ks arbitrary: c w)
  case (Cons k ks)
  obtain a s where a: "l_backend L (aprobe w) (req (ch_messages c)) = (a, s)" by (rule prod.exhaust)
  have "case a of Completed r \<Rightarrow> \<exists>t. lr_content r = PStr t | BackendError e \<Rightarrow> True | BackendRaise e \<Rightarrow> False"
    using Cons.prems a unfolding well_behaved_def by (metis fst_conv)
  then show ?case using Cons.IH[OF Cons.prems]
    by (cases a) (auto simp: bind_io_def llm_ask_def a Let_def decode_output_def split: option.splits sum.splits)
qed simp

lemma record_call_effect:
  assumes "truthy iidv" "to_uuid D iidv = Inr iid" "int_col rnd = Inr r" "l_tracing_backend L = ''builtin''" "l_trace L"
    "(cid, d_now D) \<notin> lc_key ` set (llm_calls (adb w))"
  shows "record_call D L cid role model md iidv rnd c w =
    (Inr (), w\<lparr>objects := objects w @ [(prompt_key cid, prompt_body D model c), (response_key cid, response_body D c)],
       adb := (adb w)\<lparr>llm_calls := llm_calls (adb w) @ [trace_row D L cid (Some iid) r role model c]\<rparr>\<rparr>)"
proof -
  have k: "lc_key (trace_row D L cid (Some iid) r role model c) = (cid, d_now D)"
    by (simp add: lc_key_def trace_row_def Let_def)
  show ?thesis using assms
    by (simp add: record_call_def bind_io_def store_object_def txn_unit_def txn_def insert_llm_call_def add_row_def k)
qed

text \<open>The result of a call says what the trace row says.\<close>

definition reported :: "uuid \<Rightarrow> llm_call \<Rightarrow> gen_result res \<Rightarrow> bool" where
  "reported cid row x \<longleftrightarrow> (case x of
     Inr g \<Rightarrow> g_call_id g = cid \<and> lc_error row = None \<and> g_cost_usd g = lc_cost_usd row
   | Inl e \<Rightarrow> \<exists>m. lc_error row = Some m \<and> (e = LLMBackendError m \<or> e = LLMOutputError m))"

lemma conclude_reported:
  "conclude L cid c w = (x, w') \<Longrightarrow> w' = w \<and> reported cid (trace_row D L cid iid r role model c) x"
  by (auto simp: conclude_def reported_def trace_row_def Let_def split: option.splits if_splits)

lemma generate_effect:
  assumes "l_backend L = recording_llm b" "well_behaved b"
    "truthy iidv" "to_uuid D iidv = Inr iid" "int_col rnd = Inr r" "l_tracing_backend L = ''builtin''" "l_trace L"
    "(d_uuid4 D (drawn w), d_now D) \<notin> lc_key ` set (llm_calls (adb w))"
    "generate D L role model mt msgs iidv rnd schema w = (x, w')"
  shows "\<exists>c new. made (w\<lparr>drawn := drawn w + 1\<rparr>) new
      (w\<lparr>aprobe := aprobe w', drawn := drawn w + 1\<rparr>) \<and> ch_response c = last_of (completed new) \<and>
    (length new = 1 \<or> length new = 2 \<and> length (completed new) \<ge> 1) \<and>
    reported (d_uuid4 D (drawn w)) (trace_row D L (d_uuid4 D (drawn w)) (Some iid) r role model c) x \<and>
    llm_calls (adb w') = llm_calls (adb w) @ [trace_row D L (d_uuid4 D (drawn w)) (Some iid) r role model c] \<and>
    objects w' = objects w @ [(prompt_key (d_uuid4 D (drawn w)), prompt_body D model c),
      (response_key (d_uuid4 D (drawn w)), response_body D c)]"
proof -
  let ?cid = "d_uuid4 D (drawn w)" and ?w0 = "w\<lparr>drawn := drawn w + 1\<rparr>"
  let ?req = "call_request role model mt (call_metadata D role iidv rnd) schema"
  have "well_behaved (l_backend L)"
    using assms(1,2) by (auto simp: well_behaved_def recording_llm_def split: prod.splits) (metis fst_conv)
  then obtain c w1 where c: "attempts L ?req schema [0, 1] (start_chat msgs) ?w0 = (Inr c, w1)"
    using attempts_return by blast
  from attempts_log[OF assms(1) c] obtain new where new: "made ?w0 new w1" "ch_response c = last_of (completed new)"
    "length new = 1 \<or> length new = 2 \<and> length (completed new) \<ge> 1"
    by (auto split: backend_answer.splits)
  have fresh: "(?cid, d_now D) \<notin> lc_key ` set (llm_calls (adb w1))" using assms(8) new(1) by (simp add: made_def)
  note rc = record_call_effect[OF assms(3-7) fresh, of role model "call_metadata D role iidv rnd" c]
  have "conclude L ?cid c (snd (record_call D L ?cid role model (call_metadata D role iidv rnd) iidv rnd c w1)) = (x, w')"
    using assms(9) c unfolding generate_def bind_io_def fresh_uuid_def Let_def
    by (simp del: attempts.simps add: rc)
  from conclude_reported[OF this, of D "Some iid" r role model] new show ?thesis
    by (intro exI[of _ c] exI[of _ new]) (simp add: made_def rc)
qed

section \<open>Properties of a model call\<close>

text \<open>C30: What a structured call returns decodes from the reply it was given and meets the schema the caller
  asked for, whatever the backend answered.\<close>

theorem model_output_conforms:
  assumes "generate D L role model mt msgs iidv rnd (Some sch) w = (Inr g, w')"
  shows "\<exists>t. g_content g = PStr t \<and> l_loads L t = Inr (g_parsed g) \<and> l_validate L (g_parsed g) sch = None"
proof -
  obtain cid w0 c w1 w2 where
    "attempts L (call_request role model mt (call_metadata D role iidv rnd) (Some sch)) (Some sch) [0, 1] (start_chat msgs) w0 = (Inr c, w1)"
    and c: "conclude L cid c w2 = (Inr g, w')"
    using assms unfolding generate_def Let_def bind_io_Inr_iff by blast
  from attempts_settle[OF this(1)] have "settled L (Some sch) c" by simp
  with c show ?thesis
    by (auto simp: settled_def conclude_def Let_def decode_output_def split: option.splits sum.splits pyval.splits)
qed

text \<open>A client for the witnesses: the first reply does not validate, the second does.\<close>

definition demo_reply :: "string \<Rightarrow> rat \<Rightarrow> llm_response" where
  "demo_reply reply c = \<lparr>lr_content = PStr reply, lr_input_tokens = None, lr_output_tokens = None, lr_cost_usd = Some c,
     lr_provider = None, lr_raw = PNone\<rparr>"

definition demo_backend :: "unit \<Rightarrow> llm_request \<Rightarrow> backend_answer \<times> unit" where
  "demo_backend s q = (Completed (if length (rq_messages q) = 1 then demo_reply ''x'' 2 else demo_reply ''y'' 3), ())"

definition demo_llm :: "(unit \<times> llm_log) llm" where
  "demo_llm = \<lparr>l_backend = recording_llm demo_backend, l_loads = (\<lambda>t. Inr (PStr t)),
     l_validate = (\<lambda>v sch. if v = PStr ''y'' then None else Some ''bad''), l_trace = True, l_sink = None,
     l_tracing_backend = ''builtin'', l_latency_ms = 1\<rparr>"

definition demo_llm_deps :: "(unit \<times> llm_log) deps" where
  "demo_llm_deps = \<lparr>d_fr = (\<lambda>_. []), d_fl = (\<lambda>_. None), d_es = (\<lambda>_. []), d_now = 500, d_uuid4 = (\<lambda>n. 40 + n),
     d_order = [], d_sha256 = id, d_canon = (\<lambda>_. []), d_signer = None, d_probe = None, d_health = False, d_store = True\<rparr>"

definition demo_llm_world :: "(unit \<times> llm_log) world" where
  "demo_llm_world = \<lparr>adb = demo_db, aprobe = ((), []), objects = [], drawn = 0\<rparr>"

abbreviation demo_generate :: "(unit \<times> llm_log, gen_result) act" where
  "demo_generate \<equiv> generate demo_llm_deps demo_llm ''planner'' ''m'' 8 [[]] (PStr (uuid_str 7)) PNone (Some [])"

lemma demo_attempts:
  "\<exists>w'. attempts demo_llm (call_request ''planner'' ''m'' 8 md (Some [])) (Some []) [0, Suc 0] (start_chat [[]]) w =
    (Inr \<lparr>ch_messages = retry_messages [[]] (PStr ''x'') ''bad'', ch_retried = True, ch_error = None,
       ch_response = Some (demo_reply ''y'' 3), ch_parsed = PStr ''y'', ch_content = PStr ''y''\<rparr>, w') \<and> adb w' = adb w \<and>
    snd (aprobe w') = snd (aprobe w) @ [(call_request ''planner'' ''m'' 8 md (Some []) [[]], Completed (demo_reply ''x'' 2)),
      (call_request ''planner'' ''m'' 8 md (Some []) (retry_messages [[]] (PStr ''x'') ''bad''), Completed (demo_reply ''y'' 3))]"
  by (cases "aprobe w")
    (simp add: bind_io_def llm_ask_def demo_llm_def recording_llm_def demo_backend_def call_request_def start_chat_def
      decode_output_def demo_reply_def retry_messages_def)

lemma demo_run:
  "\<exists>w'. demo_generate demo_llm_world = (Inr \<lparr>g_call_id = 40, g_content = PStr ''y'', g_parsed = PStr ''y'',
      g_input_tokens = None, g_output_tokens = None, g_cost_usd = Some 3, g_latency_ms = 1, g_retried = True\<rparr>, w') \<and>
    (\<exists>q1 q2. snd (aprobe w') = [(q1, Completed (demo_reply ''x'' 2)), (q2, Completed (demo_reply ''y'' 3))])"
proof -
  have t: "truthy (PStr (uuid_str 7))" by (simp add: uuid_str_def Let_def)
  obtain w1 where w1: "attempts demo_llm (call_request ''planner'' ''m'' 8 (call_metadata demo_llm_deps ''planner'' (PStr (uuid_str 7)) PNone) (Some [])) (Some [])
      [0, Suc 0] (start_chat [[]]) (demo_llm_world\<lparr>drawn := Suc 0\<rparr>) =
    (Inr \<lparr>ch_messages = retry_messages [[]] (PStr ''x'') ''bad'', ch_retried = True, ch_error = None,
       ch_response = Some (demo_reply ''y'' 3), ch_parsed = PStr ''y'', ch_content = PStr ''y''\<rparr>, w1)" "adb w1 = demo_db"
    "\<exists>q1 q2. snd (aprobe w1) = [(q1, Completed (demo_reply ''x'' 2)), (q2, Completed (demo_reply ''y'' 3))]"
    using demo_attempts[of "call_metadata demo_llm_deps ''planner'' (PStr (uuid_str 7)) PNone" "demo_llm_world\<lparr>drawn := Suc 0\<rparr>"]
    by (auto simp: demo_llm_world_def simp del: attempts.simps)
  have fresh: "(40, d_now demo_llm_deps) \<notin> lc_key ` set (llm_calls (adb w1))" by (simp add: w1 demo_db_def empty_db_def)
  have l: "l_tracing_backend demo_llm = ''builtin''" "l_trace demo_llm" "int_col PNone = Inr None"
    by (simp_all add: demo_llm_def int_col_def)
  have d: "d_uuid4 demo_llm_deps 0 = 40" "drawn demo_llm_world = 0" by (simp_all add: demo_llm_deps_def demo_llm_world_def)
  note rc = record_call_effect[OF t demo_execution_uuid l(3,1,2) fresh, of "''planner''" "''m''"]
  have cost: "lr_cost_usd (demo_reply ''y'' 3) = Some 3" "lr_input_tokens (demo_reply ''y'' 3) = None"
    "lr_output_tokens (demo_reply ''y'' 3) = None" "l_latency_ms demo_llm = 1" by (simp_all add: demo_reply_def demo_llm_def)
  show ?thesis
    using w1(3) by (simp add: generate_def bind_io_def fresh_uuid_def Let_def d w1(1) rc conclude_def cost del: attempts.simps)
qed

theorem model_output_conforms_witness:
  "\<exists>g w'. demo_generate demo_llm_world = (Inr g, w') \<and> l_validate demo_llm (g_parsed g) [] = None"
proof -
  from demo_run obtain g w' where "demo_generate demo_llm_world = (Inr g, w')" by (elim exE conjE)
  with model_output_conforms[OF this] show ?thesis by blast
qed


lemma demo_well_behaved: "well_behaved demo_backend"
  by (simp add: well_behaved_def demo_backend_def demo_reply_def)

lemma demo_llm_facts: "l_backend demo_llm = recording_llm demo_backend" "truthy (PStr (uuid_str 7))"
  "int_col PNone = Inr None" "l_tracing_backend demo_llm = ''builtin''" "l_trace demo_llm"
  "(d_uuid4 demo_llm_deps (drawn demo_llm_world), d_now demo_llm_deps) \<notin> lc_key ` set (llm_calls (adb demo_llm_world))"
  by (simp_all add: demo_llm_def int_col_def uuid_str_def Let_def demo_llm_world_def demo_db_def empty_db_def)


text \<open>When the first reply is repaired by a second one, only the cost of the second is recorded: the spend of
  the case grows by less than the two completions cost.\<close>

theorem retry_cost_not_counted:
  assumes "l_backend L = recording_llm b" "well_behaved b" "truthy iidv" "to_uuid D iidv = Inr iid" "int_col rnd = Inr r"
    "l_tracing_backend L = ''builtin''" "l_trace L" "(d_uuid4 D (drawn w), d_now D) \<notin> lc_key ` set (llm_calls (adb w))"
    "generate D L role model mt msgs iidv rnd schema w = (x, w')"
    "snd (aprobe w') = snd (aprobe w) @ [(q1, Completed r1), (q2, Completed r2)]"
    "lr_cost_usd r1 = Some c1" "lr_cost_usd r2 = Some c2" "0 < c1"
  shows "spend_of iid (adb w') = spend_of iid (adb w) + c2 \<and> spend_of iid (adb w') < spend_of iid (adb w) + (c1 + c2)"
proof -
  from generate_effect[OF assms(1-9)] obtain c new where c: "snd (aprobe w') = snd (aprobe w) @ new"
    "ch_response c = last_of (completed new)"
    "llm_calls (adb w') = llm_calls (adb w) @ [trace_row D L (d_uuid4 D (drawn w)) (Some iid) r role model c]"
    by (auto simp: made_def)
  have "ch_response c = Some r2" using c(1,2) assms(10) by (auto simp: last_of_def)
  then have "spend_of iid (adb w') = spend_of iid (adb w) + c2"
    using c(3) assms(12) by (simp add: spend_of_def trace_row_def Let_def map_filter_def)
  with assms(13) show ?thesis by simp
qed

theorem retry_cost_not_counted_witness:
  "\<exists>x w'. demo_generate demo_llm_world = (x, w') \<and> spend_of 7 (adb w') = 3"
proof -
  from demo_run obtain g w' q1 q2 where g: "demo_generate demo_llm_world = (Inr g, w')"
    "snd (aprobe w') = [(q1, Completed (demo_reply ''x'' 2)), (q2, Completed (demo_reply ''y'' 3))]" by (elim exE conjE)
  have log: "snd (aprobe w') = snd (aprobe demo_llm_world) @ [(q1, Completed (demo_reply ''x'' 2)), (q2, Completed (demo_reply ''y'' 3))]"
    "lr_cost_usd (demo_reply ''x'' 2) = Some 2" "lr_cost_usd (demo_reply ''y'' 3) = Some 3"
    by (simp_all add: g(2) demo_llm_world_def demo_reply_def)
  have "spend_of 7 (adb demo_llm_world) = 0" by (simp add: spend_of_def demo_llm_world_def demo_db_def empty_db_def map_filter_def)
  with retry_cost_not_counted[OF demo_llm_facts(1) demo_well_behaved demo_llm_facts(2) demo_execution_uuid demo_llm_facts(3-6) g(1) log] g(1)
  show ?thesis by (intro exI conjI) (assumption, simp)
qed

end
