(* ===== verification/Worker.thy ===== *)
theory Worker
  imports AgentActivities NotificationSafety CaseSafety LlmSafety
begin

text \<open>
  The activities a worker registers, as one dispatch, and what holds of every history of them: keys stay
  unique, the audit log only grows, and a decided approval stays as decided.
\<close>

section \<open>The registered activities\<close>

datatype activity =
    CreateCase | GetSpend | PlanInitial | PlanNext | Collect | Analyze | RecordIteration
  | StaticValidateRawCommand | RunRawCommand | CreateApproval | RecordApprovalDecision | PlanRemediation
  | ExecutePlaybook | VerifyFix | SendNotifications | CloseWithSummary | CloseResolved | ToNeedsHuman | RejectCase

definition investigation_activity_list :: "activity list" where
  "investigation_activity_list =
     [CreateCase, GetSpend, PlanInitial, PlanNext, Collect, Analyze, RecordIteration, StaticValidateRawCommand,
      RunRawCommand, CreateApproval, RecordApprovalDecision, PlanRemediation, ExecutePlaybook, VerifyFix,
      SendNotifications, CloseWithSummary, CloseResolved, ToNeedsHuman, RejectCase]"

definition discard :: "('s, 'a) act \<Rightarrow> ('s, unit) act" where
  "discard m = bind_io m (\<lambda>_. ret ())"

fun run_activity :: "'s deps \<Rightarrow> 's agents \<Rightarrow> 's notifier \<Rightarrow> activity \<Rightarrow> dict \<Rightarrow> ('s, unit) act" where
  "run_activity D A N CreateCase p = discard (create_case D (ag_config A) p)"
| "run_activity D A N GetSpend p = discard (get_spend D p)"
| "run_activity D A N PlanInitial p = discard (plan_initial D A p)"
| "run_activity D A N PlanNext p = discard (plan_next D A p)"
| "run_activity D A N Collect p = discard (collect D A p)"
| "run_activity D A N Analyze p = discard (analyze D A p)"
| "run_activity D A N RecordIteration p = discard (record_iteration_activity D p)"
| "run_activity D A N StaticValidateRawCommand p = discard (static_validate_raw_command D p)"
| "run_activity D A N RunRawCommand p = discard (run_raw_command D p)"
| "run_activity D A N CreateApproval p = discard (create_approval_activity D p)"
| "run_activity D A N RecordApprovalDecision p = discard (record_approval_decision D p)"
| "run_activity D A N PlanRemediation p = discard (plan_remediation D A p)"
| "run_activity D A N ExecutePlaybook p = discard (execute_playbook D p)"
| "run_activity D A N VerifyFix p = discard (verify_fix D p)"
| "run_activity D A N SendNotifications p = discard (send_notifications D N p)"
| "run_activity D A N CloseWithSummary p = discard (close_with_summary D p)"
| "run_activity D A N CloseResolved p = discard (close_resolved D p)"
| "run_activity D A N ToNeedsHuman p = discard (to_needs_human D p)"
| "run_activity D A N RejectCase p = discard (reject_case D p)"

text \<open>A history of a worker: activities of any cases, in any order, some of which raised\<close>

fun history :: "'s deps \<Rightarrow> 's agents \<Rightarrow> 's notifier \<Rightarrow> (activity \<times> dict) list \<Rightarrow> 's world \<Rightarrow> 's world" where
  "history D A N [] w = w"
| "history D A N ((a, p) # rest) w = history D A N rest (snd (run_activity D A N a p w))"

section \<open>The remaining activities keep the evolution\<close>

context db_order
begin

lemma keeps_llm:
  "keeps R (llm_ask L q)" "keeps R (sink_call L kw)" "keeps R (store_object k b)" "keeps R (run_control D A t v)"
  by (auto simp: keeps_def R_refl llm_ask_def sink_call_def store_object_def run_control_def
      split: option.splits prod.splits)

lemma keeps_attempts: "keeps R (attempts L req schema ks c)"
  by (induction ks arbitrary: c)
    (auto simp: Let_def intro!: keeps_rules keeps_llm split: backend_answer.splits option.splits sum.splits)

end

lemma insert_llm_call_evolves [evolves]: "insert_llm_call c d = Inr d' \<Longrightarrow> db_evolves d d'"
  by (rule evolvesI)
    (auto simp: insert_llm_call_def bind_res_Inr_iff add_row_Inr_iff db_ok_def lc_key_def)

lemma conclude_keeps: "keeps db_evolves (conclude L cid c)"
  by (auto simp: conclude_def Let_def intro!: evolution.keeps_rules split: option.splits)

lemma record_call_keeps: "keeps db_evolves (record_call D L cid role model md iidv rnd c)"
  unfolding record_call_def
  by (auto intro!: evolution.keeps_rules evolution.keeps_llm txn_rules dest!: insert_llm_call_evolves simp: bind_res_Inr_iff)

lemma generate_keeps: "keeps db_evolves (generate D L role model mt msgs iidv rnd schema)"
  unfolding generate_def Let_def
  by (intro evolution.keeps_rules evolution.keeps_attempts record_call_keeps conclude_keeps)

lemma agent_keeps:
  "keeps db_evolves (call_agent D A role schema p iidv rnd)" "keeps db_evolves (ask_agent D A role tm schema vars iidv rnd)"
  by (cases p, simp_all add: call_agent_def ask_agent_def case_prod_beta)
    (intro evolution.keeps_rules generate_keeps)+

lemma agent_transactions_evolve:
  "rca_audit D payload rnd c report d = Inr d' \<Longrightarrow> db_evolves d d'"
  "proposal_audit D payload out d = Inr d' \<Longrightarrow> db_evolves d d'"
  "evidence_txn D iid eid r tn args summary co d = Inr d' \<Longrightarrow> db_evolves d d'"
  unfolding rca_audit_def proposal_audit_def evidence_txn_def
    apply (elim evolves_value, erule audit_evolves)
   apply (elim evolves_value, erule audit_evolves)
  apply (erule evolves_value, erule evolves_value, erule evolves_value)
  apply (erule evolves_then; erule evolves)
  done

lemma audit_sent_evolves: "audit_sent D event iidv rs d = Inr d' \<Longrightarrow> db_evolves d d'"
proof (induction rs arbitrary: d)
  case (Cons r rs)
  show ?case using Cons.prems unfolding audit_sent.simps
    by (rule evolves_then) (auto intro: audit_evolves evolution.R_refl Cons.IH split: if_splits)
qed (simp add: evolution.R_refl)

lemma collect_one_keeps: "keeps db_evolves (collect_one D A iid pk rnd call)"
  unfolding collect_one_def summarize_evidence_def run_tool_def run_probe_def Let_def
  by (auto intro!: evolution.keeps_rules evolution.keeps_llm agent_keeps txn_rules dest: agent_transactions_evolve write_audit_evolves)

lemma agent_activities_keep:
  "keeps db_evolves (get_spend D p)" "keeps db_evolves (plan D A mode p)" "keeps db_evolves (collect D A p)"
  "keeps db_evolves (analyze D A p)" "keeps db_evolves (plan_remediation D A p)"
  unfolding get_spend_def plan_def collect_def analyze_def plan_remediation_def Let_def case_prod_beta
  by (auto intro!: evolution.keeps_rules agent_keeps txn_rules collect_one_keeps
      dest: agent_transactions_evolve write_audit_evolves)

lemma send_notifications_keeps: "keeps db_evolves (send_notifications D N p)"
  unfolding send_notifications_def Let_def
  by (intro evolution.keeps_rules) (auto split: sum.splits intro!: evolution.keeps_rules txn_rules audit_sent_evolves)

lemma run_activity_keeps: "keeps db_evolves (run_activity D A N a p)"
  by (cases a)
    (simp_all add: discard_def plan_initial_def plan_next_def, (intro evolution.keeps_rules case_activities_keep
      closing_activities_keep needs_human_keeps verify_fix_keeps execute_playbook_keeps agent_activities_keep send_notifications_keeps)+)

text \<open>Whatever activities a worker runs, in whatever order and with whatever payloads, and whichever of them raise: unique
  keys stay unique, the audit log only grows, and an approval that was decided keeps its decision.\<close>

theorem worker_history_evolves: "db_evolves (adb w) (adb (history D A N as w))"
proof (induction "as" arbitrary: w)
  case (Cons ap as)
  obtain a p where ap: "ap = (a, p)" by (rule prod.exhaust)
  have "db_evolves (adb w) (adb (snd (run_activity D A N a p w)))" using run_activity_keeps unfolding keeps_def by blast
  then show ?case unfolding ap history.simps using Cons.IH by (rule evolution.R_trans)
qed (simp add: evolution.R_refl)

section \<open>Collected evidence\<close>

definition same_evidence :: "db \<Rightarrow> db \<Rightarrow> bool" where
  "same_evidence d d' \<longleftrightarrow> evidences d' = evidences d"

interpretation evidence: db_order same_evidence
  by unfold_locales (simp_all add: same_evidence_def)

lemma same_evidence_keeps:
  "keeps same_evidence (call_agent D A role schema p iidv rnd)"
  "keeps same_evidence (txn_unit (write_audit now act who u det))"
proof -
  have "keeps same_evidence (record_call D L cid role model md iidv rnd c)" for D L cid role model md iidv rnd c
    unfolding record_call_def
    by (auto intro!: evidence.keeps_rules evidence.keeps_llm evidence.keeps_txn_unit
        simp: bind_res_Inr_iff insert_llm_call_def same_evidence_def)
  moreover have "keeps same_evidence (conclude L cid c)" for L cid c
    by (auto simp: conclude_def Let_def intro!: evidence.keeps_rules split: option.splits)
  ultimately have "keeps same_evidence (generate D L role model mt msgs iidv rnd schema)" for D L role model mt msgs iidv rnd schema
    unfolding generate_def Let_def by (intro evidence.keeps_rules evidence.keeps_attempts)
  then show "keeps same_evidence (call_agent D A role schema p iidv rnd)"
    unfolding call_agent_def case_prod_beta by (intro evidence.keeps_rules)
  show "keeps same_evidence (txn_unit (write_audit now act who u det))"
    by (rule evidence.keeps_txn_unit) (auto simp: same_evidence_def dest!: write_audit_Inr)
qed

lemma keepsD: "keeps R m \<Longrightarrow> m w = (x, w') \<Longrightarrow> R (adb w) (adb w')"
  unfolding keeps_def by (metis snd_conv)

definition recorded_as :: "uuid \<Rightarrow> int \<Rightarrow> pyval \<Rightarrow> evidence \<Rightarrow> bool" where
  "recorded_as iid rnd e row \<longleftrightarrow> ev_investigation_id row = iid \<and> ev_round row = rnd \<and>
     dget (as_dict e) ''evidence_id'' = PStr (uuid_str (evidence_id row)) \<and>
     ev_payload_ref row = Some (evidence_ref iid (evidence_id row))"

lemma evidence_txn_row:
  "evidence_txn D iid eid rnd tn args summary r d = Inr d' \<Longrightarrow>
   \<exists>row. evidences d' = evidences d @ [row] \<and> recorded_as iid rnd (evidence_out iid eid rnd tn args summary r) row"
  unfolding evidence_txn_def bind_res_Inr_iff
  by (auto simp: insert_evidence_def bind_res_Inr_iff add_row_Inr_iff recorded_as_def evidence_out_def dest!: write_audit_Inr)

lemma collect_one_row:
  assumes "collect_one D A iid pk rnd call w = (Inr e, w')"
  shows "\<exists>row. evidences (adb w') = evidences (adb w) @ [row] \<and> recorded_as iid rnd e row"
proof -
  obtain tv av tag task eid w1 w2 w3 w4 w5 r summary pref where run:
    "txn_unit (write_audit (d_now D) ''task_dispatched'' (actor_agent ''collector'') (Some iid)
       (Some [(''tool'', py_or tv (PStr [])), (''args'', py_or av (PDict [])), (''task_id'', PStr task)])) (w\<lparr>drawn := drawn w + 1\<rparr>) = (Inr tag, w1)"
    "run_tool D A pk (py_or tv (PStr [])) (py_or av (PDict [])) task w1 = (Inr r, w2)"
    "summarize_evidence D A (py_or tv (PStr [])) (py_or av (PDict [])) (co_raw r) iid rnd w2 = (Inr summary, w3)"
    "fresh_uuid D w3 = (Inr eid, w4)" "put_payload D (evidence_ref iid eid) (co_raw r) w4 = (Inr pref, w5)"
    "txn_unit (evidence_txn D iid eid rnd (py_or tv (PStr [])) (py_or av (PDict [])) summary r) w5 = (Inr (), w')"
    "e = evidence_out iid eid rnd (py_or tv (PStr [])) (py_or av (PDict [])) summary r"
  proof -
    from assms obtain tv av where "(let tnm = py_or tv (PStr []); args = py_or av (PDict []) in
       bind_io (fresh_uuid D) (\<lambda>tag.
       let task = uuid_str iid @ '':'' @ int_str rnd @ '':'' @ py_str (d_fr D) tnm @ '':'' @ take 8 (hex_pad 32 tag) in
       bind_io (txn_unit (write_audit (d_now D) ''task_dispatched'' (actor_agent ''collector'') (Some iid)
         (Some [(''tool'', tnm), (''args'', args), (''task_id'', PStr task)]))) (\<lambda>_.
       bind_io (run_tool D A pk tnm args task) (\<lambda>r.
       bind_io (summarize_evidence D A tnm args (co_raw r) iid rnd) (\<lambda>summary.
       bind_io (fresh_uuid D) (\<lambda>eid.
       bind_io (put_payload D (evidence_ref iid eid) (co_raw r)) (\<lambda>_.
       bind_io (txn_unit (evidence_txn D iid eid rnd tnm args summary r)) (\<lambda>_.
         ret (evidence_out iid eid rnd tnm args summary r))))))))) w = (Inr e, w')"
      unfolding collect_one_def by (auto simp: bind_io_Inr_iff simp del: take_Suc_Cons)
    then show thesis unfolding Let_def bind_io_Inr_iff
      by (elim exE conjE) (rule that, (simp add: fresh_uuid_def)+)
  qed
  have "keeps same_evidence (run_tool D A pk tn args task)" for tn args
    by (auto simp: run_tool_def run_probe_def intro!: evidence.keeps_rules evidence.keeps_llm)
  from keepsD[OF this run(2)] have "same_evidence (adb w1) (adb w2)" .
  moreover have "keeps same_evidence (summarize_evidence D A tn args raw iid rnd)" for tn args raw
    unfolding summarize_evidence_def Let_def by (intro evidence.keeps_rules same_evidence_keeps)
  from keepsD[OF this run(3)] have "same_evidence (adb w2) (adb w3)" .
  moreover have "same_evidence (adb w3) (adb w4)" "same_evidence (adb w4) (adb w5)"
    using keepsD[OF evidence.keeps_quiet(5) run(4)] keepsD[OF evidence.keeps_quiet(8) run(5)] by simp_all
  moreover have "same_evidence (adb w) (adb w1)" using keepsD[OF same_evidence_keeps(2) run(1)] by simp
  ultimately have "evidences (adb w5) = evidences (adb w)" by (simp add: same_evidence_def)
  moreover obtain row where "evidences (adb w') = evidences (adb w5) @ [row]" "recorded_as iid rnd e row"
    using run(6,7) evidence_txn_row unfolding txn_unit_Inr by fastforce
  ultimately show ?thesis by simp
qed

lemma collect_rows:
  "map_io (collect_one D A iid pk rnd) calls w = (Inr out, w') \<Longrightarrow>
   \<exists>rows. evidences (adb w') = evidences (adb w) @ rows \<and> list_all2 (recorded_as iid rnd) out rows"
proof (induction calls arbitrary: w out)
  case (Cons c cs)
  from Cons.prems obtain e w1 es where e: "collect_one D A iid pk rnd c w = (Inr e, w1)"
    "map_io (collect_one D A iid pk rnd) cs w1 = (Inr es, w')" "out = e # es"
    by (auto simp: bind_io_Inr_iff)
  from collect_one_row[OF e(1)] Cons.IH[OF e(2)] show ?case unfolding e(3)
    by (elim exE conjE) (rename_tac row rows, rule_tac x = "row # rows" in exI, simp)
qed simp


text \<open>A worker whose model is down: the evidence is collected all the same, with the head of the output as summary.\<close>

definition down_llm :: "unit llm" where
  "down_llm = \<lparr>l_backend = (\<lambda>s q. (BackendError ''down'', s)), l_loads = Inl, l_validate = (\<lambda>_ _. None), l_trace = False,
     l_sink = None, l_tracing_backend = ''builtin'', l_latency_ms = 0\<rparr>"

definition demo_agents :: "unit agents" where
  "demo_agents = \<lparr>ag_config = None, ag_llm = down_llm, ag_prompt = (\<lambda>_. []), ag_schema_file = (\<lambda>_. Some []),
     ag_overrides = [], ag_source = fake_source (\<lambda>_. []) [] [], ag_decode = id, ag_elapsed = 0\<rparr>"

definition plain_deps :: "unit deps" where
  "plain_deps = \<lparr>d_fr = (\<lambda>_. []), d_fl = (\<lambda>_. None), d_es = (\<lambda>_. []), d_now = 500, d_uuid4 = (\<lambda>n. 40 + n),
     d_order = [], d_sha256 = id, d_canon = (\<lambda>_. []), d_signer = None, d_probe = Some (\<lambda>s c. (Inr ok_result, s)),
     d_health = False, d_store = True\<rparr>"

definition plain_world :: "unit world" where
  "plain_world = \<lparr>adb = demo_db, aprobe = (), objects = [], drawn = 0\<rparr>"

definition demo_round :: dict where
  "demo_round = [(''plan'', PDict [(''tool_calls'', PList [PDict [(''tool'', PStr ''k8s_pods'')], PDict [(''tool'', PStr ''k8s_events'')]])]),
     (''investigation_id'', PStr (uuid_str 7)), (''platform_key'', PStr ''p1''), (''round'', PInt 1), (''max_calls_per_round'', PInt 1)]"

lemma demo_call:
  "\<exists>e w'. call_agent plain_deps demo_agents role schema (t, m, n) (PStr (uuid_str 7)) rnd w = (Inl e, w') \<and> adb w' = adb w"
proof -
  have t: "truthy (PStr (uuid_str 7))" by (simp add: uuid_str_def Let_def)
  show ?thesis
    by (simp add: call_agent_def load_schema_def demo_agents_def down_llm_def generate_def bind_io_def fresh_uuid_def Let_def
        llm_ask_def start_chat_def record_call_def store_object_def t demo_execution_uuid conclude_def)
qed

lemma demo_summary:
  "\<exists>w'. summarize_evidence plain_deps demo_agents tnm (PDict []) [] 7 1 w = (Inr (PStr []), w') \<and> adb w' = adb w"
proof -
  have p: "agent_prompt plain_deps demo_agents ''collector'' ''collector_summary.txt'' [(''tool'', a), (''args'', b), (''payload_head_64kb'', c)] =
      Inr ([], ''ollama/qwen2.5:14b'', 2000)" for a b c
    by (simp add: agent_prompt_def render_def demo_agents_def model_for_def model_defaults_def strip_placeholders.simps open_mark_def)
  obtain e w' where "call_agent plain_deps demo_agents ''collector'' ''evidence_summary'' ([], ''ollama/qwen2.5:14b'', 2000)
      (PStr (uuid_str 7)) (PInt 1) w = (Inl e, w')" "adb w' = adb w" using demo_call by blast
  then show ?thesis
    by (simp add: summarize_evidence_def Let_def bind_io_def p try_io_def) (simp add: demo_agents_def)
qed

lemma demo_tool:
  assumes "evidences (adb w) = []"
  shows "\<exists>e w'. collect_one plain_deps demo_agents 7 (PStr ''p1'') 1 (PDict [(''tool'', PStr ''k8s_pods'')]) w = (Inr e, w')"
proof -
  have wa: "\<exists>d'. write_audit now act who u det d = Inr d' \<and> evidences d' = evidences d" if "act \<in> set AUDIT_ACTIONS" for now act who u det d
    using that by (simp add: write_audit_def)
  have acts: "''task_dispatched'' \<in> set AUDIT_ACTIONS" "''tool_executed'' \<in> set AUDIT_ACTIONS" by (simp_all add: AUDIT_ACTIONS_def)
  let ?task = "uuid_str 7 @ '':'' @ int_str 1 @ '':'' @ ''k8s_pods'' @ '':'' @ take 8 (hex_pad 32 (d_uuid4 plain_deps (drawn w)))"
  obtain d1 where d1: "write_audit (d_now plain_deps) ''task_dispatched'' (actor_agent ''collector'') (Some 7)
     (Some [(''tool'', PStr ''k8s_pods''), (''args'', PDict []), (''task_id'', PStr ?task)]) (adb w) = Inr d1" "evidences d1 = []"
    using wa[OF acts(1)] assms by metis
  let ?r = "\<lparr>co_raw = [], co_exit = 0, co_redacted = False, co_by = PStr ''probe'', co_data = PDict [(''ok'', PBool True)]\<rparr>"
  have tl: "run_tool plain_deps demo_agents (PStr ''p1'') (PStr ''k8s_pods'') (PDict []) ?task v = (Inr ?r, v)" for v
    by (simp add: run_tool_def control_tool_def CONTROL_TOOLS_def run_probe_def bind_io_def probe_ask_def plain_deps_def ok_result_def py_or_def)
  obtain w2 where w2: "summarize_evidence plain_deps demo_agents (PStr ''k8s_pods'') (PDict []) [] 7 1 (w\<lparr>drawn := Suc (drawn w), adb := d1\<rparr>) =
    (Inr (PStr []), w2)" "adb w2 = d1" using demo_summary by force
  let ?eid = "d_uuid4 plain_deps (drawn w2)"
  obtain d2 where d2: "evidence_txn plain_deps 7 ?eid 1 (PStr ''k8s_pods'') (PDict []) (PStr []) ?r d1 = Inr d2"
    using wa[OF acts(2)] d1(2)
    by (simp add: evidence_txn_def text_arg_def opt_text_def insert_evidence_def add_row_def) metis
  show ?thesis
    by (simp add: collect_one_def bind_io_def py_or_def fresh_uuid_def Let_def txn_unit_def txn_def py_str_def d1(1)[simplified] tl[simplified] w2 d2 put_payload_def)
qed


end
