(* ===== verification/DashAuth.thy ===== *)
theory DashAuth
  imports Models Json
begin

text \<open>
  Accounts and access of the dashboard (\<open>dashboard_api/auth.py\<close>, \<open>errors.py\<close>, \<open>bootstrap_admin.py\<close>,
  \<open>rca_common/userauth.py\<close>): the error envelope, tokens, the role dependency of the endpoints, login,
  the change of a password and the bootstrap of the first administrator.

  Argon2, JSON web tokens and the rendering of times are parameters.
\<close>

section \<open>Errors\<close>

text \<open>What a request can end in besides an answer: an \<open>APIError\<close>, or any other exception\<close>

datatype fault = APIError int string string | Raised pyexc

type_synonym 'a reply = "fault + 'a"

definition api_error :: "int \<Rightarrow> string \<Rightarrow> string \<Rightarrow> 'a reply" where
  "api_error code name msg = Inl (APIError code name msg)"

definition up :: "'a res \<Rightarrow> 'a reply" where
  "up r = (case r of Inl e \<Rightarrow> Inl (Raised e) | Inr x \<Rightarrow> Inr x)"

definition error_body :: "string \<Rightarrow> string \<Rightarrow> dict \<Rightarrow> dict" where
  "error_body name msg det =
     [(''error'', PDict [(''code'', PStr name), (''message'', PStr msg), (''detail'', PDict det)])]"

text \<open>The handler of \<open>APIError\<close>; its detail is empty in every use, and other exceptions become a status of 500.\<close>

definition http_status :: "'a reply \<Rightarrow> int" where
  "http_status r = (case r of Inl (APIError code _ _) \<Rightarrow> code | Inl (Raised _) \<Rightarrow> 500 | Inr _ \<Rightarrow> 200)"

definition api_error_handler :: "fault \<Rightarrow> (int \<times> dict) option" where
  "api_error_handler f = (case f of APIError code name msg \<Rightarrow> Some (code, error_body name msg []) | Raised _ \<Rightarrow> None)"

lemma up_simps [simp]: "up (Inr x) = Inr x" "up (Inl e) = Inl (Raised e)"
  by (simp_all add: up_def)

lemma up_Inr_iff [res_simps]: "up r = Inr x \<longleftrightarrow> r = Inr x"
  by (auto simp: up_def split: sum.splits)

section \<open>The environment of the service\<close>

datatype jwt_failure = ExpiredSignatureError | InvalidTokenError

record dash_env =
  de_fr :: "rat \<Rightarrow> string"
  de_iso :: "timestamp \<Rightarrow> string"
  de_fromiso :: "string \<Rightarrow> timestamp option"
  de_now :: timestamp
  de_uuid4 :: uuid
  de_secret_token :: string
  de_hash :: "string \<Rightarrow> string"
  de_verify :: "string \<Rightarrow> string \<Rightarrow> bool"
  de_encode :: "dict \<Rightarrow> string \<Rightarrow> string"
  de_decode :: "string \<Rightarrow> string \<Rightarrow> jwt_failure + dict"
  de_presign :: "(string \<Rightarrow> int \<Rightarrow> string) option"

record dash_config =
  jwt_secret :: string
  token_ttl_seconds :: int
  password_min_length :: nat
  notification_webhooks :: "pyval list"

section \<open>Tokens and roles\<close>

definition ROLE_RANK :: "(string \<times> int) list" where
  "ROLE_RANK = [(''viewer'', 1), (''approver'', 2), (''admin'', 3)]"

record auth_user =
  a_user_id :: uuid
  a_username :: string
  a_role :: string
  a_must_change :: bool

definition issue_token :: "dash_env \<Rightarrow> uuid \<Rightarrow> string \<Rightarrow> string \<Rightarrow> string \<Rightarrow> int \<Rightarrow> (string \<times> timestamp) res" where
  "issue_token E uid uname role secret ttl =
     (if secret = [] then Inl (ValueError ''jwt_secret is required'')
      else (let exp = de_now E + ttl * 1000000 in
        Inr (de_encode E [(''sub'', PStr (uuid_str uid)), (''username'', PStr uname), (''role'', PStr role),
               (''iat'', PInt (de_now E div 1000000)), (''exp'', PInt (exp div 1000000)),
               (''jti'', PStr (uuid_str (de_uuid4 E)))] secret, exp)))"

definition decode_token :: "dash_env \<Rightarrow> string \<Rightarrow> string \<Rightarrow> dict reply" where
  "decode_token E tok secret =
     (case de_decode E tok secret of
        Inl ExpiredSignatureError \<Rightarrow> api_error 401 ''token_expired'' ''token has expired''
      | Inl InvalidTokenError \<Rightarrow> api_error 401 ''invalid_token'' ''invalid or malformed token''
      | Inr claims \<Rightarrow> Inr claims)"

definition role_at_least :: "string \<Rightarrow> string \<Rightarrow> bool" where
  "role_at_least role min_role \<longleftrightarrow>
     (case map_of ROLE_RANK role of None \<Rightarrow> 0 | Some r \<Rightarrow> r) \<ge> (case map_of ROLE_RANK min_role of None \<Rightarrow> 99 | Some r \<Rightarrow> r)"

text \<open>A request: the path of its URL and the bearer token, if any\<close>

record http_request =
  hr_path :: string
  hr_token :: "string option"

definition ends_with :: "string \<Rightarrow> string \<Rightarrow> bool" where
  "ends_with p s \<longleftrightarrow> starts_with (rev p) (rev s)"

definition rstrip_slashes :: "string \<Rightarrow> string" where
  "rstrip_slashes s = rev (dropWhile (\<lambda>c. c = CHR ''/'') (rev s))"

text \<open>The claims a token must carry: a subject and a known role\<close>

definition claimed_subject :: "dict \<Rightarrow> pyval reply" where
  "claimed_subject claims =
     (let role = py_or (dget claims ''role'') (PStr []) in
      if \<not> truthy (dget claims ''sub'') then api_error 401 ''invalid_token'' ''token missing required claims''
      else if \<not> hashable role then Inl (Raised TypeError)
      else case role of
        PStr r \<Rightarrow> if r \<in> fst ` set ROLE_RANK then Inr (dget claims ''sub'')
                  else api_error 401 ''invalid_token'' ''token missing required claims''
      | _ \<Rightarrow> api_error 401 ''invalid_token'' ''token missing required claims'')"

definition require_role :: "dash_env \<Rightarrow> dash_config \<Rightarrow> string \<Rightarrow> http_request \<Rightarrow> db \<Rightarrow> auth_user reply" where
  "require_role E C min_role q d =
     (case hr_token q of
        None \<Rightarrow> api_error 401 ''missing_token'' ''Authorization Bearer token required''
      | Some tok \<Rightarrow>
          if tok = [] then api_error 401 ''missing_token'' ''Authorization Bearer token required''
          else bind_res (decode_token E tok (jwt_secret C)) (\<lambda>claims.
            bind_res (claimed_subject claims) (\<lambda>sub.
            bind_res (up (UUID (py_str (de_fr E) sub))) (\<lambda>uid.
              case get_row user_id uid (users d) of
                None \<Rightarrow> api_error 401 ''unauthorized'' ''user disabled or not found''
              | Some row \<Rightarrow>
                  if u_disabled row then api_error 401 ''unauthorized'' ''user disabled or not found''
                  else if must_change_password row \<and> \<not> ends_with ''/auth/change-password'' (rstrip_slashes (hr_path q))
                  then api_error 403 ''password_change_required'' ''password change required before accessing other endpoints''
                  else if \<not> role_at_least (u_role row) min_role
                  then api_error 403 ''forbidden'' (''role '' @ py_repr (u_role row) @ '' is below required '' @ py_repr min_role)
                  else Inr \<lparr>a_user_id = uid, a_username = username row, a_role = u_role row,
                            a_must_change = must_change_password row\<rparr>))))"

section \<open>Accounts\<close>

definition user_named :: "string \<Rightarrow> db \<Rightarrow> user option" where
  "user_named uname d = List.find (\<lambda>u. username u = uname) (users d)"

text \<open>\<open>verify_password\<close>: a password that is not text makes the hasher raise.\<close>

definition verify_password :: "dash_env \<Rightarrow> string \<Rightarrow> pyval \<Rightarrow> bool reply" where
  "verify_password E h password =
     (case password of PStr p \<Rightarrow> Inr (de_verify E h p) | _ \<Rightarrow> Inl (Raised (OtherError ''AttributeError'')))"

definition authenticate_user :: "dash_env \<Rightarrow> string \<Rightarrow> pyval \<Rightarrow> db \<Rightarrow> user option reply" where
  "authenticate_user E uname password d =
     (case user_named uname d of
        None \<Rightarrow> Inr None
      | Some row \<Rightarrow>
          if u_disabled row then Inr None
          else bind_res (verify_password E (password_hash row) password) (\<lambda>ok. Inr (if ok then Some row else None)))"

text \<open>A field of the JSON body that defaults to the empty string, stripped\<close>

definition stripped_field :: "pyval \<Rightarrow> string \<Rightarrow> string reply" where
  "stripped_field body k =
     bind_res (up (py_get body k)) (\<lambda>v.
       case py_or v (PStr []) of PStr s \<Rightarrow> Inr (str_strip s) | _ \<Rightarrow> Inl (Raised (OtherError ''AttributeError'')))"

definition login :: "dash_env \<Rightarrow> dash_config \<Rightarrow> pyval \<Rightarrow> db \<Rightarrow> dict reply" where
  "login E C body d =
     bind_res (stripped_field body ''username'') (\<lambda>uname.
     bind_res (up (py_get body ''password'')) (\<lambda>pv.
     bind_res (authenticate_user E uname (py_or pv (PStr [])) d) (\<lambda>who.
       case who of
         None \<Rightarrow> api_error 401 ''invalid_credentials'' ''bad credentials or disabled user''
       | Some u \<Rightarrow>
           bind_res (up (issue_token E (user_id u) (username u) (u_role u) (jwt_secret C) (token_ttl_seconds C))) (\<lambda>(tok, exp).
             Inr [(''token'', PStr tok), (''role'', PStr (u_role u)), (''expires_at'', PStr (de_iso E exp)),
               (''must_change_password'', PBool (must_change_password u))]))))"

text \<open>The number of characters of a field that should be text; a value without a length raises\<close>

definition field_length :: "pyval \<Rightarrow> nat reply" where
  "field_length v = (case v of PStr s \<Rightarrow> Inr (length s) | PList xs \<Rightarrow> Inr (length xs) | PDict m \<Rightarrow> Inr (length m)
     | _ \<Rightarrow> Inl (Raised TypeError))"

definition text_value :: "pyval \<Rightarrow> string reply" where
  "text_value v = (case v of PStr s \<Rightarrow> Inr s | _ \<Rightarrow> Inl (Raised (OtherError ''AttributeError'')))"

definition set_user :: "uuid \<Rightarrow> (user \<Rightarrow> user) \<Rightarrow> db \<Rightarrow> db" where
  "set_user uid f d = d\<lparr>users := modify_row user_id uid f (users d)\<rparr>"

definition admin_audit :: "dash_env \<Rightarrow> uuid \<Rightarrow> dict \<Rightarrow> db \<Rightarrow> db reply" where
  "admin_audit E who det d = up (write_audit (de_now E) ''admin_config_changed'' (actor_user who) None (Some det) d)"

definition change_password :: "dash_env \<Rightarrow> dash_config \<Rightarrow> auth_user \<Rightarrow> pyval \<Rightarrow> db \<Rightarrow> (unit \<times> db) reply" where
  "change_password E C u body d =
     bind_res (up (py_get body ''old_password'')) (\<lambda>ov.
     bind_res (up (py_get body ''new_password'')) (\<lambda>nv.
     let new = py_or nv (PStr []) in
     bind_res (field_length new) (\<lambda>n.
       if n < password_min_length C
       then api_error 400 ''password_too_short''
              (''new_password must be at least '' @ nat_str (password_min_length C) @ '' characters'')
       else case get_row user_id (a_user_id u) (users d) of
         None \<Rightarrow> api_error 401 ''unauthorized'' ''user not found''
       | Some row \<Rightarrow>
           bind_res (verify_password E (password_hash row) (py_or ov (PStr []))) (\<lambda>ok.
             if \<not> ok then api_error 401 ''invalid_credentials'' ''old_password is wrong''
             else bind_res (text_value new) (\<lambda>t.
               bind_res (admin_audit E (a_user_id u)
                   [(''entity'', PStr ''user''), (''entity_id'', PStr (uuid_str (a_user_id u))), (''change'', PStr ''password_change'')]
                   (set_user (a_user_id u) (\<lambda>r. r\<lparr>password_hash := de_hash E t, must_change_password := False\<rparr>) d)) (\<lambda>d'.
                 Inr ((), d')))))))"

text \<open>\<open>bootstrap_admin\<close>: the outcome and the database\<close>

definition bootstrap_admin :: "dash_env \<Rightarrow> string \<Rightarrow> string \<Rightarrow> db \<Rightarrow> (string \<times> db) res" where
  "bootstrap_admin E uname password d =
     (if uname = [] \<or> password = [] then Inr (''skipped'', d)
      else if user_named uname d \<noteq> None then Inr (''exists'', d)
      else bind_res (add_row user_id
        \<lparr>user_id = de_uuid4 E, username = uname, password_hash = de_hash E password, u_role = ''admin'',
         u_created_at = de_now E, u_disabled = False, must_change_password = True\<rparr> (users d)) (\<lambda>rows.
        Inr (''created'', d\<lparr>users := rows\<rparr>)))"

end
