(* ===== verification/DashQueries.thy ===== *)
theory DashQueries
  imports DashAuth Signing Repo "HOL-Library.Product_Lexorder"
begin

text \<open>
  The reading side of the dashboard (\<open>dashboard_api/services.py\<close>): page cursors, the lists with their
  filters and the views of single rows.  A query is a function of the database.

  Where a statement leaves the order of equal rows open, the order is a parameter.
\<close>

section \<open>Cursors\<close>

definition urlsafe_char :: "char \<Rightarrow> char" where
  "urlsafe_char c = (if c = CHR ''+'' then CHR ''-'' else if c = CHR ''/'' then CHR ''_'' else c)"

definition standard_char :: "char \<Rightarrow> char" where
  "standard_char c = (if c = CHR ''-'' then CHR ''+'' else if c = CHR ''_'' then CHR ''/'' else c)"

definition urlsafe_b64encode :: "string \<Rightarrow> string" where
  "urlsafe_b64encode s = map urlsafe_char (b64encode s)"

definition urlsafe_b64decode :: "string \<Rightarrow> string option" where
  "urlsafe_b64decode s = b64_decode_from 0 0 0 (map standard_char s)"

text \<open>\<open>bytes.decode()\<close> for text in the first 256 code points\<close>

fun utf8_decode :: "string \<Rightarrow> string option" where
  "utf8_decode [] = Some []"
| "utf8_decode [c] = (if code_point c < 128 then Some [c] else None)"
| "utf8_decode (c # e # s) =
     (if code_point c < 128 then map_option ((#) c) (utf8_decode (e # s))
      else if code_point c \<in> {194, 195} \<and> 128 \<le> code_point e \<and> code_point e < 192
      then map_option ((#) (char_of ((code_point c - 192) * 64 + (code_point e - 128)))) (utf8_decode s)
      else None)"

definition encode_cursor :: "dash_env \<Rightarrow> timestamp \<Rightarrow> string \<Rightarrow> string" where
  "encode_cursor E t ident = urlsafe_b64encode (utf8 (de_iso E t @ ''|'' @ ident))"

text \<open>The two parts of a cursor, if it decodes\<close>

definition cursor_parts :: "dash_env \<Rightarrow> string \<Rightarrow> (timestamp \<times> string) option" where
  "cursor_parts E cursor =
     (case urlsafe_b64decode (utf8 cursor) of
        None \<Rightarrow> None
      | Some bytes \<Rightarrow>
          (case utf8_decode bytes of
             None \<Rightarrow> None
           | Some raw \<Rightarrow>
               (case partition_char (CHR ''|'') raw of
                  (_, None) \<Rightarrow> None
                | (ts, Some ident) \<Rightarrow> map_option (\<lambda>t. (t, ident)) (de_fromiso E ts))))"

definition decode_cursor :: "dash_env \<Rightarrow> string \<Rightarrow> (timestamp \<times> string) reply" where
  "decode_cursor E cursor =
     (case cursor_parts E cursor of
        None \<Rightarrow> api_error 400 ''invalid_cursor'' ''invalid pagination cursor''
      | Some p \<Rightarrow> Inr p)"

definition page_limit :: "int \<Rightarrow> int \<Rightarrow> nat" where
  "page_limit cap limit = nat (max 1 (min (if limit = 0 then 50 else limit) cap))"

definition opt_field :: "('a \<Rightarrow> pyval) \<Rightarrow> 'a option \<Rightarrow> pyval" where
  "opt_field f v = (case v of None \<Rightarrow> PNone | Some x \<Rightarrow> f x)"

definition iso_field :: "dash_env \<Rightarrow> timestamp option \<Rightarrow> pyval" where
  "iso_field E t = opt_field (\<lambda>x. PStr (de_iso E x)) t"

section \<open>Investigations\<close>

definition sum_llm_cost :: "db \<Rightarrow> uuid \<Rightarrow> rat" where
  "sum_llm_cost d iid =
     sum_list (List.map_filter lc_cost_usd (filter (\<lambda>c. lc_investigation_id c = Some iid) (llm_calls d)))"

definition sum_llm_costs_batch :: "db \<Rightarrow> uuid list \<Rightarrow> (uuid \<times> rat) list" where
  "sum_llm_costs_batch d iids =
     map (\<lambda>u. (u, sum_llm_cost d u))
       (filter (\<lambda>u. u \<in> set iids) (remdups (List.map_filter lc_investigation_id (llm_calls d))))"

definition event_severity :: "alert_event \<Rightarrow> pyval" where
  "event_severity ev =
     py_or (opt_field PStr (ae_severity ev)) (py_or (dget (normalized ev) ''severity'') (PStr ''unknown''))"

text \<open>The severity of a case, when the caller has not looked it up\<close>

definition case_severity :: "db \<Rightarrow> investigation \<Rightarrow> pyval" where
  "case_severity d iv =
     (case trigger_event iv of
        None \<Rightarrow> PStr ''unknown''
      | Some e \<Rightarrow> (case get_row event_id e (alert_events d) of None \<Rightarrow> PStr ''unknown'' | Some ev \<Rightarrow> event_severity ev))"

definition investigation_summary :: "dash_env \<Rightarrow> investigation \<Rightarrow> rat \<Rightarrow> pyval \<Rightarrow> dict reply" where
  "investigation_summary E iv cost severity =
     bind_res (up (py_int (py_or (dget (spent iv) ''rounds'') (PInt 0)))) (\<lambda>rounds.
       Inr [(''investigation_id'', PStr (uuid_str (investigation_id iv))), (''platform_key'', PStr (inv_platform_key iv)),
         (''status'', PStr (status iv)), (''severity'', severity), (''created_at'', PStr (de_iso E (inv_created_at iv))),
         (''closed_at'', iso_field E (closed_at iv)),
         (''rca_compact'', case rca_report iv of Some r \<Rightarrow> dget r ''rca_compact'' | None \<Rightarrow> PNone),
         (''spent'', PDict (dset (dset (spent iv) ''rounds'' (PInt rounds)) ''cost_usd'' (PFloat cost))),
         (''budget'', PDict (budget iv))])"

text \<open>The text of a JSON value at a path, as the filter on the category compares it\<close>

definition json_text :: "(rat \<Rightarrow> string) \<Rightarrow> pyval \<Rightarrow> string option" where
  "json_text fr v = (case v of PNone \<Rightarrow> None | PStr s \<Rightarrow> Some s | _ \<Rightarrow> Some (json_dumps fr v))"

definition root_category :: "(rat \<Rightarrow> string) \<Rightarrow> investigation \<Rightarrow> string option" where
  "root_category fr iv =
     (case rca_report iv of None \<Rightarrow> None
      | Some r \<Rightarrow> json_text fr (dget (as_dict (dget r ''root_cause'')) ''category''))"

record case_filter =
  cf_status :: "string list"
  cf_platform :: "string option"
  cf_category :: "string option"

definition given :: "string option \<Rightarrow> bool" where
  "given s \<longleftrightarrow> s \<noteq> None \<and> s \<noteq> Some []"

definition case_matches :: "dash_env \<Rightarrow> case_filter \<Rightarrow> investigation \<Rightarrow> bool" where
  "case_matches E f iv \<longleftrightarrow>
     (cf_status f = [] \<or> status iv \<in> set (cf_status f)) \<and>
     (given (cf_platform f) \<longrightarrow> cf_platform f = Some (inv_platform_key iv)) \<and>
     (given (cf_category f) \<longrightarrow> root_category (de_fr E) iv = cf_category f)"

definition case_key :: "investigation \<Rightarrow> timestamp \<times> uuid" where
  "case_key iv = (inv_created_at iv, investigation_id iv)"

text \<open>\<open>ORDER BY ... DESC\<close>\<close>

definition sort_desc :: "('a \<Rightarrow> 'k::linorder) \<Rightarrow> 'a list \<Rightarrow> 'a list" where
  "sort_desc key rows = rev (sort_key key rows)"

text \<open>The loop that drops rows of a case already seen and stops one row after the page\<close>

fun dedupe :: "('a \<Rightarrow> 'k) \<Rightarrow> nat \<Rightarrow> 'k list \<Rightarrow> 'a list \<Rightarrow> 'a list" where
  "dedupe key n seen [] = []"
| "dedupe key n seen (r # rs) =
     (if key r \<in> set seen then dedupe key n seen rs
      else if n = 0 then [r] else r # dedupe key (n - 1) (key r # seen) rs)"

text \<open>The cursor as a bound on the key: absent or empty means the first page.\<close>

definition case_bound :: "dash_env \<Rightarrow> string option \<Rightarrow> (timestamp \<times> uuid) option reply" where
  "case_bound E cursor =
     (case cursor of
        None \<Rightarrow> Inr None
      | Some c \<Rightarrow>
          if c = [] then Inr None
          else bind_res (decode_cursor E c) (\<lambda>(t, ident).
            bind_res (up (UUID ident)) (\<lambda>u. Inr (Some (t, u)))))"

definition below :: "'k::linorder option \<Rightarrow> 'k \<Rightarrow> bool" where
  "below bound k \<longleftrightarrow> (case bound of None \<Rightarrow> True | Some b \<Rightarrow> k < b)"

definition case_rows :: "dash_env \<Rightarrow> case_filter \<Rightarrow> (timestamp \<times> uuid) option \<Rightarrow> db \<Rightarrow> investigation list" where
  "case_rows E f bound d =
     sort_desc case_key (filter (\<lambda>i. case_matches E f i \<and> below bound (case_key i)) (investigations d))"

definition unique_cases :: "dash_env \<Rightarrow> case_filter \<Rightarrow> (timestamp \<times> uuid) option \<Rightarrow> nat \<Rightarrow> db \<Rightarrow> investigation list" where
  "unique_cases E f bound limit d =
     dedupe investigation_id limit [] (take (max (limit + 1) (limit * 4)) (case_rows E f bound d))"

definition next_case_cursor :: "dash_env \<Rightarrow> nat \<Rightarrow> investigation list \<Rightarrow> string option" where
  "next_case_cursor E limit uniq =
     (if limit < length uniq
      then (let l = uniq ! (limit - 1) in Some (encode_cursor E (inv_created_at l) (uuid_str (investigation_id l))))
      else None)"

definition list_investigations :: "dash_env \<Rightarrow> case_filter \<Rightarrow> string option \<Rightarrow> int \<Rightarrow> db \<Rightarrow> (dict list \<times> string option) reply" where
  "list_investigations E f cursor limit0 d =
     bind_res (case_bound E cursor) (\<lambda>bound.
       let limit = page_limit 50 limit0;
           uniq = unique_cases E f bound limit d;
           page = take limit uniq;
           costs = sum_llm_costs_batch d (map investigation_id page) in
       bind_res (map_res (\<lambda>iv. investigation_summary E iv
           (case map_of costs (investigation_id iv) of None \<Rightarrow> 0 | Some c \<Rightarrow> c) (case_severity d iv)) page) (\<lambda>items.
         Inr (items, next_case_cursor E limit uniq)))"

definition case_or_404 :: "db \<Rightarrow> uuid \<Rightarrow> investigation reply" where
  "case_or_404 d iid =
     (case latest_investigation d iid of
        None \<Rightarrow> api_error 404 ''not_found'' (''investigation '' @ uuid_str iid @ '' not found'')
      | Some iv \<Rightarrow> Inr iv)"

definition event_view :: "dash_env \<Rightarrow> alert_event \<Rightarrow> pyval" where
  "event_view E e =
     PDict [(''event_id'', PStr (uuid_str (event_id e))), (''source'', opt_field PStr (ae_source e)),
       (''severity'', opt_field PStr (ae_severity e)), (''disposition'', PStr (disposition e)),
       (''received_at'', PStr (de_iso E (received_at e))), (''normalized'', PDict (normalized e))]"

definition execution_view :: "dash_env \<Rightarrow> remediation_execution \<Rightarrow> pyval" where
  "execution_view E x =
     PDict [(''execution_id'', PStr (uuid_str (execution_id x))), (''playbook_id'', opt_field PStr (re_playbook_id x)),
       (''params'', PDict (re_params x)), (''mode'', PStr (re_mode x)), (''status'', PStr (re_status x)),
       (''approved_by'', opt_field (\<lambda>u. PStr (uuid_str u)) (approved_by x)),
       (''verification_result'', opt_field PDict (verification_result x)),
       (''started_at'', iso_field E (re_started_at x)), (''finished_at'', iso_field E (re_finished_at x))]"

definition get_investigation_detail :: "dash_env \<Rightarrow> uuid \<Rightarrow> db \<Rightarrow> dict reply" where
  "get_investigation_detail E iid d =
     bind_res (case_or_404 d iid) (\<lambda>iv.
     bind_res (investigation_summary E iv (sum_llm_cost d (investigation_id iv)) (case_severity d iv)) (\<lambda>summary.
       let report = (case rca_report iv of None \<Rightarrow> [] | Some r \<Rightarrow> r) in
       Inr (dupdate summary
         [(''workflow_id'', PStr (workflow_id iv)), (''trigger_event'', opt_field (\<lambda>u. PStr (uuid_str u)) (trigger_event iv)),
          (''rca_report'', PDict report),
          (''rca_compact'', py_or (dget report ''rca_compact'') (dget summary ''rca_compact'')),
          (''related_events'', PList (map (event_view E) (filter (\<lambda>e. ae_investigation_id e = Some iid) (alert_events d)))),
          (''executions'', PList (map (execution_view E) (filter (\<lambda>x. re_investigation_id x = iid) (executions d))))])))"

definition iteration_view :: "dash_env \<Rightarrow> uuid \<Rightarrow> db \<Rightarrow> iteration \<Rightarrow> pyval" where
  "iteration_view E iid d t =
     PDict [(''round'', PInt (it_round t)), (''plan'', PDict (it_plan t)), (''rca_output'', opt_field PDict (it_rca_output t)),
       (''cost_usd'', opt_field PFloat (it_cost_usd t)), (''duration_ms'', opt_field PInt (it_duration_ms t)),
       (''started_at'', iso_field E (it_started_at t)), (''finished_at'', iso_field E (it_finished_at t)),
       (''evidence'', PList (map (\<lambda>e. PDict [(''evidence_id'', PStr (uuid_str (evidence_id e))), (''tool_name'', PStr (tool_name e)),
            (''summary'', opt_field PStr (ev_summary e)), (''payload_ref'', opt_field PStr (ev_payload_ref e))])
          (filter (\<lambda>e. ev_investigation_id e = iid \<and> ev_round e = it_round t) (evidences d))))]"

definition list_iterations :: "dash_env \<Rightarrow> uuid \<Rightarrow> db \<Rightarrow> pyval list reply" where
  "list_iterations E iid d =
     bind_res (case_or_404 d iid) (\<lambda>_.
       Inr (map (iteration_view E iid d) (sort_key it_round (filter (\<lambda>t. it_investigation_id t = iid) (iterations d)))))"

section \<open>Evidence, model calls and approvals\<close>

definition evidence_view :: "dash_env \<Rightarrow> evidence \<Rightarrow> dict" where
  "evidence_view E r =
     [(''evidence_id'', PStr (uuid_str (evidence_id r))), (''investigation_id'', PStr (uuid_str (ev_investigation_id r))),
      (''round'', PInt (ev_round r)), (''tool_name'', PStr (tool_name r)), (''args'', ev_args r),
      (''exit_code'', opt_field PInt (ev_exit_code r)), (''summary'', opt_field PStr (ev_summary r)),
      (''payload_ref'', opt_field PStr (ev_payload_ref r)), (''payload_bytes'', opt_field PInt (payload_bytes r)),
      (''redacted'', PBool (redacted r)), (''executed_by'', opt_field PStr (executed_by r)),
      (''created_at'', PStr (de_iso E (ev_created_at r)))]"

definition evidence_detail :: "dash_env \<Rightarrow> uuid \<Rightarrow> bool \<Rightarrow> db \<Rightarrow> dict reply" where
  "evidence_detail E eid full d =
     (case get_row evidence_id eid (evidences d) of
        None \<Rightarrow> api_error 404 ''not_found'' (''evidence '' @ uuid_str eid @ '' not found'')
      | Some r \<Rightarrow>
          Inr (case de_presign E of
                 Some url \<Rightarrow> if full \<and> given (ev_payload_ref r)
                             then dset (evidence_view E r) ''download_url'' (PStr (url (the (ev_payload_ref r)) 300))
                             else evidence_view E r
               | None \<Rightarrow> evidence_view E r))"

record call_filter =
  lf_case :: "string option"
  lf_round :: "int option"
  lf_role :: "string option"

definition call_matches :: "call_filter \<Rightarrow> uuid option \<Rightarrow> llm_call \<Rightarrow> bool" where
  "call_matches f iid c \<longleftrightarrow>
     (case iid of None \<Rightarrow> True | Some u \<Rightarrow> lc_investigation_id c = Some u) \<and>
     (case lf_round f of None \<Rightarrow> True | Some n \<Rightarrow> lc_round c = Some n) \<and>
     (given (lf_role f) \<longrightarrow> lf_role f = Some (agent_role c))"

definition call_key :: "llm_call \<Rightarrow> timestamp \<times> uuid" where
  "call_key c = (lc_created_at c, call_id c)"

definition presigned :: "dash_env \<Rightarrow> string option \<Rightarrow> pyval" where
  "presigned E ref =
     (case de_presign E of Some url \<Rightarrow> if given ref then PStr (url (the ref) 300) else opt_field PStr ref
      | None \<Rightarrow> opt_field PStr ref)"

definition call_view :: "dash_env \<Rightarrow> llm_call \<Rightarrow> pyval" where
  "call_view E r =
     PDict [(''call_id'', PStr (uuid_str (call_id r))), (''investigation_id'', opt_field (\<lambda>u. PStr (uuid_str u)) (lc_investigation_id r)),
       (''round'', opt_field PInt (lc_round r)), (''agent_role'', PStr (agent_role r)), (''model'', PStr (lc_model r)),
       (''provider'', opt_field PStr (lc_provider r)), (''prompt_url'', presigned E (prompt_ref r)),
       (''response_url'', presigned E (response_ref r)), (''prompt_ref'', opt_field PStr (prompt_ref r)),
       (''response_ref'', opt_field PStr (response_ref r)), (''input_tokens'', opt_field PInt (input_tokens r)),
       (''output_tokens'', opt_field PInt (output_tokens r)), (''cost_usd'', opt_field PFloat (lc_cost_usd r)),
       (''latency_ms'', opt_field PInt (latency_ms r)), (''error'', opt_field PStr (lc_error r)),
       (''created_at'', PStr (de_iso E (lc_created_at r)))]"

definition optional_uuid :: "string option \<Rightarrow> uuid option reply" where
  "optional_uuid s = (if given s then bind_res (up (UUID (the s))) (\<lambda>u. Inr (Some u)) else Inr None)"

text \<open>The statement orders by time only; \<open>order\<close> is the order the database returns.\<close>

definition call_rows :: "(llm_call list \<Rightarrow> llm_call list) \<Rightarrow> call_filter \<Rightarrow> uuid option \<Rightarrow> (timestamp \<times> uuid) option \<Rightarrow> db \<Rightarrow> llm_call list" where
  "call_rows order f iid bound d =
     order (filter (\<lambda>c. call_matches f iid c \<and> below bound (call_key c)) (llm_calls d))"

definition next_call_cursor :: "dash_env \<Rightarrow> nat \<Rightarrow> llm_call list \<Rightarrow> string option" where
  "next_call_cursor E limit rows =
     (if limit < length rows
      then (let l = rows ! (limit - 1) in Some (encode_cursor E (lc_created_at l) (uuid_str (call_id l)))) else None)"

definition list_llm_calls ::
  "dash_env \<Rightarrow> (llm_call list \<Rightarrow> llm_call list) \<Rightarrow> call_filter \<Rightarrow> string option \<Rightarrow> int \<Rightarrow> db \<Rightarrow> (pyval list \<times> string option) reply" where
  "list_llm_calls E order f cursor limit0 d =
     (let limit = page_limit 50 limit0 in
      bind_res (optional_uuid (lf_case f)) (\<lambda>iid.
      bind_res (case_bound E cursor) (\<lambda>bound.
        let rows = take (limit + 1) (call_rows order f iid bound d) in
        Inr (map (call_view E) (take limit rows), next_call_cursor E limit rows))))"

definition approval_view :: "dash_env \<Rightarrow> approval \<Rightarrow> pyval" where
  "approval_view E r =
     PDict [(''approval_id'', PStr (uuid_str (approval_id r))), (''investigation_id'', PStr (uuid_str (ap_investigation_id r))),
       (''kind'', PStr (ap_kind r)), (''subject'', PDict (ap_subject r)), (''decision'', opt_field PStr (decision r)),
       (''comment'', opt_field PStr (ap_comment r)), (''created_at'', PStr (de_iso E (ap_created_at r))),
       (''age_seconds'', PInt (trunc_rat (of_int (de_now E - ap_created_at r) / 1000000))),
       (''investigation_link'', PStr (''/api/v1/investigations/'' @ uuid_str (ap_investigation_id r)))]"

definition list_approvals :: "dash_env \<Rightarrow> bool \<Rightarrow> int \<Rightarrow> uuid option \<Rightarrow> db \<Rightarrow> pyval list" where
  "list_approvals E pending limit0 iid d =
     map (approval_view E) (take (page_limit 100 limit0) (sort_key ap_created_at
       (filter (\<lambda>a. (pending \<longrightarrow> decision a = None) \<and> (case iid of None \<Rightarrow> True | Some u \<Rightarrow> ap_investigation_id a = u)) (approvals d))))"

section \<open>Audit log\<close>

record audit_filter =
  af_case :: "string option"
  af_actor :: "string option"
  af_action :: "string option"
  af_from :: "string option"
  af_to :: "string option"

text \<open>\<open>datetime.fromisoformat(s.replace("Z", "+00:00"))\<close>, outside any handler\<close>

definition optional_time :: "dash_env \<Rightarrow> string option \<Rightarrow> timestamp option reply" where
  "optional_time E s =
     (if given s
      then (case de_fromiso E (str_replace ''Z'' ''+00:00'' (the s)) of
              None \<Rightarrow> Inl (Raised (ValueError ''Invalid isoformat string''))
            | Some t \<Rightarrow> Inr (Some t))
      else Inr None)"

definition audit_matches :: "audit_filter \<Rightarrow> uuid option \<Rightarrow> timestamp option \<Rightarrow> timestamp option \<Rightarrow> audit_log \<Rightarrow> bool" where
  "audit_matches f iid t0 t1 a \<longleftrightarrow>
     (case iid of None \<Rightarrow> True | Some u \<Rightarrow> au_investigation_id a = Some u) \<and>
     (given (af_actor f) \<longrightarrow> af_actor f = Some (actor a)) \<and> (given (af_action f) \<longrightarrow> af_action f = Some (action a)) \<and>
     (case t0 of None \<Rightarrow> True | Some t \<Rightarrow> t \<le> audit_at a) \<and> (case t1 of None \<Rightarrow> True | Some t \<Rightarrow> audit_at a \<le> t)"

definition audit_key :: "audit_log \<Rightarrow> timestamp \<times> int" where
  "audit_key a = (audit_at a, int (seq a))"

definition audit_bound :: "dash_env \<Rightarrow> string option \<Rightarrow> (timestamp \<times> int) option reply" where
  "audit_bound E cursor =
     (case cursor of
        None \<Rightarrow> Inr None
      | Some c \<Rightarrow>
          if c = [] then Inr None
          else (case cursor_parts E c of
                  None \<Rightarrow> api_error 400 ''invalid_cursor'' ''invalid pagination cursor''
                | Some (t, n) \<Rightarrow>
                    (case int_of_str n of
                       None \<Rightarrow> api_error 400 ''invalid_cursor'' ''invalid pagination cursor''
                     | Some i \<Rightarrow> Inr (Some (t, i)))))"

definition audit_view :: "dash_env \<Rightarrow> audit_log \<Rightarrow> pyval" where
  "audit_view E r =
     PDict [(''seq'', PInt (int (seq r))), (''investigation_id'', opt_field (\<lambda>u. PStr (uuid_str u)) (au_investigation_id r)),
       (''actor'', PStr (actor r)), (''action'', PStr (action r)), (''detail'', opt_field PDict (detail r)),
       (''at'', PStr (de_iso E (audit_at r)))]"

definition audit_rows :: "audit_filter \<Rightarrow> uuid option \<Rightarrow> timestamp option \<Rightarrow> timestamp option \<Rightarrow> (timestamp \<times> int) option \<Rightarrow> db \<Rightarrow> audit_log list" where
  "audit_rows f iid t0 t1 bound d =
     sort_desc audit_key (filter (\<lambda>a. audit_matches f iid t0 t1 a \<and> below bound (audit_key a)) (audits d))"

definition next_audit_cursor :: "dash_env \<Rightarrow> nat \<Rightarrow> audit_log list \<Rightarrow> string option" where
  "next_audit_cursor E limit rows =
     (if limit < length rows
      then (let l = rows ! (limit - 1) in Some (encode_cursor E (audit_at l) (nat_str (seq l)))) else None)"

definition list_audit :: "dash_env \<Rightarrow> audit_filter \<Rightarrow> string option \<Rightarrow> int \<Rightarrow> db \<Rightarrow> (pyval list \<times> string option) reply" where
  "list_audit E f cursor limit0 d =
     (let limit = page_limit 100 limit0 in
      bind_res (optional_uuid (af_case f)) (\<lambda>iid.
      bind_res (optional_time E (af_from f)) (\<lambda>t0.
      bind_res (optional_time E (af_to f)) (\<lambda>t1.
      bind_res (audit_bound E cursor) (\<lambda>bound.
        let rows = take (limit + 1) (audit_rows f iid t0 t1 bound d) in
        Inr (map (audit_view E) (take limit rows), next_audit_cursor E limit rows))))))"

end
