(* ===== verification/DashAdmin.thy ===== *)
theory DashAdmin
  imports DashQueries Notifications
begin

text \<open>
  The writing side of the dashboard (\<open>dashboard_api/services.py\<close>): the decision of an approval, platforms,
  bootstrap tokens, users, the notification test; and the views of platforms, probes, playbooks and users
  with the summary of the metrics.  A mutation returns its answer and the new database; one that fails leaves
  the session uncommitted.
\<close>

section \<open>Decisions\<close>

definition DECISIONS :: "string list" where
  "DECISIONS = [''approved'', ''denied'', ''need_more'']"

text \<open>\<open>(comment or "").strip()\<close> is empty; a comment that is not text has no \<open>strip\<close>.\<close>

definition blank_comment :: "pyval \<Rightarrow> bool reply" where
  "blank_comment comment =
     (case py_or comment (PStr []) of PStr s \<Rightarrow> Inr (str_strip s = []) | _ \<Rightarrow> Inl (Raised (OtherError ''AttributeError'')))"

definition valid_decision :: "dash_env \<Rightarrow> pyval \<Rightarrow> pyval \<Rightarrow> string reply" where
  "valid_decision E dec comment =
     (let unknown = api_error 400 ''invalid_decision'' (''unknown decision '' @ repr_val (de_fr E) dec) in
      case dec of
        PStr s \<Rightarrow>
          if s \<notin> set DECISIONS then unknown
          else if s = ''need_more''
          then bind_res (blank_comment comment) (\<lambda>b.
            if b then api_error 400 ''comment_required'' ''need_more requires a non-empty comment'' else Inr s)
          else Inr s
      | _ \<Rightarrow> unknown)"

definition mark_decided :: "dash_env \<Rightarrow> uuid \<Rightarrow> string \<Rightarrow> uuid \<Rightarrow> string option \<Rightarrow> db \<Rightarrow> db" where
  "mark_decided E aid dec who comment d =
     d\<lparr>approvals := map (\<lambda>a. if approval_id a = aid \<and> decision a = None
         then a\<lparr>decision := Some dec, decided_by := Some who, decided_at := Some (de_now E), ap_comment := comment\<rparr>
         else a) (approvals d)\<rparr>"

definition raw_command_audit :: "dash_env \<Rightarrow> uuid \<Rightarrow> approval \<Rightarrow> string \<Rightarrow> uuid \<Rightarrow> db \<Rightarrow> db reply" where
  "raw_command_audit E aid row dec who d =
     (let log = (\<lambda>act. up (write_audit (de_now E) act (actor_user who) (Some (ap_investigation_id row))
          (Some [(''approval_id'', PStr (uuid_str aid))]) d)) in
      if ap_kind row = ''raw_command'' \<and> dec = ''approved'' then log ''raw_cmd_approved''
      else if ap_kind row = ''raw_command'' \<and> dec = ''denied'' then log ''raw_cmd_denied''
      else Inr d)"

definition decide_approval_atomic ::
  "dash_env \<Rightarrow> uuid \<Rightarrow> pyval \<Rightarrow> uuid \<Rightarrow> pyval \<Rightarrow> db \<Rightarrow> (investigation \<times> db) reply" where
  "decide_approval_atomic E aid decv who comment d =
     bind_res (valid_decision E decv comment) (\<lambda>dec.
       case get_row approval_id aid (approvals d) of
         None \<Rightarrow> api_error 404 ''not_found'' (''approval '' @ uuid_str aid @ '' not found'')
       | Some row \<Rightarrow>
           (case latest_investigation d (ap_investigation_id row) of
              None \<Rightarrow> api_error 404 ''not_found'' ''investigation for approval not found''
            | Some iv \<Rightarrow>
                if status iv \<in> set TERMINAL_STATUSES
                then api_error 409 ''case_terminal'' ''case is terminal; cannot decide approval''
                else bind_res (up (opt_text comment)) (\<lambda>ctext.
                  if decision row \<noteq> None then api_error 409 ''already_decided'' ''approval already decided''
                  else bind_res (up (write_audit (de_now E) ''approval_decided'' (actor_user who) (Some (ap_investigation_id row))
                      (Some [(''approval_id'', PStr (uuid_str aid)), (''decision'', PStr dec), (''comment'', comment),
                        (''kind'', PStr (ap_kind row))]) (mark_decided E aid dec who ctext d))) (\<lambda>d1.
                    bind_res (raw_command_audit E aid row dec who d1) (\<lambda>d2. Inr (iv, d2))))))"

section \<open>Platforms and probes\<close>

definition CREDENTIAL_GUIDANCE :: "(string \<times> string) list" where
  "CREDENTIAL_GUIDANCE =
     [(''k8s'',
       ''Create a K8s Secret with keys username/password (and optional ca.crt), '' @
       ''mount it at /etc/dbagent-probe/platform-credentials on the probe Deployment, '' @
       ''then wait for the probe to re-detect credentials (Section 8.4 step 6).''),
      (''swarm'',
       ''Create a Docker secret and update the probe service to mount it at '' @
       ''/etc/dbagent-probe/platform-credentials (keys: username/password/ca.crt). '' @
       ''See Section 8.4 step 6.'')]"

definition credential_guidance :: "string \<Rightarrow> pyval" where
  "credential_guidance dep =
     PStr (case map_of CREDENTIAL_GUIDANCE dep of Some g \<Rightarrow> g | None \<Rightarrow> the (map_of CREDENTIAL_GUIDANCE ''k8s''))"

text \<open>\<open>{k: v for k, v in config.items() if k != "bootstrap_token"}\<close>\<close>

definition public_config :: "dict \<Rightarrow> dict" where
  "public_config c = filter (\<lambda>kv. fst kv \<noteq> ''bootstrap_token'') c"

definition platform_view :: "dash_env \<Rightarrow> string option \<Rightarrow> platform \<Rightarrow> dict" where
  "platform_view E ca_fp p =
     [(''platform_key'', PStr (platform_key p)), (''platform_type'', PStr (platform_type p)), (''deployment'', PStr (deployment p)),
      (''display_name'', opt_field PStr (display_name p)), (''status'', PStr (p_status p)),
      (''config'', PDict (public_config (p_config p))), (''created_at'', PStr (de_iso E (p_created_at p)))] @
     (if p_status p = ''pending_credentials'' then [(''credential_guidance'', credential_guidance (deployment p))] else []) @
     (if given ca_fp then [(''bootstrap_ca_fingerprint'', PStr (the ca_fp))] else [])"

text \<open>\<open>collate\<close> is the rank of a key in the collation of the database.\<close>

definition list_platforms :: "dash_env \<Rightarrow> (string \<Rightarrow> int) \<Rightarrow> string option \<Rightarrow> db \<Rightarrow> dict list" where
  "list_platforms E collate ca_fp d = map (platform_view E ca_fp) (sort_key (\<lambda>p. collate (platform_key p)) (platforms d))"

text \<open>The configuration of a platform is an object; a truthy value of another type counts as an empty one here.\<close>

definition create_platform :: "dash_env \<Rightarrow> pyval \<Rightarrow> uuid \<Rightarrow> db \<Rightarrow> (dict \<times> db) reply" where
  "create_platform E body who d =
     bind_res (up (py_get body ''platform_key'')) (\<lambda>kv.
       if \<not> truthy kv then api_error 400 ''invalid_body'' ''platform_key is required''
       else bind_res (up (text_arg kv)) (\<lambda>key.
         if get_row platform_key key (platforms d) \<noteq> None
         then api_error 409 ''already_exists'' (''platform '' @ key @ '' already exists'')
         else
           (let b = as_dict body in
            bind_res (up (text_arg (py_or (dget b ''platform_type'') (PStr ''presto'')))) (\<lambda>ptype.
            bind_res (up (text_arg (py_or (dget b ''deployment'') (PStr ''k8s'')))) (\<lambda>dep.
            bind_res (up (opt_text (dget b ''display_name''))) (\<lambda>name.
            let conf = (case py_or (dget b ''config'') (PDict []) of PDict c \<Rightarrow> c | _ \<Rightarrow> []);
                row = \<lparr>platform_key = key, platform_type = ptype, deployment = dep, display_name = name,
                       p_status = ''created'', p_config = conf, p_created_at = de_now E\<rparr> in
            bind_res (admin_audit E who
                [(''entity'', PStr ''platform''), (''entity_id'', PStr key), (''change'', PStr ''create'')]
                (d\<lparr>platforms := platforms d @ [row]\<rparr>)) (\<lambda>d'.
              Inr ([(''platform_key'', PStr key), (''platform_type'', PStr ptype), (''deployment'', PStr dep),
                    (''display_name'', opt_field PStr name), (''status'', PStr ''created''), (''config'', PDict conf)], d'))))))))"

definition platform_or_404 :: "string \<Rightarrow> db \<Rightarrow> platform reply" where
  "platform_or_404 key d =
     (case get_row platform_key key (platforms d) of
        None \<Rightarrow> api_error 404 ''not_found'' (''platform '' @ key @ '' not found'')
      | Some p \<Rightarrow> Inr p)"

definition set_platform :: "string \<Rightarrow> (platform \<Rightarrow> platform) \<Rightarrow> db \<Rightarrow> db" where
  "set_platform key f d = d\<lparr>platforms := modify_row platform_key key f (platforms d)\<rparr>"

definition patched_platform :: "dict \<Rightarrow> platform \<Rightarrow> platform reply" where
  "patched_platform b p =
     bind_res (if has_key b ''display_name'' then up (opt_text (dget b ''display_name'')) else Inr (display_name p)) (\<lambda>name.
       Inr (p\<lparr>display_name := name,
              p_config := (case dget b ''config'' of PDict c \<Rightarrow> dupdate (p_config p) c | _ \<Rightarrow> p_config p)\<rparr>))"

definition keys_field :: "dict \<Rightarrow> pyval" where
  "keys_field b = PList (map (\<lambda>kv. PStr (fst kv)) b)"

text \<open>A body that is not an object fails when its keys are asked for.\<close>

definition dict_body :: "pyval \<Rightarrow> dict reply" where
  "dict_body body = (case body of PDict b \<Rightarrow> Inr b | _ \<Rightarrow> Inl (Raised (OtherError ''AttributeError'')))"

definition patch_platform :: "dash_env \<Rightarrow> string \<Rightarrow> pyval \<Rightarrow> uuid \<Rightarrow> db \<Rightarrow> (dict \<times> db) reply" where
  "patch_platform E key body who d =
     bind_res (platform_or_404 key d) (\<lambda>p.
     bind_res (dict_body body) (\<lambda>b.
     bind_res (patched_platform b p) (\<lambda>p'.
     bind_res (admin_audit E who
         [(''entity'', PStr ''platform''), (''entity_id'', PStr key), (''change'', PStr ''patch''), (''fields'', keys_field b)]
         (set_platform key (\<lambda>_. p') d)) (\<lambda>d'.
       Inr ([(''platform_key'', PStr key), (''status'', PStr (p_status p')), (''display_name'', opt_field PStr (display_name p')),
             (''config'', PDict (public_config (p_config p')))], d')))))"

definition TOKEN_TTL_HOURS :: int where
  "TOKEN_TTL_HOURS = 24"

definition issue_bootstrap_token :: "dash_env \<Rightarrow> string \<Rightarrow> uuid \<Rightarrow> db \<Rightarrow> (dict \<times> db) reply" where
  "issue_bootstrap_token E key who d =
     bind_res (platform_or_404 key d) (\<lambda>p.
       let expires = PStr (de_iso E (de_now E + TOKEN_TTL_HOURS * 3600000000));
           conf = dset (dset (dset (p_config p) ''bootstrap_token'' (PStr (de_secret_token E)))
             ''bootstrap_token_consumed'' (PBool False)) ''bootstrap_token_expires_at'' expires in
       bind_res (admin_audit E who
           [(''entity'', PStr ''bootstrap_token''), (''entity_id'', PStr key), (''change'', PStr ''issue'')]
           (set_platform key (\<lambda>q. q\<lparr>p_config := conf\<rparr>) d)) (\<lambda>d'.
         Inr ([(''token'', PStr (de_secret_token E)), (''expires_at'', expires)], d')))"

text \<open>\<open>"credentials" in (auth.get("missing") or [])\<close>\<close>

definition lacks_credentials :: "dict \<Rightarrow> bool reply" where
  "lacks_credentials auth = up (py_in ''credentials'' (py_or (dget auth ''missing'') (PList [])))"

definition probe_view :: "dash_env \<Rightarrow> string option \<Rightarrow> db \<Rightarrow> probe_row \<Rightarrow> dict reply" where
  "probe_view E ca_fp d p =
     (let caps = (case pr_capabilities p of None \<Rightarrow> [] | Some c \<Rightarrow> c);
          authv = py_or (dget caps ''auth'') (PDict []);
          plat = (if given (pr_platform_key p) then get_row platform_key (the (pr_platform_key p)) (platforms d) else None) in
      bind_res (up (py_get authv ''missing'')) (\<lambda>missing.
      bind_res (case plat of
          None \<Rightarrow> Inr []
        | Some q \<Rightarrow>
            bind_res (if p_status q = ''pending_credentials'' then Inr True else lacks_credentials (as_dict authv)) (\<lambda>g.
              Inr ((''platform_status'', PStr (p_status q)) #
                (if g then [(''credential_guidance'', credential_guidance (deployment q))] else [])))) (\<lambda>extra.
        Inr ([(''probe_id'', PStr (uuid_str (probe_id p))), (''platform_key'', opt_field PStr (pr_platform_key p)),
              (''version'', opt_field PStr (pr_version p)), (''status'', PStr (pr_status p)), (''capabilities'', PDict caps),
              (''auth_status'', authv), (''missing'', py_or missing (PList [])),
              (''last_heartbeat'', iso_field E (last_heartbeat p)), (''registered_at'', PStr (de_iso E (registered_at p))),
              (''gateway_replica'', opt_field PStr (gateway_replica p))] @ extra @
             (if given ca_fp then [(''bootstrap_ca_fingerprint'', PStr (the ca_fp))]
              else [(''bootstrap_ca_fingerprint_hint'',
                     PStr ''CA volume not mounted; read the fingerprint from probe-gateway startup log'')])))))"

definition list_probes :: "dash_env \<Rightarrow> string option \<Rightarrow> db \<Rightarrow> dict list reply" where
  "list_probes E ca_fp d = map_res (probe_view E ca_fp d) (probes d)"

section \<open>Certificate fingerprint\<close>

definition PEM_BEGIN :: string where
  "PEM_BEGIN = ''-----BEGIN CERTIFICATE-----''"

definition PEM_END :: string where
  "PEM_END = ''-----END CERTIFICATE-----''"

definition pem_char :: "char \<Rightarrow> bool" where
  "pem_char c \<longleftrightarrow> is_space c \<or> c = CHR ''='' \<or> c \<in> set B64_ALPHABET"

text \<open>A match of the pattern at the start of a text: the body without white space\<close>

definition pem_at :: "string \<Rightarrow> string option" where
  "pem_at s =
     (if starts_with PEM_BEGIN s
      then (let r = drop (length PEM_BEGIN) s; body = takeWhile pem_char r in
            if body \<noteq> [] \<and> starts_with PEM_END (dropWhile pem_char r) then Some (filter (\<lambda>c. \<not> is_space c) body) else None)
      else None)"

fun pem_search :: "string \<Rightarrow> string option" where
  "pem_search [] = None"
| "pem_search (c # s) = (case pem_at (c # s) of Some b \<Rightarrow> Some b | None \<Rightarrow> pem_search s)"

text \<open>\<open>read\<close> is the file system (\<open>None\<close> for an \<open>OSError\<close>), \<open>dec\<close> the lenient decoding of bytes, \<open>sha\<close> the hexadecimal
  SHA-256.\<close>

definition ca_fingerprint ::
  "(string \<Rightarrow> string option) \<Rightarrow> (string \<Rightarrow> string) \<Rightarrow> (string \<Rightarrow> string) \<Rightarrow> string \<Rightarrow> string option reply" where
  "ca_fingerprint rd dec sha src =
     (if src = [] then Inr None
      else (let bytes = (case rd src of Some b \<Rightarrow> b | None \<Rightarrow> utf8 src); t = dec bytes in
        if contains ''BEGIN CERTIFICATE'' t
        then (case pem_search t of
                None \<Rightarrow> Inr None
              | Some b \<Rightarrow>
                  (case b64decode b of
                     None \<Rightarrow> Inl (Raised (ValueError ''Incorrect padding''))
                   | Some der \<Rightarrow> Inr (Some (''sha256:'' @ sha der))))
        else Inr (Some (''sha256:'' @ sha bytes))))"

section \<open>Playbooks and users\<close>

definition playbook_view :: "playbook \<Rightarrow> dict" where
  "playbook_view p =
     [(''playbook_id'', PStr (playbook_id p)), (''platform_type'', PStr (pb_platform_type p)), (''risk_level'', PStr (risk_level p)),
      (''params_schema'', PDict (params_schema p)), (''steps'', pb_steps p), (''verification'', pb_verification p),
      (''auto_eligible'', PBool (auto_eligible p)), (''maturity'', PDict (maturity p))]"

definition list_playbooks :: "db \<Rightarrow> dict list" where
  "list_playbooks d = map playbook_view (playbooks d)"

definition get_playbook :: "string \<Rightarrow> db \<Rightarrow> dict reply" where
  "get_playbook pid d =
     (case get_row playbook_id pid (playbooks d) of
        None \<Rightarrow> api_error 404 ''not_found'' (''playbook '' @ pid @ '' not found'')
      | Some p \<Rightarrow> Inr (playbook_view p))"

definition put_playbook_auto_eligible :: "string \<Rightarrow> db \<Rightarrow> (dict \<times> db) reply" where
  "put_playbook_auto_eligible pid d = api_error 403 ''feature_disabled'' ''auto_eligible cannot be enabled until Phase 3''"

definition user_view :: "dash_env \<Rightarrow> user \<Rightarrow> dict" where
  "user_view E u =
     [(''user_id'', PStr (uuid_str (user_id u))), (''username'', PStr (username u)), (''role'', PStr (u_role u)),
      (''disabled'', PBool (u_disabled u)), (''must_change_password'', PBool (must_change_password u)),
      (''created_at'', PStr (de_iso E (u_created_at u)))]"

definition list_users :: "dash_env \<Rightarrow> (string \<Rightarrow> int) \<Rightarrow> db \<Rightarrow> dict list" where
  "list_users E collate d = map (user_view E) (sort_key (\<lambda>u. collate (username u)) (users d))"

definition ROLES :: "string list" where
  "ROLES = [''viewer'', ''approver'', ''admin'']"

definition known_role :: "dash_env \<Rightarrow> pyval \<Rightarrow> string reply" where
  "known_role E v =
     (let bad = api_error 400 ''invalid_role'' (''unknown role '' @ repr_val (de_fr E) v) in
      case v of PStr r \<Rightarrow> if r \<in> set ROLES then Inr r else bad | _ \<Rightarrow> bad)"

definition create_user :: "dash_env \<Rightarrow> pyval \<Rightarrow> uuid \<Rightarrow> db \<Rightarrow> (dict \<times> db) reply" where
  "create_user E body who d =
     bind_res (stripped_field body ''username'') (\<lambda>uname.
     let b = as_dict body; password = py_or (dget b ''password'') (PStr []); role = py_or (dget b ''role'') (PStr ''viewer'') in
     if uname = [] \<or> \<not> truthy password then api_error 400 ''invalid_body'' ''username and password are required''
     else bind_res (known_role E role) (\<lambda>r.
       if user_named uname d \<noteq> None then api_error 409 ''already_exists'' (''user '' @ uname @ '' already exists'')
       else bind_res (text_value password) (\<lambda>pw.
         bind_res (up (add_row user_id
             \<lparr>user_id = de_uuid4 E, username = uname, password_hash = de_hash E pw, u_role = r, u_created_at = de_now E,
              u_disabled = False, must_change_password = True\<rparr> (users d))) (\<lambda>rows.
         bind_res (admin_audit E who
             [(''entity'', PStr ''user''), (''entity_id'', PStr (uuid_str (de_uuid4 E))), (''change'', PStr ''create''), (''role'', PStr r)]
             (d\<lparr>users := rows\<rparr>)) (\<lambda>d'.
           Inr ([(''user_id'', PStr (uuid_str (de_uuid4 E))), (''username'', PStr uname), (''role'', PStr r),
                 (''must_change_password'', PBool True)], d'))))))"

definition patched_user :: "dash_env \<Rightarrow> dict \<Rightarrow> user \<Rightarrow> user reply" where
  "patched_user E b u =
     bind_res (if has_key b ''role'' then known_role E (dget b ''role'') else Inr (u_role u)) (\<lambda>r.
       Inr (u\<lparr>u_role := r, u_disabled := (if has_key b ''disabled'' then truthy (dget b ''disabled'') else u_disabled u)\<rparr>))"

definition patch_user :: "dash_env \<Rightarrow> uuid \<Rightarrow> pyval \<Rightarrow> uuid \<Rightarrow> db \<Rightarrow> (dict \<times> db) reply" where
  "patch_user E uid body who d =
     (case get_row user_id uid (users d) of
        None \<Rightarrow> api_error 404 ''not_found'' (''user '' @ uuid_str uid @ '' not found'')
      | Some u \<Rightarrow>
          bind_res (dict_body body) (\<lambda>b.
          bind_res (patched_user E b u) (\<lambda>u'.
          bind_res (admin_audit E who
              [(''entity'', PStr ''user''), (''entity_id'', PStr (uuid_str uid)), (''change'', PStr ''patch''), (''fields'', keys_field b)]
              (set_user uid (\<lambda>_. u') d)) (\<lambda>d'.
            Inr ([(''user_id'', PStr (uuid_str (user_id u'))), (''username'', PStr (username u')), (''role'', PStr (u_role u')),
                  (''disabled'', PBool (u_disabled u')), (''must_change_password'', PBool (must_change_password u'))], d')))))"

section \<open>Metrics\<close>

definition window_days :: "string \<Rightarrow> int" where
  "window_days window =
     (if window \<noteq> [] \<and> last window = CHR ''d''
      then (case int_of_str (butlast window) of None \<Rightarrow> 7 | Some n \<Rightarrow> n) else 7)"

text \<open>The newest row of each case, in the order the cases first appear by time\<close>

definition latest_cases :: "db \<Rightarrow> investigation list" where
  "latest_cases d =
     map snd (fold (\<lambda>iv acc. AList.update (investigation_id iv) iv acc) (sort_key inv_created_at (investigations d)) [])"

definition OPEN_STATUSES :: "string list" where
  "OPEN_STATUSES = [''OPEN'', ''INVESTIGATING'', ''AWAITING_APPROVAL'', ''EXECUTING'', ''VERIFYING'', ''RECEIVED'']"

definition mean :: "rat list \<Rightarrow> rat" where
  "mean xs = (if xs = [] then 0 else sum_list xs / of_nat (length xs))"

definition round_to :: "nat \<Rightarrow> rat \<Rightarrow> rat" where
  "round_to n x = of_int (round_even (x * 10 ^ n)) / 10 ^ n"

definition case_category :: "investigation \<Rightarrow> pyval reply" where
  "case_category iv =
     bind_res (up (py_get (py_or (dget (case rca_report iv of None \<Rightarrow> [] | Some r \<Rightarrow> r) ''root_cause'') (PDict [])) ''category'')) (\<lambda>c.
       let cat = py_or c (PStr ''unknown'') in if hashable cat then Inr cat else Inl (Raised TypeError))"

definition count_into :: "('k \<times> int) list \<Rightarrow> 'k \<Rightarrow> ('k \<times> int) list" where
  "count_into acc k = AList.update k ((case map_of acc k of None \<Rightarrow> 0 | Some n \<Rightarrow> n) + 1) acc"

record metrics =
  m_window :: string
  m_open_cases :: nat
  m_pending_approvals :: nat
  m_closed_in_window :: nat
  m_avg_rounds :: rat
  m_avg_cost_usd :: rat
  m_avg_duration_seconds :: rat
  m_by_category :: "(pyval \<times> int) list"
  m_by_platform :: "(string \<times> int) list"

definition closed_since :: "timestamp \<Rightarrow> investigation list \<Rightarrow> investigation list" where
  "closed_since since ivs =
     filter (\<lambda>i. status i \<in> set TERMINAL_STATUSES \<and> (case closed_at i of None \<Rightarrow> False | Some t \<Rightarrow> since \<le> t)) ivs"

definition metrics_summary :: "dash_env \<Rightarrow> string \<Rightarrow> db \<Rightarrow> metrics reply" where
  "metrics_summary E window d =
     bind_res (up (window_start (de_now E) (window_days window * 86400))) (\<lambda>since.
       let ivs = latest_cases d; closed = closed_since since ivs in
       bind_res (map_res (\<lambda>i. up (py_int (py_or (dget (spent i) ''rounds'') (PInt 0)))) closed) (\<lambda>rounds.
       bind_res (map_res case_category ivs) (\<lambda>cats.
         Inr \<lparr>m_window = window, m_open_cases = length (filter (\<lambda>i. status i \<in> set OPEN_STATUSES) ivs),
              m_pending_approvals = length (filter (\<lambda>a. decision a = None) (approvals d)),
              m_closed_in_window = length closed,
              m_avg_rounds = round_to 2 (mean (map of_int rounds)),
              m_avg_cost_usd = round_to 4 (mean (map (\<lambda>i. sum_llm_cost d (investigation_id i)) closed)),
              m_avg_duration_seconds = round_to 1 (mean (map (\<lambda>i. of_int (the (closed_at i) - inv_created_at i) / 1000000) closed)),
              m_by_category = fold (\<lambda>c acc. count_into acc c) cats [],
              m_by_platform = fold (\<lambda>i acc. count_into acc (inv_platform_key i)) ivs []\<rparr>)))"

end
