(* ===== verification/DashApp.thy ===== *)
theory DashApp
  imports DashAdmin World
begin

text \<open>
  The endpoints of the dashboard (\<open>dashboard_api/app.py\<close>, \<open>temporal_signals.py\<close>): each with the role it
  requires, its body, its transaction and the signal it sends to the workflow of the case.

  An endpoint always answers; its answer is the JSON value or the fault.  The Temporal client, the object
  store and the HTTP client of the notifications work on the state of the outside world.
\<close>

section \<open>Signals\<close>

text \<open>An exception of the Temporal client: its text, the name of its type, and the text of its status if it has one\<close>

record rpc_error =
  rpc_text :: string
  rpc_type :: string
  rpc_status :: "string option"

type_synonym 's temporal = "'s \<Rightarrow> string \<Rightarrow> string \<Rightarrow> pyval option \<Rightarrow> rpc_error option \<times> 's"

datatype signalled = Signalled | WorkflowNotRunning string | SignalRaised rpc_error

definition CLOSED_MARKERS :: "string list" where
  "CLOSED_MARKERS = [''not found'', ''not running'', ''completed'', ''terminated'', ''canceled'', ''failed'',
     ''workflow execution already completed'', ''no running'']"

definition not_running :: "rpc_error \<Rightarrow> bool" where
  "not_running e \<longleftrightarrow>
     (let msg = str_lower (rpc_text e) in
      (\<exists>m \<in> set CLOSED_MARKERS. contains m msg) \<or> contains ''WorkflowNotFound'' (rpc_type e) \<or>
      contains ''RPCError'' (rpc_type e) \<and> contains ''not found'' msg) \<or>
     rpc_status e \<in> {Some ''5'', Some ''NOT_FOUND'', Some ''Status.NOT_FOUND''}"

definition signal_workflow :: "'s temporal option \<Rightarrow> string \<Rightarrow> string \<Rightarrow> pyval option \<Rightarrow> ('s, signalled) act" where
  "signal_workflow T wid name arg w =
     (case T of
        None \<Rightarrow> (Inr (WorkflowNotRunning ''no temporal client configured''), w)
      | Some f \<Rightarrow>
          (case f (aprobe w) wid name arg of
             (None, s) \<Rightarrow> (Inr Signalled, w\<lparr>aprobe := s\<rparr>)
           | (Some e, s) \<Rightarrow> (Inr (if not_running e then WorkflowNotRunning (rpc_text e) else SignalRaised e), w\<lparr>aprobe := s\<rparr>)))"

section \<open>Programs of an endpoint\<close>

text \<open>A session that commits at the end, and one that only reads\<close>

definition commit :: "(db \<Rightarrow> ('a \<times> db) reply) \<Rightarrow> ('s, 'a reply) act" where
  "commit f w = (case f (adb w) of Inl e \<Rightarrow> (Inr (Inl e), w) | Inr (x, d) \<Rightarrow> (Inr (Inr x), w\<lparr>adb := d\<rparr>))"

definition read_only :: "(db \<Rightarrow> 'a reply) \<Rightarrow> ('s, 'a reply) act" where
  "read_only f w = (Inr (f (adb w)), w)"

text \<open>Continuing with the value of a reply\<close>

definition and_then :: "('s, 'a reply) act \<Rightarrow> ('a \<Rightarrow> ('s, 'b reply) act) \<Rightarrow> ('s, 'b reply) act" where
  "and_then m f = bind_io m (\<lambda>r. case r of Inl e \<Rightarrow> ret (Inl e) | Inr x \<Rightarrow> f x)"

definition to_json :: "('a \<Rightarrow> pyval) \<Rightarrow> 'a reply \<Rightarrow> pyval reply" where
  "to_json f r = (case r of Inl e \<Rightarrow> Inl e | Inr x \<Rightarrow> Inr (f x))"

definition items_body :: "pyval list \<Rightarrow> pyval" where
  "items_body xs = PDict [(''items'', PList xs)]"

definition page_body :: "pyval list \<times> string option \<Rightarrow> pyval" where
  "page_body = (\<lambda>(xs, nxt). PDict [(''items'', PList xs), (''next_cursor'', opt_field PStr nxt)])"

section \<open>The endpoints\<close>

datatype endpoint =
    Healthz
  | Login pyval
  | ChangePassword pyval
  | GetInvestigations case_filter "string option" int
  | GetInvestigation uuid
  | GetIterations uuid
  | PostSignal uuid pyval
  | GetEvidence uuid bool
  | GetLlmCalls call_filter "string option" int
  | GetApprovals bool int "uuid option"
  | PostDecision uuid pyval
  | GetPlatforms
  | PostPlatform pyval
  | PatchPlatform string pyval
  | PostBootstrapToken string
  | GetProbes
  | GetPlaybooks
  | GetPlaybook string
  | PutPlaybook string pyval
  | GetUsers
  | PostUser pyval
  | PatchUser uuid pyval
  | PostNotificationTest
  | GetAudit audit_filter "string option" int
  | GetMetrics string

text \<open>The role an endpoint asks for; the health check and the login ask for none.\<close>

fun required_role :: "endpoint \<Rightarrow> string option" where
  "required_role Healthz = None"
| "required_role (Login b) = None"
| "required_role (PostSignal u b) = Some ''approver''"
| "required_role (GetApprovals p l u) = Some ''approver''"
| "required_role (PostDecision u b) = Some ''approver''"
| "required_role (PostPlatform b) = Some ''admin''"
| "required_role (PatchPlatform k b) = Some ''admin''"
| "required_role (PostBootstrapToken k) = Some ''admin''"
| "required_role GetProbes = Some ''admin''"
| "required_role (PutPlaybook p b) = Some ''admin''"
| "required_role GetUsers = Some ''admin''"
| "required_role (PostUser b) = Some ''admin''"
| "required_role (PatchUser u b) = Some ''admin''"
| "required_role PostNotificationTest = Some ''admin''"
| "required_role (GetAudit f c l) = Some ''admin''"
| "required_role _ = Some ''viewer''"

text \<open>The application: its environment and configuration, the Temporal client, the HTTP client, the order in which the
  database returns model calls of one time, its collation, and the fingerprint computed at the start\<close>

record 's app =
  ap_env :: dash_env
  ap_config :: dash_config
  ap_temporal :: "'s temporal option"
  ap_post :: "'s poster"
  ap_call_order :: "llm_call list \<Rightarrow> llm_call list"
  ap_collate :: "string \<Rightarrow> int"
  ap_ca_fp :: "string option"

definition SIGNAL_AUDIT :: "(string \<times> string) list" where
  "SIGNAL_AUDIT = [(''pause'', ''case_paused''), (''resume'', ''case_resumed''), (''abort'', ''case_aborted''),
     (''adjust_budget'', ''budget_adjusted'')]"

definition signal_action :: "dash_env \<Rightarrow> pyval \<Rightarrow> (string \<times> pyval) reply" where
  "signal_action E body =
     bind_res (up (py_get body ''action'')) (\<lambda>a.
       let bad = api_error 400 ''invalid_action'' (''unknown signal action '' @ repr_val (de_fr E) a) in
       case a of PStr n \<Rightarrow> if n \<in> fst ` set SIGNAL_AUDIT then Inr (n, dget (as_dict body) ''budget'') else bad | _ \<Rightarrow> bad)"

definition running_case :: "uuid \<Rightarrow> db \<Rightarrow> investigation reply" where
  "running_case iid d =
     bind_res (case_or_404 d iid) (\<lambda>iv.
       if status iv \<in> set TERMINAL_STATUSES then api_error 409 ''case_terminal'' ''case is terminal'' else Inr iv)"

text \<open>The end of a signal: refused by a closed workflow, raised, or delivered\<close>

definition after_signal :: "signalled \<Rightarrow> ('s, 'a reply) act \<Rightarrow> ('s, 'a reply) act" where
  "after_signal r m =
     (case r of
        Signalled \<Rightarrow> m
      | WorkflowNotRunning _ \<Rightarrow> ret (api_error 409 ''case_terminal'' ''workflow is not running'')
      | SignalRaised e \<Rightarrow> ret (Inl (Raised (OtherError (rpc_type e)))))"

definition post_signal :: "'s app \<Rightarrow> uuid \<Rightarrow> pyval \<Rightarrow> auth_user \<Rightarrow> ('s, pyval reply) act" where
  "post_signal P iid body u =
     (case signal_action (ap_env P) body of
        Inl e \<Rightarrow> ret (Inl e)
      | Inr (act, bud) \<Rightarrow>
          and_then (read_only (running_case iid)) (\<lambda>iv.
          bind_io (signal_workflow (ap_temporal P) (workflow_id iv) act
             (if act = ''adjust_budget'' then Some (py_or bud (PDict [])) else None)) (\<lambda>r.
          after_signal r (commit (\<lambda>d.
            bind_res (up (write_audit (de_now (ap_env P)) (the (map_of SIGNAL_AUDIT act)) (actor_user (a_user_id u)) (Some iid)
              (Some [(''action'', PStr act), (''budget'', bud)]) d)) (\<lambda>d'.
              Inr (PDict [(''ok'', PBool True), (''action'', PStr act)], d')))))))"

definition post_decision :: "'s app \<Rightarrow> uuid \<Rightarrow> pyval \<Rightarrow> auth_user \<Rightarrow> ('s, pyval reply) act" where
  "post_decision P aid body u =
     (case dict_body body of
        Inl e \<Rightarrow> ret (Inl e)
      | Inr b \<Rightarrow>
          and_then (commit (decide_approval_atomic (ap_env P) aid (dget b ''decision'') (a_user_id u) (dget b ''comment''))) (\<lambda>iv.
          bind_io (signal_workflow (ap_temporal P) (workflow_id iv) ''approval_decided''
             (Some (PDict [(''approval_id'', PStr (uuid_str aid)), (''decision'', dget b ''decision''),
                (''comment'', dget b ''comment'')]))) (\<lambda>r.
          after_signal r (ret (Inr (PDict [(''approval_id'', PStr (uuid_str aid)), (''decision'', dget b ''decision''),
            (''ok'', PBool True)]))))))"

definition post_user :: "'s app \<Rightarrow> pyval \<Rightarrow> auth_user \<Rightarrow> ('s, pyval reply) act" where
  "post_user P body u =
     (case bind_res (up (py_get body ''password'')) (\<lambda>pv.
             if truthy pv then bind_res (field_length pv) (\<lambda>n. Inr (n < password_min_length (ap_config P))) else Inr False) of
        Inl e \<Rightarrow> ret (Inl e)
      | Inr True \<Rightarrow> ret (api_error 400 ''password_too_short''
           (''password must be at least '' @ nat_str (password_min_length (ap_config P)) @ '' characters''))
      | Inr False \<Rightarrow> bind_io (commit (create_user (ap_env P) body (a_user_id u))) (\<lambda>r. ret (to_json PDict r)))"

definition post_notification_test :: "'s app \<Rightarrow> auth_user \<Rightarrow> ('s, pyval reply) act" where
  "post_notification_test P u =
     (let E = ap_env P;
          payload = [(''event'', PStr ''notification_test''), (''investigation_id'', PNone),
            (''summary'', PStr ''dashboard notification test''), (''severity'', PStr ''low''),
            (''occurred_at'', PStr (de_iso E (de_now E)))] in
      bind_io (try_io
          (bind_io (on_probe (send_to_webhooks (de_fr E) (de_iso E (de_now E)) (ap_post P)
             (map Given (notification_webhooks (ap_config P))) (PStr ''notification_test'') payload)) (\<lambda>rs. ret (Inr rs)))
          (\<lambda>e. ret (Inl (Raised e)))) (\<lambda>sent.
        case sent of
          Inl e \<Rightarrow> ret (Inl e)
        | Inr rs \<Rightarrow> commit (\<lambda>d. bind_res (admin_audit E (a_user_id u)
             [(''entity'', PStr ''notifications''), (''entity_id'', PStr ''test''), (''change'', PStr ''test''), (''results'', PList rs)] d) (\<lambda>d'.
             Inr (PDict [(''results'', PList rs)], d')))))"

section \<open>The remaining handlers\<close>

text \<open>Each is run for a user who holds the role it requires.\<close>

definition healthz :: "('s, pyval reply) act" where
  "healthz = ret (Inr (PDict [(''status'', PStr ''ok'')]))"

definition login_handler :: "'s app \<Rightarrow> pyval \<Rightarrow> ('s, pyval reply) act" where
  "login_handler P b =
     read_only (\<lambda>d. to_json PDict (login (ap_env P) (ap_config P) b d))"

definition change_password_handler :: "'s app \<Rightarrow> pyval \<Rightarrow> auth_user \<Rightarrow> ('s, pyval reply) act" where
  "change_password_handler P b u =
     bind_io (commit (change_password (ap_env P) (ap_config P) u b)) (\<lambda>r. ret (to_json (\<lambda>_. PNone) r))"

definition get_investigations :: "'s app \<Rightarrow> case_filter \<Rightarrow> string option \<Rightarrow> int \<Rightarrow> ('s, pyval reply) act" where
  "get_investigations P f c n =
     read_only (\<lambda>d. to_json (\<lambda>(xs, nxt). page_body (map PDict xs, nxt)) (list_investigations (ap_env P) f c n d))"

definition get_investigation :: "'s app \<Rightarrow> uuid \<Rightarrow> ('s, pyval reply) act" where
  "get_investigation P i =
     read_only (\<lambda>d. to_json PDict (get_investigation_detail (ap_env P) i d))"

definition get_iterations :: "'s app \<Rightarrow> uuid \<Rightarrow> ('s, pyval reply) act" where
  "get_iterations P i =
     read_only (\<lambda>d. to_json items_body (list_iterations (ap_env P) i d))"

definition get_evidence_handler :: "'s app \<Rightarrow> uuid \<Rightarrow> bool \<Rightarrow> ('s, pyval reply) act" where
  "get_evidence_handler P e full =
     read_only (\<lambda>d. to_json PDict (evidence_detail (ap_env P) e full d))"

definition get_llm_calls :: "'s app \<Rightarrow> call_filter \<Rightarrow> string option \<Rightarrow> int \<Rightarrow> ('s, pyval reply) act" where
  "get_llm_calls P f c n =
     read_only (\<lambda>d. to_json page_body (list_llm_calls (ap_env P) (ap_call_order P) f c n d))"

definition get_approvals :: "'s app \<Rightarrow> bool \<Rightarrow> int \<Rightarrow> uuid option \<Rightarrow> ('s, pyval reply) act" where
  "get_approvals P pending n i =
     read_only (\<lambda>d. Inr (items_body (list_approvals (ap_env P) pending n i d)))"

definition get_platforms :: "'s app \<Rightarrow> ('s, pyval reply) act" where
  "get_platforms P = read_only (\<lambda>d. Inr (items_body (map PDict (list_platforms (ap_env P) (ap_collate P) (ap_ca_fp P) d))))"

definition post_platform :: "'s app \<Rightarrow> pyval \<Rightarrow> auth_user \<Rightarrow> ('s, pyval reply) act" where
  "post_platform P b u =
     bind_io (commit (create_platform (ap_env P) b (a_user_id u))) (\<lambda>r. ret (to_json PDict r))"

definition patch_platform_handler :: "'s app \<Rightarrow> string \<Rightarrow> pyval \<Rightarrow> auth_user \<Rightarrow> ('s, pyval reply) act" where
  "patch_platform_handler P k b u =
     bind_io (commit (patch_platform (ap_env P) k b (a_user_id u))) (\<lambda>r. ret (to_json PDict r))"

definition post_bootstrap_token :: "'s app \<Rightarrow> string \<Rightarrow> auth_user \<Rightarrow> ('s, pyval reply) act" where
  "post_bootstrap_token P k u =
     bind_io (commit (issue_bootstrap_token (ap_env P) k (a_user_id u))) (\<lambda>r. ret (to_json PDict r))"

definition get_probes :: "'s app \<Rightarrow> ('s, pyval reply) act" where
  "get_probes P = read_only (\<lambda>d. to_json (\<lambda>xs. items_body (map PDict xs)) (list_probes (ap_env P) (ap_ca_fp P) d))"

definition get_playbooks :: "('s, pyval reply) act" where
  "get_playbooks = read_only (\<lambda>d. Inr (items_body (map PDict (list_playbooks d))))"

definition get_playbook_handler :: "string \<Rightarrow> ('s, pyval reply) act" where
  "get_playbook_handler k = read_only (\<lambda>d. to_json PDict (get_playbook k d))"

definition put_playbook :: "string \<Rightarrow> ('s, pyval reply) act" where
  "put_playbook k = bind_io (commit (put_playbook_auto_eligible k)) (\<lambda>r. ret (to_json PDict r))"

definition get_users :: "'s app \<Rightarrow> ('s, pyval reply) act" where
  "get_users P = read_only (\<lambda>d. Inr (items_body (map PDict (list_users (ap_env P) (ap_collate P) d))))"

definition patch_user_handler :: "'s app \<Rightarrow> uuid \<Rightarrow> pyval \<Rightarrow> auth_user \<Rightarrow> ('s, pyval reply) act" where
  "patch_user_handler P i b u =
     bind_io (commit (patch_user (ap_env P) i b (a_user_id u))) (\<lambda>r. ret (to_json PDict r))"

definition get_audit :: "'s app \<Rightarrow> audit_filter \<Rightarrow> string option \<Rightarrow> int \<Rightarrow> ('s, pyval reply) act" where
  "get_audit P f c n =
     read_only (\<lambda>d. to_json page_body (list_audit (ap_env P) f c n d))"

definition metrics_body :: "dash_env \<Rightarrow> metrics \<Rightarrow> pyval" where
  "metrics_body E m =
     PDict [(''window'', PStr (m_window m)), (''open_cases'', PInt (int (m_open_cases m))),
       (''pending_approvals'', PInt (int (m_pending_approvals m))), (''closed_in_window'', PInt (int (m_closed_in_window m))),
       (''avg_rounds'', PFloat (m_avg_rounds m)), (''avg_cost_usd'', PFloat (m_avg_cost_usd m)),
       (''avg_duration_seconds'', PFloat (m_avg_duration_seconds m)),
       (''by_category'', PDict (map (\<lambda>(k, n). (py_str (de_fr E) k, PInt n)) (m_by_category m))),
       (''by_platform'', PDict (map (\<lambda>(k, n). (k, PInt n)) (m_by_platform m)))]"

definition get_metrics :: "'s app \<Rightarrow> string \<Rightarrow> ('s, pyval reply) act" where
  "get_metrics P win =
     read_only (\<lambda>d. to_json (metrics_body (ap_env P)) (metrics_summary (ap_env P) win d))"

lemmas reading_defs = healthz_def login_handler_def get_investigations_def get_investigation_def get_iterations_def
  get_evidence_handler_def get_llm_calls_def get_approvals_def get_platforms_def get_probes_def get_playbooks_def
  get_playbook_handler_def get_users_def get_audit_def get_metrics_def

lemmas writing_defs = change_password_handler_def post_platform_def patch_platform_handler_def post_bootstrap_token_def
  put_playbook_def patch_user_handler_def

text \<open>The body of an endpoint\<close>

fun endpoint_body :: "'s app \<Rightarrow> endpoint \<Rightarrow> auth_user \<Rightarrow> ('s, pyval reply) act" where
  "endpoint_body P Healthz u = healthz"
| "endpoint_body P (Login b) u = login_handler P b"
| "endpoint_body P (ChangePassword b) u = change_password_handler P b u"
| "endpoint_body P (GetInvestigations f c n) u = get_investigations P f c n"
| "endpoint_body P (GetInvestigation i) u = get_investigation P i"
| "endpoint_body P (GetIterations i) u = get_iterations P i"
| "endpoint_body P (PostSignal i b) u = post_signal P i b u"
| "endpoint_body P (GetEvidence e full) u = get_evidence_handler P e full"
| "endpoint_body P (GetLlmCalls f c n) u = get_llm_calls P f c n"
| "endpoint_body P (GetApprovals pending n i) u = get_approvals P pending n i"
| "endpoint_body P (PostDecision a b) u = post_decision P a b u"
| "endpoint_body P GetPlatforms u = get_platforms P"
| "endpoint_body P (PostPlatform b) u = post_platform P b u"
| "endpoint_body P (PatchPlatform k b) u = patch_platform_handler P k b u"
| "endpoint_body P (PostBootstrapToken k) u = post_bootstrap_token P k u"
| "endpoint_body P GetProbes u = get_probes P"
| "endpoint_body P GetPlaybooks u = get_playbooks"
| "endpoint_body P (GetPlaybook k) u = get_playbook_handler k"
| "endpoint_body P (PutPlaybook k b) u = put_playbook k"
| "endpoint_body P GetUsers u = get_users P"
| "endpoint_body P (PostUser b) u = post_user P b u"
| "endpoint_body P (PatchUser i b) u = patch_user_handler P i b u"
| "endpoint_body P PostNotificationTest u = post_notification_test P u"
| "endpoint_body P (GetAudit f c n) u = get_audit P f c n"
| "endpoint_body P (GetMetrics win) u = get_metrics P win"

text \<open>A request is served with the body of its endpoint after the role check; an endpoint that asks for no role gets
  no user.\<close>

definition nobody :: auth_user where
  "nobody = \<lparr>a_user_id = 0, a_username = [], a_role = [], a_must_change = False\<rparr>"

text \<open>The path of the request that reaches an endpoint\<close>

fun route :: "endpoint \<Rightarrow> string" where
  "route Healthz = ''/healthz''"
| "route (Login b) = ''/api/v1/auth/login''"
| "route (ChangePassword b) = ''/api/v1/auth/change-password''"
| "route (GetInvestigations f c n) = ''/api/v1/investigations''"
| "route (GetInvestigation i) = ''/api/v1/investigations/'' @ uuid_str i"
| "route (GetIterations i) = ''/api/v1/investigations/'' @ uuid_str i @ ''/iterations''"
| "route (PostSignal i b) = ''/api/v1/investigations/'' @ uuid_str i @ ''/signal''"
| "route (GetEvidence i full) = ''/api/v1/evidence/'' @ uuid_str i"
| "route (GetLlmCalls f c n) = ''/api/v1/llm-calls''"
| "route (GetApprovals p n i) = ''/api/v1/approvals''"
| "route (PostDecision a b) = ''/api/v1/approvals/'' @ uuid_str a @ ''/decision''"
| "route GetPlatforms = ''/api/v1/platforms''"
| "route (PostPlatform b) = ''/api/v1/platforms''"
| "route (PatchPlatform k b) = ''/api/v1/platforms/'' @ k"
| "route (PostBootstrapToken k) = ''/api/v1/platforms/'' @ k @ ''/bootstrap-token''"
| "route GetProbes = ''/api/v1/probes''"
| "route GetPlaybooks = ''/api/v1/playbooks''"
| "route (GetPlaybook k) = ''/api/v1/playbooks/'' @ k"
| "route (PutPlaybook k b) = ''/api/v1/playbooks/'' @ k"
| "route GetUsers = ''/api/v1/users''"
| "route (PostUser b) = ''/api/v1/users''"
| "route (PatchUser u b) = ''/api/v1/users/'' @ uuid_str u"
| "route PostNotificationTest = ''/api/v1/admin/notifications/test''"
| "route (GetAudit f c n) = ''/api/v1/audit''"
| "route (GetMetrics win) = ''/api/v1/metrics/summary''"

definition serve :: "'s app \<Rightarrow> endpoint \<Rightarrow> string option \<Rightarrow> ('s, pyval reply) act" where
  "serve P ep tok =
     (case required_role ep of
        None \<Rightarrow> endpoint_body P ep nobody
      | Some role \<Rightarrow>
          and_then (read_only (require_role (ap_env P) (ap_config P) role \<lparr>hr_path = route ep, hr_token = tok\<rparr>)) (endpoint_body P ep))"

text \<open>The construction of the application: it refuses an empty secret and computes the fingerprint once.\<close>

definition create_app ::
  "(string \<Rightarrow> string option) \<Rightarrow> (string \<Rightarrow> string) \<Rightarrow> (string \<Rightarrow> string) \<Rightarrow> string \<Rightarrow> 's app \<Rightarrow> 's app reply" where
  "create_app rd dec sha ca_path P =
     (if jwt_secret (ap_config P) = []
      then Inl (Raised (ValueError ''dashboard.jwt_secret is required; dashboard-api refuses to start with an empty secret''))
      else bind_res (ca_fingerprint rd dec sha ca_path) (\<lambda>fp. Inr (P\<lparr>ap_ca_fp := fp\<rparr>)))"

end
