(* ===== verification/DashSafety.thy ===== *)
theory DashSafety
  imports DashApp CaseSafety
begin

text \<open>
  What the endpoints of the dashboard keep: the evolution of the database that the activities keep as well,
  the integrity of the accounts, and who can have an effect at all.
\<close>

section \<open>Programs of the endpoints\<close>

context db_order
begin

lemma keeps_commit: "(\<And>d x d'. f d = Inr (x, d') \<Longrightarrow> R d d') \<Longrightarrow> keeps R (commit f)"
  unfolding keeps_def commit_def by (auto simp: R_refl split: sum.splits)

lemma keeps_read_only: "keeps R (read_only f)"
  by (simp add: keeps_def read_only_def R_refl)

lemma keeps_and_then: "keeps R m \<Longrightarrow> (\<And>x. keeps R (f x)) \<Longrightarrow> keeps R (and_then m f)"
  unfolding and_then_def by (intro keeps_rules) (auto split: sum.splits intro: keeps_rules)

lemma keeps_signal: "keeps R (signal_workflow T wid name arg)"
  by (auto simp: keeps_def signal_workflow_def R_refl split: option.splits prod.splits)

lemma keeps_after_signal: "keeps R m \<Longrightarrow> keeps R (after_signal r m)"
  by (cases r) (auto simp: after_signal_def intro: keeps_rules)

text \<open>A relation that holds over every transaction of the dashboard holds over every request.\<close>

lemma keeps_serve:
  assumes audit: "\<And>now act who iid det d d'. write_audit now act who iid det d = Inr d' \<Longrightarrow> R d d'"
    and decide: "\<And>E aid dec who c d x d'. decide_approval_atomic E aid dec who c d = Inr (x, d') \<Longrightarrow> R d d'"
    and platform: "\<And>E b who d x d'. create_platform E b who d = Inr (x, d') \<Longrightarrow> R d d'"
      "\<And>E k b who d x d'. patch_platform E k b who d = Inr (x, d') \<Longrightarrow> R d d'"
      "\<And>E k who d x d'. issue_bootstrap_token E k who d = Inr (x, d') \<Longrightarrow> R d d'"
    and account: "\<And>E C u b d x d'. change_password E C u b d = Inr (x, d') \<Longrightarrow> R d d'"
      "\<And>E b who d x d'. create_user E b who d = Inr (x, d') \<Longrightarrow> R d d'"
      "\<And>E uid b who d x d'. patch_user E uid b who d = Inr (x, d') \<Longrightarrow> R d d'"
  shows "keeps R (serve P ep tok)"
proof -
  note rules = keeps_rules keeps_commit keeps_read_only keeps_and_then keeps_signal keeps_after_signal
  have signal: "keeps R (post_signal P iid b u)" for iid b u
    unfolding post_signal_def
    by (auto split: sum.splits intro!: rules dest!: audit simp: bind_res_Inr_iff up_Inr_iff)
  have decision: "keeps R (post_decision P aid b u)" for aid b u
    unfolding post_decision_def by (auto split: sum.splits intro!: rules dest: decide)
  have user: "keeps R (post_user P b u)" for b u
    unfolding post_user_def by (auto split: sum.splits bool.splits intro!: rules dest: account)
  have test: "keeps R (post_notification_test P u)" for u
    unfolding post_notification_test_def Let_def admin_audit_def
    by (auto split: sum.splits intro!: rules dest!: audit simp: bind_res_Inr_iff up_Inr_iff)
  have body: "keeps R (endpoint_body P ep u)" for u
    by (cases ep) (auto intro!: rules signal decision user test dest!: platform account
      simp: reading_defs writing_defs put_playbook_auto_eligible_def api_error_def)
  show ?thesis unfolding serve_def by (auto split: option.splits intro!: rules body)
qed

end

section \<open>Evolution\<close>

lemma admin_audit_evolves: "admin_audit E who det d = Inr d' \<Longrightarrow> db_evolves d d'"
  by (auto simp: admin_audit_def up_Inr_iff dest: write_audit_evolves)

lemma evolves_step: "admin_audit E who det b = Inr c \<Longrightarrow> db_evolves a b \<Longrightarrow> db_evolves a c"
  by (rule evolution.R_trans[OF _ admin_audit_evolves])

lemma set_rows_evolve:
  "(\<And>r. user_id r = uid \<Longrightarrow> user_id (f r) = uid) \<Longrightarrow> db_evolves d (set_user uid f d)"
  "(\<And>r. platform_key r = key \<Longrightarrow> platform_key (g r) = key) \<Longrightarrow> db_evolves d (set_platform key g d)"
proof -
  assume f: "\<And>r. user_id r = uid \<Longrightarrow> user_id (f r) = uid"
  have "map user_id (modify_row user_id uid f rows) = map user_id rows" for rows by (simp add: modify_row_def f)
  then show "db_evolves d (set_user uid f d)" by (intro evolvesI) (simp_all add: set_user_def db_ok_def)
next
  assume g: "\<And>r. platform_key r = key \<Longrightarrow> platform_key (g r) = key"
  have "map platform_key (modify_row platform_key key g rows) = map platform_key rows" for rows by (simp add: modify_row_def g)
  then show "db_evolves d (set_platform key g d)" by (intro evolvesI) (simp_all add: set_platform_def db_ok_def)
qed

lemma mark_decided_evolves: "db_evolves d (mark_decided E aid dec who c d)"
proof -
  let ?f = "\<lambda>a. if approval_id a = aid \<and> decision a = None
         then a\<lparr>decision := Some dec, decided_by := Some who, decided_at := Some (de_now E), ap_comment := c\<rparr> else a"
  have ids: "map approval_id (map ?f rows) = map approval_id rows" for rows by simp
  have "get_row approval_id x (map ?f rows) = Some row"
    if "get_row approval_id x rows = Some row" "decision row \<noteq> None" for x row rows
    using that by (induction rows) (auto simp: get_row_def split: if_splits)
  moreover have "db_ok d \<Longrightarrow> db_ok (mark_decided E aid dec who c d)"
    unfolding db_ok_def mark_decided_def using ids[of "approvals d"] by (simp del: map_map)
  ultimately show ?thesis by (auto simp: db_evolves_def mark_decided_def)
qed

lemma decide_evolves: "decide_approval_atomic E aid dec who c d = Inr (x, d') \<Longrightarrow> db_evolves d d'"
proof -
  have marked: "write_audit now act u iid det (mark_decided E aid s who ct d) = Inr d1 \<Longrightarrow> db_evolves d d1" for now act u iid det s ct d1
    by (rule evolution.R_trans[OF mark_decided_evolves write_audit_evolves])
  have raw: "db_evolves d1 d'" if "raw_command_audit E aid row s who d1 = Inr d'" for row s d1
    using that by (auto simp: raw_command_audit_def Let_def up_Inr_iff evolution.R_refl split: if_splits dest!: write_audit_evolves)
  assume a: "decide_approval_atomic E aid dec who c d = Inr (x, d')"
  then obtain row iv where "get_row approval_id aid (approvals d) = Some row" "latest_investigation d (ap_investigation_id row) = Some iv"
    by (auto simp: decide_approval_atomic_def bind_res_Inr_iff api_error_def split: option.splits)
  with a show ?thesis unfolding decide_approval_atomic_def
    by (auto simp: bind_res_Inr_iff up_Inr_iff api_error_def split: if_splits intro: evolution.R_trans dest!: marked raw)
qed

lemma row_keys:
  "patched_platform b p = Inr p' \<Longrightarrow> platform_key p' = platform_key p" "patched_user E b u = Inr u' \<Longrightarrow> user_id u' = user_id u"
  "get_row key k rows = Some r \<Longrightarrow> key r = k"
  by (auto simp: patched_platform_def patched_user_def bind_res_Inr_iff get_row_def find_Some_iff)

lemma new_rows_evolve:
  "get_row platform_key (platform_key p) (platforms d) = None \<Longrightarrow> db_evolves d (d\<lparr>platforms := platforms d @ [p]\<rparr>)"
  "add_row user_id u (users d) = Inr rows \<Longrightarrow> db_evolves d (d\<lparr>users := rows\<rparr>)"
  by (rule evolvesI; auto simp: db_ok_def get_row_None add_row_Inr_iff)+

lemma platform_ops_evolve:
  "create_platform E b who d = Inr (x, d') \<Longrightarrow> db_evolves d d'"
  "patch_platform E k b who d = Inr (x, d') \<Longrightarrow> db_evolves d d'"
  "issue_bootstrap_token E k who d = Inr (x, d') \<Longrightarrow> db_evolves d d'"
proof -
  assume "create_platform E b who d = Inr (x, d')"
  then show "db_evolves d d'" unfolding create_platform_def Let_def
    by (auto simp: bind_res_Inr_iff api_error_def simp del: not_None_eq split: if_splits elim!: evolves_step intro!: new_rows_evolve)
qed (auto simp: patch_platform_def issue_bootstrap_token_def platform_or_404_def bind_res_Inr_iff Let_def api_error_def
      split: option.splits if_splits elim!: evolves_step intro!: set_rows_evolve dest!: row_keys)

lemma account_ops_evolve:
  "change_password E C u b d = Inr (v0, d') \<Longrightarrow> db_evolves d d'"
  "create_user E b who d = Inr (x, d') \<Longrightarrow> db_evolves d d'"
  "patch_user E uid b who d = Inr (x, d') \<Longrightarrow> db_evolves d d'"
  unfolding change_password_def create_user_def patch_user_def
  by (auto simp: bind_res_Inr_iff Let_def api_error_def up_Inr_iff split: option.splits if_splits
      elim!: evolves_step intro: new_rows_evolve intro!: set_rows_evolve dest!: row_keys)

lemma serve_evolves: "keeps db_evolves (serve P ep tok)"
  by (rule evolution.keeps_serve)
    (erule write_audit_evolves decide_evolves platform_ops_evolve account_ops_evolve)+

section \<open>Accounts\<close>

definition identity :: "user \<Rightarrow> uuid \<times> string \<times> timestamp" where
  "identity u = (user_id u, username u, u_created_at u)"

definition accounts_ok :: "db \<Rightarrow> bool" where
  "accounts_ok d \<longleftrightarrow> distinct (map username (users d)) \<and> (\<forall>u \<in> set (users d). u_role u \<in> set ROLES)"

text \<open>Accounts are only added: nobody is removed, renamed or renumbered, and names and roles stay sound.\<close>

definition accounts_step :: "db \<Rightarrow> db \<Rightarrow> bool" where
  "accounts_step d d' \<longleftrightarrow>
     (db_ok d \<longrightarrow> db_ok d' \<and> (accounts_ok d \<longrightarrow> accounts_ok d') \<and> (\<exists>new. map identity (users d') = map identity (users d) @ new))"

interpretation accounts: db_order accounts_step
proof
  show "accounts_step d d" for d by (simp add: accounts_step_def)
  show "accounts_step a c" if "accounts_step a b" "accounts_step b c" for a b c
    using that by (fastforce simp: accounts_step_def)
qed

lemma same_users_step: "db_evolves d d' \<Longrightarrow> users d' = users d \<Longrightarrow> accounts_step d d'"
  by (auto simp: accounts_step_def db_evolves_def accounts_ok_def)

lemma write_audit_accounts: "write_audit now act who iid det d = Inr d' \<Longrightarrow> accounts_step d d'"
  by (rule same_users_step) (auto dest: write_audit_evolves write_audit_Inr)

lemma accounts_then: "admin_audit E who det b = Inr c \<Longrightarrow> accounts_step a b \<Longrightarrow> accounts_step a c"
  by (rule accounts.R_trans) (auto simp: admin_audit_def up_Inr_iff dest: write_audit_accounts)

lemma write_audit_users: "write_audit now act who iid det d = Inr d' \<Longrightarrow> users d' = users d"
  by (auto dest: write_audit_Inr)

lemma raw_audit_users: "raw_command_audit E aid row dec who d = Inr d' \<Longrightarrow> users d' = users d"
  by (auto simp: raw_command_audit_def Let_def up_Inr_iff split: if_splits dest!: write_audit_users)

lemma decide_accounts: "decide_approval_atomic E aid dec who c d = Inr (x, d') \<Longrightarrow> accounts_step d d'"
proof (rule same_users_step)
  assume a: "decide_approval_atomic E aid dec who c d = Inr (x, d')"
  then show "db_evolves d d'" by (rule decide_evolves)
  obtain row iv where "get_row approval_id aid (approvals d) = Some row" "latest_investigation d (ap_investigation_id row) = Some iv"
    using a by (auto simp: decide_approval_atomic_def bind_res_Inr_iff api_error_def split: option.splits)
  moreover have "users (mark_decided E aid s who ct d) = users d" for s ct by (simp add: mark_decided_def)
  ultimately show "users d' = users d" using a unfolding decide_approval_atomic_def
    by (auto simp: bind_res_Inr_iff up_Inr_iff api_error_def split: if_splits dest!: write_audit_users raw_audit_users)
qed

lemma platform_ops_users:
  "create_platform E b who d = Inr (x, d') \<Longrightarrow> users d' = users d"
  "patch_platform E k b who d = Inr (x, d') \<Longrightarrow> users d' = users d"
  "issue_bootstrap_token E k who d = Inr (x, d') \<Longrightarrow> users d' = users d"
  unfolding create_platform_def patch_platform_def issue_bootstrap_token_def platform_or_404_def admin_audit_def
  by (auto simp: bind_res_Inr_iff Let_def api_error_def up_Inr_iff set_platform_def split: option.splits if_splits dest!: write_audit_Inr)

lemma platform_accounts:
  "create_platform E b who d = Inr (x, d') \<Longrightarrow> accounts_step d d'"
  "patch_platform E k b who d = Inr (x, d') \<Longrightarrow> accounts_step d d'"
  "issue_bootstrap_token E k who d = Inr (x, d') \<Longrightarrow> accounts_step d d'"
  by (blast intro: same_users_step dest: platform_ops_evolve platform_ops_users)+

lemma set_user_accounts:
  assumes f: "\<And>r. db_ok d \<Longrightarrow> r \<in> set (users d) \<Longrightarrow> user_id r = uid \<Longrightarrow>
      identity (f r) = identity r \<and> (u_role r \<in> set ROLES \<longrightarrow> u_role (f r) \<in> set ROLES)"
  shows "accounts_step d (set_user uid f d)"
  unfolding accounts_step_def
proof
  assume ok: "db_ok d"
  have ids: "map identity (users (set_user uid f d)) = map identity (users d)"
    using f[OF ok] by (auto simp: set_user_def modify_row_def)
  then have "map (fst \<circ> snd \<circ> identity) (users (set_user uid f d)) = map (fst \<circ> snd \<circ> identity) (users d)"
    "map (fst \<circ> identity) (users (set_user uid f d)) = map (fst \<circ> identity) (users d)"
    by (metis map_map)+
  then have names: "map username (users (set_user uid f d)) = map username (users d)"
    "map user_id (users (set_user uid f d)) = map user_id (users d)" by (simp_all add: identity_def comp_def)
  have "db_ok (set_user uid f d)" using ok names(2) by (simp add: db_ok_def set_user_def)
  moreover have "accounts_ok d \<Longrightarrow> accounts_ok (set_user uid f d)"
    using f[OF ok] unfolding accounts_ok_def names(1) by (auto simp: set_user_def modify_row_def)
  ultimately show "db_ok (set_user uid f d) \<and> (accounts_ok d \<longrightarrow> accounts_ok (set_user uid f d)) \<and>
      (\<exists>new. map identity (users (set_user uid f d)) = map identity (users d) @ new)" using ids by simp
qed

lemma new_user_accounts:
  assumes "add_row user_id u (users d) = Inr rows" "user_named (username u) d = None" "u_role u \<in> set ROLES"
  shows "accounts_step d (d\<lparr>users := rows\<rparr>)"
  unfolding accounts_step_def
proof
  assume "db_ok d"
  then have "db_ok (d\<lparr>users := rows\<rparr>)" using new_rows_evolve(2)[OF assms(1)] by (simp add: db_evolves_def)
  moreover have "rows = users d @ [u]" using assms(1) by (simp add: add_row_Inr_iff)
  moreover have "username u \<notin> username ` set (users d)" using assms(2) by (auto simp: user_named_def find_None_iff)
  ultimately show "db_ok (d\<lparr>users := rows\<rparr>) \<and> (accounts_ok d \<longrightarrow> accounts_ok (d\<lparr>users := rows\<rparr>)) \<and>
      (\<exists>new. map identity (users (d\<lparr>users := rows\<rparr>)) = map identity (users d) @ new)"
    using assms(3) by (auto simp: accounts_ok_def)
qed

lemma known_role_Inr: "known_role E v = Inr r \<Longrightarrow> r \<in> set ROLES"
  by (auto simp: known_role_def Let_def api_error_def split: pyval.splits if_splits)

lemma patched_user_account:
  assumes "get_row user_id uid (users d) = Some u" "patched_user E b u = Inr u'"
  shows "accounts_step d (set_user uid (\<lambda>_. u') d)"
proof (rule set_user_accounts)
  fix r assume "db_ok d" and r: "r \<in> set (users d)" "user_id r = uid"
  then have "inj_on user_id (set (users d))" by (simp add: db_ok_def distinct_map)
  moreover have "u \<in> set (users d)" "user_id u = uid" using assms(1) by (auto simp: get_row_def find_Some_iff)
  ultimately have "r = u" using r by (simp add: inj_on_def)
  then show "identity u' = identity r \<and> (u_role r \<in> set ROLES \<longrightarrow> u_role u' \<in> set ROLES)"
    using assms(2) by (auto simp: patched_user_def bind_res_Inr_iff identity_def split: if_splits dest: known_role_Inr)
qed

lemma account_ops_accounts:
  "change_password E C v b d = Inr (v0, d') \<Longrightarrow> accounts_step d d'"
  "create_user E b who d = Inr (x, d') \<Longrightarrow> accounts_step d d'"
  "patch_user E uid b who d = Inr (x, d') \<Longrightarrow> accounts_step d d'"
proof -
  assume "change_password E C v b d = Inr (v0, d')"
  then show "accounts_step d d'" unfolding change_password_def Let_def
    by (auto simp: bind_res_Inr_iff api_error_def identity_def split: option.splits if_splits elim!: accounts_then intro!: set_user_accounts)
next
  assume "create_user E b who d = Inr (x, d')"
  then show "accounts_step d d'" unfolding create_user_def Let_def
    by (auto simp: bind_res_Inr_iff api_error_def up_Inr_iff simp del: not_None_eq split: if_splits
        elim!: accounts_then intro: new_user_accounts dest!: known_role_Inr)
next
  assume "patch_user E uid b who d = Inr (x, d')"
  then show "accounts_step d d'" unfolding patch_user_def
    by (auto simp: bind_res_Inr_iff api_error_def split: option.splits elim!: accounts_then intro: patched_user_account)
qed

lemma serve_accounts: "keeps accounts_step (serve P ep tok)"
  by (rule accounts.keeps_serve)
    (erule write_audit_accounts decide_accounts platform_accounts account_ops_accounts)+

text \<open>Requests of any clients, in any order, each with the token it carries\<close>

fun requests :: "'s app \<Rightarrow> (endpoint \<times> string option) list \<Rightarrow> 's world \<Rightarrow> 's world" where
  "requests P [] w = w"
| "requests P ((ep, tok) # rest) w = requests P rest (snd (serve P ep tok w))"

text \<open>C15: After the bootstrap of the administrator and any requests, user names and ids are unique, every role is a known one, and every
  account that existed is still there under its id and name, in its place.\<close>

theorem accounts_stay_sound:
  assumes "bootstrap_admin E uname pw d = Inr (out, d1)"
  shows "accounts_step d (adb (requests P rs (w\<lparr>adb := d1\<rparr>)))"
proof -
  have "accounts_step d d1" using assms
    by (auto simp: bootstrap_admin_def bind_res_Inr_iff accounts.R_refl ROLES_def simp del: not_None_eq split: if_splits
        intro!: new_user_accounts)
  moreover have "accounts_step (adb w) (adb (requests P rs w))" for w
  proof (induction rs arbitrary: w)
    case (Cons r rs)
    obtain ep tok where r: "r = (ep, tok)" by (rule prod.exhaust)
    have "accounts_step (adb w) (adb (snd (serve P ep tok w)))" using serve_accounts unfolding keeps_def by blast
    then show ?case unfolding r requests.simps using Cons.IH by (rule accounts.R_trans)
  qed (simp add: accounts.R_refl)
  from this[of "w\<lparr>adb := d1\<rparr>"] have "accounts_step d1 (adb (requests P rs (w\<lparr>adb := d1\<rparr>)))" by simp
  ultimately show ?thesis by (rule accounts.R_trans)
qed

end
