(* ===== verification/DashPaging.thy ===== *)
theory DashPaging
  imports DashQueries "HOL-Library.Multiset"
begin

text \<open>
  Page cursors: a cursor decodes to the position it was made for, and a client that follows the cursors of the
  audit log or of the case list receives every matching row exactly once, newest first.
\<close>

section \<open>The round trip of a cursor\<close>

lemma b64_digit_in: "n < 64 \<Longrightarrow> b64_digit n \<in> set B64_ALPHABET"
proof -
  have "length B64_ALPHABET = 64" by (simp add: B64_ALPHABET_def)
  then show "n < 64 \<Longrightarrow> b64_digit n \<in> set B64_ALPHABET" unfolding b64_digit_def by (metis nth_mem)
qed

lemma b64encode_chars: "set (b64encode s) \<subseteq> insert (CHR ''='') (set B64_ALPHABET)"
  by (induction s rule: b64encode.induct) (auto simp: Let_def intro!: b64_digit_in b64_lens[OF code_point_less code_point_less code_point_less])

lemma standard_urlsafe: "c \<in> insert (CHR ''='') (set B64_ALPHABET) \<Longrightarrow> standard_char (urlsafe_char c) = c"
  by (auto simp: standard_char_def urlsafe_char_def B64_ALPHABET_def)

lemma urlsafe_round_trip: "urlsafe_b64decode (urlsafe_b64encode s) = Some s"
proof -
  have "map standard_char (map urlsafe_char (b64encode s)) = b64encode s"
    using b64encode_chars[of s] by (auto intro!: map_idI standard_urlsafe)
  then show ?thesis by (simp add: urlsafe_b64decode_def urlsafe_b64encode_def b64_decode_encode)
qed

lemma utf8_decode_ascii: "code_point c < 128 \<Longrightarrow> utf8_decode (c # s) = map_option ((#) c) (utf8_decode s)"
  by (cases s) simp_all

lemma utf8_round_trip: "utf8_decode (utf8 s) = Some s"
proof (induction s)
  case (Cons c s)
  show ?case
  proof (cases "code_point c < 128")
    case True
    then show ?thesis using Cons by (simp add: utf8_char_def Let_def utf8_decode_ascii)
  next
    case False
    let ?n = "code_point c"
    have n: "?n < 256" by (rule code_point_less)
    have d: "?n div 64 = 2 \<or> ?n div 64 = 3" using False n by linarith
    have cp: "code_point (char_of (192 + ?n div 64)) = 192 + ?n div 64" "code_point (char_of (128 + ?n mod 64)) = 128 + ?n mod 64"
      using n d by (auto simp: code_point_char_of)
    have "(?n div 64) * 64 + ?n mod 64 = ?n" by simp
    then have again: "char_of ((192 + ?n div 64 - 192) * 64 + (128 + ?n mod 64 - 128)) = c"
      by (simp add: code_point_def)
    show ?thesis using False Cons d again
      by (auto simp: utf8_char_def Let_def cp)
  qed
qed simp

text \<open>What the time format must do: reading back what was written, and never writing the separator\<close>

definition iso_law :: "dash_env \<Rightarrow> bool" where
  "iso_law E \<longleftrightarrow> (\<forall>t. de_fromiso E (de_iso E t) = Some t \<and> CHR ''|'' \<notin> set (de_iso E t) \<and> (\<forall>c \<in> set (de_iso E t). code_point c < 128))"

lemma utf8_ascii: "(\<forall>c \<in> set s. code_point c < 128) \<Longrightarrow> utf8 s = s"
  by (induction s) (auto simp: utf8_char_def Let_def)

lemma urlsafe_ascii: "\<forall>c \<in> set (urlsafe_b64encode s). code_point c < 128"
proof -
  have "\<forall>c \<in> insert (CHR ''='') (set B64_ALPHABET). code_point (urlsafe_char c) < 128"
    by (simp add: B64_ALPHABET_def urlsafe_char_def code_point_def)
  then show ?thesis using b64encode_chars[of s] by (auto simp: urlsafe_b64encode_def)
qed

lemma cursor_parts_encode: "iso_law E \<Longrightarrow> cursor_parts E (encode_cursor E t ident) = Some (t, ident)"
proof -
  assume E: "iso_law E"
  have "utf8 (encode_cursor E t ident) = encode_cursor E t ident"
    unfolding encode_cursor_def by (intro utf8_ascii urlsafe_ascii)
  then have "urlsafe_b64decode (utf8 (encode_cursor E t ident)) = Some (utf8 (de_iso E t @ CHR ''|'' # ident))"
    by (simp add: encode_cursor_def urlsafe_round_trip)
  moreover have "partition_char (CHR ''|'') (de_iso E t @ CHR ''|'' # ident) = (de_iso E t, Some ident)"
    using E by (intro partition_char_append) (simp add: iso_law_def)
  ultimately show ?thesis using E by (simp add: cursor_parts_def utf8_round_trip iso_law_def)
qed

text \<open>A cursor decodes to exactly the time and the identifier it was made from, whatever characters the identifier has.\<close>

theorem cursor_round_trip:
  assumes "iso_law E"
  shows "decode_cursor E (encode_cursor E t ident) = Inr (t, ident)"
  using assms by (simp add: decode_cursor_def cursor_parts_encode)

definition demo_env :: dash_env where
  "demo_env = \<lparr>de_fr = (\<lambda>_. []), de_iso = int_str, de_fromiso = int_of_str, de_now = 500, de_uuid4 = 40, de_secret_token = ''tok'',
     de_hash = id, de_verify = (=), de_encode = (\<lambda>c s. []), de_decode = (\<lambda>t s. Inr [(''sub'', PStr t), (''role'', PStr ''admin'')]),
     de_presign = None\<rparr>"

lemma demo_iso: "iso_law demo_env"
proof -
  have "CHR ''|'' \<notin> set (int_str t) \<and> (\<forall>c \<in> set (int_str t). code_point c < 128)" for t
  proof -
    have d: "is_digit c \<Longrightarrow> c \<noteq> CHR ''|'' \<and> code_point c < 128" for c by (auto simp: is_digit_def code_point_def Let_def)
    have "\<forall>c \<in> set (nat_str n). is_digit c" for n using nat_str_digits[of n] by (simp add: list_all_iff)
    then show ?thesis unfolding int_str_def using d by (auto simp: code_point_def)
  qed
  then show ?thesis by (simp add: iso_law_def demo_env_def int_of_str_int_str)
qed

theorem cursor_round_trip_witness: "decode_cursor demo_env (encode_cursor demo_env 7 ''a|b'') = Inr (7, ''a|b'')"
  by (rule cursor_round_trip[OF demo_iso])

section \<open>Following the cursors\<close>

text \<open>A client that asks for the first page and then follows the cursors, at most \<open>n\<close> times\<close>

fun follow :: "(string option \<Rightarrow> ('a list \<times> string option) reply) \<Rightarrow> nat \<Rightarrow> string option \<Rightarrow> 'a list reply" where
  "follow fetch 0 c = Inl (Raised (RuntimeError ''pages left''))"
| "follow fetch (Suc n) c =
     bind_res (fetch c) (\<lambda>(xs, nxt). case nxt of
        None \<Rightarrow> Inr xs
      | Some c' \<Rightarrow> bind_res (follow fetch n (Some c')) (\<lambda>ys. Inr (xs @ ys)))"

text \<open>The page that a bound asks for\<close>

definition rest_rows :: "('a \<Rightarrow> 'k::linorder) \<Rightarrow> 'a list \<Rightarrow> 'k option \<Rightarrow> 'a list" where
  "rest_rows key rows bound = sort_desc key (filter (\<lambda>r. below bound (key r)) rows)"

definition page_of :: "('a \<Rightarrow> 'k::linorder) \<Rightarrow> 'a list \<Rightarrow> ('a \<Rightarrow> 'v) \<Rightarrow> ('a \<Rightarrow> string) \<Rightarrow> nat \<Rightarrow> 'k option \<Rightarrow> 'v list \<times> string option" where
  "page_of key rows view mark limit bound =
     (let rs = rest_rows key rows bound in
      (map view (take limit rs), if limit < length rs then Some (mark (rs ! (limit - 1))) else None))"

lemma sort_desc_strict:
  assumes "distinct (map key rows)"
  shows "sorted_wrt (\<lambda>a b. key b < key a) (sort_desc key rows)"
proof -
  have "distinct (map key (sort_key key rows))" using assms
    by (simp add: distinct_map distinct_sort)
  then have "sorted_wrt (<) (map key (sort_key key rows))" by (simp add: strict_sorted_iff)
  then show ?thesis unfolding sort_desc_def sorted_wrt_rev sorted_wrt_map .
qed

lemma sort_desc_filter: "sort_desc key (filter P rows) = filter P (sort_desc key rows)"
  by (simp add: sort_desc_def filter_sort[symmetric] rev_filter)

lemma filter_below_nth:
  fixes key :: "'a \<Rightarrow> 'k::linorder"
  shows "sorted_wrt (\<lambda>a b. key b < key a) rs \<Longrightarrow> i < length rs \<Longrightarrow> filter (\<lambda>r. key r < key (rs ! i)) rs = drop (Suc i) rs"
proof (induction rs arbitrary: i)
  case (Cons r rs)
  show ?case
  proof (cases i)
    case 0
    have "filter (\<lambda>x. key x < key r) rs = rs" using Cons.prems(1) by (simp add: filter_id_conv)
    then show ?thesis using 0 by simp
  next
    case (Suc j)
    then have "\<not> key r < key (rs ! j)" using Cons.prems by (auto dest: order.asym)
    then show ?thesis using Suc Cons by simp
  qed
qed simp

lemma rest_rows_after:
  assumes "distinct (map key rows)" "0 < limit" "limit < length (rest_rows key rows bound)"
  shows "rest_rows key rows (Some (key (rest_rows key rows bound ! (limit - 1)))) = drop limit (rest_rows key rows bound)"
proof -
  let ?rs = "rest_rows key rows bound" let ?r = "?rs ! (limit - 1)"
  have "?r \<in> set ?rs" using assms(3) by (intro nth_mem) simp
  then have b: "below bound (key ?r)" by (simp add: rest_rows_def sort_desc_def)
  have sub: "filter (\<lambda>r. key r < key ?r) (sort_desc key rows) = filter (\<lambda>r. key r < key ?r) ?rs"
    using b unfolding rest_rows_def sort_desc_filter filter_filter below_def
    by (intro filter_cong[OF refl]) (auto split: option.splits)
  have "sorted_wrt (\<lambda>a b. key b < key a) ?rs"
    using sorted_wrt_filter[OF sort_desc_strict[OF assms(1)]] by (simp add: rest_rows_def sort_desc_filter)
  then have "filter (\<lambda>r. key r < key ?r) ?rs = drop limit ?rs" using filter_below_nth[of key ?rs "limit - 1"] assms(2,3) by simp
  then show ?thesis using sub by (simp add: rest_rows_def[of key rows "Some _"] sort_desc_filter below_def)
qed

lemma follow_all:
  assumes "distinct (map key rows)" "0 < limit"
    and first: "fetch None = Inr (page_of key rows view mark limit None)"
    and more: "\<And>r. r \<in> set rows \<Longrightarrow> fetch (Some (mark r)) = Inr (page_of key rows view mark limit (Some (key r)))"
  shows "length rows < n \<Longrightarrow> follow fetch n None = Inr (map view (sort_desc key rows))"
proof -
  have gen: "follow fetch n c = Inr (map view (rest_rows key rows b))"
    if "length (rest_rows key rows b) < n" "fetch c = Inr (page_of key rows view mark limit b)" for n c b
    using that
  proof (induction n arbitrary: c b)
    case (Suc n)
    let ?rs = "rest_rows key rows b"
    show ?case
    proof (cases "limit < length ?rs")
      case True
      let ?r = "?rs ! (limit - 1)"
      have "?r \<in> set ?rs" using True by (intro nth_mem) simp
      then have r: "?r \<in> set rows" by (simp add: rest_rows_def sort_desc_def)
      have after: "rest_rows key rows (Some (key ?r)) = drop limit ?rs" using rest_rows_after[OF assms(1,2) True] .
      have "follow fetch n (Some (mark ?r)) = Inr (map view (drop limit ?rs))"
        using Suc.IH[OF _ more[OF r]] Suc.prems(1) assms(2) True unfolding after by simp
      then show ?thesis using Suc.prems(2) True
        by (simp add: page_of_def Let_def map_append[symmetric] del: map_append)
    next
      case False
      then show ?thesis using Suc.prems(2) by (simp add: page_of_def Let_def)
    qed
  qed simp
  assume "length rows < n"
  then have "length (rest_rows key rows None) < n" by (simp add: rest_rows_def sort_desc_def below_def)
  from gen[OF this first] show ?thesis by (simp add: rest_rows_def below_def)
qed

section \<open>Every row once\<close>

lemma encode_cursor_nonempty: "iso_law E \<Longrightarrow> encode_cursor E t ident \<noteq> []"
proof
  assume E: "iso_law E" and "encode_cursor E t ident = []"
  with cursor_parts_encode[OF E, of t ident] have "cursor_parts E [] = Some (t, ident)" by simp
  then show False by (simp add: cursor_parts_def urlsafe_b64decode_def)
qed

lemma int_of_str_nat_str: "int_of_str (nat_str n) = Some (int n)"
  using int_of_str_int_str[of "int n"] by (simp add: int_str_def)

lemma page_limit_pos: "0 < page_limit cap limit"
  by (simp add: page_limit_def)

lemma take_page: "take limit (take (Suc limit) rs) = take limit rs" "limit < length (take (Suc limit) rs) \<longleftrightarrow> limit < length rs"
  "0 < limit \<Longrightarrow> take (Suc limit) rs ! (limit - Suc 0) = rs ! (limit - Suc 0)"
  by (auto simp: min_def)

lemma audit_page:
  assumes "optional_uuid (af_case f) = Inr iid" "optional_time E (af_from f) = Inr t0" "optional_time E (af_to f) = Inr t1"
    and "audit_bound E cursor = Inr bound"
  shows "list_audit E f cursor limit d = Inr (page_of audit_key (filter (audit_matches f iid t0 t1) (audits d)) (audit_view E)
           (\<lambda>a. encode_cursor E (audit_at a) (nat_str (seq a))) (page_limit 100 limit) bound)"
proof -
  have "audit_rows f iid t0 t1 bound d = rest_rows audit_key (filter (audit_matches f iid t0 t1) (audits d)) bound"
    by (simp add: audit_rows_def rest_rows_def conj_commute)
  then show ?thesis using assms
    by (simp add: list_audit_def page_of_def Let_def next_audit_cursor_def take_page page_limit_pos del: take_take length_take)
qed

text \<open>C35: A client that follows the cursors of the audit log receives every record its filter selects exactly once, newest first,
  whatever the page size, when record numbers are unique.\<close>

theorem audit_pages_complete:
  assumes "iso_law E" "distinct (map seq (audits d))"
    and "optional_uuid (af_case f) = Inr iid" "optional_time E (af_from f) = Inr t0" "optional_time E (af_to f) = Inr t1"
    and "length (audits d) < n"
  shows "follow (\<lambda>c. list_audit E f c limit d) n None =
           Inr (map (audit_view E) (sort_desc audit_key (filter (audit_matches f iid t0 t1) (audits d))))"
proof (rule follow_all[where limit = "page_limit 100 limit" and mark = "\<lambda>a. encode_cursor E (audit_at a) (nat_str (seq a))"])
  let ?rows = "filter (audit_matches f iid t0 t1) (audits d)"
  have "inj_on seq (set (audits d))" "distinct (audits d)" using assms(2) by (simp_all add: distinct_map)
  then show "distinct (map audit_key ?rows)" by (auto simp: distinct_map inj_on_def audit_key_def)
  show "0 < page_limit 100 limit" by (rule page_limit_pos)
  show "list_audit E f None limit d = Inr (page_of audit_key ?rows (audit_view E) (\<lambda>a. encode_cursor E (audit_at a) (nat_str (seq a))) (page_limit 100 limit) None)"
    by (rule audit_page[OF assms(3-5)]) (simp add: audit_bound_def)
  show "list_audit E f (Some (encode_cursor E (audit_at r) (nat_str (seq r)))) limit d =
      Inr (page_of audit_key ?rows (audit_view E) (\<lambda>a. encode_cursor E (audit_at a) (nat_str (seq a))) (page_limit 100 limit) (Some (audit_key r)))" for r
    by (rule audit_page[OF assms(3-5)])
      (simp add: audit_bound_def encode_cursor_nonempty[OF assms(1)] cursor_parts_encode[OF assms(1)] int_of_str_nat_str audit_key_def)
  show "length ?rows < n" using assms(6) length_filter_le le_less_trans by blast
qed

definition demo_record :: "nat \<Rightarrow> timestamp \<Rightarrow> audit_log" where
  "demo_record n t = \<lparr>seq = n, audit_at = t, au_investigation_id = None, actor = ''system'', action = ''approved'', detail = None\<rparr>"

definition all_records :: audit_filter where
  "all_records = \<lparr>af_case = None, af_actor = None, af_action = None, af_from = None, af_to = None\<rparr>"

theorem audit_pages_complete_witness:
  "follow (\<lambda>c. list_audit demo_env all_records c 1 (empty_db\<lparr>audits := [demo_record 1 5, demo_record 2 9, demo_record 3 9]\<rparr>)) 4 None =
     Inr (map (audit_view demo_env) [demo_record 3 9, demo_record 2 9, demo_record 1 5])"
proof -
  let ?d = "empty_db\<lparr>audits := [demo_record 1 5, demo_record 2 9, demo_record 3 9]\<rparr>"
  have "optional_uuid (af_case all_records) = Inr None" "optional_time demo_env (af_from all_records) = Inr None"
    "optional_time demo_env (af_to all_records) = Inr None" by (simp_all add: optional_uuid_def optional_time_def given_def all_records_def)
  moreover have "distinct (map seq (audits ?d))" "length (audits ?d) < 4" by (simp_all add: demo_record_def)
  moreover have "sort_desc audit_key (filter (audit_matches all_records None None None) (audits ?d)) = [demo_record 3 9, demo_record 2 9, demo_record 1 5]"
    by (simp add: sort_desc_def audit_key_def audit_matches_def all_records_def given_def demo_record_def)
  ultimately show ?thesis using audit_pages_complete[OF demo_iso, of ?d all_records None None None 4 1] by simp
qed

section \<open>The case list\<close>

lemma dedupe_distinct:
  "distinct (map key rs) \<Longrightarrow> (\<forall>r \<in> set rs. key r \<notin> set seen) \<Longrightarrow> dedupe key n seen rs = take (n + 1) rs"
proof (induction rs arbitrary: n seen)
  case (Cons r rs)
  have "\<forall>x \<in> set rs. key x \<notin> set (key r # seen)" using Cons.prems by (auto simp: image_iff)
  then show ?case using Cons by (cases n) auto
qed simp

lemma batch_cost:
  "iid \<in> set iids \<Longrightarrow> (case map_of (sum_llm_costs_batch d iids) iid of None \<Rightarrow> 0 | Some c \<Rightarrow> c) = sum_llm_cost d iid"
proof -
  assume i: "iid \<in> set iids"
  show ?thesis
  proof (cases "iid \<in> set (List.map_filter lc_investigation_id (llm_calls d))")
    case True
    then show ?thesis using i by (simp add: sum_llm_costs_batch_def map_of_map_restrict)
  next
    case False
    then have "filter (\<lambda>c. lc_investigation_id c = Some iid) (llm_calls d) = []"
      by (auto simp: filter_empty_conv List.map_filter_def image_iff)
    then have "sum_llm_cost d iid = 0" by (simp add: sum_llm_cost_def map_filter_simps)
    then show ?thesis using False by (simp add: sum_llm_costs_batch_def map_of_map_restrict)
  qed
qed

text \<open>What the list shows of a case: its summary with the cost of all its model calls\<close>

definition case_item :: "dash_env \<Rightarrow> db \<Rightarrow> investigation \<Rightarrow> dict reply" where
  "case_item E d iv = investigation_summary E iv (sum_llm_cost d (investigation_id iv)) (case_severity d iv)"

lemma map_res_projr: "map_res f xs = Inr ys \<Longrightarrow> set zs \<subseteq> set xs \<Longrightarrow> map_res f zs = Inr (map (projr \<circ> f) zs)"
proof -
  assume "map_res f xs = Inr ys"
  then have "\<forall>x \<in> set xs. \<exists>y. f x = Inr y" by (induction xs arbitrary: ys) (auto simp: bind_res_def split: sum.splits)
  then show "set zs \<subseteq> set xs \<Longrightarrow> ?thesis" by (induction zs) auto
qed

lemma map_res_cong: "(\<And>x. x \<in> set xs \<Longrightarrow> f x = g x) \<Longrightarrow> map_res f xs = map_res g xs"
  by (induction xs) auto

lemma map_res_projr_self: "map_res f xs = Inr ys \<Longrightarrow> ys = map (projr \<circ> f) xs"
  using map_res_projr[of f xs ys xs] by simp

lemma case_page:
  assumes ids: "distinct (map investigation_id (investigations d))"
    and items: "map_res (case_item E d) (sort_desc case_key (filter (case_matches E f) (investigations d))) = Inr items"
    and bound: "case_bound E cursor = Inr bound"
  shows "list_investigations E f cursor limit d = Inr (page_of case_key (filter (case_matches E f) (investigations d)) (projr \<circ> case_item E d)
           (\<lambda>i. encode_cursor E (inv_created_at i) (uuid_str (investigation_id i))) (page_limit 50 limit) bound)"
proof -
  let ?n = "page_limit 50 limit"
  define rs where "rs = rest_rows case_key (filter (case_matches E f) (investigations d)) bound"
  have rows: "case_rows E f bound d = rs" by (simp add: case_rows_def rs_def rest_rows_def conj_commute)
  have sub: "set rs \<subseteq> set (sort_desc case_key (filter (case_matches E f) (investigations d)))"
    by (auto simp: rs_def rest_rows_def sort_desc_def)
  have "inj_on investigation_id (set (investigations d))" "distinct (investigations d)" using ids by (simp_all add: distinct_map)
  then have dist: "distinct (map investigation_id rs)"
    by (auto simp: rs_def rest_rows_def sort_desc_def distinct_map distinct_sort inj_on_def)
  have "distinct (map investigation_id (take m rs))" for m using dist by (simp add: take_map[symmetric])
  then have uniq: "unique_cases E f bound ?n d = take (Suc ?n) rs"
    unfolding unique_cases_def rows by (subst dedupe_distinct) (auto simp: min_def)
  have view: "map_res (\<lambda>iv. investigation_summary E iv (case map_of (sum_llm_costs_batch d (map investigation_id (take ?n rs))) (investigation_id iv)
      of None \<Rightarrow> 0 | Some c \<Rightarrow> c) (case_severity d iv)) (take ?n rs) = map_res (case_item E d) (take ?n rs)"
    by (rule map_res_cong) (simp add: case_item_def batch_cost)
  have all: "map_res (case_item E d) (take ?n rs) = Inr (map (projr \<circ> case_item E d) (take ?n rs))"
    by (rule map_res_projr[OF items]) (use sub set_take_subset in fast)
  show ?thesis using bound
    by (simp add: list_investigations_def Let_def uniq take_page page_limit_pos view all page_of_def next_case_cursor_def rs_def[symmetric]
        del: take_take length_take)
qed

text \<open>A client that follows the cursors of the case list receives every case its filter selects exactly once, newest first, each with the
  summed cost of all its model calls, when case ids are unique and every case can be shown.\<close>

theorem case_pages_complete:
  assumes "iso_law E" "distinct (map investigation_id (investigations d))"
    and "\<forall>i \<in> set (investigations d). investigation_id i < 2 ^ 128"
    and "map_res (case_item E d) (sort_desc case_key (filter (case_matches E f) (investigations d))) = Inr items"
    and "length (investigations d) < n"
  shows "follow (\<lambda>c. list_investigations E f c limit d) n None = Inr items"
proof -
  let ?rows = "filter (case_matches E f) (investigations d)"
  let ?mark = "\<lambda>i. encode_cursor E (inv_created_at i) (uuid_str (investigation_id i))"
  have "follow (\<lambda>c. list_investigations E f c limit d) n None = Inr (map (projr \<circ> case_item E d) (sort_desc case_key ?rows))"
  proof (rule follow_all[where limit = "page_limit 50 limit" and mark = ?mark])
    have "inj_on investigation_id (set (investigations d))" "distinct (investigations d)" using assms(2) by (simp_all add: distinct_map)
    then show "distinct (map case_key ?rows)" by (auto simp: distinct_map inj_on_def case_key_def)
    show "0 < page_limit 50 limit" by (rule page_limit_pos)
    show "list_investigations E f None limit d = Inr (page_of case_key ?rows (projr \<circ> case_item E d) ?mark (page_limit 50 limit) None)"
      by (rule case_page[OF assms(2,4)]) (simp add: case_bound_def)
    show "list_investigations E f (Some (?mark r)) limit d =
        Inr (page_of case_key ?rows (projr \<circ> case_item E d) ?mark (page_limit 50 limit) (Some (case_key r)))" if "r \<in> set ?rows" for r
      by (rule case_page[OF assms(2,4)])
        (use that assms(3) in \<open>simp add: case_bound_def encode_cursor_nonempty[OF assms(1)] decode_cursor_def cursor_parts_encode[OF assms(1)]
          UUID_def uuid_parse_uuid_str up_def case_key_def\<close>)
    show "length ?rows < n" using assms(5) length_filter_le le_less_trans by blast
  qed
  then show ?thesis using map_res_projr_self[OF assms(4)] by simp
qed

definition all_cases :: case_filter where
  "all_cases = \<lparr>cf_status = [], cf_platform = None, cf_category = None\<rparr>"

definition newer_case :: investigation where
  "newer_case = demo_inv\<lparr>investigation_id := 8, inv_created_at := 800, spent := []\<rparr>"

theorem case_pages_complete_witness:
  "\<exists>x y. case_item demo_env (empty_db\<lparr>investigations := [demo_inv, newer_case]\<rparr>) newer_case = Inr x \<and>
     case_item demo_env (empty_db\<lparr>investigations := [demo_inv, newer_case]\<rparr>) demo_inv = Inr y \<and>
     follow (\<lambda>c. list_investigations demo_env all_cases c 1 (empty_db\<lparr>investigations := [demo_inv, newer_case]\<rparr>)) 3 None = Inr [x, y]"
proof -
  let ?d = "empty_db\<lparr>investigations := [demo_inv, newer_case]\<rparr>"
  obtain x y where xy: "case_item demo_env ?d newer_case = Inr x" "case_item demo_env ?d demo_inv = Inr y"
    by (simp add: case_item_def investigation_summary_def newer_case_def demo_inv_def up_def py_or_def)
  have "sort_desc case_key (filter (case_matches demo_env all_cases) (investigations ?d)) = [newer_case, demo_inv]"
    by (simp add: sort_desc_def case_key_def case_matches_def all_cases_def given_def newer_case_def demo_inv_def)
  then have "map_res (case_item demo_env ?d) (sort_desc case_key (filter (case_matches demo_env all_cases) (investigations ?d))) = Inr [x, y]"
    using xy by simp
  from case_pages_complete[OF demo_iso _ _ this, of 3 1] xy show ?thesis
    by (simp add: newer_case_def demo_inv_def)
qed

section \<open>Model calls\<close>

definition demo_call :: "uuid \<Rightarrow> llm_call" where
  "demo_call u = \<lparr>call_id = u, lc_created_at = 5, lc_investigation_id = None, lc_round = None, agent_role = ''rca'', lc_model = ''m'',
     lc_provider = None, prompt_ref = None, response_ref = None, input_tokens = None, output_tokens = None, lc_cost_usd = None,
     latency_ms = None, lc_error = None\<rparr>"

definition all_calls :: call_filter where
  "all_calls = \<lparr>lf_case = None, lf_round = None, lf_role = None\<rparr>"

lemma sort_desc_sorted: "sorted_wrt (\<lambda>a b. key b \<le> key a) (sort_desc key rows)"
proof -
  have "sorted (map key (sort_key key rows))" by (rule sorted_sort_key)
  then show ?thesis unfolding sort_desc_def sorted_wrt_rev sorted_wrt_map .
qed

text \<open>The list of model calls orders by time only while its cursor compares the time and the id.  A database order that the statement
  allows makes a client that follows the cursors miss a call made at the same instant as the last one of a page.\<close>

theorem llm_call_paging_skips:
  "\<exists>order d. (\<forall>cs. mset (order cs) = mset cs \<and> sorted_wrt (\<lambda>a b. lc_created_at b \<le> lc_created_at a) (order cs)) \<and>
     llm_calls d = [demo_call 1, demo_call 2] \<and>
     follow (\<lambda>c. list_llm_calls demo_env order all_calls c 1 d) 3 None = Inr [call_view demo_env (demo_call 1)]"
proof (intro exI conjI allI)
  let ?order = "\<lambda>cs. sort_desc lc_created_at (rev cs)" and ?d = "empty_db\<lparr>llm_calls := [demo_call 1, demo_call 2]\<rparr>"
  show "mset (?order cs) = mset cs" for cs :: "llm_call list" by (simp add: sort_desc_def)
  show "sorted_wrt (\<lambda>a b. lc_created_at b \<le> lc_created_at a) (?order cs)" for cs by (rule sort_desc_sorted)
  show "llm_calls ?d = [demo_call 1, demo_call 2]" by simp
  let ?c = "encode_cursor demo_env 5 (uuid_str 1)"
  have "case_bound demo_env (Some ?c) = Inr (Some (5, 1))"
    by (simp add: case_bound_def encode_cursor_nonempty[OF demo_iso] decode_cursor_def cursor_parts_encode[OF demo_iso]
        UUID_def uuid_parse_uuid_str up_def)
  then have "list_llm_calls demo_env ?order all_calls (Some ?c) 1 ?d = Inr ([], None)"
    by (simp add: list_llm_calls_def optional_uuid_def given_def all_calls_def call_rows_def call_matches_def below_def call_key_def
        demo_call_def sort_desc_def next_call_cursor_def)
  moreover have "list_llm_calls demo_env ?order all_calls None 1 ?d = Inr ([call_view demo_env (demo_call 1)], Some ?c)"
    by (simp add: list_llm_calls_def optional_uuid_def given_def all_calls_def call_rows_def call_matches_def below_def case_bound_def
        demo_call_def sort_desc_def next_call_cursor_def page_limit_def)
  ultimately show "follow (\<lambda>c. list_llm_calls demo_env ?order all_calls c 1 ?d) 3 None = Inr [call_view demo_env (demo_call 1)]"
    by (simp add: numeral_3_eq_3)
qed

end
