(* ===== verification/DashAccess.thy ===== *)
theory DashAccess
  imports DashSafety DashPaging
begin

text \<open>
  Who can have an effect through the dashboard: the role check in front of every endpoint, the gate for users
  who must change their password, and the decision of an approval with the signal it sends.
\<close>

section \<open>The route of the password change\<close>

lemma last_segment:
  assumes "CHR ''/'' \<notin> set k" "k \<noteq> []" "ends_with ''/auth/change-password'' (rstrip_slashes (p @ CHR ''/'' # k))"
  shows "k = ''change-password'' \<and> (\<exists>q. p = q @ ''/auth'')"
proof -
  obtain c t where k: "rev k = c # t" using assms(2) by (metis list.exhaust rev_is_Nil_conv)
  then have "c \<noteq> CHR ''/''" using assms(1) by (metis list.set_intros(1) set_rev)
  then have "rev (rstrip_slashes (p @ CHR ''/'' # k)) = rev k @ CHR ''/'' # rev p" using k by (simp add: rstrip_slashes_def)
  then obtain r where r: "rev k @ CHR ''/'' # rev p = rev ''change-password'' @ CHR ''/'' # rev ''/auth'' @ r"
    using assms(3) by (auto simp: ends_with_def starts_with_iff)
  have "takeWhile (\<lambda>x. x \<noteq> CHR ''/'') (rev k @ CHR ''/'' # rev p) = rev k"
    using assms(1) by (subst takeWhile_append2) auto
  then have a: "rev k = rev ''change-password''" unfolding r by simp
  then have "rev p = rev ''/auth'' @ r" using r by simp
  then have "p = rev r @ ''/auth''" by (metis rev_append rev_rev_ident)
  then show ?thesis using a by (metis rev_rev_ident)
qed

text \<open>The keys in a path are single segments.\<close>

fun routable :: "endpoint \<Rightarrow> bool" where
  "routable (PatchPlatform k b) \<longleftrightarrow> k \<noteq> [] \<and> CHR ''/'' \<notin> set k"
| "routable (PostBootstrapToken k) \<longleftrightarrow> k \<noteq> [] \<and> CHR ''/'' \<notin> set k"
| "routable (GetPlaybook k) \<longleftrightarrow> k \<noteq> [] \<and> CHR ''/'' \<notin> set k"
| "routable (PutPlaybook k b) \<longleftrightarrow> k \<noteq> [] \<and> CHR ''/'' \<notin> set k"
| "routable _ \<longleftrightarrow> True"

lemma hex_pad_chars: "CHR ''/'' \<notin> set (hex_pad n u)"
  using set_hex_pad[of "CHR ''/''" n u] by (auto simp: hex_chars_def)

lemma uuid_str_segment: "CHR ''/'' \<notin> set (uuid_str u)" "uuid_str u \<noteq> []"
  using hex_pad_chars[of 32 u] by (auto simp: uuid_str_def Let_def dest: in_set_takeD in_set_dropD)

lemma not_change:
  "CHR ''/'' \<notin> set k \<Longrightarrow> k \<noteq> [] \<Longrightarrow> k \<noteq> ''change-password'' \<Longrightarrow> \<not> ends_with ''/auth/change-password'' (rstrip_slashes (p @ CHR ''/'' # k))"
  "CHR ''/'' \<notin> set k \<Longrightarrow> k \<noteq> [] \<Longrightarrow> \<nexists>q. p = q @ ''/auth'' \<Longrightarrow> \<not> ends_with ''/auth/change-password'' (rstrip_slashes (p @ CHR ''/'' # k))"
  using last_segment by blast+

lemma change_password_route:
  assumes "routable ep" "ends_with ''/auth/change-password'' (rstrip_slashes (route ep))"
  shows "\<exists>b. ep = ChangePassword b"
proof (cases ep)
  case (GetInvestigation i)
  then show ?thesis using not_change(2)[OF uuid_str_segment, of "''/api/v1/investigations''"] assms(2) by (auto simp: append_eq_append_conv2 Cons_eq_append_conv)
next
  case (GetIterations i)
  then show ?thesis using not_change(1)[of "''iterations''" "''/api/v1/investigations/'' @ uuid_str i"] assms(2) by simp
next
  case (PostSignal i b)
  then show ?thesis using not_change(1)[of "''signal''" "''/api/v1/investigations/'' @ uuid_str i"] assms(2) by simp
next
  case (GetEvidence i full)
  then show ?thesis using not_change(2)[OF uuid_str_segment, of "''/api/v1/evidence''"] assms(2) by (auto simp: Cons_eq_append_conv)
next
  case (PostDecision a b)
  then show ?thesis using not_change(1)[of "''decision''" "''/api/v1/approvals/'' @ uuid_str a"] assms(2) by simp
next
  case (PatchUser i b)
  then show ?thesis using not_change(2)[OF uuid_str_segment, of "''/api/v1/users''"] assms(2) by (auto simp: Cons_eq_append_conv)
next
  case (PatchPlatform k b)
  then show ?thesis using not_change(2)[of k "''/api/v1/platforms''"] assms by (auto simp: Cons_eq_append_conv)
next
  case (PostBootstrapToken k)
  then show ?thesis using not_change(1)[of "''bootstrap-token''" "''/api/v1/platforms/'' @ k"] assms by simp
next
  case (GetPlaybook k)
  then show ?thesis using not_change(2)[of k "''/api/v1/playbooks''"] assms by (auto simp: Cons_eq_append_conv)
next
  case (PutPlaybook k b)
  then show ?thesis using not_change(2)[of k "''/api/v1/playbooks''"] assms by (auto simp: Cons_eq_append_conv)
qed (use assms(2) in \<open>simp_all add: ends_with_def rstrip_slashes_def starts_with_def\<close>)

section \<open>Authority\<close>

text \<open>The user a token stands for, when the account is enabled\<close>

definition acting :: "'s app \<Rightarrow> string option \<Rightarrow> db \<Rightarrow> user option" where
  "acting P tok d =
     (case tok of
        None \<Rightarrow> None
      | Some t \<Rightarrow>
          (case de_decode (ap_env P) t (jwt_secret (ap_config P)) of
             Inl _ \<Rightarrow> None
           | Inr claims \<Rightarrow>
               (case UUID (py_str (de_fr (ap_env P)) (dget claims ''sub'')) of
                  Inl _ \<Rightarrow> None
                | Inr uid \<Rightarrow>
                    (case get_row user_id uid (users d) of None \<Rightarrow> None | Some row \<Rightarrow> if u_disabled row then None else Some row))))"

lemma acting_row: "acting P tok d = Some row \<Longrightarrow> get_row user_id (user_id row) (users d) = Some row \<and> \<not> u_disabled row"
  by (auto simp: acting_def split: option.splits sum.splits if_splits) (metis row_keys(3))

lemma claimed_subject_Inr: "claimed_subject claims = Inr sub \<Longrightarrow> sub = dget claims ''sub''"
  by (auto simp: claimed_subject_def Let_def api_error_def split: if_splits pyval.splits)

lemma require_role_Inr:
  assumes "require_role (ap_env P) (ap_config P) role \<lparr>hr_path = path, hr_token = tok\<rparr> d = Inr u"
  shows "\<exists>row. acting P tok d = Some row \<and> user_id row = a_user_id u \<and> role_at_least (u_role row) role \<and>
    (must_change_password row \<longrightarrow> ends_with ''/auth/change-password'' (rstrip_slashes path))"
  using assms
  by (auto simp: require_role_def decode_token_def acting_def bind_res_Inr_iff api_error_def up_Inr_iff
      split: option.splits sum.splits jwt_failure.splits if_splits dest!: claimed_subject_Inr dest: row_keys(3))

lemma serve_cases:
  assumes "serve P ep tok w = (r, w')"
  obtains (refused) "w' = w" "\<exists>f. r = Inr (Inl f)"
    | (open_endpoint) "required_role ep = None" "endpoint_body P ep nobody w = (r, w')"
    | (granted) role u row where "required_role ep = Some role" "acting P tok (adb w) = Some row" "user_id row = a_user_id u"
        "role_at_least (u_role row) role" "must_change_password row \<longrightarrow> ends_with ''/auth/change-password'' (rstrip_slashes (route ep))"
        "endpoint_body P ep u w = (r, w')"
proof (cases "required_role ep")
  case None
  then show ?thesis using assms that(2) by (simp add: serve_def)
next
  case (Some role)
  show ?thesis
  proof (cases "require_role (ap_env P) (ap_config P) role \<lparr>hr_path = route ep, hr_token = tok\<rparr> (adb w)")
    case (Inl f)
    then show ?thesis using assms Some that(1) by (auto simp: serve_def and_then_def read_only_def bind_io_def ret_def)
  next
    case (Inr u)
    then have "endpoint_body P ep u w = (r, w')" using assms Some by (simp add: serve_def and_then_def read_only_def bind_io_def)
    then show ?thesis using require_role_Inr[OF Inr] Some that(3) by blast
  qed
qed

text \<open>C7: A request that has any effect, on the database, on a workflow or on a webhook, carries a valid token of an enabled user whose
  stored role is at least the one the endpoint requires; a user who must change the password can only do that.\<close>

theorem effects_need_authority:
  assumes "serve P ep tok w = (r, w')" "w' \<noteq> w" "routable ep"
  shows "\<exists>role row. required_role ep = Some role \<and> acting P tok (adb w) = Some row \<and> role_at_least (u_role row) role \<and>
    (must_change_password row \<longrightarrow> (\<exists>b. ep = ChangePassword b))"
  using assms(1)
proof (cases rule: serve_cases)
  case refused
  then show ?thesis using assms(2) by simp
next
  case open_endpoint
  then have "w' = w" by (cases ep) (auto simp: ret_def read_only_def reading_defs)
  then show ?thesis using assms(2) by simp
next
  case (granted role u row)
  then show ?thesis using change_password_route[OF assms(3)] by blast
qed

section \<open>What a viewer can do\<close>

lemma read_only_same: "read_only f w = (r, w') \<Longrightarrow> w' = w"
  by (simp add: read_only_def)

lemma commit_effect:
  assumes "bind_io (commit f) (\<lambda>r. ret (g r)) w = (r, w')" "w' \<noteq> w"
  shows "\<exists>x d. f (adb w) = Inr (x, d) \<and> w' = w\<lparr>adb := d\<rparr>"
  using assms by (auto simp: bind_io_def commit_def ret_def split: sum.splits)

text \<open>The change of a password in the account of one user, with its entry in the audit log\<close>

definition own_password_changed :: "uuid \<Rightarrow> db \<Rightarrow> db \<Rightarrow> bool" where
  "own_password_changed uid d d' \<longleftrightarrow>
     (\<exists>h e. actor e = actor_user uid \<and> action e = ''admin_config_changed'' \<and>
        d' = d\<lparr>users := modify_row user_id uid (\<lambda>r. r\<lparr>password_hash := h, must_change_password := False\<rparr>) (users d),
               audits := audits d @ [e]\<rparr>)"

lemma change_password_effect:
  assumes "change_password E C u b d = Inr (x, d')"
  shows "own_password_changed (a_user_id u) d d' \<and>
    (\<exists>row p. get_row user_id (a_user_id u) (users d) = Some row \<and> py_or (dget (as_dict b) ''old_password'') (PStr []) = PStr p \<and>
       de_verify E (password_hash row) p)"
proof -
  obtain row where row: "get_row user_id (a_user_id u) (users d) = Some row"
    using assms by (auto simp: change_password_def Let_def bind_res_Inr_iff api_error_def split: option.splits if_splits)
  obtain ov t det where ov: "py_get b ''old_password'' = Inr ov" "verify_password E (password_hash row) (py_or ov (PStr [])) = Inr True"
    and d': "write_audit (de_now E) ''admin_config_changed'' (actor_user (a_user_id u)) None (Some det)
      (set_user (a_user_id u) (\<lambda>r. r\<lparr>password_hash := de_hash E t, must_change_password := False\<rparr>) d) = Inr d'"
    using assms row unfolding change_password_def Let_def admin_audit_def
    by (auto simp: bind_res_Inr_iff api_error_def up_Inr_iff split: if_splits)
  from ov(1) have "ov = dget (as_dict b) ''old_password''" by (cases b) auto
  moreover from ov(2) obtain p where "py_or ov (PStr []) = PStr p" "de_verify E (password_hash row) p"
    by (auto simp: verify_password_def split: pyval.splits)
  moreover have "own_password_changed (a_user_id u) d d'"
    using write_audit_Inr[OF d'] unfolding own_password_changed_def set_user_def
    by (intro exI[of _ "de_hash E t"] exI[of _ "\<lparr>seq = next_seq (audits d), audit_at = de_now E, au_investigation_id = None,
      actor = actor_user (a_user_id u), action = ''admin_config_changed'', detail = Some det\<rparr>"]) simp
  ultimately show ?thesis using row by blast
qed

lemma viewer_role: "role_at_least ''viewer'' role \<Longrightarrow> required_role ep = Some role \<Longrightarrow> role = ''viewer''"
  by (cases ep) (auto simp: role_at_least_def ROLE_RANK_def)

text \<open>C14: The only effect a viewer can have is to change the own password, knowing the old one: no other account, no case, approval,
  platform or workflow is touched, and the change is in the audit log under the name of the user.\<close>

theorem viewer_changes_own_password_only:
  assumes "serve P ep tok w = (r, w')" "w' \<noteq> w" "acting P tok (adb w) = Some row" "u_role row = ''viewer''"
  shows "\<exists>b d p. ep = ChangePassword b \<and> w' = w\<lparr>adb := d\<rparr> \<and> own_password_changed (user_id row) (adb w) d \<and>
    py_or (dget (as_dict b) ''old_password'') (PStr []) = PStr p \<and> de_verify (ap_env P) (password_hash row) p"
  using assms(1)
proof (cases rule: serve_cases)
  case refused
  then show ?thesis using assms(2) by simp
next
  case open_endpoint
  then have "w' = w" by (cases ep) (auto simp: ret_def read_only_def reading_defs)
  then show ?thesis using assms(2) by simp
next
  case (granted role u row')
  then have r: "row' = row" "required_role ep = Some ''viewer''" "user_id row = a_user_id u" using assms(3,4) viewer_role by auto
  obtain b where ep: "ep = ChangePassword b"
    using r(2) granted(6) assms(2) by (cases ep) (auto simp: reading_defs dest: read_only_same)
  obtain x d where d: "change_password (ap_env P) (ap_config P) u b (adb w) = Inr (x, d)" "w' = w\<lparr>adb := d\<rparr>"
    using commit_effect[OF granted(6)[unfolded ep endpoint_body.simps change_password_handler_def] assms(2)] by blast
  have "get_row user_id (a_user_id u) (users (adb w)) = Some row" using acting_row[OF assms(3)] r(3) by simp
  then show ?thesis using change_password_effect[OF d(1)] d(2) ep r(3) by auto
qed

section \<open>Decisions\<close>

definition decided :: "uuid \<Rightarrow> db \<Rightarrow> approval \<Rightarrow> bool" where
  "decided aid d row \<longleftrightarrow> get_row approval_id aid (approvals d) = Some row \<and> decision row \<noteq> None"

lemma mark_decided_row:
  assumes "get_row approval_id aid (approvals d) = Some row" "decision row = None"
  shows "get_row approval_id aid (approvals (mark_decided E aid dec who c d)) =
    Some (row\<lparr>decision := Some dec, decided_by := Some who, decided_at := Some (de_now E), ap_comment := c\<rparr>)"
proof -
  have "get_row approval_id aid rows = Some row \<Longrightarrow> get_row approval_id aid
      (map (\<lambda>a. if approval_id a = aid \<and> decision a = None
         then a\<lparr>decision := Some dec, decided_by := Some who, decided_at := Some (de_now E), ap_comment := c\<rparr> else a) rows) =
      Some (row\<lparr>decision := Some dec, decided_by := Some who, decided_at := Some (de_now E), ap_comment := c\<rparr>)" for rows
    using assms(2) by (induction rows) (auto simp: get_row_def split: if_splits)
  then show ?thesis using assms(1) by (simp add: mark_decided_def)
qed

lemma write_audit_approvals: "write_audit now act who iid det d = Inr d' \<Longrightarrow> approvals d' = approvals d"
  by (auto dest: write_audit_Inr)

lemma raw_audit_approvals: "raw_command_audit E aid row dec who d = Inr d' \<Longrightarrow> approvals d' = approvals d"
  by (auto simp: raw_command_audit_def Let_def up_Inr_iff split: if_splits dest!: write_audit_approvals)

lemma decide_effect:
  assumes "decide_approval_atomic E aid decv who cv d = Inr (iv, d')"
  shows "\<exists>row dec c. get_row approval_id aid (approvals d) = Some row \<and> decision row = None \<and>
    latest_investigation d (ap_investigation_id row) = Some iv \<and> status iv \<notin> set TERMINAL_STATUSES \<and>
    decv = PStr dec \<and> dec \<in> set DECISIONS \<and>
    get_row approval_id aid (approvals d') =
      Some (row\<lparr>decision := Some dec, decided_by := Some who, decided_at := Some (de_now E), ap_comment := c\<rparr>)"
proof -
  obtain row iv' where row: "get_row approval_id aid (approvals d) = Some row" "latest_investigation d (ap_investigation_id row) = Some iv'"
    using assms by (auto simp: decide_approval_atomic_def bind_res_Inr_iff api_error_def split: option.splits)
  obtain dec c where d: "valid_decision E decv cv = Inr dec" "status iv' \<notin> set TERMINAL_STATUSES" "decision row = None" "iv' = iv"
    "approvals d' = approvals (mark_decided E aid dec who c d)"
    using assms row unfolding decide_approval_atomic_def
    by (auto simp: bind_res_Inr_iff up_Inr_iff api_error_def simp del: not_None_eq split: if_splits
        dest!: write_audit_approvals raw_audit_approvals)
  from d(1) have "decv = PStr dec \<and> dec \<in> set DECISIONS"
    by (auto simp: valid_decision_def Let_def api_error_def bind_res_Inr_iff split: pyval.splits if_splits)
  then show ?thesis using row d mark_decided_row[OF row(1) d(3), of E dec who c] by fastforce
qed

lemma decided_refuses:
  assumes "decided aid d row"
  shows "\<exists>f. decide_approval_atomic E aid decv who cv d = Inl f"
proof (rule ccontr)
  assume "\<not> ?thesis"
  then obtain x where "decide_approval_atomic E aid decv who cv d = Inr x" by (metis sum.exhaust)
  then show False using assms decide_effect by (cases x) (fastforce simp: decided_def)
qed

lemma delivered_decision:
  assumes "serve P (PostDecision aid body) tok w = (Inr (Inr x), w')"
  shows "\<exists>T u b dec row iv c s. ap_temporal P = Some T \<and> acting P tok (adb w) = Some u \<and> role_at_least (u_role u) ''approver'' \<and>
    body = PDict b \<and> dget b ''decision'' = PStr dec \<and> dec \<in> set DECISIONS \<and>
    get_row approval_id aid (approvals (adb w)) = Some row \<and> decision row = None \<and>
    latest_investigation (adb w) (ap_investigation_id row) = Some iv \<and> status iv \<notin> set TERMINAL_STATUSES \<and>
    get_row approval_id aid (approvals (adb w')) =
      Some (row\<lparr>decision := Some dec, decided_by := Some (user_id u), decided_at := Some (de_now (ap_env P)), ap_comment := c\<rparr>) \<and>
    T (aprobe w) (workflow_id iv) ''approval_decided''
      (Some (PDict [(''approval_id'', PStr (uuid_str aid)), (''decision'', PStr dec), (''comment'', dget b ''comment'')])) = (None, s) \<and>
    aprobe w' = s"
  using assms
proof (cases rule: serve_cases)
  case (granted role a u)
  obtain b where b: "body = PDict b" using granted(6) by (cases body) (auto simp: post_decision_def dict_body_def ret_def)
  obtain iv d where d: "decide_approval_atomic (ap_env P) aid (dget b ''decision'') (a_user_id a) (dget b ''comment'') (adb w) = Inr (iv, d)"
    and sig: "bind_io (signal_workflow (ap_temporal P) (workflow_id iv) ''approval_decided''
             (Some (PDict [(''approval_id'', PStr (uuid_str aid)), (''decision'', dget b ''decision''), (''comment'', dget b ''comment'')]))) (\<lambda>r.
          after_signal r (ret (Inr (PDict [(''approval_id'', PStr (uuid_str aid)), (''decision'', dget b ''decision''),
            (''ok'', PBool True)])))) (w\<lparr>adb := d\<rparr>) = (Inr (Inr x), w')"
    using granted(6) unfolding b endpoint_body.simps post_decision_def dict_body_def
    by (auto simp: and_then_def bind_io_def commit_def ret_def split: sum.splits prod.splits)
  obtain T s where T: "ap_temporal P = Some T" "aprobe w' = s" "adb w' = d" "T (aprobe w) (workflow_id iv) ''approval_decided''
      (Some (PDict [(''approval_id'', PStr (uuid_str aid)), (''decision'', dget b ''decision''), (''comment'', dget b ''comment'')])) = (None, s)"
    using sig by (auto simp: bind_io_def signal_workflow_def after_signal_def ret_def api_error_def split: option.splits prod.splits if_splits)
  have role: "role = ''approver''" using granted(1) by simp
  from decide_effect[OF d] granted(2-4) T b role show ?thesis by fastforce
qed simp_all

text \<open>A decision that is answered with success was made by an enabled user with at least the role of an approver, on an approval that
  was open in a case that was not closed; the approval holds the decision and the user, and the workflow of the case was sent
  exactly one signal with the approval and the decision.\<close>

theorem decision_delivered:
  assumes "serve P (PostDecision aid body) tok w = (Inr (Inr x), w')"
  shows "\<exists>T u b dec row iv c s. ap_temporal P = Some T \<and> acting P tok (adb w) = Some u \<and> role_at_least (u_role u) ''approver'' \<and>
    body = PDict b \<and> dget b ''decision'' = PStr dec \<and> dec \<in> set DECISIONS \<and>
    get_row approval_id aid (approvals (adb w)) = Some row \<and> decision row = None \<and>
    latest_investigation (adb w) (ap_investigation_id row) = Some iv \<and> status iv \<notin> set TERMINAL_STATUSES \<and>
    get_row approval_id aid (approvals (adb w')) =
      Some (row\<lparr>decision := Some dec, decided_by := Some (user_id u), decided_at := Some (de_now (ap_env P)), ap_comment := c\<rparr>) \<and>
    T (aprobe w) (workflow_id iv) ''approval_decided''
      (Some (PDict [(''approval_id'', PStr (uuid_str aid)), (''decision'', PStr dec), (''comment'', dget b ''comment'')])) = (None, s) \<and>
    aprobe w' = s"
  using assms by (rule delivered_decision)

section \<open>A concrete run\<close>

type_synonym signal_log = "(string \<times> string \<times> pyval option) list"

definition demo_user :: "uuid \<Rightarrow> string \<Rightarrow> user" where
  "demo_user u role = \<lparr>user_id = u, username = role, password_hash = ''old'', u_role = role, u_created_at = 0,
     u_disabled = False, must_change_password = False\<rparr>"

definition demo_app :: "signal_log app" where
  "demo_app = \<lparr>ap_env = demo_env,
     ap_config = \<lparr>jwt_secret = ''k'', token_ttl_seconds = 60, password_min_length = 3, notification_webhooks = []\<rparr>,
     ap_temporal = Some (\<lambda>s wid name arg. (None, s @ [(wid, name, arg)])), ap_post = (\<lambda>s u b. (Inr 200, s)), ap_call_order = id,
     ap_collate = (\<lambda>_. 0), ap_ca_fp = None\<rparr>"

definition demo_state :: "signal_log world" where
  "demo_state = \<lparr>adb = empty_db\<lparr>users := [demo_user 21 ''approver'', demo_user 22 ''viewer''], investigations := [demo_inv],
     approvals := [demo_approval]\<rparr>, aprobe = [], objects = [], drawn = 0\<rparr>"

lemma demo_acting:
  "acting demo_app (Some (uuid_str 21)) (adb demo_state) = Some (demo_user 21 ''approver'')"
  "acting demo_app (Some (uuid_str 22)) (adb demo_state) = Some (demo_user 22 ''viewer'')"
  by (simp_all add: acting_def demo_app_def demo_env_def demo_state_def UUID_def uuid_parse_uuid_str py_str_def get_row_def demo_user_def)

lemma demo_role:
  "require_role demo_env (ap_config demo_app) ''approver'' \<lparr>hr_path = route (PostDecision 9 b), hr_token = Some (uuid_str 21)\<rparr> (adb demo_state) =
     Inr \<lparr>a_user_id = 21, a_username = ''approver'', a_role = ''approver'', a_must_change = False\<rparr>"
  "require_role demo_env (ap_config demo_app) ''viewer'' \<lparr>hr_path = route (ChangePassword b), hr_token = Some (uuid_str 22)\<rparr> (adb demo_state) =
     Inr \<lparr>a_user_id = 22, a_username = ''viewer'', a_role = ''viewer'', a_must_change = False\<rparr>"
  using uuid_str_segment(2)[of 21] uuid_str_segment(2)[of 22]
  by (simp_all add: require_role_def decode_token_def claimed_subject_def demo_app_def demo_env_def demo_state_def UUID_def uuid_parse_uuid_str
      py_str_def get_row_def demo_user_def role_at_least_def ROLE_RANK_def py_or_def Let_def)

definition demo_verdict :: pyval where
  "demo_verdict = PDict [(''decision'', PStr ''approved''), (''comment'', PStr ''go'')]"

definition demo_passwords :: pyval where
  "demo_passwords = PDict [(''old_password'', PStr ''old''), (''new_password'', PStr ''longer'')]"

lemma demo_decided:
  "\<exists>x w'. serve demo_app (PostDecision 9 demo_verdict) (Some (uuid_str 21)) demo_state = (Inr (Inr x), w') \<and> w' \<noteq> demo_state"
proof -
  have env: "ap_env demo_app = demo_env" by (simp add: demo_app_def)
  have "\<exists>d. decide_approval_atomic demo_env 9 (PStr ''approved'') 21 (PStr ''go'') (adb demo_state) = Inr (demo_inv, d)"
    by (simp add: decide_approval_atomic_def valid_decision_def DECISIONS_def demo_state_def get_row_def demo_approval_def latest_investigation_def
        latest_by.simps demo_inv_def TERMINAL_STATUSES_def opt_text_def text_arg_def write_audit_def AUDIT_ACTIONS_def raw_command_audit_def
        Let_def mark_decided_def)
  then obtain d where "decide_approval_atomic demo_env 9 (PStr ''approved'') 21 (PStr ''go'') (adb demo_state) = Inr (demo_inv, d)" by blast
  then show ?thesis
    by (simp add: serve_def env demo_role[simplified] and_then_def read_only_def bind_io_def post_decision_def dict_body_def demo_verdict_def commit_def
        signal_workflow_def after_signal_def ret_def) (simp add: demo_app_def demo_state_def)
qed

theorem effects_need_authority_witness:
  "\<exists>role row. required_role (PostDecision 9 demo_verdict) = Some role \<and>
     acting demo_app (Some (uuid_str 21)) (adb demo_state) = Some row \<and> role_at_least (u_role row) role"
proof -
  obtain x w' where "serve demo_app (PostDecision 9 demo_verdict) (Some (uuid_str 21)) demo_state = (Inr (Inr x), w')" "w' \<noteq> demo_state"
    using demo_decided by blast
  then show ?thesis using effects_need_authority[of demo_app "PostDecision 9 demo_verdict" "Some (uuid_str 21)" demo_state] by fastforce
qed

theorem decision_delivered_witness:
  "\<exists>x w' row. serve demo_app (PostDecision 9 demo_verdict) (Some (uuid_str 21)) demo_state = (Inr (Inr x), w') \<and>
     get_row approval_id 9 (approvals (adb w')) = Some row \<and> decision row = Some ''approved'' \<and> decided_by row = Some 21"
proof -
  obtain x w' where s: "serve demo_app (PostDecision 9 demo_verdict) (Some (uuid_str 21)) demo_state = (Inr (Inr x), w')"
    using demo_decided by blast
  obtain row t c where "get_row approval_id 9 (approvals (adb w')) =
      Some (row\<lparr>decision := Some ''approved'', decided_by := Some 21, decided_at := t, ap_comment := c\<rparr>)"
    using decision_delivered[OF s] by (elim exE conjE) (rule that, auto simp: demo_acting demo_user_def demo_verdict_def)
  then show ?thesis using s by simp
qed

theorem viewer_changes_own_password_only_witness:
  "\<exists>x w' d. serve demo_app (ChangePassword demo_passwords) (Some (uuid_str 22)) demo_state = (Inr x, w') \<and>
     w' = demo_state\<lparr>adb := d\<rparr> \<and> own_password_changed 22 (adb demo_state) d"
proof -
  have env: "ap_env demo_app = demo_env" by (simp add: demo_app_def)
  have "\<exists>d. change_password demo_env (ap_config demo_app) \<lparr>a_user_id = 22, a_username = ''viewer'', a_role = ''viewer'', a_must_change = False\<rparr>
      demo_passwords (adb demo_state) = Inr ((), d) \<and> users d \<noteq> users (adb demo_state)"
    by (simp add: change_password_def demo_passwords_def py_or_def Let_def field_length_def demo_app_def demo_state_def get_row_def demo_user_def
        verify_password_def demo_env_def text_value_def admin_audit_def write_audit_def AUDIT_ACTIONS_def set_user_def modify_row_def)
  moreover have "users d \<noteq> users (adb demo_state) \<Longrightarrow> demo_state\<lparr>adb := d\<rparr> \<noteq> demo_state" for d by (auto simp: demo_state_def)
  ultimately obtain x w' where s: "serve demo_app (ChangePassword demo_passwords) (Some (uuid_str 22)) demo_state = (Inr x, w')" "w' \<noteq> demo_state"
    by (auto simp: serve_def env demo_role[simplified] and_then_def read_only_def bind_io_def change_password_handler_def commit_def ret_def)
  from viewer_changes_own_password_only[OF s demo_acting(2)] s(1) show ?thesis by (fastforce simp: demo_user_def)
qed

text \<open>A first administrator and a second user\<close>

theorem accounts_stay_sound_witness:
  "\<exists>d1. bootstrap_admin demo_env ''root'' ''pw'' empty_db = Inr (''created'', d1) \<and>
     accounts_step empty_db (adb (requests demo_app [(PostUser (PDict []), None), (GetUsers, Some (uuid_str 40))] (demo_state\<lparr>adb := d1\<rparr>)))"
proof -
  have "\<exists>d1. bootstrap_admin demo_env ''root'' ''pw'' empty_db = Inr (''created'', d1)"
    by (simp add: bootstrap_admin_def user_named_def empty_db_def add_row_def)
  then show ?thesis using accounts_stay_sound by blast
qed

end
