(* ===== verification/Config.thy ===== *)
theory Config
  imports Notifications
begin

text \<open>
  The configuration (\<open>rca_common/config/__init__.py\<close>): interpolation of environment variables, the typed
  sections with their defaults, and the egress policy.

  The YAML parser is a parameter.  Nothing checks the types of most values, so a section is a record of
  Python values.
\<close>

section \<open>Interpolation\<close>

definition is_name_start :: "char \<Rightarrow> bool" where
  "is_name_start c = (let n = code_point c in 65 \<le> n \<and> n \<le> 90 \<or> 97 \<le> n \<and> n \<le> 122 \<or> c = CHR ''_'')"

definition is_name_char :: "char \<Rightarrow> bool" where
  "is_name_char c \<longleftrightarrow> is_name_start c \<or> is_digit c"

text \<open>\<open>_ENV_VAR_RE\<close> at the start of a text: the name and the text after the match\<close>

definition env_ref :: "string \<Rightarrow> (string \<times> string) option" where
  "env_ref s =
     (if starts_with ''${'' s
      then (let r = drop 2 s; name = takeWhile is_name_char r; rest = dropWhile is_name_char r in
            if name \<noteq> [] \<and> is_name_start (hd name) \<and> rest \<noteq> [] \<and> hd rest = CHR ''}'' then Some (name, tl rest) else None)
      else None)"

type_synonym environ = "(string \<times> string) list"

definition env_get :: "environ \<Rightarrow> string \<Rightarrow> string" where
  "env_get env name = (case map_of env name of None \<Rightarrow> [] | Some v \<Rightarrow> v)"

definition interpolate_str :: "environ \<Rightarrow> string \<Rightarrow> string" where
  "interpolate_str env = re_sub (\<lambda>s. map_option (\<lambda>(name, rest). (env_get env name, rest)) (env_ref s))"

fun interpolate :: "environ \<Rightarrow> pyval \<Rightarrow> pyval" where
  "interpolate env (PStr s) = PStr (interpolate_str env s)"
| "interpolate env (PDict d) = PDict (map (\<lambda>kv. (fst kv, interpolate env (snd kv))) d)"
| "interpolate env (PList xs) = PList (map (interpolate env) xs)"
| "interpolate env v = v"

section \<open>The sections\<close>

record model_route =
  mr_model :: pyval
  mr_max_tokens :: pyval

record budget_defaults =
  bd_max_rounds :: pyval
  bd_max_cost_usd :: pyval
  bd_max_wall_seconds :: pyval

record tracing_config =
  tr_backend :: pyval
  tr_langfuse_host :: pyval
  tr_langfuse_public_key :: pyval
  tr_langfuse_secret_key :: pyval

record signing_config =
  sg_backend :: pyval
  sg_key_path :: pyval
  sg_rotation_grace_seconds :: pyval
  sg_allow_ephemeral :: bool

record storage_config =
  st_postgres_dsn :: pyval
  st_s3_endpoint :: pyval
  st_s3_bucket :: pyval
  st_s3_access_key :: pyval
  st_s3_secret_key :: pyval

record model_gateway_config =
  mg_url :: pyval
  mg_master_key :: pyval

record temporal_config =
  tm_address :: pyval
  tm_namespace :: pyval
  tm_task_queue :: pyval

record ingest_source =
  is_name :: pyval
  is_secret :: pyval

record ingest_config =
  ig_sources :: "ingest_source list"
  ig_correlation_window_seconds :: pyval

record raw_commands_config =
  rc_policy :: pyval
  rc_timeout_seconds :: pyval
  rc_max_output_bytes :: pyval

record probe_gateway_config =
  pg_url :: pyval
  pg_timeout_seconds :: pyval

record dashboard_config =
  db_jwt_secret :: pyval
  db_token_ttl_seconds :: int
  db_password_min_length :: int
  db_cors_origins :: "pyval list"
  db_bootstrap_ca_cert_path :: pyval

record outbound_webhook =
  ow_name :: pyval
  ow_url :: pyval
  ow_format :: pyval
  ow_events :: "pyval list"
  ow_min_severity :: pyval

record app_config =
  ac_models :: "(string \<times> model_route) list"
  ac_budget_defaults :: budget_defaults
  ac_max_calls_per_round :: pyval
  ac_rca_confidence_threshold :: pyval
  ac_display_verbosity :: pyval
  ac_data_egress_policy :: pyval
  ac_tracing :: tracing_config
  ac_signing :: signing_config
  ac_storage :: storage_config
  ac_model_gateway :: model_gateway_config
  ac_temporal :: temporal_config
  ac_ingest :: ingest_config
  ac_raw_commands :: raw_commands_config
  ac_probe_gateway :: probe_gateway_config
  ac_dashboard :: dashboard_config
  ac_outbound_webhooks :: "outbound_webhook list"
  ac_raw :: dict

text \<open>\<open>AppConfig()\<close>: the defaults of the data classes\<close>

definition AppConfig :: app_config where
  "AppConfig =
     \<lparr>ac_models = [],
      ac_budget_defaults = \<lparr>bd_max_rounds = PInt 15, bd_max_cost_usd = PFloat 10, bd_max_wall_seconds = PInt 1800\<rparr>,
      ac_max_calls_per_round = PInt 8, ac_rca_confidence_threshold = PFloat (85 / 100),
      ac_display_verbosity = PStr ''compact'', ac_data_egress_policy = PStr ''allow_remote'',
      ac_tracing = \<lparr>tr_backend = PStr ''builtin'', tr_langfuse_host = PStr [], tr_langfuse_public_key = PStr [],
        tr_langfuse_secret_key = PStr []\<rparr>,
      ac_signing = \<lparr>sg_backend = PStr ''mounted'', sg_key_path = PStr ''/etc/dbagent/signing/ed25519.key'',
        sg_rotation_grace_seconds = PInt 600, sg_allow_ephemeral = False\<rparr>,
      ac_storage = \<lparr>st_postgres_dsn = PStr [], st_s3_endpoint = PStr [], st_s3_bucket = PStr ''dbagent'',
        st_s3_access_key = PStr [], st_s3_secret_key = PStr []\<rparr>,
      ac_model_gateway = \<lparr>mg_url = PStr ''http://model-gateway:4000'', mg_master_key = PStr []\<rparr>,
      ac_temporal = \<lparr>tm_address = PStr ''localhost:7233'', tm_namespace = PStr ''dbagent'', tm_task_queue = PStr ''rca-worker''\<rparr>,
      ac_ingest = \<lparr>ig_sources = [], ig_correlation_window_seconds = PInt 1800\<rparr>,
      ac_raw_commands = \<lparr>rc_policy = PStr ''approve'', rc_timeout_seconds = PInt 60, rc_max_output_bytes = PInt 1048576\<rparr>,
      ac_probe_gateway = \<lparr>pg_url = PStr ''http://probe-gateway:8080'', pg_timeout_seconds = PInt 120\<rparr>,
      ac_dashboard = \<lparr>db_jwt_secret = PStr [], db_token_ttl_seconds = 43200, db_password_min_length = 12,
        db_cors_origins = [], db_bootstrap_ca_cert_path = PStr []\<rparr>,
      ac_outbound_webhooks = [], ac_raw = []\<rparr>"

section \<open>Parsing\<close>

text \<open>\<open>v.get(k) or {}\<close>, asked for its keys at once\<close>

definition subsection_of :: "dict \<Rightarrow> string \<Rightarrow> dict res" where
  "subsection_of raw k =
     (case py_or (dget raw k) (PDict []) of PDict d \<Rightarrow> Inr d | _ \<Rightarrow> Inl (OtherError ''AttributeError''))"

text \<open>\<open>for x in v.get(k) or []\<close>\<close>

definition elements_of :: "dict \<Rightarrow> string \<Rightarrow> pyval list res" where
  "elements_of raw k = py_iter (py_or (dget raw k) (PList []))"

definition parse_route :: "string \<times> pyval \<Rightarrow> (string \<times> model_route) res" where
  "parse_route = (\<lambda>(role, spec).
     bind_res (py_item spec ''model'') (\<lambda>m.
       Inr (role, \<lparr>mr_model = m, mr_max_tokens = dget_or (as_dict spec) ''max_tokens'' (PInt 2000)\<rparr>)))"

definition parse_budget :: "dict \<Rightarrow> budget_defaults" where
  "parse_budget bd = \<lparr>bd_max_rounds = dget_or bd ''max_rounds'' (PInt 15), bd_max_cost_usd = dget_or bd ''max_cost_usd'' (PFloat 10),
     bd_max_wall_seconds = dget_or bd ''max_wall_seconds'' (PInt 1800)\<rparr>"

definition parse_tracing :: "dict \<Rightarrow> dict \<Rightarrow> tracing_config" where
  "parse_tracing tr lf = \<lparr>tr_backend = dget_or tr ''backend'' (PStr ''builtin''), tr_langfuse_host = dget_or lf ''host'' (PStr []),
     tr_langfuse_public_key = dget_or lf ''public_key'' (PStr []), tr_langfuse_secret_key = dget_or lf ''secret_key'' (PStr [])\<rparr>"

definition parse_signing :: "dict \<Rightarrow> signing_config" where
  "parse_signing sg = \<lparr>sg_backend = dget_or sg ''backend'' (PStr ''mounted''),
     sg_key_path = dget_or sg ''key_path'' (PStr ''/etc/dbagent/signing/ed25519.key''),
     sg_rotation_grace_seconds = dget_or sg ''rotation_grace_seconds'' (PInt 600),
     sg_allow_ephemeral = truthy (dget_or sg ''allow_ephemeral'' (PBool False))\<rparr>"

definition parse_storage :: "dict \<Rightarrow> dict \<Rightarrow> storage_config" where
  "parse_storage st s3 = \<lparr>st_postgres_dsn = dget_or st ''postgres_dsn'' (PStr []), st_s3_endpoint = dget_or s3 ''endpoint'' (PStr []),
     st_s3_bucket = dget_or s3 ''bucket'' (PStr ''dbagent''), st_s3_access_key = dget_or s3 ''access_key'' (PStr []),
     st_s3_secret_key = dget_or s3 ''secret_key'' (PStr [])\<rparr>"

definition parse_temporal :: "dict \<Rightarrow> temporal_config" where
  "parse_temporal tm = \<lparr>tm_address = dget_or tm ''address'' (PStr ''localhost:7233''), tm_namespace = dget_or tm ''namespace'' (PStr ''dbagent''),
     tm_task_queue = dget_or tm ''task_queue'' (PStr ''rca-worker'')\<rparr>"

definition parse_source :: "pyval \<Rightarrow> ingest_source res" where
  "parse_source s =
     bind_res (py_item s ''name'') (\<lambda>n. Inr \<lparr>is_name = n, is_secret = dget_or (as_dict s) ''secret'' (PStr [])\<rparr>)"

definition parse_ingest :: "dict \<Rightarrow> ingest_config res" where
  "parse_ingest ig =
     bind_res (elements_of ig ''sources'') (\<lambda>ss.
     bind_res (map_res parse_source ss) (\<lambda>sources.
       Inr \<lparr>ig_sources = sources, ig_correlation_window_seconds = dget_or ig ''correlation_window_seconds'' (PInt 1800)\<rparr>))"

definition parse_raw_commands :: "dict \<Rightarrow> raw_commands_config" where
  "parse_raw_commands rc = \<lparr>rc_policy = dget_or rc ''policy'' (PStr ''approve''), rc_timeout_seconds = dget_or rc ''timeout_seconds'' (PInt 60),
     rc_max_output_bytes = dget_or rc ''max_output_bytes'' (PInt 1048576)\<rparr>"

definition parse_dashboard :: "dict \<Rightarrow> dashboard_config res" where
  "parse_dashboard c =
     bind_res (py_int (dget_or c ''token_ttl_seconds'' (PInt 43200))) (\<lambda>ttl.
     bind_res (py_int (dget_or c ''password_min_length'' (PInt 12))) (\<lambda>len.
     bind_res (elements_of c ''cors_origins'') (\<lambda>origins.
       Inr \<lparr>db_jwt_secret = dget_or c ''jwt_secret'' (PStr []), db_token_ttl_seconds = ttl, db_password_min_length = len,
            db_cors_origins = origins, db_bootstrap_ca_cert_path = py_or (dget_or c ''bootstrap_ca_cert_path'' (PStr [])) (PStr [])\<rparr>)))"

definition parse_webhook :: "pyval \<Rightarrow> outbound_webhook res" where
  "parse_webhook v =
     (case v of
        PDict wh \<Rightarrow>
          bind_res (elements_of wh ''events'') (\<lambda>evs.
            Inr \<lparr>ow_name = py_or (dget_or wh ''name'' (PStr [])) (PStr []), ow_url = py_or (dget_or wh ''url'' (PStr [])) (PStr []),
                 ow_format = py_or (dget_or wh ''format'' (PStr ''generic'')) (PStr ''generic''), ow_events = evs,
                 ow_min_severity = py_or (dget_or wh ''min_severity'' (PStr ''low'')) (PStr ''low'')\<rparr>)
      | _ \<Rightarrow> Inl (OtherError ''AttributeError''))"

definition LOCAL_MODEL_PREFIXES :: "string list" where
  "LOCAL_MODEL_PREFIXES = [''ollama/'', ''vllm/'']"

definition is_local :: "string \<Rightarrow> bool" where
  "is_local m \<longleftrightarrow> (\<exists>p \<in> set LOCAL_MODEL_PREFIXES. starts_with p m)"

fun check_routes :: "(string \<times> model_route) list \<Rightarrow> unit res" where
  "check_routes [] = Inr ()"
| "check_routes ((role, route) # rest) =
     (case mr_model route of
        PStr m \<Rightarrow>
          if is_local m then check_routes rest
          else Inl (OtherError (''ConfigError: data_egress_policy=local_only but agent role '' @ CHR 0x27 # role @ CHR 0x27 #
            '' routes to non-local model '' @ CHR 0x27 # m @ [CHR 0x27]))
      | _ \<Rightarrow> Inl (OtherError ''AttributeError''))"

definition validate_egress_policy :: "app_config \<Rightarrow> unit res" where
  "validate_egress_policy c =
     (if ac_data_egress_policy c \<noteq> PStr ''local_only'' then Inr () else check_routes (ac_models c))"

definition read_config :: "dict \<Rightarrow> app_config res" where
  "read_config raw =
     bind_res (subsection_of raw ''models'') (\<lambda>ms.
     bind_res (map_res parse_route ms) (\<lambda>models.
     bind_res (subsection_of raw ''budget_defaults'') (\<lambda>bd.
     bind_res (subsection_of raw ''tracing'') (\<lambda>tr.
     bind_res (subsection_of tr ''langfuse'') (\<lambda>lf.
     bind_res (subsection_of raw ''signing'') (\<lambda>sg.
     bind_res (subsection_of raw ''storage'') (\<lambda>st.
     bind_res (subsection_of st ''s3'') (\<lambda>s3.
     bind_res (subsection_of raw ''model_gateway'') (\<lambda>mg.
     bind_res (subsection_of raw ''temporal'') (\<lambda>tm.
     bind_res (subsection_of raw ''ingest'') (\<lambda>igs.
     bind_res (parse_ingest igs) (\<lambda>ig.
     bind_res (subsection_of raw ''raw_commands'') (\<lambda>rc.
     bind_res (subsection_of raw ''probe_gateway'') (\<lambda>pgw.
     bind_res (subsection_of raw ''dashboard'') (\<lambda>dbs.
     bind_res (parse_dashboard dbs) (\<lambda>dash.
     bind_res (subsection_of raw ''notifications'') (\<lambda>ncfg.
     bind_res (elements_of ncfg ''outbound_webhooks'') (\<lambda>whs.
     bind_res (map_res parse_webhook whs) (\<lambda>outbound.
       Inr \<lparr>ac_models = models, ac_budget_defaults = parse_budget bd,
            ac_max_calls_per_round = dget_or raw ''max_calls_per_round'' (PInt 8),
            ac_rca_confidence_threshold = dget_or raw ''rca_confidence_threshold'' (PFloat (85 / 100)),
            ac_display_verbosity = dget_or raw ''display_verbosity'' (PStr ''compact''),
            ac_data_egress_policy = dget_or raw ''data_egress_policy'' (PStr ''allow_remote''),
            ac_tracing = parse_tracing tr lf, ac_signing = parse_signing sg, ac_storage = parse_storage st s3,
            ac_model_gateway = \<lparr>mg_url = dget_or mg ''url'' (PStr ''http://model-gateway:4000''), mg_master_key = dget_or mg ''master_key'' (PStr [])\<rparr>,
            ac_temporal = parse_temporal tm, ac_ingest = ig, ac_raw_commands = parse_raw_commands rc,
            ac_probe_gateway = \<lparr>pg_url = dget_or pgw ''url'' (PStr ''http://probe-gateway:8080''),
              pg_timeout_seconds = dget_or pgw ''timeout_seconds'' (PInt 120)\<rparr>,
            ac_dashboard = dash, ac_outbound_webhooks = outbound, ac_raw = raw\<rparr>)))))))))))))))))))"

definition parse_config :: "environ \<Rightarrow> pyval \<Rightarrow> app_config res" where
  "parse_config env raw0 =
     (case interpolate env raw0 of
        PDict raw \<Rightarrow> bind_res (read_config raw) (\<lambda>cfg. bind_res (validate_egress_policy cfg) (\<lambda>_. Inr cfg))
      | _ \<Rightarrow> Inl (OtherError ''AttributeError''))"

text \<open>\<open>load_config\<close>: \<open>yaml\<close> reads the file.\<close>

definition load_config :: "(string \<Rightarrow> pyval res) \<Rightarrow> environ \<Rightarrow> string \<Rightarrow> app_config res" where
  "load_config yaml env path = bind_res (yaml path) (\<lambda>v. parse_config env (py_or v (PDict [])))"

section \<open>Properties\<close>

lemma sections_empty [simp]: "subsection_of [] k = Inr []" "elements_of [] k = Inr []"
  by (simp_all add: subsection_of_def elements_of_def py_or_def)

lemma dget_or_Nil [simp]: "dget_or [] k v = v"
  by (simp add: dget_or_def)

text \<open>An empty configuration file gives exactly the defaults of the data classes: the defaults written in the parser and the ones
  declared with the fields agree, in every section.\<close>

theorem empty_config_is_default: "load_config (\<lambda>_. Inr PNone) env path = Inr AppConfig"
  by (simp add: load_config_def parse_config_def py_or_def read_config_def AppConfig_def parse_budget_def parse_tracing_def parse_signing_def
      parse_storage_def parse_temporal_def parse_ingest_def parse_raw_commands_def parse_dashboard_def validate_egress_policy_def)

lemma check_routes_Inr:
  "check_routes routes = Inr u \<Longrightarrow> (role, route) \<in> set routes \<Longrightarrow> \<exists>m. mr_model route = PStr m \<and> is_local m"
  by (induction routes) (auto split: pyval.splits if_splits)


definition demo_local_file :: pyval where
  "demo_local_file = PDict [(''data_egress_policy'', PStr ''${POLICY}''), (''models'', PDict [(''rca'', PDict [(''model'', PStr ''ollama/x'')])])]"

lemma demo_local_config:
  "\<exists>c. load_config (\<lambda>_. Inr demo_local_file) [(''POLICY'', ''local_only'')] path = Inr c \<and> ac_data_egress_policy c = PStr ''local_only'' \<and>
     ac_models c = [(''rca'', \<lparr>mr_model = PStr ''ollama/x'', mr_max_tokens = PInt 2000\<rparr>)]"
proof -
  have i: "interpolate [(''POLICY'', ''local_only'')] demo_local_file =
      PDict [(''data_egress_policy'', PStr ''local_only''), (''models'', PDict [(''rca'', PDict [(''model'', PStr ''ollama/x'')])])]"
    by code_simp
  have "truthy demo_local_file" by (simp add: demo_local_file_def)
  then show ?thesis
    by (simp add: load_config_def parse_config_def i read_config_def subsection_of_def elements_of_def py_or_def parse_route_def ditem_def
        parse_ingest_def parse_dashboard_def dget_or_def validate_egress_policy_def is_local_def LOCAL_MODEL_PREFIXES_def starts_with_def)
qed


text \<open>An unset variable leaves nothing behind.\<close>

lemma unset_reference:
  assumes "name \<noteq> []" "is_name_start (hd name)" "\<forall>c \<in> set name. is_name_char c" "map_of env name = None"
  shows "interpolate_str env (''${'' @ name @ ''}'') = []"
proof -
  have b: "\<not> is_name_char (CHR ''}'')" by (simp add: is_name_char_def is_name_start_def is_digit_def code_point_def)
  have "takeWhile is_name_char (name @ [CHR ''}'']) = name" "dropWhile is_name_char (name @ [CHR ''}'']) = [CHR ''}'']"
    using assms(3) b by (simp_all add: takeWhile_append2 dropWhile_append2)
  then have "env_ref (''${'' @ name @ ''}'') = Some (name, [])" using assms(1,2) using b by (simp add: env_ref_def starts_with_def Let_def)
  then show ?thesis using assms(4) by (simp add: interpolate_str_def env_get_def)
qed

end
