(* ===== verification/Startup.thy ===== *)
theory Startup
  imports Config HmacAuth DashApp Worker
begin

text \<open>
  The entry points: what \<open>gateway/main.py\<close>, \<open>dashboard_api/main.py\<close>, \<open>bootstrap_admin.py\<close> and
  \<open>worker_main.py\<close> build from the configuration and the environment, and the refusal of renamed environment
  variables (\<open>rca_common/envcompat.py\<close>).

  Connections, clients and servers are what the processes build with; here is what they are built from.
\<close>

section \<open>Renamed environment variables\<close>

definition LEGACY_ENV_RENAMES :: "(string \<times> string) list" where
  "LEGACY_ENV_RENAMES =
     [(''RCA_PG_DSN'', ''DBAGENT_PG_DSN''), (''RCA_POSTGRES_DSN'', ''DBAGENT_POSTGRES_DSN''),
      (''RCA_WORKER_CONFIG'', ''DBAGENT_WORKER_CONFIG''), (''RCA_GATEWAY_CONFIG'', ''DBAGENT_GATEWAY_CONFIG''),
      (''RCA_GATEWAY_HOST'', ''DBAGENT_GATEWAY_HOST''), (''RCA_GATEWAY_PORT'', ''DBAGENT_GATEWAY_PORT''),
      (''RCA_DASHBOARD_CONFIG'', ''DBAGENT_DASHBOARD_CONFIG''), (''RCA_DASHBOARD_HOST'', ''DBAGENT_DASHBOARD_HOST''),
      (''RCA_DASHBOARD_PORT'', ''DBAGENT_DASHBOARD_PORT''), (''RCA_SIGNING_KEY_PATH'', ''DBAGENT_SIGNING_KEY_PATH''),
      (''RCA_API_BASE_URL'', ''DBAGENT_API_BASE_URL''), (''RCA_API_UPSTREAM'', ''DBAGENT_API_UPSTREAM''),
      (''RCA_DOCROOT'', ''DBAGENT_DOCROOT'')]"

text \<open>The exit carries one line for each name found; the paragraph sign of the message is left out of its text.\<close>

definition reject_legacy_env :: "environ \<Rightarrow> unit res" where
  "reject_legacy_env env =
     (let offenders = filter (\<lambda>(old, new). map_of env old \<noteq> None) LEGACY_ENV_RENAMES in
      if offenders = [] then Inr ()
      else Inl (OtherError (''SystemExit: '' @ str_join [CHR 0x0A] (map (\<lambda>(old, new).
        old @ '' is no longer read; rename it to '' @ new @ '' (design.md 11.2.3 C.2)'') offenders))))"

definition env_or :: "environ \<Rightarrow> string \<Rightarrow> string \<Rightarrow> string" where
  "env_or env k dflt = (case map_of env k of None \<Rightarrow> dflt | Some v \<Rightarrow> v)"

definition env_int :: "environ \<Rightarrow> string \<Rightarrow> string \<Rightarrow> int res" where
  "env_int env k dflt = py_int (PStr (env_or env k dflt))"

definition DEFAULT_CONFIG_PATH :: string where
  "DEFAULT_CONFIG_PATH = ''/etc/dbagent/config.yaml''"

section \<open>The gateway\<close>

text \<open>The URL library is given by the backend a URL names and the URL with another driver.\<close>

definition make_gateway_engine :: "(string \<Rightarrow> string) \<Rightarrow> (string \<Rightarrow> string \<Rightarrow> string) \<Rightarrow> string \<Rightarrow> string \<times> bool" where
  "make_gateway_engine backend_name set_driver dsn =
     (if backend_name dsn = ''postgresql'' then (set_driver dsn ''postgresql+psycopg'', True) else (dsn, False))"

text \<open>\<open>{s.name: s.secret for s in sources}\<close>; a request can only name a source by a text.\<close>

definition source_dict :: "ingest_source list \<Rightarrow> (pyval \<times> pyval) list" where
  "source_dict ss = fold (\<lambda>s acc. AList.update (is_name s) (is_secret s) acc) ss []"

definition source_secrets :: "app_config \<Rightarrow> (string \<times> string) list" where
  "source_secrets c =
     List.map_filter (\<lambda>kv. case kv of (PStr n, PStr s) \<Rightarrow> Some (n, s) | _ \<Rightarrow> None) (source_dict (ig_sources (ac_ingest c)))"

record ingest_settings =
  is_budget_defaults :: dict
  is_correlation_window :: pyval

definition gateway_ingest_settings :: "app_config \<Rightarrow> ingest_settings" where
  "gateway_ingest_settings c =
     (let b = ac_budget_defaults c in
      \<lparr>is_budget_defaults = [(''max_rounds'', bd_max_rounds b), (''max_cost_usd'', bd_max_cost_usd b),
         (''max_wall_seconds'', bd_max_wall_seconds b)],
       is_correlation_window = ig_correlation_window_seconds (ac_ingest c)\<rparr>)"

definition gateway_build_app :: "(string \<Rightarrow> pyval res) \<Rightarrow> environ \<Rightarrow> (app_config \<times> (string \<times> string) list \<times> ingest_settings) res" where
  "gateway_build_app yaml env =
     bind_res (load_config yaml env (env_or env ''DBAGENT_GATEWAY_CONFIG'' DEFAULT_CONFIG_PATH)) (\<lambda>c.
       Inr (c, source_secrets c, gateway_ingest_settings c))"

text \<open>The request that starts the workflow of a case\<close>

record workflow_request =
  wr_type :: string
  wr_input :: dict
  wr_id :: string
  wr_task_queue :: pyval

definition start_investigation :: "pyval \<Rightarrow> dict \<Rightarrow> uuid \<Rightarrow> workflow_request" where
  "start_investigation task_queue event iid =
     \<lparr>wr_type = ''InvestigationWorkflow'',
      wr_input = [(''event'', PDict event), (''investigation_id'', PStr (uuid_str iid))],
      wr_id = ''investigation-'' @ uuid_str iid, wr_task_queue = task_queue\<rparr>"

record serve_settings =
  ss_host :: string
  ss_port :: int
  ss_workers :: int
  ss_limit_concurrency :: int
  ss_timeout_keep_alive :: int
  ss_backlog :: int

definition gateway_main :: "environ \<Rightarrow> serve_settings res" where
  "gateway_main env =
     bind_res (reject_legacy_env env) (\<lambda>_.
     bind_res (env_int env ''DBAGENT_GATEWAY_PORT'' ''8080'') (\<lambda>port.
     bind_res (env_int env ''DBAGENT_GATEWAY_WORKERS'' ''4'') (\<lambda>workers.
     bind_res (parse_positive_int_env (map_of env ''DBAGENT_GATEWAY_MAX_CONNECTIONS_PER_WORKER'') 150) (\<lambda>conns.
     bind_res (parse_positive_int_env (map_of env ''DBAGENT_GATEWAY_TIMEOUT_KEEP_ALIVE'') 5) (\<lambda>keep.
       Inr \<lparr>ss_host = env_or env ''DBAGENT_GATEWAY_HOST'' ''0.0.0.0'', ss_port = port, ss_workers = workers,
            ss_limit_concurrency = conns, ss_timeout_keep_alive = keep, ss_backlog = 2048\<rparr>)))))"

section \<open>The dashboard\<close>

text \<open>Settings that are not text where text is needed are taken as empty or absent.\<close>

definition dashboard_app_config :: "app_config \<Rightarrow> dash_config res" where
  "dashboard_app_config c =
     (let d = ac_dashboard c in
      if \<not> truthy (db_jwt_secret d) then Inl (OtherError ''SystemExit: dashboard.jwt_secret is empty; set DASHBOARD_JWT_SECRET / dashboard.jwt_secret'')
      else bind_res (subsection_of (ac_raw c) ''notifications'') (\<lambda>n.
           bind_res (elements_of n ''outbound_webhooks'') (\<lambda>whs.
             Inr \<lparr>jwt_secret = as_str (db_jwt_secret d), token_ttl_seconds = db_token_ttl_seconds d,
                  password_min_length = nat (db_password_min_length d), notification_webhooks = whs\<rparr>)))"

definition dashboard_build_app :: "(string \<Rightarrow> pyval res) \<Rightarrow> environ \<Rightarrow> (app_config \<times> dash_config) res" where
  "dashboard_build_app yaml env =
     bind_res (load_config yaml env (env_or env ''DBAGENT_DASHBOARD_CONFIG'' DEFAULT_CONFIG_PATH)) (\<lambda>c.
     bind_res (dashboard_app_config c) (\<lambda>dc. Inr (c, dc)))"

text \<open>The job that creates the administrator: its exit code and the database\<close>

definition bootstrap_admin_main :: "dash_env \<Rightarrow> environ \<Rightarrow> (string \<Rightarrow> pyval res) \<Rightarrow> string option \<Rightarrow> db \<Rightarrow> (int \<times> db) res" where
  "bootstrap_admin_main E env yaml arg d =
     bind_res (reject_legacy_env env) (\<lambda>_.
       let uname = str_strip (env_or env ''ADMIN_USERNAME'' []); password = env_or env ''ADMIN_INITIAL_PASSWORD'' [] in
       if uname = [] \<or> password = [] then Inr (2, d)
       else bind_res (load_config yaml env (case arg of Some p \<Rightarrow> p | None \<Rightarrow> env_or env ''DBAGENT_DASHBOARD_CONFIG'' DEFAULT_CONFIG_PATH)) (\<lambda>_.
            bind_res (bootstrap_admin E uname password d) (\<lambda>(_, d'). Inr (0, d'))))"

section \<open>The worker\<close>

text \<open>The production client of the models: a trace store, no sink\<close>

definition build_llm_client :: "app_config \<Rightarrow> 's llm \<Rightarrow> 's llm" where
  "build_llm_client c backend =
     backend\<lparr>l_trace := True, l_sink := None, l_tracing_backend := as_str (tr_backend (ac_tracing c))\<rparr>"

text \<open>The signer: the mounted key, or a generated one when the configuration allows it\<close>

definition build_signer ::
  "(string \<Rightarrow> bool) \<Rightarrow> (string \<Rightarrow> string) \<Rightarrow> file_faults \<Rightarrow> string \<Rightarrow> string \<Rightarrow> app_config \<Rightarrow> (key_files, string) io" where
  "build_signer valid public env generated ephemeral c =
     try_io (bootstrap_signing_key valid public env generated)
       (\<lambda>e. case e of
          OSError m \<Rightarrow> if sg_allow_ephemeral (ac_signing c) then ret ephemeral else fail e
        | _ \<Rightarrow> fail e)"

record worker_settings =
  wk_task_queue :: pyval
  wk_workflows :: "string list"
  wk_probe_url :: pyval
  wk_probe_timeout :: pyval

definition worker_main :: "(string \<Rightarrow> pyval res) \<Rightarrow> environ \<Rightarrow> (app_config \<times> worker_settings) res" where
  "worker_main yaml env =
     bind_res (reject_legacy_env env) (\<lambda>_.
     bind_res (load_config yaml env (env_or env ''DBAGENT_WORKER_CONFIG'' DEFAULT_CONFIG_PATH)) (\<lambda>c.
       Inr (c, \<lparr>wk_task_queue = tm_task_queue (ac_temporal c), wk_workflows = [''PingWorkflow'', ''InvestigationWorkflow''],
                wk_probe_url = pg_url (ac_probe_gateway c), wk_probe_timeout = pg_timeout_seconds (ac_probe_gateway c)\<rparr>)))"

section \<open>Properties\<close>

text \<open>The worker signs with the key that lies at the configured path, unless the configuration allows an ephemeral one; an
  unusable path otherwise stops the start.\<close>

theorem signer_fails_closed:
  assumes "build_signer valid public env generated ephemeral c fs = (r, fs')"
  shows "(\<forall>k. r = Inr k \<longrightarrow> key_file fs' = Some k \<or> sg_allow_ephemeral (ac_signing c) \<and> k = ephemeral) \<and>
    (key_file fs = None \<and> \<not> key_writable env \<and> \<not> sg_allow_ephemeral (ac_signing c) \<longrightarrow> r = Inl (OSError ''key'') \<and> fs' = fs)"
  using assms unfolding build_signer_def try_io_def
  by (auto simp: bootstrap_signing_key_def bind_io_def lift_io_def load_signer_def write_public_key_sidecar_def Let_def ret_def fail_def
      split: option.splits prod.splits sum.splits pyexc.splits if_splits)

theorem signer_fails_closed_witness:
  "build_signer (\<lambda>_. True) id (no_faults\<lparr>key_writable := False\<rparr>) ''g'' ''e'' AppConfig no_files = (Inl (OSError ''key''), no_files)"
proof -
  obtain r fs' where r: "build_signer (\<lambda>_. True) id (no_faults\<lparr>key_writable := False\<rparr>) ''g'' ''e'' AppConfig no_files = (r, fs')"
    by (metis surj_pair)
  from signer_fails_closed[OF r] r show ?thesis by (simp add: no_files_def no_faults_def AppConfig_def)
qed

definition same_db :: "db \<Rightarrow> db \<Rightarrow> bool" where
  "same_db d d' \<longleftrightarrow> d' = d"

interpretation unchanged: db_order same_db
  by unfold_locales (simp_all add: same_db_def)

lemma untraced_generate:
  assumes "l_tracing_backend L = ''langfuse''"
  shows "keeps same_db (generate D L role model mt msgs iidv rnd schema)"
proof -
  have "keeps same_db (record_call D L cid role model md iidv rnd ch)" for cid md ch
    unfolding record_call_def assms by (auto intro!: unchanged.keeps_rules unchanged.keeps_llm)
  moreover have "keeps same_db (conclude L cid ch)" for cid ch
    by (auto simp: conclude_def Let_def intro!: unchanged.keeps_rules split: option.splits)
  ultimately show ?thesis unfolding generate_def Let_def by (intro unchanged.keeps_rules unchanged.keeps_attempts)
qed

text \<open>With the tracing backend set to the external service, the client that the worker builds records no call at all: whatever a
  model call costs and however it ends, the recorded spend of every case stays what it was, so the cost budget cannot be
  reached.\<close>

theorem external_tracing_hides_spend:
  assumes "tr_backend (ac_tracing c) = PStr ''langfuse''"
    and "generate D (build_llm_client c L) role model mt msgs iidv rnd schema w = (r, w')"
  shows "spend_of iid (adb w') = spend_of iid (adb w)"
proof -
  have "l_tracing_backend (build_llm_client c L) = ''langfuse''" using assms(1) by (simp add: build_llm_client_def)
  from keepsD[OF untraced_generate[OF this] assms(2)] show ?thesis by (simp add: same_db_def)
qed

definition traced_outside :: app_config where
  "traced_outside = AppConfig\<lparr>ac_tracing := ac_tracing AppConfig\<lparr>tr_backend := PStr ''langfuse''\<rparr>\<rparr>"

theorem external_tracing_hides_spend_witness:
  "\<exists>r w'. generate demo_llm_deps (build_llm_client traced_outside demo_llm) ''rca'' ''m'' 10 [] (PStr (uuid_str 7)) (PInt 1) None demo_llm_world =
     (r, w') \<and> spend_of 7 (adb w') = 0"
proof -
  obtain r w' where g: "generate demo_llm_deps (build_llm_client traced_outside demo_llm) ''rca'' ''m'' 10 [] (PStr (uuid_str 7)) (PInt 1) None
      demo_llm_world = (r, w')" by (metis surj_pair)
  have "spend_of 7 (adb demo_llm_world) = 0" by (simp add: spend_of_def demo_llm_world_def demo_db_def empty_db_def map_filter_def)
  with external_tracing_hides_spend[OF _ g, of 7] g show ?thesis by (simp add: traced_outside_def)
qed

section \<open>The secret of a source\<close>

lemma hex_header:
  assumes "\<forall>c \<in> set h. is_hex_lower c"
  shows "strip_scheme (str_strip h) = h" "is_ascii h"
proof -
  have sp: "\<forall>c \<in> set h. \<not> is_space c" using assms by (auto simp: is_hex_lower_def is_space_def Let_def)
  then have s: "str_strip h = h" unfolding str_strip_def by (intro strip_by_id) (auto dest: hd_in_set last_in_set)
  have "\<not> starts_with ''sha256='' (str_lower h)"
  proof
    assume "starts_with ''sha256='' (str_lower h)"
    then have "CHR ''='' \<in> set (str_lower h)" by (auto simp: starts_with_iff)
    then obtain c where c: "c \<in> set h" "lower_char c = CHR ''=''" by (auto simp: str_lower_def)
    have "c = CHR ''=''" using lower_char_fix[OF c(2)] by (simp add: code_point_def)
    then show False using c(1) assms by (auto simp: is_hex_lower_def code_point_def)
  qed
  then show "strip_scheme (str_strip h) = h" by (simp add: s strip_scheme_def)
  show "is_ascii h" using assms by (auto simp: is_ascii_def list_all_iff is_hex_lower_def Let_def)
qed

text \<open>A configuration whose source takes its secret from the environment\<close>

definition secret_file :: pyval where
  "secret_file = PDict [(''ingest'', PDict [(''sources'', PList [PDict [(''name'', PStr ''prom''), (''secret'', PStr ''${PROM_SECRET}'')]])])]"

lemma secret_file_sources:
  assumes "map_of env ''PROM_SECRET'' = None"
  shows "\<exists>c. load_config (\<lambda>_. Inr secret_file) env path = Inr c \<and> source_secrets c = [(''prom'', [])]"
proof -
  have n: "is_name_char c \<longleftrightarrow> code_point c \<in> {48..57} \<union> {65..90} \<union> {97..122} \<or> c = CHR ''_''" for c
    by (auto simp: is_name_char_def is_name_start_def is_digit_def Let_def)
  have "interpolate_str env (''${'' @ ''PROM_SECRET'' @ ''}'') = []"
    by (rule unset_reference) (use assms in \<open>simp_all add: n is_name_start_def code_point_def\<close>)
  moreover have "interpolate_str env ''prom'' = ''prom''"
    by (simp add: interpolate_str_def env_ref_def starts_with_def)
  ultimately have i: "interpolate env secret_file =
      PDict [(''ingest'', PDict [(''sources'', PList [PDict [(''name'', PStr ''prom''), (''secret'', PStr [])]])])]"
    by (simp add: secret_file_def)
  have "truthy secret_file" by (simp add: secret_file_def)
  then show ?thesis
    by (simp add: load_config_def parse_config_def i read_config_def subsection_of_def elements_of_def py_or_def parse_source_def ditem_def
        parse_ingest_def parse_dashboard_def dget_or_def validate_egress_policy_def source_secrets_def source_dict_def List.map_filter_def)
qed

text \<open>A source whose secret refers to an environment variable that is not set is loaded with an empty secret, and the gateway
  then accepts every event of that source that is signed with the empty key, which anybody can do.  (The dashboard refuses
  to start with an empty secret.)\<close>

theorem unset_secret_accepts_unkeyed:
  assumes "map_of env ''PROM_SECRET'' = None" "json_loads body = Some raw" "raw_source raw = Some ''prom''"
    and "hmac [] body \<noteq> []" "\<forall>c \<in> set (hmac [] body). is_hex_lower c"
  shows "\<exists>c. load_config (\<lambda>_. Inr secret_file) env path = Inr c \<and>
    post_events hmac json_loads (source_secrets c) ingest body (Some (hmac [] body)) hdr = Answer (ingest raw)"
proof -
  obtain c where c: "load_config (\<lambda>_. Inr secret_file) env path = Inr c" "source_secrets c = [(''prom'', [])]"
    using secret_file_sources[OF assms(1)] by blast
  have u: "utf8 [] = []" by (simp add: utf8_def)
  have "verify_signature hmac body (Some (hmac [] body)) [] = Inr ()"
    unfolding verify_Inr_iff compute_signature_def u using assms(4) hex_header[OF assms(5)] by auto
  moreover have "request_source raw hdr = Some ''prom''" "with_source raw (Some ''prom'') = raw"
    using assms(3) by (simp_all add: request_source_def with_source_def)
  ultimately have "post_events hmac json_loads (source_secrets c) ingest body (Some (hmac [] body)) hdr = Answer (ingest raw)"
    unfolding post_events_Answer_iff c(2) using assms(2) by auto
  then show ?thesis using c(1) by blast
qed

theorem unset_secret_accepts_unkeyed_witness:
  "\<exists>c. load_config (\<lambda>_. Inr secret_file) [] [] = Inr c \<and>
    post_events (\<lambda>k m. ''a0'') (\<lambda>b. Some (demo_raw\<lparr>raw_source := Some ''prom''\<rparr>)) (source_secrets c) id ''{}'' (Some ''a0'') None =
      Answer (demo_raw\<lparr>raw_source := Some ''prom''\<rparr>)"
  using unset_secret_accepts_unkeyed[of "[]" "\<lambda>b. Some (demo_raw\<lparr>raw_source := Some ''prom''\<rparr>)" "''{}''" "demo_raw\<lparr>raw_source := Some ''prom''\<rparr>"
      "\<lambda>k m. ''a0''" "[]" id None]
  by (simp add: is_hex_lower_def code_point_def)

end
