(* ===== verification/Affinity.thy ===== *)
theory Affinity
  imports Prelude
begin

text \<open>
  The helper that pins a database container to a set of processors (\<open>scripts/b1-affinity-helper.py\<close>): its
  arguments, the check of the labels, the walk over the process tree, and the pinning.

  The container engine, the process file system and the two affinity calls are parameters.
\<close>

section \<open>Arguments\<close>

definition RUN_LABEL_KEY :: string where
  "RUN_LABEL_KEY = ''dbagent.b1.run''"

definition ROLE_LABEL_KEY :: string where
  "ROLE_LABEL_KEY = ''dbagent.b1.role''"

definition POSTGRES_ROLE :: string where
  "POSTGRES_ROLE = ''postgres''"

definition RUN_ID_LENGTH :: nat where
  "RUN_ID_LENGTH = 32"

definition parse_run_label :: "string \<Rightarrow> string + string" where
  "parse_run_label raw =
     (case partition_char (CHR ''='') raw of
        (key, Some v) \<Rightarrow>
          if key \<noteq> RUN_LABEL_KEY then Inl (''run label must be '' @ RUN_LABEL_KEY @ ''=<run-id>, got '' @ py_repr raw)
          else if length v \<noteq> RUN_ID_LENGTH \<or> \<not> list_all is_hex_lower v
          then Inl (''run id must be '' @ nat_str RUN_ID_LENGTH @ '' lowercase hex characters, got '' @ py_repr v)
          else Inr v
      | (_, None) \<Rightarrow> Inl (''run label must be '' @ RUN_LABEL_KEY @ ''=<run-id>, got '' @ py_repr raw))"

definition isdecimal :: "string \<Rightarrow> bool" where
  "isdecimal s \<longleftrightarrow> s \<noteq> [] \<and> list_all is_digit s"

definition dec_val :: "string \<Rightarrow> nat" where
  "dec_val s = fold (\<lambda>c n. n * 10 + (code_point c - 48)) s 0"

text \<open>The two ends of an element of the list\<close>

definition cpu_bounds :: "string \<Rightarrow> string + nat \<times> nat" where
  "cpu_bounds part =
     (if part \<noteq> str_strip part \<or> part = [] then Inl (''malformed CPU-list element '' @ py_repr part)
      else
        (case (case split_char (CHR ''-'') part of [b] \<Rightarrow> Some (b, b) | [lo, hi] \<Rightarrow> Some (lo, hi) | _ \<Rightarrow> None) of
           None \<Rightarrow> Inl (''malformed CPU-list range '' @ py_repr part)
         | Some (lo, hi) \<Rightarrow>
             if \<not> (isdecimal lo \<and> isdecimal hi) then Inl (''non-decimal CPU id in '' @ py_repr part)
             else if dec_val hi < dec_val lo then Inl (''inverted CPU-list range '' @ py_repr part)
             else Inr (dec_val lo, dec_val hi)))"

fun add_cpus :: "string \<Rightarrow> nat list \<Rightarrow> nat list \<Rightarrow> string + nat list" where
  "add_cpus raw cpus [] = Inr cpus"
| "add_cpus raw cpus (c # cs) =
     (if c \<in> set cpus then Inl (''duplicate CPU id '' @ nat_str c @ '' in '' @ py_repr raw) else add_cpus raw (c # cpus) cs)"

fun add_parts :: "string \<Rightarrow> nat list \<Rightarrow> string list \<Rightarrow> string + nat list" where
  "add_parts raw cpus [] = Inr cpus"
| "add_parts raw cpus (p # ps) =
     bind_res (cpu_bounds p) (\<lambda>(lo, hi). bind_res (add_cpus raw cpus [lo..<hi + 1]) (\<lambda>cpus'. add_parts raw cpus' ps))"

definition parse_cpu_list :: "string \<Rightarrow> string + nat list" where
  "parse_cpu_list raw =
     (let stripped = str_strip raw in
      if stripped = [] then Inl ''CPU list is empty''
      else bind_res (add_parts raw [] (split_char (CHR '','') stripped)) (\<lambda>cpus. Inr (sort cpus)))"

section \<open>The container\<close>

text \<open>What the engine reports of a container: its labels and its attributes\<close>

record container =
  ct_labels :: "(string \<times> string) list"
  ct_attrs :: pyval

definition repr_opt :: "string option \<Rightarrow> string" where
  "repr_opt v = (case v of None \<Rightarrow> ''None'' | Some s \<Rightarrow> py_repr s)"

text \<open>A refusal, or an exception that is not one\<close>

datatype pin_fault = PinError string | PinRaised pyexc

definition resolve_postgres_root_pid :: "(rat \<Rightarrow> string) \<Rightarrow> string \<Rightarrow> string \<Rightarrow> container \<Rightarrow> pin_fault + nat" where
  "resolve_postgres_root_pid fr cid run_id ct =
     (let run = map_of (ct_labels ct) RUN_LABEL_KEY; role = map_of (ct_labels ct) ROLE_LABEL_KEY in
      if run \<noteq> Some run_id
      then Inl (PinError (''container '' @ cid @ '' carries '' @ RUN_LABEL_KEY @ ''='' @ repr_opt run @ '', not the current run '' @ py_repr run_id))
      else if role \<noteq> Some POSTGRES_ROLE
      then Inl (PinError (''container '' @ cid @ '' carries '' @ ROLE_LABEL_KEY @ ''='' @ repr_opt role @ '', not '' @ py_repr POSTGRES_ROLE))
      else
        (case bind_res (py_get (py_or (ct_attrs ct) (PDict [])) ''State'') (\<lambda>st. py_get (py_or st (PDict [])) ''Pid'') of
           Inl e \<Rightarrow> Inl (PinRaised e)
         | Inr (PInt p) \<Rightarrow>
             if 0 < p then Inr (nat p) else Inl (PinError (''container '' @ cid @ '' reports no live host pid ('' @ int_str p @ '')''))
         | Inr v \<Rightarrow> Inl (PinError (''container '' @ cid @ '' reports no live host pid ('' @ repr_val fr v @ '')''))))"

section \<open>The process tree\<close>

text \<open>What reading the tasks of a process gives: no such directory, an error, or the children text of each task, which may
  itself be unreadable.  Every process is read at most once in a walk.\<close>

datatype task_dir = Gone | Unreadable | Tasks "string option list"

text \<open>\<open>str.split()\<close>\<close>

fun ws_fields :: "string \<Rightarrow> string list" where
  "ws_fields [] = []"
| "ws_fields (c # s) =
     (if is_space c then ws_fields s
      else (case s of
              [] \<Rightarrow> [[c]]
            | d # _ \<Rightarrow> if is_space d then [c] # ws_fields s
                       else (case ws_fields s of [] \<Rightarrow> [[c]] | w # ws \<Rightarrow> (c # w) # ws)))"

definition child_pids :: "string option list \<Rightarrow> nat list" where
  "child_pids ts = concat (map (\<lambda>t. case t of None \<Rightarrow> [] | Some txt \<Rightarrow> map dec_val (filter isdecimal (ws_fields txt))) ts)"

definition children_of :: "(nat \<Rightarrow> task_dir) \<Rightarrow> nat \<Rightarrow> nat list" where
  "children_of proc p = (case proc p of Tasks ts \<Rightarrow> child_pids ts | _ \<Rightarrow> [])"

text \<open>The loop of the walk; it may run forever when there is always another process, and not returning is \<open>None\<close>.\<close>

partial_function (option) walk_loop :: "(nat \<Rightarrow> task_dir) \<Rightarrow> nat list \<Rightarrow> nat list \<Rightarrow> nat list \<Rightarrow> nat list option" where
  "walk_loop proc seen known pending =
     (if pending = [] then Some seen
      else if last pending \<in> set known then walk_loop proc seen known (butlast pending)
      else if proc (last pending) = Gone then walk_loop proc seen (last pending # known) (butlast pending)
      else walk_loop proc (seen @ [last pending]) (last pending # known) (butlast pending @ children_of proc (last pending)))"

definition walk_process_tree :: "(nat \<Rightarrow> task_dir) \<Rightarrow> nat \<Rightarrow> nat list option" where
  "walk_process_tree proc root_pid = map_option sort (walk_loop proc [] [] [root_pid])"

section \<open>Pinning\<close>

datatype os_fault = ProcessLookupError | OSFault string

record 's affinity_calls =
  set_affinity :: "'s \<Rightarrow> nat \<Rightarrow> nat list \<Rightarrow> (os_fault + unit) \<times> 's"
  get_affinity :: "'s \<Rightarrow> nat \<Rightarrow> (os_fault + nat list) \<times> 's"

datatype pin_outcome = Pinned | Vanished | PinFailed string

definition repr_ids :: "nat list \<Rightarrow> string" where
  "repr_ids xs = ''['' @ str_join '', '' (map nat_str xs) @ '']''"

definition pin_one :: "'s affinity_calls \<Rightarrow> nat list \<Rightarrow> nat \<Rightarrow> 's \<Rightarrow> pin_outcome \<times> 's" where
  "pin_one os cpus pid s =
     (case set_affinity os s pid cpus of
        (Inl ProcessLookupError, s1) \<Rightarrow> (Vanished, s1)
      | (Inl (OSFault m), s1) \<Rightarrow> (PinFailed (''cannot set affinity of live pid '' @ nat_str pid @ '': '' @ m), s1)
      | (Inr _, s1) \<Rightarrow>
          (case get_affinity os s1 pid of
             (Inl ProcessLookupError, s2) \<Rightarrow> (Vanished, s2)
           | (Inl (OSFault m), s2) \<Rightarrow> (PinFailed (''cannot read back affinity of live pid '' @ nat_str pid @ '': '' @ m), s2)
           | (Inr observed, s2) \<Rightarrow>
               if set observed = set cpus then (Pinned, s2)
               else (PinFailed (''pid '' @ nat_str pid @ '' read back cpus '' @ repr_ids (sort (remdups observed)) @
                 '', declared '' @ repr_ids (sort (remdups cpus))), s2)))"

fun pin_members :: "'s affinity_calls \<Rightarrow> nat list \<Rightarrow> nat list \<Rightarrow> 's \<Rightarrow> (string + nat list) \<times> 's" where
  "pin_members os cpus [] s = (Inr [], s)"
| "pin_members os cpus (p # ps) s =
     (case pin_one os cpus p s of
        (PinFailed m, s1) \<Rightarrow> (Inl m, s1)
      | (Vanished, s1) \<Rightarrow> pin_members os cpus ps s1
      | (Pinned, s1) \<Rightarrow> (case pin_members os cpus ps s1 of (Inl m, s2) \<Rightarrow> (Inl m, s2) | (Inr qs, s2) \<Rightarrow> (Inr (p # qs), s2)))"

definition pin_tree ::
  "(nat \<Rightarrow> task_dir) \<Rightarrow> 's affinity_calls \<Rightarrow> nat \<Rightarrow> nat list \<Rightarrow> 's \<Rightarrow> ((string + nat list) \<times> 's) option" where
  "pin_tree proc os root_pid cpus s =
     map_option (\<lambda>members.
       if root_pid \<notin> set members then (Inl (''postgres root pid '' @ nat_str root_pid @ '' is not live''), s)
       else case pin_members os cpus members s of
         (Inl m, s1) \<Rightarrow> (Inl m, s1)
       | (Inr ps, s1) \<Rightarrow>
           if ps = [] then (Inl (''no live member of the tree rooted at '' @ nat_str root_pid @ '' could be pinned''), s1) else (Inr ps, s1))
       (walk_process_tree proc root_pid)"

text \<open>The command: the exit code, the exception, or no end when the walk does not end\<close>

definition pin_postgres ::
  "(rat \<Rightarrow> string) \<Rightarrow> (string \<Rightarrow> container) \<Rightarrow> (nat \<Rightarrow> task_dir) \<Rightarrow> 's affinity_calls \<Rightarrow> string \<Rightarrow> string \<Rightarrow> string \<Rightarrow> 's \<Rightarrow>
   ((pyexc + int) \<times> 's) option" where
  "pin_postgres fr engine proc os cid cpu_list run_label s =
     (case bind_res (parse_run_label run_label) (\<lambda>run_id. bind_res (parse_cpu_list cpu_list) (\<lambda>cpus. Inr (run_id, cpus))) of
        Inl m \<Rightarrow> Some (Inr 1, s)
      | Inr (run_id, cpus) \<Rightarrow>
          (case resolve_postgres_root_pid fr cid run_id (engine cid) of
             Inl (PinError m) \<Rightarrow> Some (Inr 1, s)
           | Inl (PinRaised e) \<Rightarrow> Some (Inl e, s)
           | Inr root_pid \<Rightarrow>
               map_option (\<lambda>(r, s1). (case r of Inl m \<Rightarrow> Inr 1 | Inr ps \<Rightarrow> Inr 0, s1)) (pin_tree proc os root_pid cpus s)))"

section \<open>The walk ends\<close>

lemma butlast_last: "xs \<noteq> [] \<Longrightarrow> set xs = insert (last xs) (set (butlast xs))"
  by (metis append_butlast_last_id insert_is_Un list.set(1) list.simps(15) set_append sup_commute)

lemma walk_loop_ends:
  assumes bound: "\<And>p c. c \<in> set (children_of proc p) \<Longrightarrow> c < N"
  shows "set pending \<subseteq> {..<N} \<Longrightarrow> \<exists>out. walk_loop proc seen known pending = Some out"
proof (induction "card ({..<N} - set known)" arbitrary: seen known pending rule: less_induct)
  case less
  show ?case using less.prems
  proof (induction "length pending" arbitrary: pending rule: less_induct)
    case inner: less
    show ?case
    proof (cases "pending = []")
      case True
      then show ?thesis by (simp add: walk_loop.simps)
    next
      case False
      let ?p = "last pending"
      have sub: "set (butlast pending) \<subseteq> {..<N}" "?p < N" using inner.prems butlast_last[OF False] by auto
      show ?thesis
      proof (cases "?p \<in> set known")
        case True
        have "\<exists>out. walk_loop proc seen known (butlast pending) = Some out" using inner.hyps sub(1) False by simp
        then show ?thesis using False True by (subst walk_loop.simps) simp
      next
        case new: False
        have less_card: "card ({..<N} - set (?p # known)) < card ({..<N} - set known)"
          using new sub(2) by (intro psubset_card_mono) auto
        have "\<exists>out. walk_loop proc seen (?p # known) (butlast pending) = Some out"
          "\<exists>out. walk_loop proc (seen @ [?p]) (?p # known) (butlast pending @ children_of proc ?p) = Some out"
          using sub(1) bound by (auto intro!: less.hyps[OF less_card])
        then show ?thesis using False new by (subst walk_loop.simps) simp
      qed
    qed
  qed
qed

text \<open>C40: The walk over the process tree ends with a result whenever process ids are bounded, as they are on every system: however the
  children that the processes report form cycles or name processes that are gone.\<close>

theorem walk_process_tree_ends:
  assumes "\<And>p c. c \<in> set (children_of proc p) \<Longrightarrow> c < pid_max" "root_pid < pid_max"
  shows "\<exists>members. walk_process_tree proc root_pid = Some members"
  using walk_loop_ends[of proc pid_max "[root_pid]" "[]" "[]"] assms by (auto simp: walk_process_tree_def)

theorem walk_process_tree_ends_witness:
  "\<exists>members. walk_process_tree (\<lambda>p. if p < 4 then Tasks [Some ''3 1 7'', None] else Gone) 3 = Some members"
proof -
  let ?proc = "\<lambda>p. if p < (4::nat) then Tasks [Some ''3 1 7'', None] else Gone"
  have f: "child_pids [Some ''3 1 7'', None] = [3, 1, 7]" by code_simp
  have "c < 8" if "c \<in> set (children_of ?proc p)" for p c
    using that by (auto simp: children_of_def f split: if_splits)
  from walk_process_tree_ends[of ?proc 8 3, OF this] show ?thesis by simp
qed

section \<open>The walk finds the live tree\<close>

text \<open>A process is in the tree when it is live and is the root, or a child of one that is in the tree.\<close>

inductive in_tree :: "(nat \<Rightarrow> task_dir) \<Rightarrow> nat \<Rightarrow> nat \<Rightarrow> bool" for proc root_pid where
  Root: "proc root_pid \<noteq> Gone \<Longrightarrow> in_tree proc root_pid root_pid"
| Child: "in_tree proc root_pid p \<Longrightarrow> c \<in> set (children_of proc p) \<Longrightarrow> proc c \<noteq> Gone \<Longrightarrow> in_tree proc root_pid c"

definition walk_inv :: "(nat \<Rightarrow> task_dir) \<Rightarrow> nat \<Rightarrow> nat list \<Rightarrow> nat list \<Rightarrow> nat list \<Rightarrow> bool" where
  "walk_inv proc root_pid seen known pending \<longleftrightarrow>
     distinct seen \<and> set seen \<subseteq> set known \<and> (\<forall>p \<in> set known. p \<in> set seen \<or> proc p = Gone) \<and>
     (\<forall>p \<in> set seen. in_tree proc root_pid p \<and> set (children_of proc p) \<subseteq> set known \<union> set pending) \<and>
     (\<forall>p \<in> set pending. proc p \<noteq> Gone \<longrightarrow> in_tree proc root_pid p) \<and> root_pid \<in> set known \<union> set pending"

lemma walk_inv_done:
  assumes "walk_inv proc root_pid seen known []"
  shows "set seen = Collect (in_tree proc root_pid)"
proof
  show "set seen \<subseteq> Collect (in_tree proc root_pid)" using assms by (auto simp: walk_inv_def)
  have "p \<in> set seen" if "in_tree proc root_pid p" for p
    using that by induction (use assms in \<open>auto simp: walk_inv_def\<close>)
  then show "Collect (in_tree proc root_pid) \<subseteq> set seen" by blast
qed

lemma walk_inv_step:
  assumes "walk_inv proc root_pid seen known pending" "pending \<noteq> []"
  shows "last pending \<in> set known \<Longrightarrow> walk_inv proc root_pid seen known (butlast pending)"
    and "proc (last pending) = Gone \<Longrightarrow> walk_inv proc root_pid seen (last pending # known) (butlast pending)"
    and "last pending \<notin> set known \<Longrightarrow> proc (last pending) \<noteq> Gone \<Longrightarrow>
      walk_inv proc root_pid (seen @ [last pending]) (last pending # known) (butlast pending @ children_of proc (last pending))"
proof -
  note set_pending = butlast_last[OF assms(2)]
  show "last pending \<in> set known \<Longrightarrow> walk_inv proc root_pid seen known (butlast pending)"
    using assms(1) set_pending unfolding walk_inv_def by auto
  show "proc (last pending) = Gone \<Longrightarrow> walk_inv proc root_pid seen (last pending # known) (butlast pending)"
    using assms(1) set_pending unfolding walk_inv_def by auto
  assume new: "last pending \<notin> set known" "proc (last pending) \<noteq> Gone"
  have "in_tree proc root_pid (last pending)" using assms(1) set_pending new(2) unfolding walk_inv_def by auto
  then show "walk_inv proc root_pid (seen @ [last pending]) (last pending # known) (butlast pending @ children_of proc (last pending))"
    using assms(1) set_pending new unfolding walk_inv_def by (auto intro: in_tree.Child)
qed

lemma walk_loop_tree:
  assumes "walk_loop proc seen known pending = Some out"
  shows "walk_inv proc root_pid seen known pending \<longrightarrow> distinct out \<and> set out = Collect (in_tree proc root_pid)"
proof (rule walk_loop.raw_induct[OF _ assms,
      where P = "\<lambda>proc seen known pending out. walk_inv proc root_pid seen known pending \<longrightarrow>
        distinct out \<and> set out = Collect (in_tree proc root_pid)"])
  fix loop proc seen known pending out
  assume IH: "\<And>proc seen known pending out. loop proc seen known pending = Some out \<Longrightarrow>
      walk_inv proc root_pid seen known pending \<longrightarrow> distinct out \<and> set out = Collect (in_tree proc root_pid)"
    and body: "(if pending = [] then Some seen
      else if last pending \<in> set known then loop proc seen known (butlast pending)
      else if proc (last pending) = Gone then loop proc seen (last pending # known) (butlast pending)
      else loop proc (seen @ [last pending]) (last pending # known) (butlast pending @ children_of proc (last pending))) = Some out"
  show "walk_inv proc root_pid seen known pending \<longrightarrow> distinct out \<and> set out = Collect (in_tree proc root_pid)"
  proof
    assume inv0: "walk_inv proc root_pid seen known pending"
    show "distinct out \<and> set out = Collect (in_tree proc root_pid)"
    proof (cases "pending = []")
      case True
      then have "seen = out" using body by simp
      moreover have "distinct seen" using inv0 by (simp add: walk_inv_def)
      ultimately show ?thesis using walk_inv_done inv0 True by blast
    next
      case False
      then show ?thesis using body walk_inv_step[OF inv0 False] IH by (auto split: if_splits)
    qed
  qed
qed

lemma walk_process_tree_complete_set:
  assumes "walk_process_tree proc root_pid = Some members"
  shows "set members = Collect (in_tree proc root_pid)" "distinct members" "sorted members"
proof -
  obtain out where out: "walk_loop proc [] [] [root_pid] = Some out" "members = sort out"
    using assms by (auto simp: walk_process_tree_def)
  have "walk_inv proc root_pid [] [] [root_pid]" by (auto simp: walk_inv_def intro: in_tree.Root)
  with walk_loop_tree[OF out(1)] out(2)
  show "set members = Collect (in_tree proc root_pid)" "distinct members" "sorted members" by auto
qed

text \<open>The walk returns exactly the live members of the process tree, each once and in ascending order.\<close>

theorem walk_process_tree_complete:
  assumes "walk_process_tree proc root_pid = Some members"
  shows "set members = Collect (in_tree proc root_pid) \<and> sorted members \<and> distinct members"
  using walk_process_tree_complete_set[OF assms] by blast

theorem walk_process_tree_complete_witness:
  "\<exists>members. walk_process_tree (\<lambda>p. if p = 3 then Tasks [Some ''3 4 9''] else if p = 4 then Unreadable else Gone) 3 = Some members \<and>
     3 \<in> set members \<and> 4 \<in> set members \<and> 9 \<notin> set members"
proof -
  let ?proc = "\<lambda>p::nat. if p = 3 then Tasks [Some ''3 4 9''] else if p = 4 then Unreadable else Gone"
  have f: "child_pids [Some ''3 4 9''] = [3, 4, 9]" by code_simp
  have ch: "children_of ?proc p = (if p = 3 then [3, 4, 9] else [])" for p by (simp add: children_of_def f)
  have "\<exists>out. walk_loop ?proc [] [] [3] = Some out"
    by (rule walk_loop_ends[where N = 10]) (unfold ch, auto split: if_splits)
  then obtain m where m: "walk_process_tree ?proc 3 = Some m" by (auto simp: walk_process_tree_def)
  have "in_tree ?proc 3 3" by (rule in_tree.Root) simp
  moreover from this have "in_tree ?proc 3 4" by (rule in_tree.Child) (simp_all add: ch)
  moreover have "\<not> in_tree ?proc 3 9" by (subst in_tree.simps) simp
  ultimately show ?thesis using walk_process_tree_complete[OF m] m by auto
qed

section \<open>The arguments\<close>

lemma sort_rev_distinct: "distinct xs \<Longrightarrow> sort (rev xs) = sort (xs :: nat list)"
  by (metis distinct_rev set_rev sorted_list_of_set_sort_remdups distinct_remdups_id)

lemma dec_val_snoc: "dec_val (s @ [c]) = dec_val s * 10 + (code_point c - 48)"
  by (simp add: dec_val_def)

lemma dec_val_nat_str: "dec_val (nat_str n) = n"
proof (induction n rule: nat_str.induct)
  case (1 n)
  have d: "code_point (digit_char k) - 48 = k" if "k < 10" for k
    using digit_char_facts(1,2)[OF that] by (auto simp: digit_val_def is_digit_def Let_def)
  show ?case
  proof (cases "n < 10")
    case True
    then show ?thesis by (subst nat_str.simps) (simp add: dec_val_def d)
  next
    case False
    then show ?thesis using 1 by (subst nat_str.simps) (simp add: dec_val_snoc d)
  qed
qed

lemma nat_str_plain: "isdecimal (nat_str n)" "\<forall>c \<in> set (nat_str n). is_digit c" "nat_str n \<noteq> []"
  using nat_str_digits[of n] by (simp_all add: isdecimal_def list_all_iff)

lemma no_comma: "CHR '','' \<notin> set (nat_str n)"
proof
  assume "CHR '','' \<in> set (nat_str n)"
  then have "is_digit (CHR '','')" using nat_str_plain(2) by blast
  then show False by (simp add: is_digit_def code_point_def)
qed

lemma split_char_join: "ws \<noteq> [] \<Longrightarrow> \<forall>w \<in> set ws. d \<notin> set w \<Longrightarrow> split_char d (str_join [d] ws) = ws"
proof (induction ws)
  case (Cons w ws)
  then show ?case by (cases ws) (simp_all add: split_char_plain split_char_append)
qed simp

lemma str_strip_digit: "s \<noteq> [] \<Longrightarrow> is_digit (hd s) \<Longrightarrow> is_digit (last s) \<Longrightarrow> str_strip s = s"
  unfolding str_strip_def by (rule strip_by_id) (auto dest: is_digit_facts)

lemma cpu_bounds_nat: "cpu_bounds (nat_str n) = Inr (n, n)"
proof -
  have "str_strip (nat_str n) = nat_str n" using nat_str_plain[of n] by (intro str_strip_digit) auto
  moreover have "split_char (CHR ''-'') (nat_str n) = [nat_str n]"
    using nat_str_plain(2)[of n] by (intro split_char_plain) (auto dest: is_digit_facts)
  ultimately show ?thesis using nat_str_plain[of n] by (simp add: cpu_bounds_def dec_val_nat_str)
qed

lemma add_parts_nats:
  "distinct xs \<Longrightarrow> set xs \<inter> set cpus = {} \<Longrightarrow> add_parts raw cpus (map nat_str xs) = Inr (rev xs @ cpus)"
  by (induction xs arbitrary: cpus) (auto simp: cpu_bounds_nat)

lemma join_ends:
  assumes "xs \<noteq> []"
  shows "is_digit (hd (str_join '','' (map nat_str xs)))" "is_digit (last (str_join '','' (map nat_str xs)))"
    "str_join '','' (map nat_str xs) \<noteq> []"
  using assms
proof (induction xs)
  case (Cons x xs)
  {
    case 1
    then show ?case using nat_str_plain[of x] by (cases xs) (auto simp: hd_append)
  next
    case 2
    then show ?case using nat_str_plain[of x] Cons by (cases xs) (auto simp: last_append)
  next
    case 3
    then show ?case using nat_str_plain[of x] by (cases xs) auto
  }
qed simp_all

text \<open>Every non-empty set of processors can be written as a list of ids, and reading that list gives the ids back in ascending
  order.\<close>

theorem cpu_list_round_trip:
  assumes "xs \<noteq> []" "distinct xs"
  shows "parse_cpu_list (str_join '','' (map nat_str xs)) = Inr (sort xs)"
proof -
  let ?t = "str_join '','' (map nat_str xs)"
  have "str_strip ?t = ?t" using join_ends[OF assms(1)] by (intro str_strip_digit)
  moreover have "split_char (CHR '','') ?t = map nat_str xs"
    using assms(1) no_comma by (intro split_char_join) auto
  ultimately show ?thesis using add_parts_nats[OF assms(2), of "[]"] join_ends(3)[OF assms(1)]
    by (simp add: parse_cpu_list_def Let_def sort_rev_distinct[OF assms(2)])
qed

theorem cpu_list_round_trip_witness: "parse_cpu_list (str_join '','' (map nat_str [8, 3, 12])) = Inr [3, 8, 12]"
proof -
  have "sort [8, 3, 12 :: nat] = [3, 8, 12]" by simp
  then show ?thesis using cpu_list_round_trip[of "[8, 3, 12]"] by simp
qed

section \<open>The pinning\<close>

text \<open>A run over the members in which each was narrowed and read back as declared, or was found to be gone\<close>

fun pinned_run :: "'s affinity_calls \<Rightarrow> nat list \<Rightarrow> nat list \<Rightarrow> 's \<Rightarrow> 's \<Rightarrow> bool" where
  "pinned_run os cpus [] s s' \<longleftrightarrow> s' = s"
| "pinned_run os cpus (p # ps) s s' \<longleftrightarrow>
     (\<exists>s1 s2. (set_affinity os s p cpus = (Inl ProcessLookupError, s2) \<or>
        set_affinity os s p cpus = (Inr (), s1) \<and>
          (get_affinity os s1 p = (Inl ProcessLookupError, s2) \<or>
           (\<exists>observed. get_affinity os s1 p = (Inr observed, s2) \<and> set observed = set cpus))) \<and>
      pinned_run os cpus ps s2 s')"

lemma pin_one_ok:
  assumes "pin_one os cpus p s = (r, s2)" "\<And>m. r \<noteq> PinFailed m"
  shows "\<exists>s1. set_affinity os s p cpus = (Inl ProcessLookupError, s2) \<or>
    set_affinity os s p cpus = (Inr (), s1) \<and>
      (get_affinity os s1 p = (Inl ProcessLookupError, s2) \<or>
       (\<exists>observed. get_affinity os s1 p = (Inr observed, s2) \<and> set observed = set cpus))"
  using assms unfolding pin_one_def by (auto split: prod.splits sum.splits os_fault.splits if_splits)

lemma pin_members_run: "pin_members os cpus ps s = (Inr qs, s') \<Longrightarrow> pinned_run os cpus ps s s' \<and> set qs \<subseteq> set ps"
proof (induction ps arbitrary: s qs)
  case (Cons p ps)
  obtain r s2 where one: "pin_one os cpus p s = (r, s2)" by (metis surj_pair)
  have ok: "\<And>m. r \<noteq> PinFailed m" using Cons.prems one by auto
  obtain qs' where rest: "pin_members os cpus ps s2 = (Inr qs', s')" "set qs \<subseteq> insert p (set qs')"
    using Cons.prems one ok by (cases r) (auto split: prod.splits sum.splits)
  show ?case using pin_one_ok[OF one ok] Cons.IH[OF rest(1)] rest(2) by auto
qed simp

text \<open>When the helper reports success, the container carries the label of the current run and of the database role, and every live
  member of its process tree, the root included, was narrowed to the declared processors and read back as exactly those, or
  had ended in the meantime.\<close>

theorem pin_postgres_all_or_nothing:
  assumes "pin_postgres fr engine proc os cid cpu_list run_label s = Some (Inr 0, s')"
  shows "\<exists>run_id cpus root_pid members. run_label = RUN_LABEL_KEY @ CHR ''='' # run_id \<and> parse_cpu_list cpu_list = Inr cpus \<and>
    map_of (ct_labels (engine cid)) RUN_LABEL_KEY = Some run_id \<and> map_of (ct_labels (engine cid)) ROLE_LABEL_KEY = Some POSTGRES_ROLE \<and>
    set members = Collect (in_tree proc root_pid) \<and> root_pid \<in> set members \<and> pinned_run os cpus members s s'"
proof -
  obtain run_id cpus where args: "parse_run_label run_label = Inr run_id" "parse_cpu_list cpu_list = Inr cpus"
    using assms by (auto simp: pin_postgres_def bind_res_def split: sum.splits)
  obtain root_pid where root: "resolve_postgres_root_pid fr cid run_id (engine cid) = Inr root_pid"
    and pt: "map_option (\<lambda>(r, s1). (case r of Inl m \<Rightarrow> Inr 1 | Inr ps \<Rightarrow> Inr 0, s1)) (pin_tree proc os root_pid cpus s) =
      Some (Inr 0 :: pyexc + int, s')"
    using assms args by (auto simp: pin_postgres_def split: sum.splits pin_fault.splits)
  obtain members ps where m: "walk_process_tree proc root_pid = Some members" "root_pid \<in> set members"
    "pin_members os cpus members s = (Inr ps, s')"
    using pt by (auto simp: pin_tree_def split: if_splits prod.splits sum.splits)
  have "run_label = RUN_LABEL_KEY @ CHR ''='' # run_id"
    using args(1) by (auto simp: parse_run_label_def split: prod.splits option.splits if_splits dest: partition_char_Some)
  moreover have "map_of (ct_labels (engine cid)) RUN_LABEL_KEY = Some run_id" "map_of (ct_labels (engine cid)) ROLE_LABEL_KEY = Some POSTGRES_ROLE"
    using root by (auto simp: resolve_postgres_root_pid_def Let_def split: if_splits)
  ultimately show ?thesis using args(2) walk_process_tree_complete_set[OF m(1)] m(2) pin_members_run[OF m(3)] by blast
qed

text \<open>A container with one process, on a system that does what it is told\<close>

definition demo_run_id :: string where
  "demo_run_id = replicate 32 (CHR ''a'')"

definition demo_engine :: "string \<Rightarrow> container" where
  "demo_engine = (\<lambda>_. \<lparr>ct_labels = [(RUN_LABEL_KEY, demo_run_id), (ROLE_LABEL_KEY, POSTGRES_ROLE)],
     ct_attrs = PDict [(''State'', PDict [(''Pid'', PInt 5)])]\<rparr>)"

definition demo_os :: "(nat \<Rightarrow> nat list) affinity_calls" where
  "demo_os = \<lparr>set_affinity = (\<lambda>s p c. (Inr (), s(p := c))), get_affinity = (\<lambda>s p. (Inr (s p), s))\<rparr>"

definition demo_proc :: "nat \<Rightarrow> task_dir" where
  "demo_proc p = (if p = 5 then Tasks [] else Gone)"

lemma demo_pin: "pin_postgres fr demo_engine demo_proc demo_os [] ''4'' (RUN_LABEL_KEY @ CHR ''='' # demo_run_id) (\<lambda>_. []) =
    Some (Inr 0, (\<lambda>_. [])(5 := [4]))"
proof -
  have l: "parse_run_label (RUN_LABEL_KEY @ CHR ''='' # demo_run_id) = Inr demo_run_id" by code_simp
  have c: "parse_cpu_list ''4'' = Inr [4]" by code_simp
  have r: "resolve_postgres_root_pid fr [] demo_run_id (demo_engine []) = Inr 5"
    by (simp add: resolve_postgres_root_pid_def demo_engine_def RUN_LABEL_KEY_def ROLE_LABEL_KEY_def py_or_def)
  have "walk_loop demo_proc [] [] [5] = Some [5]"
    by (subst walk_loop.simps, subst walk_loop.simps) (simp add: demo_proc_def children_of_def child_pids_def)
  then have w: "walk_process_tree demo_proc 5 = Some [5]" by (simp add: walk_process_tree_def)
  show ?thesis by (simp add: pin_postgres_def l c r pin_tree_def w pin_one_def demo_os_def)
qed

theorem pin_postgres_all_or_nothing_witness:
  "\<exists>cpus members. parse_cpu_list ''4'' = Inr cpus \<and> set members = Collect (in_tree demo_proc 5) \<and> 5 \<in> set members \<and>
     pinned_run demo_os cpus members (\<lambda>_. []) ((\<lambda>_. [])(5 := [4]))"
proof -
  obtain run_id cpus root_pid members where r: "parse_cpu_list ''4'' = Inr cpus" "set members = Collect (in_tree demo_proc root_pid)"
    "root_pid \<in> set members" "pinned_run demo_os cpus members (\<lambda>_. []) ((\<lambda>_. [])(5 := [4]))"
    using pin_postgres_all_or_nothing[OF demo_pin] by blast
  have "demo_proc p \<noteq> Gone" if "in_tree demo_proc root_pid p" for p using that by (induction) auto
  from this[of root_pid] have "root_pid = 5" using r(2,3) by (auto simp: demo_proc_def split: if_splits)
  then show ?thesis using r by blast
qed

end
