(* ===== verification/ReleaseRecord.thy ===== *)
theory ReleaseRecord
  imports Prelude
begin

text \<open>
  The release gate (\<open>scripts/check_release_bench_record.py\<close>): it reads the record of benchmark results from the
  tagged tree and authorizes the tag or names one reason why not.

  Git is a parameter: the return code and the standard output of a command.  The value of a decimal text as a
  float is a parameter too, absent when it is too large for one.  Text holds the first 256 code points, so the
  byte order mark that the parser refuses cannot occur.
\<close>

section \<open>The record\<close>

definition RECORD_PATH :: string where
  "RECORD_PATH = ''docs/runbooks/bench-on-demand-results.txt''"

definition RELEASE_REF :: string where
  "RELEASE_REF = ''origin/main''"

definition BLOCK_PREFIXES :: "string list" where
  "BLOCK_PREFIXES = [''measured_sha='', ''B1 env='', ''B11 writers='', ''B11 writer_map='', ''B11 single_writer_rate='', ''B11 env='', ''B11 diagnostics='']"

definition SEPARATOR :: string where
  "SEPARATOR = ''---''"

text \<open>A refusal with its reason, or an exception\<close>

datatype refusal = Refused string | RefusalRaised pyexc

type_synonym 'a gate_result = "refusal + 'a"

definition is_sha :: "string \<Rightarrow> bool" where
  "is_sha s \<longleftrightarrow> length s = 40 \<and> list_all is_hex_lower s"

text \<open>A block: the payload of each line by its prefix\<close>

type_synonym block = "(string \<times> string) list"

definition line_of :: "block \<Rightarrow> string \<Rightarrow> string" where
  "line_of b k = (case map_of b k of None \<Rightarrow> [] | Some v \<Rightarrow> v)"

fun groups :: "string list \<Rightarrow> string list list" where
  "groups [] = [[]]"
| "groups (l # ls) =
     (if l = SEPARATOR then [] # groups ls else (case groups ls of [] \<Rightarrow> [[l]] | g # gs \<Rightarrow> (l # g) # gs))"

definition parse_line :: "string \<times> string \<Rightarrow> (string \<times> string) gate_result" where
  "parse_line = (\<lambda>(prefix, line).
     if starts_with prefix line then Inr (prefix, drop (length prefix) line) else Inl (Refused ''record_invalid''))"

definition parse_block :: "string list \<Rightarrow> block gate_result" where
  "parse_block ls =
     (if length ls \<noteq> length BLOCK_PREFIXES then Inl (Refused ''record_invalid'')
      else bind_res (map_res parse_line (zip BLOCK_PREFIXES ls)) (\<lambda>b.
        if is_sha (line_of b ''measured_sha='') then Inr b else Inl (Refused ''record_invalid'')))"

text \<open>A final newline ends the last line and is not a line.\<close>

definition record_lines :: "string \<Rightarrow> string list" where
  "record_lines t = (let ls = split_char (CHR 0x0A) t in if last ls = [] then butlast ls else ls)"

definition parse_blocks :: "string \<Rightarrow> block list gate_result" where
  "parse_blocks t =
     (if t = [] \<or> CHR 0x0D \<in> set t \<or> record_lines t = [] then Inl (Refused ''record_invalid'')
      else map_res parse_block (groups (record_lines t)))"

text \<open>The fields of a line; the first value of a name counts.\<close>

definition parse_fields :: "string \<Rightarrow> (string \<times> string) list" where
  "parse_fields payload =
     List.map_filter (\<lambda>raw. case partition_char (CHR ''='') raw of (n, Some v) \<Rightarrow> Some (n, v) | _ \<Rightarrow> None)
       (split_char (CHR '','') payload)"

section \<open>The two benchmarks\<close>

definition B1_IDENTITY_FIELDS :: "(string \<times> string) list" where
  "B1_IDENTITY_FIELDS = [(''placement_profile'', ''product-exclusive''), (''measurement_authority'', ''product-local-reference'')]"

definition B1_GATING_VERDICT_FIELDS :: "string list" where
  "B1_GATING_VERDICT_FIELDS = [''product_errors_eq_zero'', ''product_served_eq_offered'']"

definition B1_RECORDED_VERDICT_FIELDS :: "string list" where
  "B1_RECORDED_VERDICT_FIELDS = [''product_p99_lt_150_ms'']"

fun gating_reason :: "(string \<times> string) list \<Rightarrow> string list \<Rightarrow> string option" where
  "gating_reason fields [] = None"
| "gating_reason fields (n # ns) =
     (if map_of fields n = Some ''met'' then gating_reason fields ns
      else if map_of fields n = Some ''missed'' then Some ''b1_miss'' else Some ''record_invalid'')"

definition b1_reason :: "block \<Rightarrow> string option" where
  "b1_reason b =
     (let fields = parse_fields (line_of b ''B1 env='') in
      if \<exists>(n, v) \<in> set B1_IDENTITY_FIELDS. map_of fields n \<noteq> Some v then Some ''record_invalid''
      else if map_of fields ''placement_ok'' = None then Some ''record_invalid''
      else if map_of fields ''placement_ok'' \<noteq> Some ''1'' then Some ''b1_miss''
      else case gating_reason fields B1_GATING_VERDICT_FIELDS of
        Some r \<Rightarrow> Some r
      | None \<Rightarrow>
          if \<exists>n \<in> set B1_RECORDED_VERDICT_FIELDS. map_of fields n \<notin> {Some ''met'', Some ''missed''} then Some ''record_invalid'' else None)"

definition ascii_int :: "string \<Rightarrow> bool" where
  "ascii_int s \<longleftrightarrow> s \<noteq> [] \<and> list_all is_digit s"

definition ascii_decimal :: "string \<Rightarrow> bool" where
  "ascii_decimal s =
     (let u = (case s of c # r \<Rightarrow> if c = CHR ''-'' then r else s | [] \<Rightarrow> s) in
      case partition_char (CHR ''.'') u of
        (a, None) \<Rightarrow> ascii_int a
      | (a, Some f) \<Rightarrow> ascii_int a \<and> ascii_int f)"

text \<open>\<open>int(s)\<close> of a text of digits; the interpreter refuses more than 4300 of them.\<close>

definition digits_int :: "string \<Rightarrow> int gate_result" where
  "digits_int s =
     (if 4300 < length s then Inl (RefusalRaised (ValueError ''Exceeds the limit (4300 digits) for integer string conversion''))
      else case int_of_str s of None \<Rightarrow> Inl (RefusalRaised (ValueError ''invalid literal for int()'')) | Some i \<Rightarrow> Inr i)"

definition B11_WRITERS :: int where
  "B11_WRITERS = 7"

definition B11_RATE_FLOOR :: rat where
  "B11_RATE_FLOOR = 1000"

definition b11_rate :: "(string \<Rightarrow> rat option) \<Rightarrow> block \<Rightarrow> string option" where
  "b11_rate fl b =
     (case map_of (parse_fields (line_of b ''B11 diagnostics='')) ''combined_rate_per_sec'' of
        None \<Rightarrow> Some ''record_invalid''
      | Some v \<Rightarrow>
          let r = str_strip v in
          if \<not> ascii_decimal r then Some ''record_invalid''
          else (case fl r of None \<Rightarrow> Some ''record_invalid'' | Some q \<Rightarrow> if q < B11_RATE_FLOOR then Some ''b11_miss'' else None))"

definition b11_reason :: "(string \<Rightarrow> rat option) \<Rightarrow> block \<Rightarrow> string option gate_result" where
  "b11_reason fl b =
     (let writers = str_strip (line_of b ''B11 writers='') in
      if \<not> ascii_int writers then Inr (Some ''record_invalid'')
      else bind_res (digits_int writers) (\<lambda>n.
        if n \<noteq> B11_WRITERS then Inr (Some ''b11_miss'')
        else if \<exists>k \<in> set [''B11 writer_map='', ''B11 single_writer_rate='', ''B11 env='']. str_strip (line_of b k) = []
        then Inr (Some ''record_invalid'')
        else Inr (b11_rate fl b)))"

section \<open>The decision\<close>

type_synonym git = "string list \<Rightarrow> int \<times> string"

text \<open>Reading the output as text translates every kind of line end to a newline.\<close>

fun universal_newlines :: "string \<Rightarrow> string" where
  "universal_newlines [] = []"
| "universal_newlines [c] = [if c = CHR 0x0D then CHR 0x0A else c]"
| "universal_newlines (c # d # s) =
     (if c = CHR 0x0D then (if d = CHR 0x0A then CHR 0x0A # universal_newlines s else CHR 0x0A # universal_newlines (d # s))
      else c # universal_newlines (d # s))"

definition run_git :: "git \<Rightarrow> string list \<Rightarrow> int \<times> string" where
  "run_git git args = (case git args of (rc, out) \<Rightarrow> (rc, universal_newlines out))"

definition commit_of :: "string \<Rightarrow> string" where
  "commit_of sha = sha @ ''^{commit}''"

text \<open>The first block that is unknown or that names the tagged commit\<close>

fun check_shas :: "git \<Rightarrow> string \<Rightarrow> block list \<Rightarrow> unit gate_result" where
  "check_shas git tag [] = Inr ()"
| "check_shas git tag (b # bs) =
     (if fst (run_git git [''cat-file'', ''-e'', commit_of (line_of b ''measured_sha='')]) \<noteq> 0 then Inl (Refused ''sha_unknown'')
      else if line_of b ''measured_sha='' = tag then Inl (Refused ''record_invalid'')
      else check_shas git tag bs)"

definition is_ancestor :: "git \<Rightarrow> string \<Rightarrow> string \<Rightarrow> bool" where
  "is_ancestor git a b \<longleftrightarrow> fst (run_git git [''merge-base'', ''--is-ancestor'', a, b]) = 0"

definition changed_files :: "git \<Rightarrow> string \<Rightarrow> string \<Rightarrow> string list gate_result" where
  "changed_files git a b =
     (case run_git git [''diff'', ''--name-only'', a, b] of
        (rc, out) \<Rightarrow> if rc \<noteq> 0 then Inl (Refused ''sha_unknown'') else Inr (filter (\<lambda>l. l \<noteq> []) (split_char (CHR 0x0A) out)))"

definition commit_distance :: "git \<Rightarrow> string \<Rightarrow> string \<Rightarrow> int gate_result" where
  "commit_distance git a b =
     (case run_git git [''rev-list'', ''--count'', a @ ''..'' @ b] of
        (rc, out) \<Rightarrow>
          if rc \<noteq> 0 then Inl (Refused ''sha_unknown'')
          else (case int_of_str (str_strip out) of None \<Rightarrow> Inl (RefusalRaised (ValueError ''invalid literal for int()'')) | Some n \<Rightarrow> Inr n))"

fun candidates :: "git \<Rightarrow> string \<Rightarrow> block list \<Rightarrow> (int \<times> block) list gate_result" where
  "candidates git tag [] = Inr []"
| "candidates git tag (b # bs) =
     (let m = line_of b ''measured_sha='' in
      if \<not> is_ancestor git m tag then candidates git tag bs
      else bind_res (changed_files git m tag) (\<lambda>names.
        if names \<noteq> [RECORD_PATH] then candidates git tag bs
        else bind_res (commit_distance git m tag) (\<lambda>n. bind_res (candidates git tag bs) (\<lambda>cs. Inr ((n, b) # cs)))))"

text \<open>The nearest candidate, the last of several\<close>

definition authorizing :: "(int \<times> block) list \<Rightarrow> block" where
  "authorizing cs = snd (last (filter (\<lambda>c. fst c = Min (fst ` set cs)) cs))"

definition evaluate :: "git \<Rightarrow> (string \<Rightarrow> rat option) \<Rightarrow> string \<Rightarrow> string \<Rightarrow> unit gate_result" where
  "evaluate git fl tag_sha t =
     bind_res (parse_blocks t) (\<lambda>blocks.
     case run_git git [''rev-parse'', commit_of tag_sha] of
       (rc, out) \<Rightarrow>
         if rc \<noteq> 0 then Inl (Refused ''sha_unknown'')
         else
           (let tag = str_strip out in
            if \<not> is_ancestor git tag RELEASE_REF then Inl (Refused ''not_on_main'')
            else bind_res (check_shas git tag blocks) (\<lambda>_.
              bind_res (candidates git tag blocks) (\<lambda>cs.
                if cs = [] then Inl (Refused ''record_missing'')
                else case b1_reason (authorizing cs) of
                  Some r \<Rightarrow> Inl (Refused r)
                | None \<Rightarrow> bind_res (b11_reason fl (authorizing cs)) (\<lambda>r. case r of Some x \<Rightarrow> Inl (Refused x) | None \<Rightarrow> Inr ())))))"

definition load_record :: "git \<Rightarrow> string \<Rightarrow> string option" where
  "load_record git tag_sha =
     (case run_git git [''show'', tag_sha @ '':'' @ RECORD_PATH] of (rc, out) \<Rightarrow> if rc \<noteq> 0 then None else Some out)"

text \<open>The program: authorized, or refused with the reason that is printed\<close>

definition release_gate :: "git \<Rightarrow> (string \<Rightarrow> rat option) \<Rightarrow> string \<Rightarrow> unit gate_result" where
  "release_gate git fl tag_sha =
     (case run_git git [''rev-parse'', commit_of tag_sha] of
        (rc, out) \<Rightarrow>
          if rc \<noteq> 0 then Inl (Refused ''sha_unknown'')
          else
            (let tag = str_strip out in
             case load_record git tag of
               None \<Rightarrow> Inl (Refused ''record_missing'')
             | Some t \<Rightarrow> evaluate git fl tag t))"

section \<open>What a passing gate means\<close>

text \<open>A block that measured the tagged tree but for the record, at a distance\<close>

definition candidate :: "git \<Rightarrow> string \<Rightarrow> int \<Rightarrow> block \<Rightarrow> bool" where
  "candidate git tag n b \<longleftrightarrow>
     (let m = line_of b ''measured_sha='' in
      is_ancestor git m tag \<and> changed_files git m tag = Inr [RECORD_PATH] \<and> commit_distance git m tag = Inr n)"

lemma candidates_iff: "candidates git tag bs = Inr cs \<Longrightarrow> (n, b) \<in> set cs \<longleftrightarrow> b \<in> set bs \<and> candidate git tag n b"
proof (induction bs arbitrary: cs)
  case (Cons b' bs)
  then show ?case
    by (auto simp: Let_def bind_res_Inr_iff candidate_def split: if_splits)
qed simp

lemma authorizing_nearest:
  assumes "cs \<noteq> []"
  shows "\<exists>n. (n, authorizing cs) \<in> set cs \<and> (\<forall>(k, b) \<in> set cs. n \<le> k)"
proof -
  let ?n = "Min (fst ` set cs)"
  have "?n \<in> fst ` set cs" using assms by (intro Min_in) auto
  then obtain c where "c \<in> set cs" "fst c = ?n" by (metis imageE)
  then have "filter (\<lambda>c. fst c = ?n) cs \<noteq> []" by (auto simp: filter_empty_conv)
  then have "last (filter (\<lambda>c. fst c = ?n) cs) \<in> set (filter (\<lambda>c. fst c = ?n) cs)" by (rule last_in_set)
  then have "last (filter (\<lambda>c. fst c = ?n) cs) \<in> set cs \<and> fst (last (filter (\<lambda>c. fst c = ?n) cs)) = ?n" by (simp only: set_filter mem_Collect_eq)
  then have "(?n, authorizing cs) \<in> set cs" unfolding authorizing_def by (metis prod.collapse)
  moreover have "\<forall>(k, b) \<in> set cs. ?n \<le> k" by (auto intro!: Min_le rev_image_eqI)
  ultimately show ?thesis by blast
qed

lemma b1_pass:
  assumes "b1_reason b = None"
  shows "map_of (parse_fields (line_of b ''B1 env='')) ''placement_ok'' = Some ''1''"
    "map_of (parse_fields (line_of b ''B1 env='')) ''product_errors_eq_zero'' = Some ''met''"
    "map_of (parse_fields (line_of b ''B1 env='')) ''product_served_eq_offered'' = Some ''met''"
  using assms by (auto simp: b1_reason_def Let_def B1_GATING_VERDICT_FIELDS_def split: if_splits option.splits)

lemma b11_pass:
  assumes "b11_reason fl b = Inr None"
  shows "int_of_str (str_strip (line_of b ''B11 writers='')) = Some 7"
    "\<exists>v q. map_of (parse_fields (line_of b ''B11 diagnostics='')) ''combined_rate_per_sec'' = Some v \<and> ascii_decimal (str_strip v) \<and>
       fl (str_strip v) = Some q \<and> 1000 \<le> q"
  using assms
  by (auto simp: b11_reason_def Let_def bind_res_Inr_iff digits_int_def b11_rate_def B11_WRITERS_def B11_RATE_FLOOR_def
      split: if_splits option.splits)

text \<open>C37: A tag that the gate authorizes is on the release branch, and the record holds a block that measured an ancestor whose tree
  differs from the tagged one in the record only; no other such block is nearer, and this one reports no error, everything
  offered served, a good placement, the shipped number of writers and a finite rate of at least a thousand.\<close>

theorem release_authorized:
  assumes "evaluate git fl tag_sha t = Inr ()"
  shows "\<exists>tag blocks b n v q. run_git git [''rev-parse'', commit_of tag_sha] = (0, tag) \<and> parse_blocks t = Inr blocks \<and> is_ancestor git (str_strip tag) RELEASE_REF \<and>
    b \<in> set blocks \<and> candidate git (str_strip tag) n b \<and>
    (\<forall>b' k. b' \<in> set blocks \<and> candidate git (str_strip tag) k b' \<longrightarrow> n \<le> k) \<and>
    map_of (parse_fields (line_of b ''B1 env='')) ''placement_ok'' = Some ''1'' \<and>
    map_of (parse_fields (line_of b ''B1 env='')) ''product_errors_eq_zero'' = Some ''met'' \<and>
    map_of (parse_fields (line_of b ''B1 env='')) ''product_served_eq_offered'' = Some ''met'' \<and>
    int_of_str (str_strip (line_of b ''B11 writers='')) = Some 7 \<and>
    map_of (parse_fields (line_of b ''B11 diagnostics='')) ''combined_rate_per_sec'' = Some v \<and> fl (str_strip v) = Some q \<and> 1000 \<le> q"
proof -
  obtain blocks where blocks: "parse_blocks t = Inr blocks" using assms by (auto simp: evaluate_def bind_res_Inr_iff)
  obtain rc out where git: "run_git git [''rev-parse'', commit_of tag_sha] = (rc, out)" by (metis surj_pair)
  let ?tag = "str_strip out"
  obtain cs where cs: "rc = 0" "is_ancestor git ?tag RELEASE_REF" "candidates git ?tag blocks = Inr cs" "cs \<noteq> []"
    "b1_reason (authorizing cs) = None" "b11_reason fl (authorizing cs) = Inr None"
    using assms blocks git by (auto simp: evaluate_def bind_res_Inr_iff Let_def split: if_splits option.splits)
  obtain n where n: "(n, authorizing cs) \<in> set cs" "\<forall>(k, b) \<in> set cs. n \<le> k" using authorizing_nearest[OF cs(4)] by blast
  then have "authorizing cs \<in> set blocks" "candidate git ?tag n (authorizing cs)" "\<forall>b' k. b' \<in> set blocks \<and> candidate git ?tag k b' \<longrightarrow> n \<le> k"
    using candidates_iff[OF cs(3)] by auto
  then show ?thesis using blocks git cs(1,2) b1_pass[OF cs(5)] b11_pass[OF cs(6)] by blast
qed

section \<open>Writing and reading a record\<close>

definition print_block :: "block \<Rightarrow> string list" where
  "print_block b = map (\<lambda>(k, v). k @ v) b"

fun block_list_lines :: "block list \<Rightarrow> string list" where
  "block_list_lines [] = []"
| "block_list_lines [b] = print_block b"
| "block_list_lines (b # c # bs) = print_block b @ SEPARATOR # block_list_lines (c # bs)"

definition print_blocks :: "block list \<Rightarrow> string" where
  "print_blocks bs = concat (map (\<lambda>l. l @ [CHR 0x0A]) (block_list_lines bs))"

text \<open>A block as the two runs print it\<close>

definition good_block :: "block \<Rightarrow> bool" where
  "good_block b \<longleftrightarrow> map fst b = BLOCK_PREFIXES \<and> is_sha (line_of b ''measured_sha='') \<and>
     (\<forall>(k, v) \<in> set b. CHR 0x0A \<notin> set v \<and> CHR 0x0D \<notin> set v)"

lemma parse_print_block: "good_block b \<Longrightarrow> parse_block (print_block b) = Inr b"
proof -
  assume g: "good_block b"
  have "map_res parse_line (zip (map fst b) (map (\<lambda>(k, v). k @ v) b)) = Inr b" for b :: block
    by (induction b) (auto simp: parse_line_def starts_with_def)
  from this[of b] have "map_res parse_line (zip BLOCK_PREFIXES (print_block b)) = Inr b" using g by (simp add: good_block_def print_block_def)
  moreover have "length (map fst b) = length BLOCK_PREFIXES" using g by (simp only: good_block_def)
  then have "length (print_block b) = length BLOCK_PREFIXES" by (simp add: print_block_def)
  ultimately show ?thesis using g by (simp add: parse_block_def good_block_def)
qed

lemma block_lines:
  assumes "good_block b" "l \<in> set (print_block b)"
  shows "l \<noteq> SEPARATOR" "CHR 0x0A \<notin> set l" "CHR 0x0D \<notin> set l" "l \<noteq> []"
proof -
  obtain k v where kv: "(k, v) \<in> set b" "l = k @ v" using assms(2) by (auto simp: print_block_def)
  have "set (map fst b) = set BLOCK_PREFIXES" using assms(1) by (simp add: good_block_def)
  then have "k \<in> set BLOCK_PREFIXES" using kv(1) by (force simp: image_iff)
  moreover have "CHR 0x0A \<notin> set v" "CHR 0x0D \<notin> set v" using kv(1) assms(1) unfolding good_block_def by auto
  ultimately show "l \<noteq> SEPARATOR" "CHR 0x0A \<notin> set l" "CHR 0x0D \<notin> set l" "l \<noteq> []"
    unfolding kv(2) by (auto simp: BLOCK_PREFIXES_def SEPARATOR_def)
qed

lemma groups_plain: "SEPARATOR \<notin> set ls \<Longrightarrow> groups ls = [ls]"
  by (induction ls) auto

lemma groups_append: "SEPARATOR \<notin> set ls \<Longrightarrow> groups (ls @ SEPARATOR # rest) = ls # groups rest"
  by (induction ls) auto

lemma groups_printed: "bs \<noteq> [] \<Longrightarrow> \<forall>b \<in> set bs. good_block b \<Longrightarrow> groups (block_list_lines bs) = map print_block bs"
proof (induction bs rule: block_list_lines.induct)
  case (2 b)
  then show ?case using block_lines(1) by (auto intro!: groups_plain)
next
  case (3 b c bs)
  have "SEPARATOR \<notin> set (print_block b)" using 3(3) block_lines(1) by fastforce
  then show ?case using 3 by (simp add: groups_append)
qed simp

lemma printed_lines:
  "\<forall>b \<in> set bs. good_block b \<Longrightarrow> l \<in> set (block_list_lines bs) \<Longrightarrow> CHR 0x0A \<notin> set l \<and> CHR 0x0D \<notin> set l \<and> l \<noteq> []"
  by (induction bs rule: block_list_lines.induct) (auto simp: SEPARATOR_def dest: block_lines)

lemma split_lines:
  "\<forall>l \<in> set ls. CHR 0x0A \<notin> set l \<Longrightarrow> split_char (CHR 0x0A) (concat (map (\<lambda>l. l @ [CHR 0x0A]) ls)) = ls @ [[]]"
proof (induction ls)
  case (Cons l ls)
  have "d \<notin> set w \<Longrightarrow> split_char d (w @ d # t) = w # split_char d t" for d w t by (induction w) auto
  then show ?case using Cons by simp
qed simp

lemma print_not_empty: "bs \<noteq> [] \<Longrightarrow> \<forall>b \<in> set bs. good_block b \<Longrightarrow> block_list_lines bs \<noteq> []"
  by (cases bs rule: block_list_lines.cases) (auto simp: print_block_def good_block_def BLOCK_PREFIXES_def)

lemma parse_printed_blocks:
  assumes "bs \<noteq> []" "\<forall>b \<in> set bs. good_block b"
  shows "parse_blocks (print_blocks bs) = Inr bs"
proof -
  let ?ls = "block_list_lines bs"
  have lines: "record_lines (print_blocks bs) = ?ls"
    using split_lines[of ?ls] printed_lines[OF assms(2)] by (simp add: record_lines_def print_blocks_def)
  have cr: "CHR 0x0D \<notin> set (print_blocks bs)" using printed_lines[OF assms(2)] by (auto simp: print_blocks_def)
  have ne: "print_blocks bs \<noteq> []" using print_not_empty[OF assms] by (cases ?ls) (auto simp: print_blocks_def)
  have "map_res parse_block (map print_block bs) = Inr bs" using assms(2) by (induction bs) (auto simp: parse_print_block)
  then show ?thesis using print_not_empty[OF assms] cr ne by (simp add: parse_blocks_def lines groups_printed[OF assms])
qed

text \<open>C38: A record that is written from any blocks of the two runs is read back as exactly these blocks.\<close>

theorem record_round_trip:
  assumes "bs \<noteq> []" "\<forall>b \<in> set bs. good_block b"
  shows "parse_blocks (print_blocks bs) = Inr bs"
  using assms by (rule parse_printed_blocks)

definition demo_block :: block where
  "demo_block = zip BLOCK_PREFIXES [replicate 40 (CHR ''a''),
     ''placement_profile=product-exclusive,measurement_authority=product-local-reference,placement_ok=1,product_errors_eq_zero=met,product_served_eq_offered=met,product_p99_lt_150_ms=missed'',
     ''7'', ''m'', ''s'', ''e'', ''combined_rate_per_sec=1200.5'']"

lemma demo_block_good: "good_block demo_block"
  by code_simp

theorem record_round_trip_witness: "parse_blocks (print_blocks [demo_block, demo_block]) = Inr [demo_block, demo_block]"
  by (rule record_round_trip) (simp_all add: demo_block_good)

section \<open>Line ends\<close>

definition crlf :: "string \<Rightarrow> string" where
  "crlf t = concat (map (\<lambda>c. if c = CHR 0x0A then [CHR 0x0D, CHR 0x0A] else [c]) t)"

lemma universal_newlines_Cons: "c \<noteq> CHR 0x0D \<Longrightarrow> universal_newlines (c # s) = c # universal_newlines s"
  by (cases s) auto

lemma universal_newlines_crlf: "CHR 0x0D \<notin> set t \<Longrightarrow> universal_newlines (crlf t) = t"
proof (induction t)
  case (Cons c t)
  have "crlf (c # t) = (if c = CHR 0x0A then [CHR 0x0D, CHR 0x0A] else [c]) @ crlf t" by (simp add: crlf_def)
  then show ?case using Cons by (auto simp: universal_newlines_Cons)
qed (simp add: crlf_def)

text \<open>The parser refuses a record with carriage returns, but the program reads the record through a text pipe that turns them into
  newlines: a record stored with carriage returns before its line ends is decided like the one without them.\<close>

theorem carriage_returns_not_refused:
  assumes "CHR 0x0D \<notin> set t" "git [''show'', tag @ '':'' @ RECORD_PATH] = (0, crlf t)" "CHR 0x0A \<in> set t"
  shows "load_record git tag = Some t \<and> parse_blocks (crlf t) = Inl (Refused ''record_invalid'')"
proof
  show "load_record git tag = Some t" using assms(1,2) by (simp add: load_record_def run_git_def universal_newlines_crlf)
  have "CHR 0x0D \<in> set (crlf t)" using assms(3) by (force simp: crlf_def)
  then show "parse_blocks (crlf t) = Inl (Refused ''record_invalid'')" by (simp add: parse_blocks_def)
qed

theorem carriage_returns_not_refused_witness:
  "load_record (\<lambda>_. (0, crlf (print_blocks [demo_block]))) ''t'' = Some (print_blocks [demo_block]) \<and>
   parse_blocks (crlf (print_blocks [demo_block])) = Inl (Refused ''record_invalid'')"
proof (rule carriage_returns_not_refused)
  show "CHR 0x0D \<notin> set (print_blocks [demo_block])" by code_simp
  show "CHR 0x0A \<in> set (print_blocks [demo_block])" by code_simp
qed simp

text \<open>A repository in which the parent of the tag was measured\<close>

definition demo_git :: git where
  "demo_git args =
     (if args = [''rev-parse'', ''v1^{commit}''] then (0, replicate 40 (CHR ''b''))
      else if take 1 args = [''diff''] then (0, RECORD_PATH)
      else if take 1 args = [''rev-list''] then (0, ''1'') else (0, []))"

lemma demo_gate: "evaluate demo_git (\<lambda>_. Some 1200) ''v1'' (print_blocks [demo_block]) = Inr ()"
  by code_simp

theorem release_authorized_witness:
  "\<exists>tag b n. is_ancestor demo_git tag RELEASE_REF \<and> b = demo_block \<and> candidate demo_git tag n b"
proof -
  have p: "parse_blocks (print_blocks [demo_block]) = Inr [demo_block]"
    by (rule parse_printed_blocks) (simp_all add: demo_block_good)
  from release_authorized[OF demo_gate] p show ?thesis by fastforce
qed

end
