(* ===== verification/ProbeKeys.thy ===== *)
theory ProbeKeys
  imports Signing "HOL-Library.Word"
begin

text \<open>
  The probe's half of the write channel: \<open>probe/internal/writeops\<close> with the hash of a step, the ring of trusted
  keys, the gate before a write, and the key store with its grace window; and the gateway's reader of the
  public key (\<open>probe-gateway/internal/signingkeys\<close>).

  SHA-256, Ed25519 and the canonical JSON form are parameters.  A nil key is the empty text, times are
  nanoseconds, and the lock of a store is the atomicity of its operations.
\<close>

section \<open>The hash of a step\<close>

text \<open>The loop that feeds the parts to the hash, with a bar before every part but the first\<close>

fun hash_input :: "bool \<Rightarrow> string list \<Rightarrow> string" where
  "hash_input later [] = []"
| "hash_input later (part # parts) = (if later then ''|'' else []) @ part @ hash_input True parts"

definition CanonicalStepHash ::
  "(string \<Rightarrow> string) \<Rightarrow> (dict \<Rightarrow> string option) \<Rightarrow> string \<Rightarrow> string \<Rightarrow> 32 word \<Rightarrow> string \<Rightarrow> dict \<Rightarrow> string option" where
  "CanonicalStepHash sha256 canonicalize executionID playbookID stepIndex o' params =
     (case canonicalize params of
        None \<Rightarrow> None
      | Some canonicalParams \<Rightarrow>
          Some (sha256 (hash_input False
            [utf8 executionID, utf8 playbookID, utf8 (nat_str (unat stepIndex)), utf8 o', canonicalParams])))"

section \<open>Trusted keys\<close>

definition PublicKeySize :: nat where
  "PublicKeySize = 32"

record KeyRing =
  kr_current :: string
  kr_previous :: string

type_synonym verifier = "string \<Rightarrow> string \<Rightarrow> string \<Rightarrow> bool"

definition ring_verify :: "verifier \<Rightarrow> KeyRing \<Rightarrow> string \<Rightarrow> string \<Rightarrow> string \<times> bool" where
  "ring_verify verify k message signature =
     (if length (kr_current k) = PublicKeySize \<and> verify (kr_current k) message signature then (''current'', True)
      else if length (kr_previous k) = PublicKeySize \<and> verify (kr_previous k) message signature then (''previous'', True)
      else ([], False))"

record VerifyResult =
  vr_OK :: bool
  vr_KeyMatched :: string
  vr_Reason :: string

definition VerifyStep ::
  "(string \<Rightarrow> string) \<Rightarrow> (dict \<Rightarrow> string option) \<Rightarrow> verifier \<Rightarrow> KeyRing \<Rightarrow> bool \<Rightarrow> string \<Rightarrow> string \<Rightarrow> 32 word \<Rightarrow> string \<Rightarrow> dict \<Rightarrow> string \<Rightarrow> VerifyResult" where
  "VerifyStep sha256 canonicalize verify keys writeEnabled executionID playbookID stepIndex o' params signature =
     (if \<not> writeEnabled then \<lparr>vr_OK = False, vr_KeyMatched = [], vr_Reason = ''write_enabled=false for this deployment''\<rparr>
      else case CanonicalStepHash sha256 canonicalize executionID playbookID stepIndex o' params of
        None \<Rightarrow> \<lparr>vr_OK = False, vr_KeyMatched = [], vr_Reason = ''canonicalization failed''\<rparr>
      | Some hash \<Rightarrow>
          (case ring_verify verify keys hash signature of
             (matched, ok) \<Rightarrow>
               if \<not> ok then \<lparr>vr_OK = False, vr_KeyMatched = [], vr_Reason = ''signature verification failed''\<rparr>
               else \<lparr>vr_OK = True, vr_KeyMatched = matched, vr_Reason = []\<rparr>))"

text \<open>The keys of a patch against the allowed ones: the first key that is not allowed, or nothing\<close>

definition MemoryConfigWhitelist :: "string list \<Rightarrow> string list \<Rightarrow> string option" where
  "MemoryConfigWhitelist patchKeys whitelist = List.find (\<lambda>k. k \<notin> set whitelist) patchKeys"

section \<open>The key store\<close>

record KeyStore =
  ks_grace :: int
  ks_current :: string
  ks_previous :: string
  ks_rotated_at :: int

definition NewKeyStore :: "int \<Rightarrow> KeyStore" where
  "NewKeyStore grace = \<lparr>ks_grace = grace, ks_current = [], ks_previous = [], ks_rotated_at = 0\<rparr>"

definition DefaultGraceWindow :: int where
  "DefaultGraceWindow = 10 * 60 * 1000000000"

definition Install :: "int \<Rightarrow> string \<Rightarrow> KeyStore \<Rightarrow> bool \<times> KeyStore" where
  "Install now key s =
     (if length key \<noteq> PublicKeySize then (False, s)
      else if ks_current s = key then (False, s)
      else if ks_current s = [] then (False, s\<lparr>ks_current := key\<rparr>)
      else (True, s\<lparr>ks_previous := ks_current s, ks_current := key, ks_rotated_at := now\<rparr>))"

definition Ring :: "int \<Rightarrow> KeyStore \<Rightarrow> KeyRing" where
  "Ring now s =
     \<lparr>kr_current = ks_current s,
      kr_previous = (if ks_previous s \<noteq> [] \<and> ks_grace s > 0 \<and> now - ks_rotated_at s \<le> ks_grace s then ks_previous s else [])\<rparr>"

text \<open>A frame that carries a key in the middle of a session (\<open>sessionclient.handleKeyUpdate\<close>)\<close>

record RegisterAck =
  ack_probe_id :: string
  ack_accepted :: bool
  ack_signing_public_key :: string

definition handleKeyUpdate :: "string \<Rightarrow> int \<Rightarrow> RegisterAck \<Rightarrow> KeyStore \<Rightarrow> KeyStore" where
  "handleKeyUpdate self now ack s =
     (if \<not> ack_accepted ack then s
      else if ack_probe_id ack \<noteq> [] \<and> self \<noteq> [] \<and> ack_probe_id ack \<noteq> self then s
      else snd (Install now (ack_signing_public_key ack) s))"

section \<open>The gateway's reader of the public key\<close>

record key_reader =
  rd_grace :: int
  rd_current :: string
  rd_previous :: string
  rd_rotated :: int

text \<open>\<open>Load\<close>: the bytes of the sidecar, if it can be read; the decoder is the strict one of Go.\<close>

definition load_key :: "(string \<Rightarrow> string option) \<Rightarrow> (string \<Rightarrow> string) \<Rightarrow> int \<Rightarrow> string option \<Rightarrow> key_reader \<Rightarrow> string + key_reader" where
  "load_key b64 trim now file r =
     (case file of
        None \<Rightarrow> Inl ''read''
      | Some raw \<Rightarrow>
          (case b64 (trim raw) of
             None \<Rightarrow> Inl ''decode''
           | Some decoded \<Rightarrow>
               if length decoded \<noteq> PublicKeySize then Inl ''expected a 32-byte ed25519 public key''
               else Inr ((if rd_current r \<noteq> [] \<and> rd_current r \<noteq> decoded
                          then r\<lparr>rd_previous := rd_current r, rd_rotated := now\<rparr> else r)\<lparr>rd_current := decoded\<rparr>)))"

definition previous_key :: "int \<Rightarrow> key_reader \<Rightarrow> string" where
  "previous_key now r = (if rd_previous r = [] then [] else if now - rd_rotated r > rd_grace r then [] else rd_previous r)"

section \<open>The two halves agree\<close>

lemma hash_input_join: "hash_input False parts = str_join ''|'' parts"
proof -
  have later: "hash_input True parts = concat (map (\<lambda>p. ''|'' @ p) parts)" for parts by (induction parts) simp_all
  show ?thesis by (induction "''|''" parts rule: str_join.induct) (simp_all add: later)
qed

lemma index_text: "0 \<le> i \<Longrightarrow> i < 2 ^ 32 \<Longrightarrow> nat_str (unat (word_of_int i :: 32 word)) = int_str i"
  by (simp add: int_str_def unat_eq_nat_uint uint_word_of_int)

lemma step_hash_agrees:
  assumes "canonicalize params = Some (canon params)" "0 \<le> i" "i < 2 ^ 32"
  shows "CanonicalStepHash sha256 canonicalize e p (word_of_int i) o' params = Some (canonical_step_hash sha256 canon e p i o' params)"
  using assms by (simp add: CanonicalStepHash_def canonical_step_hash_def step_parts_def hash_input_join index_text)

definition trusted :: "KeyRing \<Rightarrow> string \<Rightarrow> bool" where
  "trusted ring k \<longleftrightarrow> length k = PublicKeySize \<and> (k = kr_current ring \<or> k = kr_previous ring)"

lemma ring_verify_iff: "snd (ring_verify verify ring m sig) \<longleftrightarrow> (\<exists>k. trusted ring k \<and> verify k m sig)"
  by (auto simp: ring_verify_def trusted_def)

lemma VerifyStep_iff:
  "vr_OK (VerifyStep sha256 canonicalize verify ring enabled e p i o' d sig) \<longleftrightarrow>
     enabled \<and> (\<exists>h k. CanonicalStepHash sha256 canonicalize e p i o' d = Some h \<and> trusted ring k \<and> verify k h sig)"
proof (cases "CanonicalStepHash sha256 canonicalize e p i o' d")
  case (Some h)
  then show ?thesis using ring_verify_iff[of verify ring h sig] by (cases "ring_verify verify ring h sig") (simp add: VerifyStep_def)
qed (simp add: VerifyStep_def)

text \<open>C10: The two halves of the write channel agree.  A probe with writes enabled accepts every step that the control plane signed with a
  key the probe trusts, whenever the two canonical forms agree and the index fits its 32 bits; and when signatures cannot be
  forged and the hash does not collide, it accepts nothing that the control plane did not sign for exactly this execution,
  playbook, index, operation and these parameters.\<close>

theorem write_channel_agrees:
  assumes canon: "\<And>d. canonicalize d = Some (canon d)" and index: "0 \<le> i" "i < 2 ^ 32"
    and unforged: "\<And>k m s. trusted ring k \<Longrightarrow> verify k m s \<Longrightarrow> m \<in> (\<lambda>(e, p, i, o', d). canonical_step_hash sha canon e p i o' d) ` made"
    and collisions: "\<And>e' p' j o2 d'. (e', p', j, o2, d') \<in> made \<Longrightarrow>
      sha (str_join ''|'' (step_parts canon e p i o' d)) = sha (str_join ''|'' (step_parts canon e' p' j o2 d')) \<Longrightarrow>
      str_join ''|'' (step_parts canon e p i o' d) = str_join ''|'' (step_parts canon e' p' j o2 d')"
    and bars: "bar_free e" "bar_free p" "bar_free o'" "\<And>e' p' j o2 d'. (e', p', j, o2, d') \<in> made \<Longrightarrow> bar_free e' \<and> bar_free p' \<and> bar_free o2"
  shows "(trusted ring k \<and> verify k (canonical_step_hash sha canon e p i o' d) sig \<longrightarrow>
      vr_OK (VerifyStep sha canonicalize verify ring True e p (word_of_int i) o' d sig)) \<and>
    (vr_OK (VerifyStep sha canonicalize verify ring enabled e p (word_of_int i) o' d sig) \<longrightarrow>
      enabled \<and> (\<exists>d'. (e, p, i, o', d') \<in> made \<and> canon d' = canon d))"
proof (intro conjI impI)
  note h = step_hash_agrees[where canonicalize = canonicalize and params = d and canon = canon, OF canon index]
  show "vr_OK (VerifyStep sha canonicalize verify ring True e p (word_of_int i) o' d sig)"
    if "trusted ring k \<and> verify k (canonical_step_hash sha canon e p i o' d) sig"
    unfolding VerifyStep_iff h using that by blast
  assume "vr_OK (VerifyStep sha canonicalize verify ring enabled e p (word_of_int i) o' d sig)"
  then obtain k' where k': "enabled" "trusted ring k'" "verify k' (canonical_step_hash sha canon e p i o' d) sig"
    unfolding VerifyStep_iff h by blast
  then show enabled by simp
  obtain e' p' j o2 d' where st: "(e', p', j, o2, d') \<in> made"
    "canonical_step_hash sha canon e p i o' d = canonical_step_hash sha canon e' p' j o2 d'"
    using unforged[OF k'(2,3)] by auto
  have "str_join ''|'' (step_parts canon e p i o' d) = str_join ''|'' (step_parts canon e' p' j o2 d')"
    by (rule collisions[OF st(1)]) (use st(2) in \<open>simp add: canonical_step_hash_def\<close>)
  then have "e = e' \<and> p = p' \<and> i = j \<and> o' = o2 \<and> canon d = canon d'"
    using step_parts_inj[OF bars(1-3)] bars(4)[OF st(1)] by blast
  then show "\<exists>d'. (e, p, i, o', d') \<in> made \<and> canon d' = canon d" using st(1) by auto
qed

section \<open>Rotation\<close>

definition installs :: "(int \<times> string) list \<Rightarrow> KeyStore \<Rightarrow> KeyStore" where
  "installs xs s = fold (\<lambda>(now, key) s. snd (Install now key s)) xs s"

text \<open>A key that was replaced at a time: it is not current, and if it is still held it is the key replaced at that time.\<close>

definition retired :: "int \<Rightarrow> string \<Rightarrow> KeyStore \<Rightarrow> bool" where
  "retired r k s \<longleftrightarrow> k \<noteq> [] \<and> ks_current s \<noteq> k \<and> ks_current s \<noteq> [] \<and> (ks_previous s = k \<longrightarrow> ks_rotated_at s = r)"

lemma install_retired: "retired r k s \<Longrightarrow> key \<noteq> k \<Longrightarrow> retired r k (snd (Install now key s))"
  by (auto simp: retired_def Install_def PublicKeySize_def)

lemma installs_retired: "retired r k s \<Longrightarrow> k \<notin> snd ` set xs \<Longrightarrow> retired r k (installs xs s) \<and> ks_grace (installs xs s) = ks_grace s"
proof (induction xs arbitrary: s)
  case (Cons x xs)
  obtain now key where x: "x = (now, key)" by (rule prod.exhaust)
  have "retired r k (snd (Install now key s))" using Cons.prems x by (intro install_retired) auto
  moreover have "ks_grace (snd (Install now key s)) = ks_grace s" by (simp add: Install_def)
  ultimately show ?case using Cons.IH[of "snd (Install now key s)"] Cons.prems x by (simp add: installs_def)
qed (simp add: installs_def)

text \<open>C19: A key that was rotated out expires.  Once another key was installed over it, and whatever other keys follow, no signature under it
  is accepted later than the grace window, unless it is installed again.\<close>

theorem rotated_key_expires:
  assumes "ks_current s = old" "length old = PublicKeySize" "Install r new s = (True, s')" "old \<notin> snd ` set xs" "ks_grace s < t - r"
    "\<And>k m. verify k m sig \<Longrightarrow> k = old"
  shows "\<not> vr_OK (VerifyStep sha256 canonicalize verify (Ring t (installs xs s')) enabled e p i o' d sig)"
proof -
  have "retired r old s'" "ks_grace s' = ks_grace s"
    using assms(1-3) by (auto simp: retired_def Install_def PublicKeySize_def split: if_splits)
  then have "retired r old (installs xs s')" "ks_grace (installs xs s') = ks_grace s" using installs_retired[OF _ assms(4)] by auto
  then have "\<not> trusted (Ring t (installs xs s')) old" using assms(5) by (auto simp: trusted_def Ring_def retired_def)
  then show ?thesis unfolding VerifyStep_iff using assms(6) by blast
qed

section \<open>A concrete channel\<close>

text \<open>A signature that is the key followed by the message stands for an unforgeable one.\<close>

definition demo_key :: "char \<Rightarrow> string" where
  "demo_key c = replicate 32 c"

definition demo_verify :: "string \<Rightarrow> string set \<Rightarrow> verifier" where
  "demo_verify key made k m sig \<longleftrightarrow> k = key \<and> m \<in> made \<and> sig = k @ m"

abbreviation demo_step :: "string \<times> string \<times> int \<times> string \<times> dict" where
  "demo_step \<equiv> (''x'', ''presto.restart_worker'', 1, ''k8s_delete_pod'', [])"

theorem write_channel_agrees_witness:
  "\<not> vr_OK (VerifyStep id (\<lambda>_. Some ''{}'')
     (demo_verify (demo_key CHR ''a'') {canonical_step_hash id (\<lambda>_. ''{}'') ''x'' ''presto.restart_worker'' 1 ''k8s_delete_pod'' []})
     \<lparr>kr_current = demo_key CHR ''a'', kr_previous = []\<rparr> True ''x'' ''presto.restart_worker'' (word_of_int 2) ''k8s_delete_pod'' [] ''s'')"
proof
  assume ok: "vr_OK (VerifyStep id (\<lambda>_. Some ''{}'')
     (demo_verify (demo_key CHR ''a'') {canonical_step_hash id (\<lambda>_. ''{}'') ''x'' ''presto.restart_worker'' 1 ''k8s_delete_pod'' []})
     \<lparr>kr_current = demo_key CHR ''a'', kr_previous = []\<rparr> True ''x'' ''presto.restart_worker'' (word_of_int 2) ''k8s_delete_pod'' [] ''s'')"
  have "\<exists>d'. (''x'', ''presto.restart_worker'', 2, ''k8s_delete_pod'', d') \<in> {demo_step} \<and> ''{}'' = ''{}''"
    using write_channel_agrees[where canonicalize = "\<lambda>_. Some ''{}''" and canon = "\<lambda>_. ''{}''" and i = 2
      and ring = "\<lparr>kr_current = demo_key CHR ''a'', kr_previous = []\<rparr>"
      and verify = "demo_verify (demo_key CHR ''a'') {canonical_step_hash id (\<lambda>_. ''{}'') ''x'' ''presto.restart_worker'' 1 ''k8s_delete_pod'' []}"
      and sha = id and made = "{demo_step}" and e = "''x''" and p = "''presto.restart_worker''" and o' = "''k8s_delete_pod''" and d = "[]"
      and sig = "''s''" and enabled = True] ok
    by (simp add: demo_verify_def bar_free_def)
  then show False by simp
qed

theorem rotated_key_expires_witness:
  "\<not> vr_OK (VerifyStep id (\<lambda>_. Some ''{}'') (\<lambda>k m sg. k = demo_key CHR ''a'')
     (Ring (DefaultGraceWindow + 8) (installs [(9, demo_key CHR ''c'')] (snd (Install 7 (demo_key CHR ''b'') ((NewKeyStore DefaultGraceWindow)\<lparr>ks_current := demo_key CHR ''a''\<rparr>)))))
     True ''x'' ''p'' 0 ''o'' [] [])"
  by (rule rotated_key_expires[where old = "demo_key CHR ''a''" and r = 7 and new = "demo_key CHR ''b''"
        and s = "(NewKeyStore DefaultGraceWindow)\<lparr>ks_current := demo_key CHR ''a''\<rparr>"])
    (simp_all add: demo_key_def PublicKeySize_def Install_def NewKeyStore_def replicate_eq_replicate DefaultGraceWindow_def)

end
