(* ===== verification/ProbeWrites.thy ===== *)
theory ProbeWrites
  imports ProbeKeys "HOL-Library.AList" "HOL-Library.Multiset"
begin

text \<open>
  The execution of a write on the probe (\<open>probe/internal/adapter/presto/writeops.go\<close>): the gates, the schema of the
  parameters, the whitelist and read-merge-write of the memory configuration, and the six primitives.

  The runtime environment and the coordinator are one interpreter of calls over a state, the JSON schemas are given by
  one validator per operation, and the order in which Go ranges over a map is a parameter.  Detection sets the environment and
  the client of the coordinator together, so one option stands for both.
\<close>

section \<open>Values and texts\<close>

text \<open>\<open>v, _ := m[k].(string)\<close>\<close>

definition str_field :: "dict \<Rightarrow> string \<Rightarrow> string" where
  "str_field m k = (case dget m k of PStr s \<Rightarrow> s | _ \<Rightarrow> [])"

definition list_field :: "dict \<Rightarrow> string \<Rightarrow> pyval list" where
  "list_field m k = (case dget m k of PList xs \<Rightarrow> xs | _ \<Rightarrow> [])"

text \<open>White space of Go, for the characters of Latin-1\<close>

definition go_space :: "char \<Rightarrow> bool" where
  "go_space c = (let n = code_point c in 9 \<le> n \<and> n \<le> 13 \<or> n = 32 \<or> n = 133 \<or> n = 160)"

definition TrimSpace :: "string \<Rightarrow> string" where
  "TrimSpace s = strip_by go_space s"

abbreviation newline :: char where
  "newline \<equiv> CHR 0x0A"

section \<open>Calls to the platform\<close>

datatype env_call =
    ReadConfigMapKey string string string
  | PatchConfigMap string string "(string \<times> string) list"
  | RolloutRestart string string string
  | DeletePod string string
  | UpdateServiceEnv string "(string \<times> string) list"
  | RestartService string
  | CoordinatorBaseURL
  | DeletePath string string

text \<open>An answer is an error or a text.\<close>

type_synonym 's runtime = "'s \<Rightarrow> env_call \<Rightarrow> (string + string) \<times> 's"

record WriteResult =
  wres_OK :: bool
  wres_Error :: string
  wres_Detail :: string

record RemediationStep =
  rs_PlaybookID :: string
  rs_StepIndex :: "32 word"
  rs_Op :: string
  rs_Params :: dict
  rs_ExecutionID :: string
  rs_SignatureOK :: bool

text \<open>\<open>ad_schemas\<close>: loading fails, or gives for each operation what is wrong with parameters, if anything;
  \<open>ad_order n\<close>: the order of the \<open>n\<close>-th loop over a map.\<close>

record 's adapter =
  ad_WriteEnabled :: bool
  ad_env :: "'s runtime option"
  ad_schemas :: "string + (string \<times> (dict \<Rightarrow> string option)) list"
  ad_order :: "nat \<Rightarrow> (string \<times> string) list \<Rightarrow> (string \<times> string) list"

definition refused :: "string \<Rightarrow> WriteResult" where
  "refused e = \<lparr>wres_OK = False, wres_Error = e, wres_Detail = []\<rparr>"

definition performed :: "string \<Rightarrow> WriteResult" where
  "performed d = \<lparr>wres_OK = True, wres_Error = [], wres_Detail = d\<rparr>"

section \<open>The properties file\<close>

definition sets_property :: "string \<Rightarrow> string \<Rightarrow> bool" where
  "sets_property key line = (let trimmed = TrimSpace line in starts_with (key @ ''='') trimmed \<or> trimmed = key)"

text \<open>The first line that sets the key is replaced.\<close>

fun replace_line :: "string \<Rightarrow> string \<Rightarrow> string list \<Rightarrow> string list option" where
  "replace_line key new [] = None"
| "replace_line key new (line # lines) =
     (if sets_property key line then Some (new # lines) else map_option ((#) line) (replace_line key new lines))"

fun drop_trailing_empty :: "string list \<Rightarrow> string list" where
  "drop_trailing_empty [] = []"
| "drop_trailing_empty (line # lines) =
     (case drop_trailing_empty lines of [] \<Rightarrow> (if line = [] then [] else [line]) | rest \<Rightarrow> line # rest)"

definition setProperty :: "string \<Rightarrow> string \<Rightarrow> string \<Rightarrow> string" where
  "setProperty text key value =
     (let lines = (case replace_line key (key @ ''='' @ value) (split_char newline text) of
                     Some ls \<Rightarrow> ls
                   | None \<Rightarrow>
                       split_char newline (if text \<noteq> [] \<and> last text \<noteq> newline then text @ [newline] else text) @ [key @ ''='' @ value]) in
      str_join [newline] (drop_trailing_empty lines) @ [newline])"

definition looks_like_file :: "string \<Rightarrow> bool" where
  "looks_like_file v \<longleftrightarrow> newline \<in> set v \<or> CHR ''='' \<in> set v \<and> contains ''query.'' v"

definition mergeProperties :: "(nat \<Rightarrow> (string \<times> string) list \<Rightarrow> (string \<times> string) list) \<Rightarrow> string \<Rightarrow> (string \<times> string) list \<Rightarrow> string" where
  "mergeProperties order current patches =
     (case List.find (\<lambda>kv. looks_like_file (snd kv)) (order 0 patches) of
        Some (_, v) \<Rightarrow>
          fold (\<lambda>(k, pv) base. if pv = v then base else if newline \<notin> set pv \<and> CHR ''='' \<notin> set pv then setProperty base k pv else base)
            (order 1 patches) v
      | None \<Rightarrow> fold (\<lambda>(k, v) base. setProperty base k v) (order 2 patches) current)"

section \<open>The memory configuration\<close>

definition defaultMemoryConfigWhitelist :: "string list" where
  "defaultMemoryConfigWhitelist =
     [''query.max-memory'', ''query.max-memory-per-node'', ''query.max-total-memory-per-node'', ''memory.heap-headroom-per-node'']"

text \<open>The keys and the key-value map of a list of entries; entries without a key are skipped.\<close>

fun entries :: "pyval list \<Rightarrow> (string \<times> string) list" where
  "entries [] = []"
| "entries (item # items) =
     (case item of
        PDict m \<Rightarrow> (if str_field m ''key'' = [] then entries items else (str_field m ''key'', str_field m ''value'') # entries items)
      | _ \<Rightarrow> entries items)"

definition to_map :: "(string \<times> string) list \<Rightarrow> (string \<times> string) list" where
  "to_map kvs = fold (\<lambda>(k, v) m. AList.update k v m) kvs []"

definition extractMemoryPatches :: "string \<Rightarrow> dict \<Rightarrow> string + (string list \<times> (string \<times> string) list)" where
  "extractMemoryPatches o' params =
     (let kvs = (if o' = ''k8s_patch_configmap'' then entries (list_field params ''patches'')
                 else if o' = ''swarm_update_service_env'' then entries (list_field params ''env'') else []) in
      if kvs = [] then Inl ''no memory config patches provided'' else Inr (map fst kvs, to_map kvs))"

definition key_value :: "string \<times> string \<Rightarrow> pyval" where
  "key_value kv = PDict [(''key'', PStr (fst kv)), (''value'', PStr (snd kv))]"

definition applyMemoryConfigWhitelist :: "'s adapter \<Rightarrow> 's runtime \<Rightarrow> RemediationStep \<Rightarrow> 's \<Rightarrow> (string + dict) \<times> 's" where
  "applyMemoryConfigWhitelist A env step s =
     (case extractMemoryPatches (rs_Op step) (rs_Params step) of
        Inl e \<Rightarrow> (Inl e, s)
      | Inr (keys, patches) \<Rightarrow>
          (case MemoryConfigWhitelist keys defaultMemoryConfigWhitelist of
             Some k \<Rightarrow> (Inl (''writeops: memory config key '' @ k @ '' is not in the whitelist''), s)
           | None \<Rightarrow>
               if rs_Op step = ''k8s_patch_configmap'' then
                 (let name = str_field (rs_Params step) ''name''; namespace = str_field (rs_Params step) ''namespace'' in
                  case env s (ReadConfigMapKey namespace name ''config.properties'') of
                    (Inl e, s') \<Rightarrow> (Inl (''read configmap '' @ namespace @ ''/'' @ name @ '': '' @ e), s')
                  | (Inr current, s') \<Rightarrow>
                      (Inr (dset (rs_Params step) ''patches''
                         (PList [key_value (''config.properties'', mergeProperties (ad_order A) current patches)])), s'))
               else (Inr (dset (rs_Params step) ''env'' (PList (map key_value (ad_order A 3 patches)))), s)))"

section \<open>The primitives\<close>

definition after_call :: "(string + string) \<times> 's \<Rightarrow> string \<Rightarrow> WriteResult \<times> 's" where
  "after_call r d = (case r of (Inl e, s) \<Rightarrow> (refused e, s) | (Inr _, s) \<Rightarrow> (performed d, s))"

definition execK8sPatchConfigMap :: "'s runtime \<Rightarrow> dict \<Rightarrow> 's \<Rightarrow> WriteResult \<times> 's" where
  "execK8sPatchConfigMap env params s =
     (let name = str_field params ''name''; namespace = str_field params ''namespace''; patches = to_map (entries (list_field params ''patches'')) in
      after_call (env s (PatchConfigMap namespace name patches))
        (''patched configmap '' @ namespace @ ''/'' @ name @ '' ('' @ nat_str (length patches) @ '' keys)''))"

definition execK8sRolloutRestart :: "'s runtime \<Rightarrow> dict \<Rightarrow> 's \<Rightarrow> WriteResult \<times> 's" where
  "execK8sRolloutRestart env params s =
     (let kind = str_field params ''kind''; name = str_field params ''name''; namespace = str_field params ''namespace'' in
      after_call (env s (RolloutRestart namespace kind name)) (''rollout restart '' @ kind @ ''/'' @ namespace @ ''/'' @ name))"

definition execK8sDeletePod :: "'s runtime \<Rightarrow> dict \<Rightarrow> 's \<Rightarrow> WriteResult \<times> 's" where
  "execK8sDeletePod env params s =
     (let name = str_field params ''name''; namespace = str_field params ''namespace'' in
      after_call (env s (DeletePod namespace name)) (''deleted pod '' @ namespace @ ''/'' @ name))"

definition execSwarmUpdateServiceEnv :: "'s runtime \<Rightarrow> dict \<Rightarrow> 's \<Rightarrow> WriteResult \<times> 's" where
  "execSwarmUpdateServiceEnv env params s =
     (let service = str_field params ''service''; vars = to_map (entries (list_field params ''env'')) in
      after_call (env s (UpdateServiceEnv service vars)) (''updated service env '' @ service @ '' ('' @ nat_str (length vars) @ '' keys)''))"

definition execSwarmRestartService :: "'s runtime \<Rightarrow> dict \<Rightarrow> 's \<Rightarrow> WriteResult \<times> 's" where
  "execSwarmRestartService env params s =
     (let service = str_field params ''service'' in after_call (env s (RestartService service)) (''restarted service '' @ service))"

definition execPrestoKillQuery :: "'s runtime \<Rightarrow> dict \<Rightarrow> 's \<Rightarrow> WriteResult \<times> 's" where
  "execPrestoKillQuery env params s =
     (let queryID = str_field params ''query_id'' in
      case env s CoordinatorBaseURL of
        (Inl e, s') \<Rightarrow> (refused (''presto: resolve coordinator url: '' @ e), s')
      | (Inr base, s') \<Rightarrow> after_call (env s' (DeletePath base (''/v1/query/'' @ queryID))) (''killed query '' @ queryID))"

definition dispatch_write :: "'s runtime \<Rightarrow> string \<Rightarrow> dict \<Rightarrow> 's \<Rightarrow> WriteResult \<times> 's" where
  "dispatch_write env o' params s =
     (if o' = ''k8s_patch_configmap'' then execK8sPatchConfigMap env params s
      else if o' = ''k8s_rollout_restart'' then execK8sRolloutRestart env params s
      else if o' = ''k8s_delete_pod'' then execK8sDeletePod env params s
      else if o' = ''swarm_update_service_env'' then execSwarmUpdateServiceEnv env params s
      else if o' = ''swarm_restart_service'' then execSwarmRestartService env params s
      else if o' = ''presto_kill_query'' then execPrestoKillQuery env params s
      else (refused (''unknown write-op '' @ o'), s))"

definition ExecuteWrite :: "'s adapter \<Rightarrow> RemediationStep \<Rightarrow> 's \<Rightarrow> WriteResult \<times> 's" where
  "ExecuteWrite A step s =
     (if \<not> ad_WriteEnabled A then (refused ''write channel disabled for this deployment'', s)
      else if \<not> rs_SignatureOK step then (refused ''signature not verified'', s)
      else case ad_env A of
        None \<Rightarrow> (refused ''runtime env not initialized (Detect not called)'', s)
      | Some env \<Rightarrow>
          (case ad_schemas A of
             Inl e \<Rightarrow> (refused (''load writeops schema: '' @ e), s)
           | Inr ops \<Rightarrow>
               (case map_of ops (rs_Op step) of
                  None \<Rightarrow> (refused (''unknown write-op '' @ rs_Op step), s)
                | Some schema \<Rightarrow>
                    (case schema (rs_Params step) of
                       Some e \<Rightarrow> (refused (''params validation failed: '' @ e), s)
                     | None \<Rightarrow>
                         if rs_PlaybookID step = ''presto.adjust_memory_config'' \<and>
                            (rs_Op step = ''k8s_patch_configmap'' \<or> rs_Op step = ''swarm_update_service_env'')
                         then (case applyMemoryConfigWhitelist A env step s of
                                 (Inl e, s') \<Rightarrow> (refused e, s')
                               | (Inr merged, s') \<Rightarrow> dispatch_write env (rs_Op step) merged s')
                         else dispatch_write env (rs_Op step) (rs_Params step) s))))"

section \<open>What a write does\<close>

definition recorded_env :: "'s runtime \<Rightarrow> ('s \<times> env_call list) runtime" where
  "recorded_env ask sl c = (case ask (fst sl) c of (r, s') \<Rightarrow> (r, (s', snd sl @ [c])))"

fun modifies :: "env_call \<Rightarrow> bool" where
  "modifies (ReadConfigMapKey ns name key) = False"
| "modifies CoordinatorBaseURL = False"
| "modifies c = True"

text \<open>A call that changes what the parameters of the step name, with the operation of the step\<close>

fun on_target :: "string \<Rightarrow> dict \<Rightarrow> env_call \<Rightarrow> bool" where
  "on_target o' d (PatchConfigMap ns name ps) \<longleftrightarrow> o' = ''k8s_patch_configmap'' \<and> ns = str_field d ''namespace'' \<and> name = str_field d ''name''"
| "on_target o' d (RolloutRestart ns kind name) \<longleftrightarrow>
     o' = ''k8s_rollout_restart'' \<and> ns = str_field d ''namespace'' \<and> kind = str_field d ''kind'' \<and> name = str_field d ''name''"
| "on_target o' d (DeletePod ns name) \<longleftrightarrow> o' = ''k8s_delete_pod'' \<and> ns = str_field d ''namespace'' \<and> name = str_field d ''name''"
| "on_target o' d (UpdateServiceEnv service vars) \<longleftrightarrow> o' = ''swarm_update_service_env'' \<and> service = str_field d ''service''"
| "on_target o' d (RestartService service) \<longleftrightarrow> o' = ''swarm_restart_service'' \<and> service = str_field d ''service''"
| "on_target o' d (DeletePath base path) \<longleftrightarrow> o' = ''presto_kill_query'' \<and> path = ''/v1/query/'' @ str_field d ''query_id''"
| "on_target o' d c \<longleftrightarrow> True"

definition write_calls :: "string \<Rightarrow> dict \<Rightarrow> WriteResult \<Rightarrow> env_call list \<Rightarrow> bool" where
  "write_calls o' d r calls \<longleftrightarrow> length (filter modifies calls) \<le> 1 \<and> list_all (on_target o' d) calls \<and>
     (wres_OK r \<longrightarrow> length (filter modifies calls) = 1)"

lemma after_call_recorded:
  "after_call (recorded_env ask sl c) d = (r, sl') \<Longrightarrow> snd sl' = snd sl @ [c]"
  by (auto simp: after_call_def recorded_env_def split: sum.splits prod.splits)

lemma one_call:
  assumes "after_call (recorded_env ask sl c) t = (r, sl')" "on_target o' d c" "modifies c"
  shows "\<exists>calls. snd sl' = snd sl @ calls \<and> write_calls o' d r calls"
  using after_call_recorded[OF assms(1)] assms(2,3) by (intro exI[of _ "[c]"]) (simp add: write_calls_def)

lemma kill_calls:
  assumes "execPrestoKillQuery (recorded_env ask) d sl = (r, sl')"
  shows "\<exists>calls. snd sl' = snd sl @ calls \<and> write_calls ''presto_kill_query'' d r calls"
  using assms by (auto simp: execPrestoKillQuery_def write_calls_def after_call_def recorded_env_def refused_def performed_def Let_def
      split: sum.splits prod.splits)

lemma dispatch_calls:
  assumes "dispatch_write (recorded_env ask) o' d sl = (r, sl')"
  shows "\<exists>calls. snd sl' = snd sl @ calls \<and> write_calls o' d r calls"
proof -
  consider "o' = ''k8s_patch_configmap''" "execK8sPatchConfigMap (recorded_env ask) d sl = (r, sl')"
    | "o' = ''k8s_rollout_restart''" "execK8sRolloutRestart (recorded_env ask) d sl = (r, sl')"
    | "o' = ''k8s_delete_pod''" "execK8sDeletePod (recorded_env ask) d sl = (r, sl')"
    | "o' = ''swarm_update_service_env''" "execSwarmUpdateServiceEnv (recorded_env ask) d sl = (r, sl')"
    | "o' = ''swarm_restart_service''" "execSwarmRestartService (recorded_env ask) d sl = (r, sl')"
    | "o' = ''presto_kill_query''" "execPrestoKillQuery (recorded_env ask) d sl = (r, sl')"
    | e where "r = refused e" "sl' = sl"
    using assms unfolding dispatch_write_def by (auto split: if_splits)
  then show ?thesis
  proof cases
    case 6
    then show ?thesis using kill_calls by simp
  next
    case 7
    then show ?thesis by (intro exI[of _ "[]"]) (simp add: write_calls_def refused_def)
  qed (simp_all only: execK8sPatchConfigMap_def execK8sRolloutRestart_def execK8sDeletePod_def execSwarmUpdateServiceEnv_def
      execSwarmRestartService_def Let_def, (erule one_call; simp)+)
qed

lemma str_field_dset: "k \<noteq> k' \<Longrightarrow> str_field (dset d k v) k' = str_field d k'"
  by (simp add: str_field_def dget_dset)

lemma memory_calls:
  assumes "applyMemoryConfigWhitelist A (recorded_env ask) step sl = (x, sl')"
  shows "\<exists>reads. snd sl' = snd sl @ reads \<and> filter modifies reads = [] \<and> list_all (on_target o' d) reads"
    "x = Inr d' \<Longrightarrow> \<exists>k v. k \<in> {''patches'', ''env''} \<and> d' = dset (rs_Params step) k v"
  using assms
  by (auto simp: applyMemoryConfigWhitelist_def recorded_env_def Let_def split: sum.splits prod.splits option.splits if_splits)

lemma on_target_dset: "k \<in> {''patches'', ''env''} \<Longrightarrow> on_target o' (dset d k v) = on_target o' d"
proof
  fix c
  assume "k \<in> {''patches'', ''env''}"
  then show "on_target o' (dset d k v) c = on_target o' d c" by (cases c) (auto simp: str_field_dset)
qed

lemma write_effect:
  assumes "ad_env A = Some (recorded_env ask)" "ExecuteWrite A step (s, []) = (r, (s', calls))"
  shows "length (filter modifies calls) \<le> 1 \<and> (wres_OK r \<longrightarrow> length (filter modifies calls) = 1) \<and>
    (\<forall>c \<in> set calls. on_target (rs_Op step) (rs_Params step) c) \<and>
    (calls \<noteq> [] \<longrightarrow> ad_WriteEnabled A \<and> rs_SignatureOK step)"
proof -
  have "write_calls (rs_Op step) (rs_Params step) r calls \<and> (calls \<noteq> [] \<longrightarrow> ad_WriteEnabled A \<and> rs_SignatureOK step)"
  proof (cases "calls = [] \<and> \<not> wres_OK r")
    case True
    then show ?thesis by (simp add: write_calls_def)
  next
    case False
    then have gates: "ad_WriteEnabled A" "rs_SignatureOK step"
      using assms(2) by (auto simp: ExecuteWrite_def refused_def split: if_splits)
    consider (plain) "dispatch_write (recorded_env ask) (rs_Op step) (rs_Params step) (s, []) = (r, (s', calls))"
      | (failed) e where "applyMemoryConfigWhitelist A (recorded_env ask) step (s, []) = (Inl e, (s', calls))" "r = refused e"
      | (merged) d sl where "applyMemoryConfigWhitelist A (recorded_env ask) step (s, []) = (Inr d, sl)"
          "dispatch_write (recorded_env ask) (rs_Op step) d sl = (r, (s', calls))"
      using assms False
      by (auto simp: ExecuteWrite_def refused_def split: if_splits sum.splits option.splits prod.splits)
    then have "write_calls (rs_Op step) (rs_Params step) r calls"
    proof cases
      case plain
      from dispatch_calls[OF this] show ?thesis by simp
    next
      case failed
      from memory_calls(1)[OF failed(1)] failed(2) show ?thesis by (fastforce simp: write_calls_def refused_def)
    next
      case merged
      obtain reads where reads: "snd sl = reads" "filter modifies reads = []" "list_all (on_target (rs_Op step) (rs_Params step)) reads"
        using memory_calls(1)[OF merged(1)] by fastforce
      obtain cs where "calls = reads @ cs" "write_calls (rs_Op step) d r cs" using dispatch_calls[OF merged(2)] reads(1) by auto
      moreover obtain k v where "k \<in> {''patches'', ''env''}" "d = dset (rs_Params step) k v" using memory_calls(2)[OF merged(1)] by blast
      then have "on_target (rs_Op step) d = on_target (rs_Op step) (rs_Params step)" using on_target_dset by simp
      ultimately show ?thesis using reads by (simp add: write_calls_def)
    qed
    then show ?thesis using gates by simp
  qed
  then show ?thesis by (auto simp: write_calls_def list_all_iff)
qed

text \<open>C17: A write changes one thing.  Whatever step the probe executes, it makes at most one call that changes the platform, exactly one if it
  reports success, and this call has the operation of the step and the target that its signed parameters name.\<close>

theorem one_write_on_target:
  assumes "ad_env A = Some (recorded_env ask)" "ExecuteWrite A step (s, []) = (r, (s', calls))"
  shows "length (filter modifies calls) \<le> 1 \<and> (wres_OK r \<longrightarrow> length (filter modifies calls) = 1) \<and>
    (\<forall>c \<in> set calls. on_target (rs_Op step) (rs_Params step) c) \<and>
    (calls \<noteq> [] \<longrightarrow> ad_WriteEnabled A \<and> rs_SignatureOK step)"
  using assms by (rule write_effect)

section \<open>Reading the merged file\<close>

definition property :: "string \<Rightarrow> string \<Rightarrow> string option" where
  "property key body = map_option (\<lambda>line. drop (length key + 1) (TrimSpace line)) (List.find (sets_property key) (split_char newline body))"

text \<open>A name that can stand before the sign of equality\<close>

definition plain_key :: "string \<Rightarrow> bool" where
  "plain_key k \<longleftrightarrow> k \<noteq> [] \<and> CHR ''='' \<notin> set k \<and> newline \<notin> set k \<and> \<not> go_space (hd k) \<and> \<not> go_space (last k)"

definition plain_value :: "string \<Rightarrow> bool" where
  "plain_value v \<longleftrightarrow> \<not> looks_like_file v \<and> (v \<noteq> [] \<longrightarrow> \<not> go_space (last v))"

lemma trim_setting:
  assumes "plain_key k"
  shows "TrimSpace (k @ ''='' @ v) = k @ ''='' @ rev (dropWhile go_space (rev v))"
proof -
  obtain c k' where k: "k = c # k'" "\<not> go_space c" using assms by (cases k) (auto simp: plain_key_def)
  have eq: "\<not> go_space (CHR ''='')" by (simp add: go_space_def code_point_def)
  have "dropWhile go_space (rev v @ CHR ''='' # rev k) = dropWhile go_space (rev v) @ CHR ''='' # rev k"
    using eq by (induction "rev v") (auto simp: dropWhile_append)
  moreover have "dropWhile go_space (k @ ''='' @ v) = k @ ''='' @ v" using k by simp
  ultimately show ?thesis by (simp add: TrimSpace_def strip_by_def)
qed

lemma setting_sets: "plain_key k \<Longrightarrow> sets_property k (k @ ''='' @ v)"
  unfolding sets_property_def Let_def trim_setting by (simp add: starts_with_iff)

lemma key_of_line:
  assumes "plain_key k" "plain_key k'" "sets_property k line" "sets_property k' line"
  shows "k = k'"
proof -
  have first: "takeWhile (\<lambda>c. c \<noteq> CHR ''='') (TrimSpace line) = j" if "plain_key j" "sets_property j line" for j
  proof -
    have eq: "CHR ''='' \<notin> set j" using that(1) by (simp add: plain_key_def)
    from that(2) consider r where "TrimSpace line = j @ CHR ''='' # r" | "TrimSpace line = j"
      by (auto simp: sets_property_def starts_with_iff Let_def)
    then show ?thesis using eq by cases (auto simp: takeWhile_append takeWhile_eq_all_conv)
  qed
  show ?thesis using first[OF assms(1,3)] first[OF assms(2,4)] by simp
qed

lemma find_drop_trailing: "\<not> P [] \<Longrightarrow> List.find P (drop_trailing_empty ls) = List.find P ls"
proof (induction ls)
  case (Cons l ls)
  then show ?case by (cases "drop_trailing_empty ls") auto
qed simp

lemma drop_trailing_set: "set (drop_trailing_empty ls) \<subseteq> set ls"
proof (induction ls)
  case (Cons l ls)
  then show ?case by (cases "drop_trailing_empty ls") auto
qed simp

lemma split_char_snoc: "split_char d (s @ [d]) = split_char d s @ [[]]"
proof (induction s)
  case (Cons c s)
  then show ?case by (cases "split_char d s") auto
qed simp

lemma split_joined:
  "ls \<noteq> [] \<Longrightarrow> \<forall>l \<in> set ls. newline \<notin> set l \<Longrightarrow> split_char newline (str_join [newline] ls @ [newline]) = ls @ [[]]"
  by (induction "[newline]" ls rule: str_join.induct) (auto simp: split_char_append)

lemma not_sets_empty: "plain_key k \<Longrightarrow> \<not> sets_property k []"
  by (auto simp: sets_property_def TrimSpace_def strip_by_def plain_key_def starts_with_iff)

lemma find_plain:
  assumes "plain_key k"
  shows "List.find (sets_property k) (ls @ [[]]) = List.find (sets_property k) ls"
    "List.find (sets_property k) (drop_trailing_empty ls) = List.find (sets_property k) ls"
proof -
  show "List.find (sets_property k) (ls @ [[]]) = List.find (sets_property k) ls"
    using not_sets_empty[OF assms] by (induction ls) auto
  show "List.find (sets_property k) (drop_trailing_empty ls) = List.find (sets_property k) ls"
    by (rule find_drop_trailing) (rule not_sets_empty[OF assms])
qed

lemma replaced_lines:
  assumes "plain_key k"
  shows "replace_line k (k @ ''='' @ v) ls = Some ls' \<Longrightarrow> List.find (sets_property k) ls' = Some (k @ ''='' @ v)"
    "replace_line k (k @ ''='' @ v) ls = Some ls' \<Longrightarrow> plain_key j \<Longrightarrow> j \<noteq> k \<Longrightarrow> List.find (sets_property j) ls' = List.find (sets_property j) ls"
    "replace_line k (k @ ''='' @ v) ls = Some ls' \<Longrightarrow> set ls' \<subseteq> insert (k @ ''='' @ v) (set ls) \<and> ls' \<noteq> []"
    "replace_line k (k @ ''='' @ v) ls = None \<longleftrightarrow> List.find (sets_property k) ls = None"
proof -
  have other: "\<not> sets_property j l" if "sets_property k l" "plain_key j" "j \<noteq> k" for j l
    using key_of_line[OF assms that(2,1)] that(3) by blast
  note s = setting_sets[OF assms, of v]
  show "replace_line k (k @ ''='' @ v) ls = Some ls' \<Longrightarrow> List.find (sets_property k) ls' = Some (k @ ''='' @ v)"
    using s by (induction ls arbitrary: ls') (auto split: if_splits)
  show "replace_line k (k @ ''='' @ v) ls = Some ls' \<Longrightarrow> plain_key j \<Longrightarrow> j \<noteq> k \<Longrightarrow> List.find (sets_property j) ls' = List.find (sets_property j) ls"
    using s other by (induction ls arbitrary: ls') (auto split: if_splits)
  show "replace_line k (k @ ''='' @ v) ls = Some ls' \<Longrightarrow> set ls' \<subseteq> insert (k @ ''='' @ v) (set ls) \<and> ls' \<noteq> []"
    by (induction ls arbitrary: ls') (auto split: if_splits)
  show "replace_line k (k @ ''='' @ v) ls = None \<longleftrightarrow> List.find (sets_property k) ls = None"
    by (induction ls) (auto split: if_splits)
qed

text \<open>The lines after a property was set\<close>

lemma set_property_lines:
  assumes "plain_key k" "newline \<notin> set v"
  obtains ls where "split_char newline (setProperty body k v) = drop_trailing_empty ls @ [[]]"
    "List.find (sets_property k) ls = Some (k @ ''='' @ v)"
    "\<And>j. plain_key j \<Longrightarrow> j \<noteq> k \<Longrightarrow> List.find (sets_property j) ls = List.find (sets_property j) (split_char newline body)"
proof -
  let ?new = "k @ ''='' @ v"
  have free: "newline \<notin> set ?new" using assms by (auto simp: plain_key_def)
  have other: "\<not> sets_property j ?new" if "plain_key j" "j \<noteq> k" for j
    using key_of_line[OF assms(1) that(1) setting_sets[OF assms(1)]] that(2) by blast
  have joined: "split_char newline (str_join [newline] (drop_trailing_empty ls) @ [newline]) = drop_trailing_empty ls @ [[]]"
    if "List.find (sets_property k) ls = Some ?new" "\<forall>l \<in> set ls. newline \<notin> set l" for ls
  proof (rule split_joined)
    have "List.find (sets_property k) (drop_trailing_empty ls) = Some ?new" using that(1) find_plain(2)[OF assms(1)] by simp
    then show "drop_trailing_empty ls \<noteq> []" by auto
    show "\<forall>l \<in> set (drop_trailing_empty ls). newline \<notin> set l" using that(2) drop_trailing_set by blast
  qed
  show thesis
  proof (cases "replace_line k ?new (split_char newline body)")
    case (Some ls)
    have "\<forall>l \<in> set ls. newline \<notin> set l" using replaced_lines(3)[OF assms(1) Some] split_char_no_sep free by blast
    then show thesis
      using that[of ls] joined replaced_lines(1)[OF assms(1) Some] replaced_lines(2)[OF assms(1) Some] Some by (simp add: setProperty_def)
  next
    case None
    define base where "base = (if body \<noteq> [] \<and> last body \<noteq> newline then body @ [newline] else body)"
    have base: "split_char newline base = split_char newline body \<or> split_char newline base = split_char newline body @ [[]]"
      by (simp add: base_def split_char_snoc)
    have absent: "List.find (sets_property k) (split_char newline base) = None"
      using base None replaced_lines(4)[OF assms(1)] find_plain(1)[OF assms(1)] by fastforce
    have app: "List.find P (xs @ [y]) = (case List.find P xs of None \<Rightarrow> if P y then Some y else None | Some x \<Rightarrow> Some x)" for P xs and y :: string
      by (induction xs) auto
    show thesis
    proof (rule that[of "split_char newline base @ [?new]"])
      have "List.find (sets_property k) (split_char newline base @ [?new]) = Some ?new"
        using absent setting_sets[OF assms(1)] unfolding app by simp
      then show "List.find (sets_property k) (split_char newline base @ [?new]) = Some ?new" .
      from joined[OF this] show "split_char newline (setProperty body k v) = drop_trailing_empty (split_char newline base @ [?new]) @ [[]]"
        using None split_char_no_sep free by (auto simp: setProperty_def base_def Let_def)
      fix j
      assume j: "plain_key j" "j \<noteq> k"
      have "List.find (sets_property j) (split_char newline base @ [?new]) = List.find (sets_property j) (split_char newline base)"
        unfolding app using other[OF j] by (simp split: option.splits)
      also have "\<dots> = List.find (sets_property j) (split_char newline body)" using base find_plain(1)[OF j(1)] by auto
      finally show "List.find (sets_property j) (split_char newline base @ [?new]) = List.find (sets_property j) (split_char newline body)" .
    qed
  qed
qed

lemma property_set:
  assumes "plain_key k" "newline \<notin> set v"
  shows "(v \<noteq> [] \<longrightarrow> \<not> go_space (last v)) \<Longrightarrow> property k (setProperty body k v) = Some v"
    "plain_key j \<Longrightarrow> j \<noteq> k \<Longrightarrow> property j (setProperty body k v) = property j body"
proof -
  obtain ls where ls: "split_char newline (setProperty body k v) = drop_trailing_empty ls @ [[]]"
    "List.find (sets_property k) ls = Some (k @ ''='' @ v)"
    "\<And>j. plain_key j \<Longrightarrow> j \<noteq> k \<Longrightarrow> List.find (sets_property j) ls = List.find (sets_property j) (split_char newline body)"
    using set_property_lines[OF assms] by blast
  have find: "List.find (sets_property j) (split_char newline (setProperty body k v)) = List.find (sets_property j) ls" if "plain_key j" for j
    using ls(1) find_plain[OF that] by simp
  show "property k (setProperty body k v) = Some v" if "v \<noteq> [] \<longrightarrow> \<not> go_space (last v)"
  proof -
    have "dropWhile go_space (rev v) = rev v" using that by (cases v rule: rev_cases) auto
    then show ?thesis by (simp add: property_def find[OF assms(1)] ls(2) trim_setting[OF assms(1), simplified])
  qed
  show "property j (setProperty body k v) = property j body" if "plain_key j" "j \<noteq> k"
    by (simp add: property_def find[OF that(1)] ls(3)[OF that])
qed

lemma merged_properties:
  assumes "distinct (map fst kvs)" "\<forall>(k, v) \<in> set kvs. plain_key k \<and> plain_value v"
  shows "\<forall>(k, v) \<in> set kvs. property k (fold (\<lambda>(k, v) base. setProperty base k v) kvs body) = Some v"
    "plain_key j \<Longrightarrow> j \<notin> fst ` set kvs \<Longrightarrow> property j (fold (\<lambda>(k, v) base. setProperty base k v) kvs body) = property j body"
proof -
  have others: "plain_key j \<Longrightarrow> j \<notin> fst ` set kvs \<Longrightarrow> \<forall>(k, v) \<in> set kvs. plain_key k \<and> plain_value v \<Longrightarrow>
      property j (fold (\<lambda>(k, v) base. setProperty base k v) kvs body) = property j body" for j kvs body
  proof (induction kvs arbitrary: body)
    case (Cons kv kvs)
    obtain k v where kv: "kv = (k, v)" by (rule prod.exhaust)
    have "property j (setProperty body k v) = property j body"
      using Cons.prems kv by (intro property_set) (auto simp: plain_value_def looks_like_file_def)
    then show ?case using Cons kv by auto
  qed simp
  show "plain_key j \<Longrightarrow> j \<notin> fst ` set kvs \<Longrightarrow> property j (fold (\<lambda>(k, v) base. setProperty base k v) kvs body) = property j body"
    using others assms(2) by blast
  show "\<forall>(k, v) \<in> set kvs. property k (fold (\<lambda>(k, v) base. setProperty base k v) kvs body) = Some v"
    using assms
  proof (induction kvs arbitrary: body)
    case (Cons kv kvs)
    obtain k v where kv: "kv = (k, v)" by (rule prod.exhaust)
    have "property k (fold (\<lambda>(k, v) base. setProperty base k v) kvs (setProperty body k v)) = property k (setProperty body k v)"
      using Cons.prems kv by (intro others) auto
    also have "\<dots> = Some v" using Cons.prems kv by (intro property_set) (auto simp: plain_value_def looks_like_file_def)
    finally show ?case using Cons kv by auto
  qed simp
qed

lemma to_map_keys: "distinct (map fst (to_map kvs))" "set (map fst (to_map kvs)) = set (map fst kvs)"
proof -
  have "distinct (map fst m) \<Longrightarrow> distinct (map fst (fold (\<lambda>(k, v) m. AList.update k v m) kvs m)) \<and>
      set (map fst (fold (\<lambda>(k, v) m. AList.update k v m) kvs m)) = set (map fst m) \<union> set (map fst kvs)" for m
  proof (induction kvs arbitrary: m)
    case (Cons kv kvs)
    obtain k v where kv: "kv = (k, v)" by (rule prod.exhaust)
    have "distinct (map fst (AList.update k v m))" "set (map fst (AList.update k v m)) = insert k (set (map fst m))"
      using Cons.prems by (auto simp: update_keys)
    then show ?case using Cons.IH[of "AList.update k v m"] kv by auto
  qed simp
  from this[of "[]"] show "distinct (map fst (to_map kvs))" "set (map fst (to_map kvs)) = set (map fst kvs)" by (simp_all add: to_map_def)
qed

lemma whitelist_plain: "k \<in> set defaultMemoryConfigWhitelist \<Longrightarrow> plain_key k"
proof -
  have "list_all plain_key defaultMemoryConfigWhitelist" by code_simp
  then show "k \<in> set defaultMemoryConfigWhitelist \<Longrightarrow> plain_key k" by (simp add: list_all_iff)
qed

lemma whitelisted: "MemoryConfigWhitelist ks ws = None \<longleftrightarrow> set ks \<subseteq> set ws"
  by (auto simp: MemoryConfigWhitelist_def find_None_iff)

lemma merge_plain:
  assumes "\<And>n xs. mset (order n xs) = mset xs" "\<forall>(k, v) \<in> set kvs. plain_value v"
  shows "mergeProperties order body kvs = fold (\<lambda>(k, v) base. setProperty base k v) (order 2 kvs) body"
proof -
  have "set (order 0 kvs) = set kvs" using assms(1) by (metis set_mset_mset)
  then have "List.find (\<lambda>kv. looks_like_file (snd kv)) (order 0 kvs) = None"
    using assms(2) by (auto simp: find_None_iff plain_value_def)
  then show ?thesis by (simp add: mergeProperties_def)
qed

lemma to_map_single: "to_map [kv] = [kv]"
  by (cases kv) (simp add: to_map_def)

text \<open>The calls of a successful change of the memory configuration\<close>

lemma memory_write:
  assumes "ad_env A = Some (recorded_env ask)" "ExecuteWrite A step (s, []) = (r, (s', calls))" "wres_OK r"
    "rs_PlaybookID step = ''presto.adjust_memory_config''" "rs_Op step = ''k8s_patch_configmap''"
  defines "kvs \<equiv> entries (list_field (rs_Params step) ''patches'')"
  shows "\<exists>cur s1. ask s (ReadConfigMapKey (str_field (rs_Params step) ''namespace'') (str_field (rs_Params step) ''name'') ''config.properties'') = (Inr cur, s1) \<and>
    calls = [ReadConfigMapKey (str_field (rs_Params step) ''namespace'') (str_field (rs_Params step) ''name'') ''config.properties'',
      PatchConfigMap (str_field (rs_Params step) ''namespace'') (str_field (rs_Params step) ''name'')
        [(''config.properties'', mergeProperties (ad_order A) cur (to_map kvs))]] \<and>
    set (map fst kvs) \<subseteq> set defaultMemoryConfigWhitelist"
proof -
  obtain d sl where m: "applyMemoryConfigWhitelist A (recorded_env ask) step (s, []) = (Inr d, sl)"
    "execK8sPatchConfigMap (recorded_env ask) d sl = (r, (s', calls))"
    using assms(1-5) by (auto simp: ExecuteWrite_def dispatch_write_def refused_def split: if_splits sum.splits option.splits prod.splits)
  obtain cur s1 where c: "ask s (ReadConfigMapKey (str_field (rs_Params step) ''namespace'') (str_field (rs_Params step) ''name'') ''config.properties'') = (Inr cur, s1)"
    "sl = (s1, [ReadConfigMapKey (str_field (rs_Params step) ''namespace'') (str_field (rs_Params step) ''name'') ''config.properties''])"
    "d = dset (rs_Params step) ''patches'' (PList [key_value (''config.properties'', mergeProperties (ad_order A) cur (to_map kvs))])"
    "set (map fst kvs) \<subseteq> set defaultMemoryConfigWhitelist"
    using m(1) assms(5) whitelisted
    by (auto simp: applyMemoryConfigWhitelist_def extractMemoryPatches_def recorded_env_def Let_def kvs_def
        split: sum.splits prod.splits option.splits if_splits)
  have "snd (s', calls) = snd sl @ [PatchConfigMap (str_field d ''namespace'') (str_field d ''name'') (to_map (entries (list_field d ''patches'')))]"
    using m(2) unfolding execK8sPatchConfigMap_def Let_def by (rule after_call_recorded)
  moreover have "to_map (entries (list_field d ''patches'')) = [(''config.properties'', mergeProperties (ad_order A) cur (to_map kvs))]"
    unfolding c(3) list_field_def by (simp add: dget_dset key_value_def str_field_def to_map_single)
  ultimately show ?thesis using c by (simp add: str_field_dset)
qed

text \<open>C18: A change of the memory configuration touches what it says.  When the probe reports success for patches whose values are plain, all
  keys are on the whitelist, the file that was read is written back to the same place with each key set to its value, and every other
  property in it reads as before.\<close>

theorem memory_patch_keeps_rest:
  assumes "ad_env A = Some (recorded_env ask)" "ExecuteWrite A step (s, []) = (r, (s', calls))" "wres_OK r"
    "rs_PlaybookID step = ''presto.adjust_memory_config''" "rs_Op step = ''k8s_patch_configmap''"
    "\<And>n xs. mset (ad_order A n xs) = mset xs"
    "\<forall>(k, v) \<in> set (to_map (entries (list_field (rs_Params step) ''patches''))). plain_value v"
  shows "\<exists>ns name cur s1 body. ask s (ReadConfigMapKey ns name ''config.properties'') = (Inr cur, s1) \<and>
    calls = [ReadConfigMapKey ns name ''config.properties'', PatchConfigMap ns name [(''config.properties'', body)]] \<and>
    (\<forall>(k, v) \<in> set (to_map (entries (list_field (rs_Params step) ''patches''))). k \<in> set defaultMemoryConfigWhitelist \<and> property k body = Some v) \<and>
    (\<forall>j. plain_key j \<and> j \<notin> set (map fst (entries (list_field (rs_Params step) ''patches''))) \<longrightarrow> property j body = property j cur)"
proof -
  define kvs where "kvs = entries (list_field (rs_Params step) ''patches'')"
  obtain ns name cur s1 where w: "ask s (ReadConfigMapKey ns name ''config.properties'') = (Inr cur, s1)"
    "calls = [ReadConfigMapKey ns name ''config.properties'', PatchConfigMap ns name [(''config.properties'', mergeProperties (ad_order A) cur (to_map kvs))]]"
    "set (map fst kvs) \<subseteq> set defaultMemoryConfigWhitelist"
    using memory_write[OF assms(1-5)] unfolding kvs_def by blast
  let ?m = "ad_order A 2 (to_map kvs)"
  have "mset ?m = mset (to_map kvs)" by (rule assms(6))
  then have m: "set ?m = set (to_map kvs)" "distinct (map fst ?m)"
    using to_map_keys(1)[of kvs] by (metis set_mset_mset, metis mset_map mset_eq_imp_distinct_iff)
  have keys: "fst ` set (to_map kvs) = set (map fst kvs)" using to_map_keys(2)[of kvs] by simp
  have wl: "k \<in> set defaultMemoryConfigWhitelist" if "(k, v) \<in> set (to_map kvs)" for k v
    using that keys w(3) by (metis fst_conv image_eqI subsetD)
  have plain: "\<forall>(k, v) \<in> set ?m. plain_key k \<and> plain_value v"
    using assms(7) whitelist_plain[OF wl] unfolding m(1) kvs_def[symmetric] by blast
  have body: "mergeProperties (ad_order A) cur (to_map kvs) = fold (\<lambda>(k, v) base. setProperty base k v) ?m cur"
    using merge_plain[of "ad_order A", OF assms(6)] assms(7) by (simp add: kvs_def)
  note merged = merged_properties(1)[OF m(2) plain, where body = cur, folded body] merged_properties(2)[OF m(2) plain, where body = cur, folded body]
  have "\<forall>(k, v) \<in> set (to_map kvs). k \<in> set defaultMemoryConfigWhitelist \<and> property k (mergeProperties (ad_order A) cur (to_map kvs)) = Some v"
    using merged(1) wl unfolding m(1) by blast
  moreover have "\<forall>j. plain_key j \<and> j \<notin> set (map fst kvs) \<longrightarrow> property j (mergeProperties (ad_order A) cur (to_map kvs)) = property j cur"
    using merged(2) unfolding m(1) keys by blast
  ultimately show ?thesis using w(1,2) unfolding kvs_def by blast
qed

text \<open>The whitelist can be bypassed.  When the one value under an allowed key has a line break, the probe writes this value as the whole
  file: whatever properties it lists are set, and all properties of the file that was read are lost.\<close>

theorem whitelist_bypassed:
  assumes "ad_env A = Some (recorded_env ask)" "ExecuteWrite A step (s, []) = (r, (s', calls))" "wres_OK r"
    "rs_PlaybookID step = ''presto.adjust_memory_config''" "rs_Op step = ''k8s_patch_configmap''"
    "\<And>n xs. mset (ad_order A n xs) = mset xs"
    "list_field (rs_Params step) ''patches'' = [key_value (k, v)]" "k \<noteq> []" "newline \<in> set v"
  shows "\<exists>ns name. last calls = PatchConfigMap ns name [(''config.properties'', v)]"
proof -
  have kvs: "to_map (entries (list_field (rs_Params step) ''patches'')) = [(k, v)]"
    using assms(7,8) by (simp add: key_value_def str_field_def to_map_single)
  have ord: "ad_order A n [(k, v)] = [(k, v)]" for n using assms(6)[of n "[(k, v)]"] by simp
  have "mergeProperties (ad_order A) cur [(k, v)] = v" for cur
    using assms(9) by (simp add: mergeProperties_def ord looks_like_file_def)
  then show ?thesis using memory_write[OF assms(1-5)] kvs by auto
qed

section \<open>Concrete writes\<close>

definition demo_config :: string where
  "demo_config = ''coordinator=true'' @ [newline] @ ''query.max-memory=1GB'' @ [newline]"

definition demo_runtime :: "unit runtime" where
  "demo_runtime s c = (Inr demo_config, s)"

definition demo_adapter :: "(unit \<times> env_call list) adapter" where
  "demo_adapter = \<lparr>ad_WriteEnabled = True, ad_env = Some (recorded_env demo_runtime),
     ad_schemas = Inr [(''k8s_patch_configmap'', \<lambda>_. None)], ad_order = (\<lambda>_ xs. xs)\<rparr>"

definition demo_patch :: "string \<Rightarrow> RemediationStep" where
  "demo_patch v = \<lparr>rs_PlaybookID = ''presto.adjust_memory_config'', rs_StepIndex = 0, rs_Op = ''k8s_patch_configmap'',
     rs_Params = [(''name'', PStr ''cfg''), (''namespace'', PStr ''ns''), (''patches'', PList [key_value (''query.max-memory'', v)])],
     rs_ExecutionID = ''x'', rs_SignatureOK = True\<rparr>"

definition demo_takeover :: string where
  "demo_takeover = ''1GB'' @ [newline] @ ''http-server.authentication.type=NONE''"

lemma demo_env: "ad_env demo_adapter = Some (recorded_env demo_runtime)" "mset (ad_order demo_adapter n xs) = mset xs"
  by (simp_all add: demo_adapter_def)

lemma demo_fields: "rs_PlaybookID (demo_patch v) = ''presto.adjust_memory_config''" "rs_Op (demo_patch v) = ''k8s_patch_configmap''"
  "list_field (rs_Params (demo_patch v)) ''patches'' = [key_value (''query.max-memory'', v)]"
  by (simp_all add: demo_patch_def list_field_def)

lemma demo_writes:
  "wres_OK (fst (ExecuteWrite demo_adapter (demo_patch ''2GB'') ((), [])))"
  "wres_OK (fst (ExecuteWrite demo_adapter (demo_patch demo_takeover) ((), [])))"
  by code_simp+

theorem one_write_on_target_witness:
  "\<exists>r s' calls. ExecuteWrite demo_adapter (demo_patch ''2GB'') ((), []) = (r, (s', calls)) \<and> length (filter modifies calls) = 1"
proof -
  obtain r s' calls where e: "ExecuteWrite demo_adapter (demo_patch ''2GB'') ((), []) = (r, (s', calls))" by (metis surj_pair)
  then show ?thesis using one_write_on_target[OF demo_env(1) e] demo_writes(1) by auto
qed

theorem memory_patch_keeps_rest_witness:
  "\<exists>ns name body. snd (snd (ExecuteWrite demo_adapter (demo_patch ''2GB'') ((), []))) =
     [ReadConfigMapKey ns name ''config.properties'', PatchConfigMap ns name [(''config.properties'', body)]] \<and>
     property ''query.max-memory'' body = Some ''2GB'' \<and> property ''coordinator'' body = Some ''true''"
proof -
  obtain r s' calls where e: "ExecuteWrite demo_adapter (demo_patch ''2GB'') ((), []) = (r, (s', calls))" by (metis surj_pair)
  have ok: "wres_OK r" using demo_writes(1) e by simp
  have kvs: "entries [key_value (''query.max-memory'', ''2GB'')] = [(''query.max-memory'', ''2GB'')]" by code_simp
  have p: "\<forall>(k, v) \<in> set (to_map (entries (list_field (rs_Params (demo_patch ''2GB'')) ''patches''))). plain_value v"
    unfolding demo_fields kvs to_map_single by simp code_simp
  have c: "property ''coordinator'' demo_config = Some ''true''" "plain_key ''coordinator''" by code_simp+
  obtain ns name cur s1 body where w: "demo_runtime () (ReadConfigMapKey ns name ''config.properties'') = (Inr cur, s1)"
    "calls = [ReadConfigMapKey ns name ''config.properties'', PatchConfigMap ns name [(''config.properties'', body)]]"
    "property ''query.max-memory'' body = Some ''2GB''" "property ''coordinator'' body = property ''coordinator'' cur"
    using memory_patch_keeps_rest[OF demo_env(1) e ok demo_fields(1,2) demo_env(2) p] c(2)
    unfolding demo_fields(3) kvs to_map_single by auto
  moreover have "cur = demo_config" using w(1) by (simp add: demo_runtime_def)
  ultimately show ?thesis using e c(1) by auto
qed

theorem whitelist_bypassed_witness:
  "\<exists>ns name. last (snd (snd (ExecuteWrite demo_adapter (demo_patch demo_takeover) ((), [])))) =
     PatchConfigMap ns name [(''config.properties'', demo_takeover)]"
proof -
  obtain r s' calls where e: "ExecuteWrite demo_adapter (demo_patch demo_takeover) ((), []) = (r, (s', calls))" by (metis surj_pair)
  have ok: "wres_OK r" using demo_writes(2) e by simp
  from whitelist_bypassed[OF demo_env(1) e ok demo_fields(1,2) demo_env(2) demo_fields(3)] e
  show ?thesis by (simp add: demo_takeover_def)
qed

end
