(* ===== verification/ProbeTasks.thy ===== *)
theory ProbeTasks
  imports ProbeWrites Rawcmd Probe
begin

text \<open>
  Tasks between the control plane and the probe: the probe's own check and execution of raw commands
  (\<open>probe/internal/rawcmd\<close>), the dispatch of a task and the chunks of its result
  (\<open>probe/internal/sessionclient/dispatch.go\<close>), and the gateway between them, which turns a request of
  the worker into a task and the chunks into a response (\<open>probe-gateway/internal/dispatch\<close>, \<open>internal/gwserver\<close>).

  The tools and health checks of the adapter, the runtime environment, the JSON encoder and decoder and Base64
  are parameters.  Texts of the platform are byte strings.
\<close>

section \<open>Raw commands on the probe\<close>

definition Allowlist :: "string list" where
  "Allowlist = [''cat'', ''grep'', ''egrep'', ''tail'', ''head'', ''ls'', ''ps'', ''df'', ''du'', ''free'', ''uptime'', ''curl'',
     ''jcmd'', ''jstack'', ''jmap'']"

definition forbiddenSubstrings :: "string list" where
  "forbiddenSubstrings = ['';'', ''&&'', ''||'', ''|'', ''>'', ''<'', [CHR 0x60], ''$('', [newline]]"

text \<open>\<open>strings.Fields\<close> with the field read so far\<close>

fun fields_from :: "string \<Rightarrow> string \<Rightarrow> string list" where
  "fields_from tok [] = (if tok = [] then [] else [tok])"
| "fields_from tok (c # s) =
     (if go_space c then (if tok = [] then fields_from [] s else tok # fields_from [] s) else fields_from (tok @ [c]) s)"

definition Fields :: "string \<Rightarrow> string list" where
  "Fields s = fields_from [] s"

definition forbiddenFlags :: "string list" where
  "forbiddenFlags = [''-X'', ''--request'', ''-d'', ''--data'', ''--data-raw'', ''--data-binary'', ''--data-urlencode'', ''-F'', ''--form'',
     ''-T'', ''--upload-file'', ''--delete'']"

text \<open>The text before a sign of equality that is not the first character\<close>

definition flag_of :: "string \<Rightarrow> string" where
  "flag_of a = (if CHR ''='' \<in> set a \<and> hd a \<noteq> CHR ''='' then takeWhile (\<lambda>c. c \<noteq> CHR ''='') a else a)"

definition validateCurl :: "string list \<Rightarrow> string option" where
  "validateCurl args =
     map_option (\<lambda>a. ''rawcmd: curl flag '' @ flag_of a @ '' is not permitted (GET only)'') (List.find (\<lambda>a. flag_of a \<in> set forbiddenFlags) args)"

definition validateJmap :: "string list \<Rightarrow> string option" where
  "validateJmap args =
     map_option (\<lambda>a. ''rawcmd: jmap flag '' @ a @ '' is not permitted (only -histo)'')
       (List.find (\<lambda>a. starts_with ''-'' a \<and> \<not> starts_with ''-histo'' a) args)"

definition Validate :: "string \<Rightarrow> string option" where
  "Validate cmd =
     (let trimmed = TrimSpace cmd in
      if trimmed = [] then Some ''rawcmd: empty command''
      else case List.find (\<lambda>f. contains f trimmed) forbiddenSubstrings of
        Some f \<Rightarrow> Some (''rawcmd: command contains forbidden syntax '' @ f)
      | None \<Rightarrow>
          (let fields = Fields trimmed in
           if ''sudo'' \<in> set fields then Some ''rawcmd: sudo is not permitted''
           else let bin = hd fields in
             if bin \<notin> set Allowlist then Some (''rawcmd: binary '' @ bin @ '' is not in the allowlist'')
             else if bin = ''curl'' then validateCurl (tl fields)
             else if bin = ''jmap'' then validateJmap (tl fields)
             else None))"

record exec_result =
  ex_Stdout :: string
  ex_Stderr :: string
  ex_ExitCode :: int

definition raw_truncate :: "string \<Rightarrow> nat \<Rightarrow> string \<times> bool" where
  "raw_truncate s maxBytes = (if length s \<le> maxBytes then (s, False) else (take maxBytes s, True))"

definition DefaultMaxOutputBytes :: nat where
  "DefaultMaxOutputBytes = 1048576"

text \<open>The environment runs a command line of words within a time.\<close>

definition raw_Execute ::
  "('s \<Rightarrow> string list \<Rightarrow> int \<Rightarrow> (string + exec_result) \<times> 's) \<Rightarrow> string \<Rightarrow> int \<Rightarrow> nat \<Rightarrow> 's \<Rightarrow> (string + (exec_result \<times> bool)) \<times> 's" where
  "raw_Execute exec cmd timeout maxOutputBytes s =
     (case Validate cmd of
        Some e \<Rightarrow> (Inl e, s)
      | None \<Rightarrow>
          (let t = (if timeout \<le> 0 then 60 else timeout); m = (if maxOutputBytes = 0 then DefaultMaxOutputBytes else maxOutputBytes) in
           case exec s (Fields cmd) t of
             (Inl e, s') \<Rightarrow> (Inl e, s')
           | (Inr r, s') \<Rightarrow>
               (case (raw_truncate (ex_Stdout r) m, raw_truncate (ex_Stderr r) m) of
                  ((out, to), (er, te)) \<Rightarrow> (Inr (\<lparr>ex_Stdout = out, ex_Stderr = er, ex_ExitCode = ex_ExitCode r\<rparr>, to \<or> te), s'))))"

section \<open>Tasks on the probe\<close>

record wire_step =
  ws_playbook_id :: string
  ws_step_index :: "32 word"
  ws_op :: string
  ws_params :: dict
  ws_execution_id :: string
  ws_signature :: string

datatype task_kind =
    ToolTask string dict
  | RawTask string
  | WriteTask wire_step
  | HealthTask bool string nat
  | NoTask

record task =
  tk_id :: string
  tk_timeout_seconds :: nat
  tk_max_output_bytes :: nat
  tk_kind :: task_kind

record TaskOutcome =
  oc_Payload :: string
  oc_ExitCode :: int
  oc_Truncated :: bool
  oc_Redacted :: bool
  oc_Error :: string

definition failed :: "string \<Rightarrow> TaskOutcome" where
  "failed e = \<lparr>oc_Payload = [], oc_ExitCode = 1, oc_Truncated = False, oc_Redacted = False, oc_Error = e\<rparr>"

record probe_result =
  pr_data :: pyval
  pr_exit_code :: int
  pr_truncated :: bool
  pr_redacted :: bool
  pr_error :: string
  pr_rest :: dict

text \<open>What a probe has: its adapter with tools and health checks, the environment that runs commands, the ring of keys, whether
  writes are enabled, the libraries, and what ends a wait before its time.\<close>

record 's probe =
  pb_adapter :: "'s adapter"
  pb_tool :: "'s \<Rightarrow> string \<Rightarrow> dict \<Rightarrow> (string + probe_result) \<times> 's"
  pb_health :: "'s \<Rightarrow> bool \<Rightarrow> string \<Rightarrow> (string + (bool \<times> pyval)) \<times> 's"
  pb_exec :: "'s \<Rightarrow> string list \<Rightarrow> int \<Rightarrow> (string + exec_result) \<times> 's"
  pb_keys :: KeyRing
  pb_write_enabled :: bool
  pb_sha256 :: "string \<Rightarrow> string"
  pb_canonicalize :: "dict \<Rightarrow> string option"
  pb_verify :: verifier
  pb_json :: "pyval \<Rightarrow> string option"
  pb_wait :: "nat \<Rightarrow> string option"

text \<open>The conversion to a signed number of 32 bits\<close>

definition go_int32 :: "int \<Rightarrow> int" where
  "go_int32 i = (i + 2 ^ 31) mod 2 ^ 32 - 2 ^ 31"

definition json_or_empty :: "'s probe \<Rightarrow> pyval \<Rightarrow> string" where
  "json_or_empty B v = (case pb_json B v of None \<Rightarrow> [] | Some t \<Rightarrow> t)"

text \<open>\<open>toolpack.Truncate\<close>\<close>

definition Truncate :: "'s probe \<Rightarrow> probe_result \<Rightarrow> nat \<Rightarrow> probe_result" where
  "Truncate B r maxBytes =
     (case pb_json B (pr_data r) of
        None \<Rightarrow> r
      | Some raw \<Rightarrow>
          if maxBytes = 0 \<or> length raw \<le> maxBytes then r
          else r\<lparr>pr_data := PDict [(''truncated_content'', PStr (take maxBytes raw))], pr_truncated := True\<rparr>)"

definition result_json :: "probe_result \<Rightarrow> pyval" where
  "result_json r = PDict (pr_rest r @ [(''exit_code'', PInt (pr_exit_code r)), (''truncated'', PBool (pr_truncated r)),
     (''redacted'', PBool (pr_redacted r)), (''data'', pr_data r)] @ (if pr_error r = [] then [] else [(''error'', PStr (pr_error r))]))"

definition handleToolCall :: "'s probe \<Rightarrow> string \<Rightarrow> dict \<Rightarrow> nat \<Rightarrow> 's \<Rightarrow> TaskOutcome \<times> 's" where
  "handleToolCall B name args maxBytes s =
     (case pb_tool B s name args of
        (Inl e, s') \<Rightarrow> (failed e, s')
      | (Inr r, s') \<Rightarrow>
          (let r' = Truncate B r maxBytes in
           case pb_json B (result_json r') of
             None \<Rightarrow> (failed ''json'', s')
           | Some p \<Rightarrow> (\<lparr>oc_Payload = p, oc_ExitCode = go_int32 (pr_exit_code r'), oc_Truncated = pr_truncated r', oc_Redacted = pr_redacted r',
               oc_Error = pr_error r'\<rparr>, s')))"

definition handleRawCommand :: "'s probe \<Rightarrow> string \<Rightarrow> int \<Rightarrow> nat \<Rightarrow> 's \<Rightarrow> TaskOutcome \<times> 's" where
  "handleRawCommand B cmd timeout maxBytes s =
     (case raw_Execute (pb_exec B) cmd timeout maxBytes s of
        (Inl e, s') \<Rightarrow> (failed e, s')
      | (Inr (r, t), s') \<Rightarrow>
          (case pb_json B (PDict [(''exit_code'', PInt (ex_ExitCode r)), (''stderr'', PStr (ex_Stderr r)), (''stdout'', PStr (ex_Stdout r))]) of
             None \<Rightarrow> (failed ''json'', s')
           | Some p \<Rightarrow> (\<lparr>oc_Payload = p, oc_ExitCode = go_int32 (ex_ExitCode r), oc_Truncated = t, oc_Redacted = False, oc_Error = []\<rparr>, s')))"

definition write_json :: "WriteResult \<Rightarrow> pyval" where
  "write_json r = PDict [(''OK'', PBool (wres_OK r)), (''Detail'', PStr (wres_Detail r)), (''Error'', PStr (wres_Error r))]"

definition verified :: "'s probe \<Rightarrow> wire_step \<Rightarrow> VerifyResult" where
  "verified B st = VerifyStep (pb_sha256 B) (pb_canonicalize B) (pb_verify B) (pb_keys B) (pb_write_enabled B) (ws_execution_id st)
     (ws_playbook_id st) (ws_step_index st) (ws_op st) (ws_params st) (ws_signature st)"

definition accepted_step :: "wire_step \<Rightarrow> RemediationStep" where
  "accepted_step st = \<lparr>rs_PlaybookID = ws_playbook_id st, rs_StepIndex = ws_step_index st, rs_Op = ws_op st, rs_Params = ws_params st,
     rs_ExecutionID = ws_execution_id st, rs_SignatureOK = True\<rparr>"

definition handleRemediationStep :: "'s probe \<Rightarrow> wire_step \<Rightarrow> 's \<Rightarrow> TaskOutcome \<times> 's" where
  "handleRemediationStep B st s =
     (if \<not> vr_OK (verified B st) then (failed (''write rejected: '' @ vr_Reason (verified B st)), s)
      else case ProbeWrites.ExecuteWrite (pb_adapter B) (accepted_step st) s of
        (r, s') \<Rightarrow> (\<lparr>oc_Payload = json_or_empty B (write_json r), oc_ExitCode = (if wres_OK r then 0 else 1), oc_Truncated = False,
          oc_Redacted = False, oc_Error = wres_Error r\<rparr>, s'))"

definition handleHealthCheck :: "'s probe \<Rightarrow> bool \<Rightarrow> string \<Rightarrow> nat \<Rightarrow> 's \<Rightarrow> TaskOutcome \<times> 's" where
  "handleHealthCheck B b q wait s =
     (case (if wait > 0 then pb_wait B wait else None) of
        Some e \<Rightarrow> (failed e, s)
      | None \<Rightarrow>
          (case pb_health B s b q of
             (Inl e, s') \<Rightarrow> (failed e, s')
           | (Inr (ok, v), s') \<Rightarrow>
               (\<lparr>oc_Payload = json_or_empty B v, oc_ExitCode = (if ok then 0 else 1), oc_Truncated = False, oc_Redacted = False,
                 oc_Error = []\<rparr>, s')))"

definition HandleTask :: "'s probe \<Rightarrow> task \<Rightarrow> 's \<Rightarrow> TaskOutcome \<times> 's" where
  "HandleTask B t s =
     (let maxBytes = (if tk_max_output_bytes t = 0 \<or> 2 ^ 63 \<le> tk_max_output_bytes t then DefaultMaxOutputBytes else tk_max_output_bytes t) in
      case tk_kind t of
        ToolTask name args \<Rightarrow> handleToolCall B name args maxBytes s
      | RawTask cmd \<Rightarrow> handleRawCommand B cmd (int (tk_timeout_seconds t)) maxBytes s
      | WriteTask st \<Rightarrow> handleRemediationStep B st s
      | HealthTask b q wait \<Rightarrow> handleHealthCheck B b q wait s
      | NoTask \<Rightarrow> (failed ''unknown task kind'', s))"

section \<open>Chunks\<close>

definition DefaultChunkSize :: nat where
  "DefaultChunkSize = 262144"

function chunks_of :: "nat \<Rightarrow> string \<Rightarrow> string list" where
  "chunks_of n s = (if n = 0 \<or> s = [] then [] else take n s # chunks_of n (drop n s))"
  by pat_completeness auto
termination by (relation "measure (\<lambda>(n, s). length s)") auto

declare chunks_of.simps [simp del]

definition ChunkPayload :: "string \<Rightarrow> nat \<Rightarrow> string list" where
  "ChunkPayload payload chunkSize =
     (let n = (if chunkSize = 0 then DefaultChunkSize else chunkSize) in if payload = [] then [[]] else chunks_of n payload)"

text \<open>The frames of a task that runs to its end; the numbers have 32 bits on the wire.\<close>

record chunk_frame =
  cf_task_id :: string
  cf_seq :: nat
  cf_data :: string
  cf_last :: bool

record task_result =
  rf_task_id :: string
  rf_exit_code :: int
  rf_truncated :: bool
  rf_redacted :: bool
  rf_error :: string
  rf_chunk_count :: nat

definition task_frames :: "string \<Rightarrow> TaskOutcome \<Rightarrow> chunk_frame list \<times> task_result" where
  "task_frames tid' oc =
     (let chunks = ChunkPayload (oc_Payload oc) DefaultChunkSize in
      (map (\<lambda>(i, c). \<lparr>cf_task_id = tid', cf_seq = i mod 2 ^ 32, cf_data = c, cf_last = (i = length chunks - 1)\<rparr>) (enumerate 0 chunks),
       \<lparr>rf_task_id = tid', rf_exit_code = oc_ExitCode oc, rf_truncated = oc_Truncated oc, rf_redacted = oc_Redacted oc,
        rf_error = oc_Error oc, rf_chunk_count = length chunks mod 2 ^ 32\<rparr>))"

section \<open>The session of a probe at the gateway\<close>

type_synonym chunk_store = "(string \<times> (nat \<times> string) list) list"

definition receiveChunk :: "chunk_frame \<Rightarrow> chunk_store \<Rightarrow> chunk_store" where
  "receiveChunk f st =
     AList.update (cf_task_id f) (AList.update (cf_seq f) (cf_data f) (case map_of st (cf_task_id f) of None \<Rightarrow> [] | Some m \<Rightarrow> m)) st"

definition reassembleChunks :: "(nat \<times> string) list \<Rightarrow> nat \<Rightarrow> string + string" where
  "reassembleChunks m expectedCount =
     (if length m mod 2 ^ 32 \<noteq> expectedCount then Inl ''gwserver: chunk_count mismatch on reassembly''
      else if sort (map fst m) \<noteq> map (\<lambda>i. i mod 2 ^ 32) [0..<length m] then Inl ''gwserver: chunk_count mismatch on reassembly''
      else Inr (concat (map (\<lambda>i. the (map_of m i)) (sort (map fst m)))))"

definition receiveResult :: "task_result \<Rightarrow> chunk_store \<Rightarrow> string + string" where
  "receiveResult r st = reassembleChunks (case map_of st (rf_task_id r) of None \<Rightarrow> [] | Some m \<Rightarrow> m) (rf_chunk_count r)"

section \<open>The gateway's HTTP surface\<close>

record gateway_lib =
  gl_b64 :: "string \<Rightarrow> string option"
  gl_raw_b64 :: "string \<Rightarrow> string option"
  gl_loads :: "string \<Rightarrow> pyval option"

text \<open>Decoding of a JSON field into a Go field: absent and null give the zero value.\<close>

definition go_string :: "dict \<Rightarrow> string \<Rightarrow> string option" where
  "go_string d k = (case dget d k of PNone \<Rightarrow> Some [] | PStr s \<Rightarrow> Some s | _ \<Rightarrow> None)"

definition go_uint32 :: "dict \<Rightarrow> string \<Rightarrow> nat option" where
  "go_uint32 d k = (case dget d k of PNone \<Rightarrow> Some 0 | PInt i \<Rightarrow> (if 0 \<le> i \<and> i < 2 ^ 32 then Some (nat i) else None) | _ \<Rightarrow> None)"

definition go_map :: "dict \<Rightarrow> string \<Rightarrow> dict option" where
  "go_map d k = (case dget d k of PNone \<Rightarrow> Some [] | PDict m \<Rightarrow> Some m | _ \<Rightarrow> None)"

definition go_bool_ptr :: "dict \<Rightarrow> string \<Rightarrow> bool option option" where
  "go_bool_ptr d k = (case dget d k of PNone \<Rightarrow> Some None | PBool b \<Rightarrow> Some (Some b) | _ \<Rightarrow> None)"

record executeRequest =
  er_platform_key :: string
  er_task_id :: string
  er_kind :: string
  er_tool :: string
  er_args :: dict
  er_command :: string
  er_timeout_seconds :: nat
  er_playbook_id :: string
  er_step_index :: nat
  er_op :: string
  er_params :: dict
  er_execution_id :: string
  er_signature :: string
  er_builtin :: "bool option"
  er_custom_query :: string
  er_wait_seconds :: nat

definition read_request :: "dict \<Rightarrow> executeRequest option" where
  "read_request d =
     Option.bind (go_string d ''platform_key'') (\<lambda>pk. Option.bind (go_string d ''task_id'') (\<lambda>t. Option.bind (go_string d ''kind'') (\<lambda>kind.
     Option.bind (go_string d ''tool'') (\<lambda>tl'. Option.bind (go_map d ''args'') (\<lambda>args. Option.bind (go_string d ''command'') (\<lambda>cmd.
     Option.bind (go_uint32 d ''timeout_seconds'') (\<lambda>ts. Option.bind (go_string d ''playbook_id'') (\<lambda>pid. Option.bind (go_uint32 d ''step_index'') (\<lambda>i.
     Option.bind (go_string d ''op'') (\<lambda>o'. Option.bind (go_map d ''params'') (\<lambda>params. Option.bind (go_string d ''execution_id'') (\<lambda>e.
     Option.bind (go_string d ''control_plane_signature'') (\<lambda>sig. Option.bind (go_bool_ptr d ''builtin'') (\<lambda>b.
     Option.bind (go_string d ''custom_query'') (\<lambda>q. Option.bind (go_uint32 d ''wait_seconds'') (\<lambda>n.
       Some \<lparr>er_platform_key = pk, er_task_id = t, er_kind = kind, er_tool = tl', er_args = args, er_command = cmd, er_timeout_seconds = ts,
         er_playbook_id = pid, er_step_index = i, er_op = o', er_params = params, er_execution_id = e, er_signature = sig, er_builtin = b,
         er_custom_query = q, er_wait_seconds = n\<rparr>))))))))))))))))"

text \<open>A protobuf structure has one type of number.\<close>

fun as_struct :: "pyval \<Rightarrow> pyval" where
  "as_struct (PInt i) = PFloat (of_int i)"
| "as_struct (PList xs) = PList (map as_struct xs)"
| "as_struct (PDict d) = PDict (map (\<lambda>kv. (fst kv, as_struct (snd kv))) d)"
| "as_struct v = v"

definition struct_map :: "dict \<Rightarrow> dict" where
  "struct_map d = map (\<lambda>kv. (fst kv, as_struct (snd kv))) d"

definition task_kind_of :: "gateway_lib \<Rightarrow> executeRequest \<Rightarrow> string + task_kind" where
  "task_kind_of G q =
     (if er_kind q = ''tool'' \<or> er_kind q = [] then
        (if er_tool q = [] then Inl ''tool required for kind=tool'' else Inr (ToolTask (er_tool q) (struct_map (er_args q))))
      else if er_kind q = ''raw_command'' then
        (if er_command q = [] then Inl ''command required for kind=raw_command'' else Inr (RawTask (er_command q)))
      else if er_kind q = ''write'' then
        (if er_op q = [] then Inl ''op required for kind=write''
         else if er_execution_id q = [] \<or> er_playbook_id q = [] then Inl ''execution_id and playbook_id required for kind=write''
         else case (case gl_b64 G (er_signature q) of Some sig \<Rightarrow> Some sig | None \<Rightarrow> gl_raw_b64 G (er_signature q)) of
           None \<Rightarrow> Inl ''control_plane_signature''
         | Some sig \<Rightarrow> Inr (WriteTask \<lparr>ws_playbook_id = er_playbook_id q, ws_step_index = of_nat (er_step_index q), ws_op = er_op q,
             ws_params = struct_map (er_params q), ws_execution_id = er_execution_id q, ws_signature = sig\<rparr>))
      else if er_kind q = ''health'' then
        Inr (HealthTask (case er_builtin q of None \<Rightarrow> True | Some b \<Rightarrow> b) (er_custom_query q) (er_wait_seconds q))
      else Inl (''unknown kind '' @ er_kind q))"

definition buildTaskRequest :: "gateway_lib \<Rightarrow> executeRequest \<Rightarrow> string + task" where
  "buildTaskRequest G q =
     map_sum id (\<lambda>k. \<lparr>tk_id = er_task_id q, tk_timeout_seconds = (if er_timeout_seconds q = 0 then 60 else er_timeout_seconds q),
       tk_max_output_bytes = 0, tk_kind = k\<rparr>) (task_kind_of G q)"

text \<open>What becomes of a task: no session, lost on the way, run without a result in time, run while the session ends, or answered.  A caller
  that goes away before its time gets no response at all.\<close>

datatype link = NotConnected | Lost | Late | Dropped | Answered

definition timed_out :: "task \<Rightarrow> task_result" where
  "timed_out t = \<lparr>rf_task_id = tk_id t, rf_exit_code = 1, rf_truncated = False, rf_redacted = False,
     rf_error = ''gwserver: task dispatch timed out'', rf_chunk_count = 0\<rparr>"

definition Dispatch :: "'s probe \<Rightarrow> link \<Rightarrow> task \<Rightarrow> 's \<Rightarrow> (string + (task_result \<times> string)) \<times> 's" where
  "Dispatch B l t s =
     (case l of
        NotConnected \<Rightarrow> (Inl ''gwserver: no active session for platform'', s)
      | Lost \<Rightarrow> (Inr (timed_out t, []), s)
      | Late \<Rightarrow> (Inr (timed_out t, []), snd (HandleTask B t s))
      | Dropped \<Rightarrow> (Inl ''gwserver: no active session for platform'', snd (HandleTask B t s))
      | Answered \<Rightarrow>
          (case HandleTask B t s of
             (oc, s') \<Rightarrow>
               (case task_frames (tk_id t) oc of
                  (chunks, r) \<Rightarrow> (map_sum id (\<lambda>d. (r, d)) (receiveResult r (fold receiveChunk chunks [])), s'))))"

record executeResponse =
  rp_exit_code :: int
  rp_data :: "pyval option"
  rp_redacted :: bool
  rp_truncated :: bool
  rp_error :: string

definition plain_response :: "task_result \<Rightarrow> executeResponse" where
  "plain_response r = \<lparr>rp_exit_code = rf_exit_code r, rp_data = None, rp_redacted = rf_redacted r, rp_truncated = rf_truncated r, rp_error = rf_error r\<rparr>"

text \<open>The envelope in the data of a result overrides what the result says.\<close>

definition with_envelope :: "dict \<Rightarrow> executeResponse \<Rightarrow> executeResponse" where
  "with_envelope m p =
     \<lparr>rp_exit_code = (case dget m ''exit_code'' of PInt i \<Rightarrow> i | PFloat q \<Rightarrow> (if 0 \<le> q then \<lfloor>q\<rfloor> else \<lceil>q\<rceil>) | _ \<Rightarrow> rp_exit_code p),
      rp_data = (if \<not> has_key m ''data'' then Some (PDict m) else if dget m ''data'' = PNone then None else Some (dget m ''data'')),
      rp_redacted = (case dget m ''redacted'' of PBool b \<Rightarrow> b | _ \<Rightarrow> rp_redacted p),
      rp_truncated = (case dget m ''truncated'' of PBool b \<Rightarrow> b | _ \<Rightarrow> rp_truncated p), rp_error = rp_error p\<rparr>"

definition with_data :: "gateway_lib \<Rightarrow> string \<Rightarrow> executeResponse \<Rightarrow> executeResponse" where
  "with_data G d p =
     (if d = [] then p
      else case gl_loads G d of
        Some (PDict m) \<Rightarrow> with_envelope m p
      | Some PNone \<Rightarrow> p\<lparr>rp_data := Some PNone\<rparr>
      | _ \<Rightarrow> p\<lparr>rp_data := Some (PStr d)\<rparr>)"

definition response_json :: "string \<Rightarrow> executeResponse \<Rightarrow> pyval" where
  "response_json t p =
     PDict ([(''task_id'', PStr t), (''exit_code'', PInt (rp_exit_code p))] @ (case rp_data p of None \<Rightarrow> [] | Some v \<Rightarrow> [(''data'', v)]) @
       [(''redacted'', PBool (rp_redacted p)), (''truncated'', PBool (rp_truncated p))] @
       (if rp_error p = [] then [] else [(''error'', PStr (rp_error p))]))"

definition http_error :: "int \<Rightarrow> string \<Rightarrow> response" where
  "http_error code msg = \<lparr>status_code = code, rtext = msg @ [newline], content = msg @ [newline], rjson = Inl (ValueError ''json'')\<rparr>"

text \<open>A POST request of at most 1 MiB that is well-formed JSON with the keys spelled as declared; \<open>bytes\<close> is the encoded
  response.\<close>

definition handleExecute :: "gateway_lib \<Rightarrow> 's probe \<Rightarrow> (pyval \<Rightarrow> string) \<Rightarrow> link \<Rightarrow> dict \<Rightarrow> 's \<Rightarrow> response \<times> 's" where
  "handleExecute G B bytes l body s =
     (case read_request body of
        None \<Rightarrow> (http_error 400 ''invalid json'', s)
      | Some q \<Rightarrow>
          if er_platform_key q = [] \<or> er_task_id q = [] then (http_error 400 ''platform_key and task_id required'', s)
          else case buildTaskRequest G q of
            Inl e \<Rightarrow> (http_error 400 e, s)
          | Inr t \<Rightarrow>
              (case Dispatch B l t s of
                 (Inl e, s') \<Rightarrow> (http_error 502 e, s')
               | (Inr (r, d), s') \<Rightarrow>
                   (let v = response_json (er_task_id q) (with_data G d (plain_response r)) in
                    (\<lparr>status_code = 200, rtext = bytes v, content = bytes v, rjson = Inr v\<rparr>, s'))))"

section \<open>Chunks come together again\<close>

lemma chunks_concat: "0 < n \<Longrightarrow> concat (chunks_of n s) = s"
proof (induction n s rule: chunks_of.induct)
  case (1 n s)
  then show ?case by (cases "s = []") (simp_all add: chunks_of.simps[of n s] chunks_of.simps[of n "[]"])
qed

lemma ChunkPayload_concat: "concat (ChunkPayload payload n) = payload"
  by (simp add: ChunkPayload_def chunks_concat DefaultChunkSize_def Let_def)

lemma chunk_sizes: "c \<in> set (chunks_of n s) \<Longrightarrow> length c \<le> n"
proof (induction n s rule: chunks_of.induct)
  case (1 n s)
  show ?case
  proof (cases "n = 0 \<or> s = []")
    case True
    then show ?thesis using "1.prems" by (simp add: chunks_of.simps[of n s])
  next
    case False
    then have "c = take n s \<or> c \<in> set (chunks_of n (drop n s))" using "1.prems" by (subst (asm) chunks_of.simps) simp
    then show ?thesis using "1.IH"[OF False] by auto
  qed
qed

lemma payload_sizes: "c \<in> set (ChunkPayload payload DefaultChunkSize) \<Longrightarrow> length c \<le> 262144"
  using chunk_sizes[of c DefaultChunkSize payload] by (simp add: ChunkPayload_def DefaultChunkSize_def Let_def split: if_splits)

lemma update_fresh: "k \<notin> set (map fst m) \<Longrightarrow> AList.update k v m = m @ [(k, v)]"
  by (induction m) auto

definition chunks_for :: "string \<Rightarrow> chunk_store \<Rightarrow> (nat \<times> string) list" where
  "chunks_for t st = (case map_of st t of None \<Rightarrow> [] | Some m \<Rightarrow> m)"

lemma received:
  assumes "\<forall>f \<in> set fs. cf_task_id f = t" "distinct (map fst (chunks_for t st) @ map cf_seq fs)"
  shows "chunks_for t (fold receiveChunk fs st) = chunks_for t st @ map (\<lambda>f. (cf_seq f, cf_data f)) fs"
  using assms
proof (induction fs arbitrary: st)
  case (Cons f fs)
  have "chunks_for t (receiveChunk f st) = AList.update (cf_seq f) (cf_data f) (chunks_for t st)"
    using Cons.prems(1) by (simp add: chunks_for_def receiveChunk_def update_conv)
  also have "\<dots> = chunks_for t st @ [(cf_seq f, cf_data f)]" using Cons.prems(2) by (intro update_fresh) auto
  finally have one: "chunks_for t (receiveChunk f st) = chunks_for t st @ [(cf_seq f, cf_data f)]" .
  have "chunks_for t (fold receiveChunk fs (receiveChunk f st)) = chunks_for t (receiveChunk f st) @ map (\<lambda>f. (cf_seq f, cf_data f)) fs"
    using Cons.prems one by (intro Cons.IH) auto
  then show ?case by (simp add: one)
qed simp

lemma enumerate_lookup: "distinct (map fst m) \<Longrightarrow> mset m = mset (enumerate 0 xs) \<Longrightarrow> i < length xs \<Longrightarrow> map_of m i = Some (xs ! i)"
proof -
  assume m: "distinct (map fst m)" "mset m = mset (enumerate 0 xs)" "i < length xs"
  have "(i, xs ! i) \<in> set (enumerate 0 xs)" using m(3) by (simp add: in_set_enumerate_eq)
  then have "(i, xs ! i) \<in> set m" using m(2) by (metis set_mset_mset)
  then show "map_of m i = Some (xs ! i)" using m(1) by simp
qed

lemma reassembled:
  assumes "mset m = mset (enumerate 0 xs)" "length xs < 2 ^ 32"
  shows "reassembleChunks m (length xs mod 2 ^ 32) = Inr (concat xs)"
proof -
  have len: "length m = length xs" using assms(1) by (metis length_enumerate size_mset)
  have "mset (map fst m) = mset (map fst (enumerate 0 xs))" using assms(1) by (metis mset_map)
  then have keys: "mset (map fst m) = mset [0..<length xs]" by (simp add: enumerate_map_upt map_fst_enumerate)
  then have srt: "sort (map fst m) = [0..<length xs]" by (intro properties_for_sort) auto
  have dist: "distinct (map fst m)" using keys mset_eq_imp_distinct_iff by (metis distinct_upt)
  have "map (\<lambda>i. i mod 2 ^ 32) [0..<length xs] = [0..<length xs]" using assms(2) by (intro map_idI) auto
  moreover have "map (\<lambda>i. the (map_of m i)) [0..<length xs] = xs"
    using enumerate_lookup[OF dist assms(1)] by (intro nth_equalityI) auto
  ultimately show ?thesis using srt len by (simp add: reassembleChunks_def)
qed

abbreviation seq_data :: "chunk_frame \<Rightarrow> nat \<times> string" where
  "seq_data f \<equiv> (cf_seq f, cf_data f)"

lemma frames_enumerate:
  assumes "task_frames t oc = (chunks, r)" "length chunks < 2 ^ 32"
  shows "map seq_data chunks = enumerate 0 (ChunkPayload (oc_Payload oc) DefaultChunkSize)" "\<forall>f \<in> set chunks. cf_task_id f = t"
    "rf_task_id r = t" "rf_chunk_count r = length chunks mod 2 ^ 32" "length chunks = length (ChunkPayload (oc_Payload oc) DefaultChunkSize)"
proof -
  let ?cs = "ChunkPayload (oc_Payload oc) DefaultChunkSize"
  have "map seq_data chunks = map (\<lambda>(i, c). (i mod 2 ^ 32, c)) (enumerate 0 ?cs)"
    using assms(1) by (auto simp: task_frames_def Let_def)
  also have "\<dots> = enumerate 0 ?cs" using assms by (intro map_idI) (auto simp: in_set_enumerate_eq task_frames_def Let_def)
  finally show "map seq_data chunks = enumerate 0 ?cs" .
qed (use assms(1) in \<open>auto simp: task_frames_def Let_def\<close>)

text \<open>Whichever of the frames arrived, in whatever order, are stored one by one.\<close>

lemma frames_stored:
  assumes "task_frames t oc = (chunks, r)" "length chunks < 2 ^ 32" "mset frames \<subseteq># mset chunks"
  shows "chunks_for t (fold receiveChunk frames []) = map seq_data frames"
proof -
  note f = frames_enumerate[OF assms(1,2)]
  have "map cf_seq chunks = map fst (map seq_data chunks)" by simp
  also have "\<dots> = [0..<length chunks]" unfolding f(1,5) by (simp add: map_fst_enumerate)
  finally have "distinct (map cf_seq chunks)" by simp
  obtain rest where rest: "mset chunks = mset (frames @ rest)" using assms(3) by (metis ex_mset mset_append subset_mset.add_diff_inverse)
  then have "mset (map cf_seq chunks) = mset (map cf_seq (frames @ rest))" by (simp only: mset_map)
  then have "distinct (map cf_seq (frames @ rest))" using \<open>distinct (map cf_seq chunks)\<close> mset_eq_imp_distinct_iff by blast
  moreover have "set frames \<subseteq> set chunks" using mset_eq_setD[OF rest] by auto
  ultimately show ?thesis using received[of frames t "[]"] f(2) by (auto simp: chunks_for_def)
qed

lemma result_of_store: "rf_task_id r = t \<Longrightarrow> receiveResult r st = reassembleChunks (chunks_for t st) (rf_chunk_count r)"
  by (simp add: receiveResult_def chunks_for_def)

lemma received_payload:
  assumes "task_frames t oc = (chunks, r)" "length chunks < 2 ^ 32" "mset frames = mset chunks"
  shows "receiveResult r (fold receiveChunk frames []) = Inr (oc_Payload oc)"
proof -
  let ?cs = "ChunkPayload (oc_Payload oc) DefaultChunkSize"
  note f = frames_enumerate[OF assms(1,2)]
  have "mset (map seq_data frames) = mset (enumerate 0 ?cs)" unfolding f(1)[symmetric] using assms(3) by (simp only: mset_map)
  from reassembled[OF this] have "reassembleChunks (map seq_data frames) (length chunks mod 2 ^ 32) = Inr (concat ?cs)"
    using f(5) assms(2) by simp
  then show ?thesis
    using frames_stored[OF assms(1,2), of frames] assms(3) result_of_store[OF f(3)] f(4) by (simp add: ChunkPayload_concat)
qed

text \<open>C39: What the probe sends arrives or fails.  The chunks of a result, none longer than 256 KiB, are put together to its payload at the
  gateway in whatever order they arrive; when any of them is lost, the gateway answers with an error and never with a part of the
  payload.\<close>

theorem chunks_round_trip:
  assumes "task_frames t oc = (chunks, r)" "length chunks < 2 ^ 32" "mset frames \<subseteq># mset chunks"
  shows "receiveResult r (fold receiveChunk frames []) =
      (if mset frames = mset chunks then Inr (oc_Payload oc) else Inl ''gwserver: chunk_count mismatch on reassembly'') \<and>
    (\<forall>f \<in> set frames. length (cf_data f) \<le> 262144)"
proof (rule conjI)
  note f = frames_enumerate[OF assms(1,2)]
  have "receiveResult r (fold receiveChunk frames []) = Inl ''gwserver: chunk_count mismatch on reassembly''" if "mset frames \<noteq> mset chunks"
  proof -
    have "length frames < length chunks" using that assms(3) by (metis mset_subset_size size_mset subset_mset.less_le)
    then show ?thesis
      using frames_stored[OF assms] result_of_store[OF f(3)] f(4) assms(2) by (simp add: reassembleChunks_def)
  qed
  then show "receiveResult r (fold receiveChunk frames []) =
      (if mset frames = mset chunks then Inr (oc_Payload oc) else Inl ''gwserver: chunk_count mismatch on reassembly'')"
    using received_payload[OF assms(1,2)] by simp
  have "length (cf_data f) \<le> 262144" if "f \<in> set chunks" for f
  proof -
    have "seq_data f \<in> set (map seq_data chunks)" using that by auto
    then have "cf_data f \<in> set (ChunkPayload (oc_Payload oc) DefaultChunkSize)"
      unfolding f(1) in_set_enumerate_eq by (auto intro!: nth_mem dest!: sym[of "_ ! _"])
    then show ?thesis by (rule payload_sizes)
  qed
  then show "\<forall>f \<in> set frames. length (cf_data f) \<le> 262144" using assms(3) by (auto dest: mset_subset_eqD)
qed

definition demo_outcome :: TaskOutcome where
  "demo_outcome = (failed ''late'')\<lparr>oc_Payload := ''{}'', oc_ExitCode := 0\<rparr>"

lemma demo_frames:
  "task_frames ''t1'' demo_outcome =
     ([\<lparr>cf_task_id = ''t1'', cf_seq = 0, cf_data = ''{}'', cf_last = True\<rparr>],
      \<lparr>rf_task_id = ''t1'', rf_exit_code = 0, rf_truncated = False, rf_redacted = False, rf_error = ''late'', rf_chunk_count = 1\<rparr>)"
  by (simp add: task_frames_def demo_outcome_def failed_def ChunkPayload_def DefaultChunkSize_def chunks_of.simps)

theorem chunks_round_trip_witness:
  "receiveResult (snd (task_frames ''t1'' demo_outcome)) (fold receiveChunk (rev (fst (task_frames ''t1'' demo_outcome))) []) = Inr ''{}'' \<and>
   receiveResult (snd (task_frames ''t1'' demo_outcome)) [] = Inl ''gwserver: chunk_count mismatch on reassembly''"
  using chunks_round_trip[OF demo_frames, of "fst (task_frames ''t1'' demo_outcome)"] chunks_round_trip[OF demo_frames, of "[]"]
  by (simp add: demo_frames) (simp add: demo_outcome_def)

end
