(* ===== verification/ProbeChannel.thy ===== *)
theory ProbeChannel
  imports ProbeTasks ExecutionSafety
begin

text \<open>
  From the worker to the platform: what the probe makes of an approved command, and what it did when the worker's
  client reports a signed step as done.  The gateway and the probe answer the worker's HTTP client here; what
  becomes of a task on the way is arbitrary.
\<close>

section \<open>Words of a command\<close>

lemma fields_part: "w \<in> set (fields_from tok s) \<Longrightarrow> \<exists>a b. tok @ s = a @ w @ b"
proof (induction tok s rule: fields_from.induct)
  case (1 tok)
  then show ?case by (intro exI[of _ "[]"]) (auto split: if_splits)
next
  case (2 tok c s)
  show ?case
  proof (cases "go_space c")
    case True
    then consider "w = tok" | "w \<in> set (fields_from [] s)" using 2(4) by (auto split: if_splits)
    then show ?thesis
    proof cases
      case 1
      then show ?thesis by (intro exI[of _ "[]"] exI[of _ "c # s"]) simp
    next
      case w: 2
      obtain a b where "s = a @ w @ b" using 2(1,2)[OF True] w by (cases "tok = []") auto
      then show ?thesis by (intro exI[of _ "tok @ c # a"] exI[of _ b]) simp
    qed
  next
    case False
    then show ?thesis using 2 by auto
  qed
qed

lemma fields_nonempty: "w \<in> set (fields_from tok s) \<Longrightarrow> w \<noteq> []"
  by (induction tok s rule: fields_from.induct) (auto split: if_splits)

lemma fields_leading: "\<forall>c \<in> set a. go_space c \<Longrightarrow> fields_from [] (a @ s) = fields_from [] s"
  by (induction a) auto

lemma fields_trailing: "\<forall>c \<in> set b. go_space c \<Longrightarrow> fields_from tok (s @ b) = fields_from tok s"
proof (induction tok s rule: fields_from.induct)
  case (1 tok)
  then show ?case by (cases b) (auto simp: fields_leading[of _ "[]", simplified])
qed auto

lemma Fields_trimmed: "Fields (TrimSpace s) = Fields s"
proof -
  obtain a b where s: "s = a @ TrimSpace s @ b" "\<forall>c \<in> set a \<union> set b. go_space c"
    using strip_by_decomp[of s go_space] by (auto simp: TrimSpace_def)
  have "Fields s = fields_from [] (TrimSpace s @ b)" using s fields_leading[of a] by (metis Fields_def UnI1)
  also have "\<dots> = Fields (TrimSpace s)" using s(2) by (simp add: Fields_def fields_trailing)
  finally show ?thesis by simp
qed

lemma Fields_ne: "TrimSpace s \<noteq> [] \<Longrightarrow> Fields s \<noteq> []"
proof -
  have word: "tok \<noteq> [] \<Longrightarrow> fields_from tok t \<noteq> []" for tok t by (induction tok t rule: fields_from.induct) auto
  assume "TrimSpace s \<noteq> []"
  then have "\<not> go_space (hd (TrimSpace s))" unfolding TrimSpace_def by (rule strip_by_hd)
  then have "Fields (TrimSpace s) \<noteq> []" using \<open>TrimSpace s \<noteq> []\<close> word by (cases "TrimSpace s") (auto simp: Fields_def)
  then show ?thesis by (simp add: Fields_trimmed)
qed

section \<open>What the probe runs\<close>

definition recorded_exec ::
  "('s \<Rightarrow> string list \<Rightarrow> int \<Rightarrow> (string + exec_result) \<times> 's) \<Rightarrow> 's \<times> (string list \<times> int) list \<Rightarrow> string list \<Rightarrow> int \<Rightarrow>
    (string + exec_result) \<times> 's \<times> (string list \<times> int) list" where
  "recorded_exec exec sl argv t = (case exec (fst sl) argv t of (r, s') \<Rightarrow> (r, (s', snd sl @ [(argv, t)])))"

text \<open>A command line that reads and does not write, by the probe's own rules\<close>

definition harmless :: "string list \<Rightarrow> bool" where
  "harmless argv \<longleftrightarrow> argv \<noteq> [] \<and> hd argv \<in> set Allowlist \<and> ''sudo'' \<notin> set argv \<and>
     (\<forall>w \<in> set argv. \<forall>f \<in> set forbiddenSubstrings. \<not> contains f w) \<and>
     (hd argv = ''curl'' \<longrightarrow> (\<forall>a \<in> set (tl argv). flag_of a \<notin> set forbiddenFlags)) \<and>
     (hd argv = ''jmap'' \<longrightarrow> (\<forall>a \<in> set (tl argv). starts_with ''-'' a \<longrightarrow> starts_with ''-histo'' a))"

lemma Validate_harmless:
  assumes "Validate cmd = None"
  shows "harmless (Fields cmd)"
proof -
  have ne: "TrimSpace cmd \<noteq> []" and clean: "\<forall>f \<in> set forbiddenSubstrings. \<not> contains f (TrimSpace cmd)"
    using assms by (auto simp: Validate_def Let_def find_None_iff split: if_splits option.splits)
  have rest: "''sudo'' \<notin> set (Fields cmd)" "hd (Fields cmd) \<in> set Allowlist"
    "hd (Fields cmd) = ''curl'' \<Longrightarrow> validateCurl (tl (Fields cmd)) = None" "hd (Fields cmd) = ''jmap'' \<Longrightarrow> validateJmap (tl (Fields cmd)) = None"
    using assms by (auto simp: Validate_def Let_def Fields_trimmed split: if_splits option.splits)
  have "\<not> contains f w" if "w \<in> set (Fields cmd)" "f \<in> set forbiddenSubstrings" for w f
  proof
    assume "contains f w"
    then obtain x y where w: "w = x @ f @ y" by (auto simp: contains_iff)
    have "w \<in> set (fields_from [] (TrimSpace cmd))" using that(1) Fields_trimmed[of cmd] by (simp add: Fields_def)
    then obtain a b where "TrimSpace cmd = a @ w @ b" using fields_part[of w "[]" "TrimSpace cmd"] by auto
    then have "TrimSpace cmd = (a @ x) @ f @ (y @ b)" using w by simp
    then have "contains f (TrimSpace cmd)" unfolding contains_iff by blast
    then show False using clean that(2) by blast
  qed
  moreover have "flag_of a \<notin> set forbiddenFlags" if "hd (Fields cmd) = ''curl''" "a \<in> set (tl (Fields cmd))" for a
    using rest(3)[OF that(1)] that(2) by (auto simp: validateCurl_def find_None_iff)
  moreover have "starts_with ''-histo'' a" if "hd (Fields cmd) = ''jmap''" "a \<in> set (tl (Fields cmd))" "starts_with ''-'' a" for a
    using rest(4)[OF that(1)] that(2,3) by (auto simp: validateJmap_def find_None_iff)
  ultimately show ?thesis using Fields_ne[OF ne] rest(1,2) by (auto simp: harmless_def)
qed

lemma truncated_length: "raw_truncate s n = (t, b) \<Longrightarrow> length t \<le> n"
  by (auto simp: raw_truncate_def split: if_splits)

lemma raw_runs:
  assumes "raw_Execute (recorded_exec exec) cmd timeout cap (s, []) = (r, (s', runs))"
  shows "(\<exists>e. Validate cmd = Some e \<and> r = Inl e \<and> runs = [] \<and> s' = s) \<or>
    (Validate cmd = None \<and> runs = [(Fields cmd, if timeout \<le> 0 then 60 else timeout)] \<and>
      (\<forall>x cut. r = Inr (x, cut) \<longrightarrow> length (ex_Stdout x) \<le> (if cap = 0 then 1048576 else cap) \<and> length (ex_Stderr x) \<le> (if cap = 0 then 1048576 else cap)))"
  using assms
  by (auto simp: raw_Execute_def recorded_exec_def DefaultMaxOutputBytes_def Let_def dest: truncated_length split: option.splits sum.splits prod.splits if_splits)

text \<open>C20: The probe runs nothing but what its own list allows.  Whatever command it is sent, it either runs nothing and answers with the error of
  its check, or it runs one command line, of an allowed binary, without \<open>sudo\<close> and shell syntax and without the flags it forbids,
  within a time, and answers with no more output than the limit.\<close>

theorem raw_runs_harmless:
  assumes "raw_Execute (recorded_exec exec) cmd timeout cap (s, []) = (r, (s', runs))"
  shows "(runs = [] \<and> s' = s \<and> (\<exists>e. r = Inl e)) \<or>
    (\<exists>argv t. runs = [(argv, t)] \<and> harmless argv \<and> 0 < t \<and>
      (\<forall>x cut. r = Inr (x, cut) \<longrightarrow> length (ex_Stdout x) \<le> (if cap = 0 then 1048576 else cap) \<and> length (ex_Stderr x) \<le> (if cap = 0 then 1048576 else cap)))"
proof -
  have "0 < (if timeout \<le> 0 then 60 else timeout)" by simp
  then show ?thesis using raw_runs[OF assms] Validate_harmless[of cmd] by blast
qed

section \<open>The command that was approved\<close>

text \<open>A command on which the worker and the probe agree about words: no quotes, no backslash, and no white space but blanks,
  tabs and line ends\<close>

definition plain_command :: "string \<Rightarrow> bool" where
  "plain_command s \<longleftrightarrow> (\<forall>c \<in> set s. \<not> shlex_quote c \<and> c \<noteq> backslash \<and> (is_space c \<or> go_space c \<longrightarrow> shlex_space c))"

lemma shlex_space_all: "shlex_space c \<Longrightarrow> is_space c \<and> go_space c"
  by (auto simp: shlex_space_def is_space_def go_space_def code_point_def)

lemma plain_char: "plain_command s \<Longrightarrow> c \<in> set s \<Longrightarrow> \<not> shlex_quote c \<and> c \<noteq> backslash \<and> (is_space c \<or> go_space c \<longrightarrow> shlex_space c)"
  unfolding plain_command_def by blast

lemma lex_plain:
  assumes "plain_command s"
  shows "lex Blank [] False s = Inr (fields_from [] s)" "tok \<noteq> [] \<Longrightarrow> lex InWord tok False s = Inr (fields_from tok s)"
proof -
  have "lex Blank [] False s = Inr (fields_from [] s) \<and> (\<forall>tok. tok \<noteq> [] \<longrightarrow> lex InWord tok False s = Inr (fields_from tok s))"
    using assms
  proof (induction s)
    case (Cons c s)
    have c: "\<not> shlex_quote c" "c \<noteq> backslash" "shlex_space c \<longleftrightarrow> go_space c"
      using plain_char[OF Cons.prems list.set_intros(1)] shlex_space_all[of c] by blast+
    have "plain_command s" using Cons.prems by (simp add: plain_command_def)
    note IH = Cons.IH[OF this]
    show ?case
    proof (cases "go_space c")
      case True
      then show ?thesis using IH c(3) by simp
    next
      case False
      then have "\<not> shlex_space c" using c(3) by simp
      then show ?thesis using IH c(1,2) False by (simp only: lex.simps fields_from.simps if_False) simp
    qed
  qed simp
  then show "lex Blank [] False s = Inr (fields_from [] s)" "tok \<noteq> [] \<Longrightarrow> lex InWord tok False s = Inr (fields_from tok s)" by auto
qed

lemma plain_words:
  assumes "plain_command cmd"
  shows "shlex_split (str_strip cmd) = Inr (Fields cmd)"
proof -
  obtain a b where s: "cmd = a @ str_strip cmd @ b" "\<forall>c \<in> set a \<union> set b. is_space c"
    using strip_by_decomp[of cmd is_space] by (auto simp: str_strip_def)
  have "set cmd = set a \<union> set (str_strip cmd) \<union> set b" using arg_cong[OF s(1), of set] by auto
  then have "\<forall>c \<in> set a \<union> set b. go_space c" "plain_command (str_strip cmd)"
    using s(2) assms shlex_space_all unfolding plain_command_def by blast+
  moreover have "Fields cmd = Fields (str_strip cmd)"
    using calculation(1) s(1) fields_leading[of a] fields_trailing[of b] by (metis Fields_def UnI1 UnI2)
  ultimately show ?thesis using lex_plain(1) by (simp add: shlex_split_def Fields_def)
qed

text \<open>C21: The probe runs the words that were approved.  When a command that the worker's check accepts has no quotes, no backslash and only
  plain white space, then what the probe runs, if anything, is the word list on which that check decided.\<close>

theorem approved_words_run:
  assumes "vr_ok (static_validate (Some cmd))" "plain_command cmd" "raw_Execute (recorded_exec exec) cmd timeout cap (s, []) = (r, (s', runs))"
  shows "\<exists>binary args. shlex_split (str_strip cmd) = Inr (binary # args) \<and> rsplit_slash binary \<in> set ALLOWED_BINARIES \<and>
    (\<forall>run \<in> set runs. fst run = binary # args)"
proof -
  obtain binary args where w: "shlex_split (str_strip cmd) = Inr (binary # args)" "rsplit_slash binary \<in> set ALLOWED_BINARIES"
    using assms(1) by (auto simp: static_validate_def Let_def split: if_splits sum.splits list.splits)
  then have "Fields cmd = binary # args" using plain_words[OF assms(2)] by simp
  then show ?thesis using w raw_runs[OF assms(3)] by auto
qed

text \<open>With quotes they differ: the worker decides on the words without quotes and the probe runs them with quotes.\<close>

lemma quoted_words_differ:
  "shlex_split [CHR ''l'', CHR ''s'', CHR '' '', CHR 0x22, CHR ''a'', CHR '' '', CHR ''b'', CHR 0x22] = Inr [''ls'', ''a b'']"
  "Fields [CHR ''l'', CHR ''s'', CHR '' '', CHR 0x22, CHR ''a'', CHR '' '', CHR ''b'', CHR 0x22] = [''ls'', [CHR 0x22, CHR ''a''], [CHR ''b'', CHR 0x22]]"
  by code_simp+

text \<open>Methods and bodies that are written together with their flag pass the probe's check; the worker's check refuses them.\<close>

lemma short_flags_pass:
  "Validate ''curl -XDELETE http://h/'' = None" "Validate ''curl -dx http://h/'' = None"
  "\<not> vr_ok (static_validate (Some ''curl -XDELETE http://h/''))" "\<not> vr_ok (static_validate (Some ''curl -dx http://h/''))"
  by code_simp+

section \<open>A step that the worker counts as done\<close>

definition gateway_post :: "gateway_lib \<Rightarrow> 's probe \<Rightarrow> (pyval \<Rightarrow> string) \<Rightarrow> link \<Rightarrow> 's \<Rightarrow> dict \<Rightarrow> response res \<times> 's" where
  "gateway_post G B bytes l s body = (case handleExecute G B bytes l body s of (r, s') \<Rightarrow> (Inr r, s'))"

lemma write_request:
  assumes "read_request (execute_body fresh (ExecuteWrite pk p i o' d e sg)) = Some q"
  shows "er_kind q = ''write''" "er_playbook_id q = p" "int (er_step_index q) = i" "er_op q = o'" "er_params q = d"
    "er_execution_id q = e" "er_signature q = sg" "0 \<le> i" "i < 2 ^ 32"
  using assms by (auto simp: read_request_def go_string_def go_uint32_def go_map_def go_bool_ptr_def dget_def DEFAULT_TIMEOUT_def
      bind_eq_Some_conv split: if_splits)

text \<open>A result without an error code comes from a task that was answered.\<close>

lemma ok_response:
  assumes "handleExecute G B bytes l body s = (r, s')" "read_response is_success t r = Inr x" "exit_code x = 0"
  shows "\<exists>q tk res d. read_request body = Some q \<and> buildTaskRequest G q = Inr tk \<and> Dispatch B l tk s = (Inr (res, d), s') \<and>
    rp_exit_code (with_data G d (plain_response res)) = 0"
proof -
  have err: False if "r = http_error c m" for c m
    using assms(2,3) that by (auto simp: read_response_def http_error_def timeout_result_def bind_res_def split: if_splits)
  obtain q tk res d where q: "read_request body = Some q" "buildTaskRequest G q = Inr tk" "Dispatch B l tk s = (Inr (res, d), s')"
    "rjson r = Inr (response_json (er_task_id q) (with_data G d (plain_response res)))" "status_code r = 200"
    using assms(1) err by (auto simp: handleExecute_def Let_def split: option.splits if_splits sum.splits prod.splits)
  have "rp_exit_code (with_data G d (plain_response res)) = 0"
    using assms(2,3) q(4,5)
    by (auto simp: read_response_def dispatch_timed_out_def response_json_def dget_or_def dget_def has_key_def bind_res_def split: if_splits)
  then show ?thesis using q by blast
qed

lemma few_chunks: "length s < 2 ^ 32 \<Longrightarrow> length (ChunkPayload s n) < 2 ^ 32"
proof -
  have "length (chunks_of m t) \<le> length t" for m t
  proof (induction m t rule: chunks_of.induct)
    case (1 m t)
    show ?case
    proof (cases "m = 0 \<or> t = []")
      case False
      then have "0 < length t" "length (chunks_of m (drop m t)) \<le> length t - m" using 1 by auto
      then have "Suc (length (chunks_of m (drop m t))) \<le> length t" using False by arith
      then show ?thesis using False by (simp add: chunks_of.simps[of m t])
    qed (simp add: chunks_of.simps[of m t])
  qed
  then show "length s < 2 ^ 32 \<Longrightarrow> length (ChunkPayload s n) < 2 ^ 32"
    by (simp add: ChunkPayload_def Let_def) (metis le_less_trans)
qed

text \<open>The gateway's decoder reads what the probe's encoder wrote for the result of a write, which is not larger than 4 GiB.\<close>

definition reads_results :: "gateway_lib \<Rightarrow> 's probe \<Rightarrow> bool" where
  "reads_results G B \<longleftrightarrow> (\<forall>r t. pb_json B (write_json r) = Some t \<longrightarrow> gl_loads G t = Some (write_json r) \<and> length t < 2 ^ 32)"

lemma dispatched_payload:
  assumes "HandleTask B t s = (oc, s')" "length (oc_Payload oc) < 2 ^ 32" "Dispatch B Answered t s = (Inr (res, d), s2)"
  shows "d = oc_Payload oc" "s2 = s'" "rf_exit_code res = oc_ExitCode oc"
proof -
  obtain chunks r where f: "task_frames (tk_id t) oc = (chunks, r)" by (rule prod.exhaust)
  have "length chunks < 2 ^ 32" using f few_chunks[OF assms(2)] by (auto simp: task_frames_def Let_def)
  then have "receiveResult r (fold receiveChunk chunks []) = Inr (oc_Payload oc)" using received_payload[OF f] by simp
  then have "res = r \<and> d = oc_Payload oc \<and> s2 = s'" using assms(1,3) f by (simp add: Dispatch_def)
  then show "d = oc_Payload oc" "s2 = s'" "rf_exit_code res = oc_ExitCode oc" using f by (auto simp: task_frames_def Let_def)
qed

lemma write_answered:
  assumes "reads_results G B" "tk_kind t = WriteTask st" "Dispatch B l t s = (Inr (res, d), s')"
    "rp_exit_code (with_data G d (plain_response res)) = 0"
  shows "l = Answered \<and> vr_OK (verified B st) \<and> (\<exists>r. ProbeWrites.ExecuteWrite (pb_adapter B) (accepted_step st) s = (r, s') \<and> wres_OK r)"
proof -
  have l: "l = Answered" using assms(3,4) by (cases l) (auto simp: Dispatch_def timed_out_def with_data_def plain_response_def)
  obtain oc s1 where h: "handleRemediationStep B st s = (oc, s1)" by (rule prod.exhaust)
  have ht: "HandleTask B t s = (oc, s1)" using h assms(2) by (simp add: HandleTask_def)
  show ?thesis
  proof (cases "vr_OK (verified B st)")
    case False
    then have "oc_Payload oc = []" "oc_ExitCode oc = 1" using h by (auto simp: handleRemediationStep_def failed_def)
    then show ?thesis using dispatched_payload[OF ht, of res d s'] assms(3,4) l by (simp add: with_data_def plain_response_def)
  next
    case True
    obtain r where r: "ProbeWrites.ExecuteWrite (pb_adapter B) (accepted_step st) s = (r, s1)" "oc_Payload oc = json_or_empty B (write_json r)"
      "oc_ExitCode oc = (if wres_OK r then 0 else 1)"
      using True h by (auto simp: handleRemediationStep_def split: prod.splits)
    have size: "length (oc_Payload oc) < 2 ^ 32" using assms(1) r(2) by (auto simp: reads_results_def json_or_empty_def split: option.splits)
    note d = dispatched_payload[OF ht size assms(3)[unfolded l]]
    have "rp_exit_code (with_data G d (plain_response res)) = rf_exit_code res"
      using assms(1) r(2) d(1)
      by (auto simp: reads_results_def json_or_empty_def with_data_def plain_response_def with_envelope_def write_json_def dget_def split: option.splits)
    then show ?thesis using assms(4) r d l True by (auto split: if_splits)
  qed
qed

lemma str_field_struct: "str_field (struct_map d) k = str_field d k"
proof -
  have "dget (struct_map d) k = as_struct (dget d k)" by (induction d) (auto simp: dget_def struct_map_def)
  then show ?thesis by (cases "dget d k") (simp_all add: str_field_def)
qed

lemma on_target_struct: "on_target o' (struct_map d) c = on_target o' d c"
  by (cases c) (simp_all add: str_field_struct)

text \<open>C9: A step that the worker counts as done was done.  When the worker's client, talking to the gateway and the probe, gives for a signed
  step a result that the worker takes for success, then the probe had writes enabled and verified the worker's signature over this very
  step, and it made exactly one call that changes the platform, with the operation and on the target of the step.\<close>

theorem done_step_was_written:
  assumes "http_ask is_success (gateway_post G B bytes l) fresh (s, []) (signed_write D sign pk pid eid idx st) = (Inr x, (s', calls))"
    "step_ok x" "ad_env (pb_adapter B) = Some (recorded_env ask)" "reads_results G B"
  defines "sig \<equiv> sign (canonical_step_hash (d_sha256 D) (d_canon D) (uuid_str eid) pid idx (op st) (op_params st))"
  assumes "gl_b64 G (b64encode sig) = Some sig"
  shows "vr_OK (VerifyStep (pb_sha256 B) (pb_canonicalize B) (pb_verify B) (pb_keys B) True (uuid_str eid) pid (word_of_int idx) (op st)
      (struct_map (op_params st)) sig) \<and>
    pb_write_enabled B \<and> length (filter modifies calls) = 1 \<and> (\<forall>c \<in> set calls. on_target (op st) (op_params st) c)"
proof -
  define c where "c = signed_write D sign pk pid eid idx st"
  let ?body = "execute_body (fresh (s, [])) c"
  obtain r where r: "handleExecute G B bytes l ?body (s, []) = (r, (s', calls))" "read_response is_success (dget ?body ''task_id'') r = Inr x"
    using assms(1) by (auto simp: http_ask_def gateway_post_def c_def[symmetric] Let_def split: prod.splits)
  obtain q tk res d where q: "read_request ?body = Some q" "buildTaskRequest G q = Inr tk" "Dispatch B l tk (s, []) = (Inr (res, d), (s', calls))"
    "rp_exit_code (with_data G d (plain_response res)) = 0"
    using ok_response[OF r] assms(2) by (auto simp: step_ok_def)
  define ws where "ws = \<lparr>ws_playbook_id = pid, ws_step_index = word_of_int idx, ws_op = op st, ws_params = struct_map (op_params st),
    ws_execution_id = uuid_str eid, ws_signature = sig\<rparr>"
  note f = write_request[OF q(1)[unfolded c_def signed_write_def sig_def[symmetric]]]
  have "of_nat (er_step_index q) = (word_of_int idx :: 32 word)" using f(3) by (metis of_int_of_nat_eq)
  then have "tk_kind tk = WriteTask ws"
    using q(2) f assms(6) by (auto simp: buildTaskRequest_def task_kind_of_def ws_def split: if_splits)
  from write_answered[OF assms(4) this q(3,4)] obtain wr where w: "vr_OK (verified B ws)"
    "ProbeWrites.ExecuteWrite (pb_adapter B) (accepted_step ws) (s, []) = (wr, (s', calls))" "wres_OK wr" by auto
  have "length (filter modifies calls) = 1 \<and> (\<forall>c \<in> set calls. on_target (op st) (op_params st) c)"
    using write_effect[OF assms(3) w(2)] w(3) by (simp add: accepted_step_def ws_def on_target_struct)
  moreover have "pb_write_enabled B" using w(1) by (auto simp: verified_def VerifyStep_iff)
  ultimately show ?thesis using w(1) by (simp add: verified_def ws_def VerifyStep_iff)
qed

section \<open>A concrete channel\<close>

definition demo_probe :: "(unit \<times> env_call list) probe" where
  "demo_probe = \<lparr>pb_adapter = \<lparr>ad_WriteEnabled = True, ad_env = Some (recorded_env (\<lambda>s c. (Inr [], s))),
       ad_schemas = Inr [(''k8s_delete_pod'', \<lambda>_. None)], ad_order = (\<lambda>_ xs. xs)\<rparr>,
     pb_tool = (\<lambda>s n a. (Inl ''none'', s)), pb_health = (\<lambda>s b q. (Inl ''none'', s)), pb_exec = (\<lambda>s argv t. (Inl ''none'', s)),
     pb_keys = \<lparr>kr_current = replicate 32 CHR ''a'', kr_previous = []\<rparr>, pb_write_enabled = True, pb_sha256 = id,
     pb_canonicalize = (\<lambda>_. Some ''{}''), pb_verify = (\<lambda>k m sg. sg = rev m),
     pb_json = (\<lambda>v. if v = write_json (performed ''deleted pod ns/p'') then Some ''{}'' else None), pb_wait = (\<lambda>_. None)\<rparr>"

definition demo_pod_step :: wstep where
  "demo_pod_step = mk_step ''k8s_delete_pod'' [(''name'', PStr ''p''), (''namespace'', PStr ''ns'')]"

abbreviation demo_sig :: string where
  "demo_sig \<equiv> rev (canonical_step_hash (d_sha256 demo_deps) (d_canon demo_deps) (uuid_str 40) ''presto.restart_worker'' 0 (op demo_pod_step) (op_params demo_pod_step))"

definition demo_gateway :: gateway_lib where
  "demo_gateway = \<lparr>gl_b64 = (\<lambda>_. Some demo_sig), gl_raw_b64 = (\<lambda>_. None),
     gl_loads = (\<lambda>t. if t = ''{}'' then Some (write_json (performed ''deleted pod ns/p'')) else None)\<rparr>"

abbreviation demo_asked :: "tool_result res \<times> unit \<times> env_call list" where
  "demo_asked \<equiv> http_ask (\<lambda>c. c = 200) (gateway_post demo_gateway demo_probe (\<lambda>_. ''{}'') Answered) (\<lambda>_. ''t1'') ((), [])
     (signed_write demo_deps rev (PStr ''p1'') ''presto.restart_worker'' 40 0 demo_pod_step)"

definition demo_wire :: wire_step where
  "demo_wire = \<lparr>ws_playbook_id = ''presto.restart_worker'', ws_step_index = 0, ws_op = ''k8s_delete_pod'',
     ws_params = [(''name'', PStr ''p''), (''namespace'', PStr ''ns'')], ws_execution_id = uuid_str 40, ws_signature = demo_sig\<rparr>"

lemma uuid_str_ne: "uuid_str u \<noteq> []"
  by (simp add: uuid_str_def Let_def)

lemma demo_task: "task_kind_of demo_gateway q = Inr (WriteTask demo_wire)"
  if "read_request (execute_body ''t1'' (signed_write demo_deps rev (PStr ''p1'') ''presto.restart_worker'' 40 0 demo_pod_step)) = Some q" for q
  using write_request[OF that[unfolded signed_write_def]] uuid_str_ne[of 40]
  by (simp add: task_kind_of_def demo_pod_step_def demo_gateway_def demo_wire_def struct_map_def)

lemma demo_request: "\<exists>q. read_request (execute_body ''t1'' (signed_write demo_deps rev (PStr ''p1'') ''presto.restart_worker'' 40 0 demo_pod_step)) = Some q \<and>
    er_platform_key q = ''p1'' \<and> er_task_id q = ''t1''"
  by (simp add: signed_write_def read_request_def go_string_def go_uint32_def go_map_def go_bool_ptr_def dget_def DEFAULT_TIMEOUT_def py_or_def)

lemma demo_handled: "handleRemediationStep demo_probe demo_wire ((), []) =
    (\<lparr>oc_Payload = ''{}'', oc_ExitCode = 0, oc_Truncated = False, oc_Redacted = False, oc_Error = []\<rparr>, ((), [DeletePod ''ns'' ''p'']))"
proof -
  have "CanonicalStepHash id (\<lambda>_. Some ''{}'') (uuid_str 40) ''presto.restart_worker'' (word_of_int 0) ''k8s_delete_pod'' (ws_params demo_wire) =
      Some (canonical_step_hash id (\<lambda>_. ''{}'') (uuid_str 40) ''presto.restart_worker'' 0 ''k8s_delete_pod'' (ws_params demo_wire))"
    by (rule step_hash_agrees) simp_all
  then have "vr_OK (verified demo_probe demo_wire)"
    by (simp add: verified_def VerifyStep_iff demo_probe_def demo_wire_def trusted_def PublicKeySize_def demo_deps_def demo_pod_step_def)
      (intro exI[of _ "replicate 32 CHR ''a''"], simp)
  moreover have "ProbeWrites.ExecuteWrite (pb_adapter demo_probe) (accepted_step demo_wire) ((), []) =
      (performed ''deleted pod ns/p'', ((), [DeletePod ''ns'' ''p'']))"
    by (simp add: ProbeWrites.ExecuteWrite_def demo_probe_def accepted_step_def demo_wire_def dispatch_write_def execK8sDeletePod_def
        str_field_def dget_def after_call_def recorded_env_def Let_def)
  ultimately show ?thesis by (simp add: handleRemediationStep_def json_or_empty_def performed_def) (simp add: demo_probe_def performed_def)
qed

lemma demo_done: "\<exists>x. demo_asked = (Inr x, ((), [DeletePod ''ns'' ''p''])) \<and> step_ok x"
proof -
  obtain q where q: "read_request (execute_body ''t1'' (signed_write demo_deps rev (PStr ''p1'') ''presto.restart_worker'' 40 0 demo_pod_step)) = Some q"
    "er_platform_key q = ''p1''" "er_task_id q = ''t1''" using demo_request by blast
  define tk where "tk = \<lparr>tk_id = ''t1'', tk_timeout_seconds = (if er_timeout_seconds q = 0 then 60 else er_timeout_seconds q),
    tk_max_output_bytes = 0, tk_kind = WriteTask demo_wire\<rparr>"
  define oc where "oc = \<lparr>oc_Payload = ''{}'', oc_ExitCode = 0, oc_Truncated = False, oc_Redacted = False, oc_Error = []\<rparr>"
  obtain chunks r where f: "task_frames ''t1'' oc = (chunks, r)" by (rule prod.exhaust)
  have r: "rf_exit_code r = 0" "rf_error r = []" using f by (auto simp: task_frames_def Let_def oc_def)
  have "length chunks < 2 ^ 32" using f few_chunks[of "''{}''" DefaultChunkSize] by (auto simp: task_frames_def Let_def oc_def)
  then have "receiveResult r (fold receiveChunk chunks []) = Inr ''{}''" using received_payload[OF f] by (simp add: oc_def)
  then have "Dispatch demo_probe Answered tk ((), []) = (Inr (r, ''{}''), ((), [DeletePod ''ns'' ''p'']))"
    using demo_handled f by (simp add: Dispatch_def HandleTask_def tk_def oc_def)
  moreover have "buildTaskRequest demo_gateway q = Inr tk" using demo_task[OF q(1)] q(3) by (simp add: buildTaskRequest_def tk_def)
  ultimately show ?thesis
    using q r by (simp add: http_ask_def gateway_post_def handleExecute_def read_response_def dispatch_timed_out_def with_data_def demo_gateway_def
        write_json_def performed_def with_envelope_def plain_response_def response_json_def has_key_def dget_def dget_or_def res_simps step_ok_def)
qed

theorem done_step_was_written_witness: "length (filter modifies (snd (snd demo_asked))) = 1"
proof -
  obtain x s' calls where e: "demo_asked = (Inr x, (s', calls))" "step_ok x"
    using demo_done by blast
  have "reads_results demo_gateway demo_probe"
    by (simp add: reads_results_def demo_gateway_def demo_probe_def)
  then show ?thesis using done_step_was_written[OF e] e(1) by (simp add: demo_gateway_def demo_probe_def)
qed

lemma Validate_demo: "Validate ''ls -l'' = None"
  by code_simp

theorem raw_runs_harmless_witness:
  "\<exists>argv t. snd (snd (raw_Execute (recorded_exec (\<lambda>s argv t. (Inl ''gone'', s))) ''ls -l'' 0 0 ((), []))) = [(argv, t)] \<and> harmless argv"
proof -
  obtain r s' runs where e: "raw_Execute (recorded_exec (\<lambda>s argv t. (Inl ''gone'', s))) ''ls -l'' 0 0 ((), []) = (r, (s', runs))"
    by (metis surj_pair)
  have "runs \<noteq> []" using raw_runs[OF e] by (simp add: Validate_demo)
  then show ?thesis using raw_runs_harmless[OF e] e by auto
qed

theorem approved_words_run_witness:
  "\<exists>binary args. shlex_split (str_strip ''ls -l'') = Inr (binary # args) \<and>
    (\<forall>run \<in> set (snd (snd (raw_Execute (recorded_exec (\<lambda>s argv t. (Inl ''gone'', s))) ''ls -l'' 0 0 ((), [])))). fst run = binary # args)"
proof -
  obtain r s' runs where e: "raw_Execute (recorded_exec (\<lambda>s argv t. (Inl ''gone'', s))) ''ls -l'' 0 0 ((), []) = (r, (s', runs))"
    by (metis surj_pair)
  have "vr_ok (static_validate (Some ''ls -l''))" "plain_command ''ls -l''" by code_simp+
  then show ?thesis using approved_words_run[OF _ _ e] e by auto
qed

end
