(* ===== verification/Spec2Isabelle.thy ===== *)
theory Spec2Isabelle
  imports WorkflowSafety Ingest HmacAuth MergeCommit Rawcmd Fingerprint ExecutionSafety KeyBootstrap CaseSafety Prompting Worker DashAccess
    Startup Affinity ReleaseRecord ProbeChannel
begin

text \<open>
  A verification development for the alert-triggered root-cause-analysis service: a gateway that receives alerts, a workflow with its
  activities that investigates a case and repairs it under human approval, and a dashboard on which people watch and decide.

  \<^bold>\<open>The program and its parts.\<close>  Alerts arrive at the ingest gateway (\<open>services/gateway\<close>), which authenticates the source, computes a
  fingerprint, merges the alert into an open case or opens one, and starts the workflow of the case.  The workflow
  (\<open>services/worker/workflows/investigation.py\<close>) runs on Temporal and only calls activities; the worker
  (\<open>services/worker/activities/investigation.py\<close>) executes them: it plans with a language model, collects evidence through the probe on the
  monitored platform, analyses it, and proposes, signs, executes and verifies repairs.  The dashboard
  (\<open>services/dashboard-api\<close>) authenticates users, lists what happened, takes decisions on approvals and signals workflows.  All of them share one
  PostgreSQL database (\<open>libs/py/rca_common/db\<close>), a configuration file and a notification sender.  Two scripts guard the benchmark of a
  release.  On the monitored platform a probe (\<open>probe\<close>) runs tools, approved commands and signed writes; a gateway
  (\<open>services/probe-gateway\<close>) keeps its session and answers the worker's HTTP client.

  \<^bold>\<open>The theories.\<close>
  \<^item> \<open>Prelude\<close>, \<open>Uuid\<close>: Python values, exceptions as values (\<open>'a res\<close>), dictionaries as ordered association lists, text functions, UUIDs and their
    text; the collection \<open>res_simps\<close> carries the error monad through the component proofs.
  \<^item> \<open>Models\<close>, \<open>Repo\<close>: the tables as records and lists of rows, \<open>write_audit\<close> (\<open>audit.py\<close>), every query and write of \<open>investigation_repo.py\<close>
    including the fused merge statement; \<open>db_ok\<close> is the key invariant, kept by every write.
  \<^item> \<open>Fingerprint\<close>, \<open>Ingest\<close>, \<open>MergeCommit\<close>, \<open>HmacAuth\<close>: the gateway (\<open>fingerprint.py\<close>, \<open>ingest.py\<close>, \<open>merge_commit.py\<close>, \<open>hmac_auth.py\<close>, \<open>app.py\<close>).  The
    coalescer is a step relation; the faults of a database session are explicit inputs of the grouped merge.
  \<^item> \<open>Workflow\<close>, \<open>WorkflowSafety\<close>: \<open>workflows/investigation.py\<close> as a state machine, one definition for each stretch of code between two awaits;
    invariants by induction over \<open>wreach\<close>.
  \<^item> \<open>Effects\<close>, \<open>World\<close>: programs with state and exceptions, and the state an activity works on: database, probe, object store, drawn identifiers.
  \<^item> \<open>Playbooks\<close>, \<open>Probe\<close>, \<open>Verification\<close>, \<open>Signing\<close>, \<open>KeyBootstrap\<close>, \<open>Rawcmd\<close>: the modules of the same names of worker and library.
  \<^item> \<open>Execution\<close>, \<open>ExecutionSafety\<close>, \<open>CaseActivities\<close>, \<open>CaseSafety\<close>: the activities that execute, verify, decide, open and close.
  \<^item> \<open>Prompting\<close>, \<open>LlmClient\<close>, \<open>LlmSafety\<close>, \<open>AgentActivities\<close>, \<open>Worker\<close>: prompts, the model client with its retry and its trace, the agents, and the
    dispatch of all registered activities.
  \<^item> \<open>Notifications\<close>, \<open>NotificationSafety\<close>: redaction, formats and delivery (\<open>notifications.py\<close>).
  \<^item> \<open>DashAuth\<close>, \<open>DashQueries\<close>, \<open>DashAdmin\<close>, \<open>DashApp\<close>: the dashboard (\<open>auth.py\<close>, \<open>errors.py\<close>, \<open>services.py\<close>, \<open>app.py\<close>, \<open>temporal_signals.py\<close>,
    \<open>bootstrap_admin.py\<close>), one definition per service and per endpoint; \<open>DashSafety\<close>, \<open>DashPaging\<close>, \<open>DashAccess\<close> hold its properties.
  \<^item> \<open>Config\<close>, \<open>Startup\<close>: the configuration and what each process makes of it and of its environment.
  \<^item> \<open>Affinity\<close>, \<open>ReleaseRecord\<close>: the scripts \<open>b1-affinity-helper.py\<close> and \<open>check_release_bench_record.py\<close>.
  \<^item> \<open>ProbeKeys\<close>, \<open>ProbeWrites\<close>, \<open>ProbeTasks\<close>: the probe's key store, signature check and write operations (\<open>probe/internal/writeops\<close>,
    \<open>probe/internal/adapter/presto/writeops.go\<close>), its raw commands, tasks and chunks (\<open>probe/internal/rawcmd\<close>,
    \<open>probe/internal/sessionclient\<close>), and the gateway's key reader, reassembly and HTTP surface (\<open>services/probe-gateway/internal\<close>);
    \<open>ProbeChannel\<close> puts them behind the worker's client.
  \<^item> This theory: the services composed over one database, and the properties that span them.

  \<^bold>\<open>State and operations.\<close>  A transaction is a function from the database to a result and a new database, or an exception and no change: SQLAlchemy
  commits at the end of a block and rolls back when it is left by an exception.  An activity or a request is a program over \<open>'s world\<close>; the type
  \<open>'s\<close> is the state of whatever the environment keeps (the probe, the model service, the webhooks, Temporal), so every answer they give may depend on
  everything they were sent.  The order of a run is a sequence of steps: \<open>workflow_step\<close> for one workflow, \<open>drain_step\<close> for the coalescer,
  \<open>history\<close> for a worker, \<open>requests\<close> for the dashboard, and \<open>system\<close> below for all services.

  \<^bold>\<open>Interfaces.\<close>  The locale \<open>db_order\<close> (\<open>CaseSafety\<close>) is the contract between the activities and whoever relies on what they keep of the
  database: a reflexive and transitive relation that each program keeps.  It is interpreted four times: on the evolution of the database
  (\<open>evolution\<close>), on the untouched evidence (\<open>evidence\<close>), on the accounts (\<open>accounts\<close>) and on equality (\<open>unchanged\<close>).

  \<^bold>\<open>What the lemmas show.\<close>  Nothing is executed without an approval of exactly that action; a resolved case was verified; closed cases stay closed and
  rounds are bounded (\<open>WorkflowSafety\<close>).  Every write is signed over what it does and recorded (\<open>ExecutionSafety\<close>, \<open>Signing\<close>); verification
  fails closed (\<open>CaseSafety\<close>, \<open>Verification\<close>).  The gateway authenticates, merges durably, agrees with its lock-free statement and loses
  no accepted alert (\<open>HmacAuth\<close>, \<open>Ingest\<close>, \<open>MergeCommit\<close>).  Model output meets its schema and each call is accounted for (\<open>LlmSafety\<close>); text that
  leaves is redacted (\<open>NotificationSafety\<close>).  On the dashboard effects need authority, accounts stay sound and paging is complete
  (\<open>DashAccess\<close>, \<open>DashSafety\<close>, \<open>DashPaging\<close>).  The probe accepts exactly what the worker signed, a rotated key expires, a step that the worker
  counts as done was one verified write on its target, and results arrive whole or not at all (\<open>ProbeKeys\<close>, \<open>ProbeWrites\<close>, \<open>ProbeTasks\<close>,
  \<open>ProbeChannel\<close>).  Some theorems prove where the code departs from what it says: a cursor that skips rows, an
  unset secret that accepts everybody, a retry whose cost is not counted, a check for carriage returns that never fires, a whitelist that a
  line break in a value gets around.

  \<^bold>\<open>Parameters.\<close>  Code that is not part of the repository is an argument: SHA-256, HMAC, Ed25519, RFC 8785, Argon2, JWT, the JSON and YAML
  decoders, the JSON schema validator, the text of times and of floats, the HTTP transports, Temporal, git, the container engine and the kernel, the row
  that \<open>LIMIT 1\<close> picks among ties, the order of rows that SQL leaves open and the order in which Go ranges over a map.  What a property needs of them is a premise, and its witness
  instantiates them.

  \<^bold>\<open>Simplifications.\<close>  Characters are those of Latin-1; floats are exact rationals; a clock is read once per activity or request; JSON columns
  hold objects or null; the advisory lock of the gateway is the atomicity of its transaction.

  \<^bold>\<open>Bounds and fuel.\<close>  Loops are structural recursion or carry a termination proof.  Two definitions may stop early: \<open>follow\<close> reads a given number of
  pages, and the paging theorems hold for every number above the number of rows; \<open>walk_loop\<close> is a partial function, and it is proved to
  return whenever process ids are bounded, as the kernel's are.

  \<^bold>\<open>Not modelled.\<close>  The rest of the probe and its gateway: the tools and detection of the adapter, the runtime environments, enrolment with
  its certificates, the registry and the sessions' goroutines (in the composed system the answers of a probe are arbitrary inputs).  The web
  interface, charts and images, the generated protocol classes, the DDL of the migrations (the keys it declares are \<open>db_ok\<close>), the
  adapters to S3 and Langfuse, which only call their SDKs, logging, argument parsing, and the frameworks (FastAPI, uvicorn, Temporal).
\<close>

section \<open>Steps of the system\<close>

datatype 's system_step =
    IngestGroup "join_row list \<Rightarrow> join_row option" int group_env "(alert \<times> item_env) list"
  | IngestOne "join_row list \<Rightarrow> join_row option" timestamp uuid dict int alert
  | Activity "'s deps" "'s agents" "'s notifier" activity dict
  | Request "'s app" endpoint "string option"

fun take_step :: "'s system_step \<Rightarrow> 's world \<Rightarrow> 's world" where
  "take_step (IngestGroup limit1 window g batch) w =
     (case execute_merge_batch limit1 window g batch (adb w) of Inl x \<Rightarrow> w | Inr (os, d) \<Rightarrow> w\<lparr>adb := d\<rparr>)"
| "take_step (IngestOne limit1 now fresh dflts window e) w =
     (case ingest_txn limit1 now fresh dflts window e (adb w) of Inl x \<Rightarrow> w | Inr (r, d) \<Rightarrow> w\<lparr>adb := d\<rparr>)"
| "take_step (Activity D A N a p) w = snd (run_activity D A N a p w)"
| "take_step (Request P ep tok) w = snd (serve P ep tok w)"

definition system :: "'s system_step list \<Rightarrow> 's world \<Rightarrow> 's world" where
  "system steps w = foldl (\<lambda>w s. take_step s w) w steps"

section \<open>The gateway keeps the evolution\<close>

lemma insert_event_evolves: "insert_alert_event now eid e disp iid reason d = Inr d' \<Longrightarrow> db_evolves d d'"
  by (rule evolvesI, erule (1) db_ok_inserts) (auto simp: insert_alert_event_def bind_res_Inr_iff add_row_Inr_iff)

lemma merge_statement_evolves: "merge_existing_event_with_audit limit1 now dflt e d = Inr (r, d') \<Longrightarrow> db_evolves d d'"
  using db_ok_merge[of limit1 now dflt e d r d'] by (auto simp: db_evolves_def elim!: merge_existing_cases)

lemma merge_loop_evolves: "merge_loop limit1 dflt batch d = Inr (os, fatal, d') \<Longrightarrow> db_evolves d d'"
proof (induction batch arbitrary: d os fatal d')
  case (Cons ev rest)
  obtain e v where ev: "ev = (e, v)" by (rule prod.exhaust)
  have step: "run_statement limit1 dflt v e d = Inr (r, d1) \<Longrightarrow> db_evolves d d1" for r d1
    by (auto simp: run_statement_def split: option.splits dest: merge_statement_evolves)
  show ?case
  proof (cases "run_statement limit1 dflt v e d")
    case (Inl x)
    then show ?thesis using Cons ev by (auto simp: bind_res_Inr_iff evolution.R_refl split: option.splits)
  next
    case (Inr rd)
    then obtain d1 where "db_evolves d d1" "\<exists>os fatal. merge_loop limit1 dflt rest d1 = Inr (os, fatal, d')"
      using Cons.prems ev step by (cases rd) (auto simp: bind_res_Inr_iff split: option.splits)
    then show ?thesis using Cons.IH evolution.R_trans by blast
  qed
qed (simp add: evolution.R_refl)

lemma group_evolves: "execute_merge_batch limit1 dflt g batch d = Inr (os, d') \<Longrightarrow> db_evolves d d'"
  by (auto simp: execute_merge_batch_def finish_merge_batch_def bind_res_Inr_iff evolution.R_refl
      split: option.splits if_splits dest: merge_loop_evolves)

lemma event_rows_evolve:
  "reject_event now e reason d = Inr d' \<Longrightarrow> db_evolves d d'"
  "merge_into now e iid d = Inr d' \<Longrightarrow> db_evolves d d'"
  "open_case now e iid bud d = Inr d' \<Longrightarrow> db_evolves d d'"
  by (auto simp: reject_event_def merge_into_def open_case_def bind_res_Inr_iff
      dest!: insert_event_evolves write_audit_evolves repo_inserts_evolve intro: evolution.R_trans)

lemma ingest_txn_evolves: "ingest_txn limit1 now fresh dflts window e d = Inr (r, d') \<Longrightarrow> db_evolves d d'"
  by (auto simp: ingest_txn_def bind_res_Inr_iff split: option.splits if_splits dest: event_rows_evolve)

lemma step_evolves: "db_evolves (adb w) (adb (take_step s w))"
proof (cases s)
  case (IngestGroup limit1 window g batch)
  then show ?thesis by (auto simp: evolution.R_refl split: sum.splits dest: group_evolves)
next
  case (IngestOne limit1 now fresh dflts window e)
  then show ?thesis by (auto simp: evolution.R_refl split: sum.splits dest: ingest_txn_evolves)
next
  case (Activity D A N a p)
  then show ?thesis using run_activity_keeps[of D A N a p] unfolding keeps_def by simp
next
  case (Request P ep tok)
  then show ?thesis using serve_evolves[of P ep tok] unfolding keeps_def by simp
qed

lemma steps_evolve: "db_evolves (adb w) (adb (system steps w))"
proof (induction steps arbitrary: w)
  case (Cons s steps)
  have "db_evolves (adb (take_step s w)) (adb (system (s # steps) w))" using Cons[of "take_step s w"] by (simp add: system_def)
  with step_evolves show ?case by (rule evolution.R_trans)
qed (simp add: system_def evolution.R_refl)

lemma decided_stays:
  assumes "decided aid (adb w) row"
  shows "decided aid (adb (system steps w)) row"
  using assms steps_evolve[of w steps] by (auto simp: decided_def db_evolves_def)

lemma posted_decided:
  assumes "serve P (PostDecision aid body) tok w = (Inr (Inr x), w')"
  shows "\<exists>row. decided aid (adb w') row"
  using delivered_decision[OF assms] by (fastforce simp: decided_def)

lemma decided_post_refused:
  assumes "decided aid (adb w) row"
  shows "\<exists>f. serve P (PostDecision aid body) tok w = (Inr (Inl f), w)"
proof -
  have post: "\<exists>f. post_decision P aid body u w = (Inr (Inl f), w)" for u
  proof (cases "dict_body body")
    case (Inr b)
    obtain f where "decide_approval_atomic (ap_env P) aid (dget b ''decision'') (a_user_id u) (dget b ''comment'') (adb w) = Inl f"
      using decided_refuses[OF assms] by blast
    then show ?thesis using Inr by (simp add: post_decision_def and_then_def commit_def bind_io_def ret_def)
  qed (simp add: post_decision_def ret_def)
  obtain r w' where s: "serve P (PostDecision aid body) tok w = (r, w')" by (rule prod.exhaust)
  then show ?thesis
  proof (cases rule: serve_cases)
    case (granted role u row')
    then show ?thesis using s post[of u] by auto
  qed (use s in auto)
qed

section \<open>Properties of the composed system\<close>


text \<open>C5: A decision is final.  After a decision was answered with success, and after any further steps of the three services, every
  other decision on this approval is refused and has no effect, neither on the database nor on a workflow.\<close>

theorem decision_final:
  assumes "serve P (PostDecision aid body) tok w = (Inr (Inr x), w')"
  shows "\<exists>f. serve Q (PostDecision aid body2) tok2 (system steps w') = (Inr (Inl f), system steps w')"
  using posted_decided[OF assms] decided_stays decided_post_refused by blast

text \<open>A workflow that waits for the answer to an approval\<close>

definition waits_for :: "uuid \<Rightarrow> gate \<Rightarrow> wf \<Rightarrow> bool" where
  "waits_for aid g v \<longleftrightarrow> pc v = AtAwaitApproval g (PStr (uuid_str aid)) (uuid_str aid) \<and> awaiting_approval_id (me v) = Some (uuid_str aid)"

lemma signalled_decision:
  assumes "waits_for aid g v" "dget p ''approval_id'' = PStr (uuid_str aid)" "has_key p ''approval_id''"
  shows "pc (workflow_step fr fl now (SignalDecision p) v) = AtRecordDecision g p \<and>
    last (wlog (workflow_step fr fl now (SignalDecision p) v)) = Call ''record_approval_decision''
      [(''investigation_id'', c_inv (ctx v)), (''approval_id'', PStr (uuid_str aid)), (''decision'', dget p ''decision''),
       (''comment'', dget p ''comment''), (''kind'', PStr (gate_kind g)), (''is_timeout'', PBool False)]"
  using assms uuid_str_segment(2)[of aid]
  by (simp add: waits_for_def workflow_step_def sig_approval_decided_def log_entry_def recheck_waits_def await_approval_def
      decision_made_def approval_id_of_def py_or_def py_str_def record_decision_def call_def)

lemma recorded_already:
  assumes "aid < 2 ^ 128" "decided aid (adb w) row" "ditem payload ''approval_id'' = Inr (PStr (uuid_str aid))" "\<not> truthy (dget payload ''is_timeout'')"
    "record_approval_decision D payload w = (Inr u, w')"
  shows "adb w' = adb w"
proof -
  obtain b d1 where wd: "write_decision D payload (adb w) = Inr (b, d1)" "b \<Longrightarrow> adb w' = d1"
    using record_decision_writes[OF assms(5)] assms(4) by blast
  show ?thesis
    using write_decision_row[OF assms(3) uuid_parse_uuid_str[OF assms(1)] _ wd(1), of row] assms(2) wd(2) by (auto simp: decided_def simp del: not_None_eq)
qed

text \<open>C6: A decision reaches the case.  When the dashboard answers a decision with success, it has sent a signal; a workflow that waits
  for this approval takes it up and calls the activity that records it, with the same approval, decision and comment; and whatever
  the services did in between, this activity finds the decision of the user in place and changes nothing.\<close>

theorem decision_reaches_workflow:
  assumes "serve P (PostDecision aid body) tok w = (Inr (Inr x), w')" "waits_for aid g v" "aid < 2 ^ 128"
  shows "\<exists>T b p args s row iv. ap_temporal P = Some T \<and>
    get_row approval_id aid (approvals (adb w)) = Some row \<and> latest_investigation (adb w) (ap_investigation_id row) = Some iv \<and>
    T (aprobe w) (workflow_id iv) ''approval_decided'' (Some (PDict p)) = (None, s) \<and>
    body = PDict b \<and> pc (workflow_step fr fl now (SignalDecision p) v) = AtRecordDecision g p \<and>
    dget p ''decision'' = dget b ''decision'' \<and>
    last (wlog (workflow_step fr fl now (SignalDecision p) v)) = Call ''record_approval_decision'' args \<and>
    dget args ''approval_id'' = PStr (uuid_str aid) \<and> dget args ''decision'' = dget b ''decision'' \<and> dget args ''comment'' = dget b ''comment'' \<and>
    (\<forall>D steps u w2. record_approval_decision D args (system steps w') = (Inr u, w2) \<longrightarrow> adb w2 = adb (system steps w'))"
proof -
  obtain T b dec row iv s where T: "ap_temporal P = Some T" "get_row approval_id aid (approvals (adb w)) = Some row"
    "latest_investigation (adb w) (ap_investigation_id row) = Some iv" "body = PDict b" "dget b ''decision'' = PStr dec"
    "T (aprobe w) (workflow_id iv) ''approval_decided''
       (Some (PDict [(''approval_id'', PStr (uuid_str aid)), (''decision'', PStr dec), (''comment'', dget b ''comment'')])) = (None, s)"
    using delivered_decision[OF assms(1)] by blast
  let ?p = "[(''approval_id'', PStr (uuid_str aid)), (''decision'', PStr dec), (''comment'', dget b ''comment'')]"
  let ?args = "[(''investigation_id'', c_inv (ctx v)), (''approval_id'', PStr (uuid_str aid)), (''decision'', dget ?p ''decision''),
       (''comment'', dget ?p ''comment''), (''kind'', PStr (gate_kind g)), (''is_timeout'', PBool False)]"
  have wf: "pc (workflow_step fr fl now (SignalDecision ?p) v) = AtRecordDecision g ?p \<and>
      last (wlog (workflow_step fr fl now (SignalDecision ?p) v)) = Call ''record_approval_decision'' ?args"
    by (rule signalled_decision[OF assms(2)]) (simp_all add: has_key_def)
  obtain row' where "decided aid (adb w') row'" using posted_decided[OF assms(1)] by blast
  then have "record_approval_decision D ?args (system steps w') = (Inr u, w2) \<longrightarrow> adb w2 = adb (system steps w')" for D steps u w2
    using recorded_already[OF assms(3) decided_stays, of w' row' ?args D steps u w2] by (simp add: ditem_def)
  then show ?thesis using T wf
    by (intro exI[of _ T] exI[of _ b] exI[of _ ?p] exI[of _ ?args] exI[of _ s] exI[of _ row] exI[of _ iv] conjI) simp_all
qed

section \<open>A concrete run\<close>

theorem decision_final_witness:
  "\<exists>x w' f. serve demo_app (PostDecision 9 demo_verdict) (Some (uuid_str 21)) demo_state = (Inr (Inr x), w') \<and>
     serve demo_app (PostDecision 9 demo_verdict) (Some (uuid_str 21)) (system [Request demo_app GetUsers None] w') =
       (Inr (Inl f), system [Request demo_app GetUsers None] w')"
proof -
  obtain x w' where s: "serve demo_app (PostDecision 9 demo_verdict) (Some (uuid_str 21)) demo_state = (Inr (Inr x), w')"
    using demo_decided by blast
  then show ?thesis using decision_final[OF s] by blast
qed

definition demo_waiting :: wf where
  "demo_waiting = demo (take 7 demo_until_raw @ [(0, Result (PDict [(''approval_id'', PStr (uuid_str 9))])), (0, Result PNone)])"

lemma demo_waits: "waits_for 9 (RawGate demo_request) demo_waiting"
  by code_simp

theorem decision_reaches_workflow_witness:
  "\<exists>p args. pc (workflow_step (\<lambda>_. []) (\<lambda>_. None) 0 (SignalDecision p) demo_waiting) = AtRecordDecision (RawGate demo_request) p \<and>
     last (wlog (workflow_step (\<lambda>_. []) (\<lambda>_. None) 0 (SignalDecision p) demo_waiting)) = Call ''record_approval_decision'' args \<and>
     dget args ''decision'' = PStr ''approved''"
proof -
  obtain x w' where s: "serve demo_app (PostDecision 9 demo_verdict) (Some (uuid_str 21)) demo_state = (Inr (Inr x), w')"
    using demo_decided by blast
  have "(9::uuid) < 2 ^ 128" by simp
  from decision_reaches_workflow[OF s demo_waits this] obtain b p args where
    "demo_verdict = PDict b" "pc (workflow_step (\<lambda>_. []) (\<lambda>_. None) 0 (SignalDecision p) demo_waiting) = AtRecordDecision (RawGate demo_request) p"
    "last (wlog (workflow_step (\<lambda>_. []) (\<lambda>_. None) 0 (SignalDecision p) demo_waiting)) = Call ''record_approval_decision'' args"
    "dget args ''decision'' = dget b ''decision''" by blast
  moreover from this(1) have "dget b ''decision'' = PStr ''approved''" by (auto simp: demo_verdict_def)
  ultimately show ?thesis by metis
qed

end
